(* ===== verification/Prelude.thy ===== *)
theory Prelude
  imports Main "HOL-Library.Sublist"
begin

text \<open>
  Shared vocabulary of the development: the exceptions the services raise, the effect type of
  an asynchronous method (state passing with exceptions), the string functions of the
  JavaScript library the sources use, and the generic lemmas the component theories rely on.
\<close>

section \<open>Collections of rules\<close>

named_theorems io_simps \<open>running an effectful program step by step\<close>
named_theorems js_simps \<open>facts about the JavaScript string functions\<close>

section \<open>Exceptions\<close>

text \<open>
  \<open>HttpError\<close> is a NestJS exception with its status code (BadRequestException 400,
  UnauthorizedException 401, ForbiddenException 403, NotFoundException 404,
  InternalServerErrorException 500, BadGatewayException 502, ServiceUnavailableException 503).
  \<open>JsError\<close> is a plain \<open>Error\<close>; \<open>KubeError\<close> is what the Kubernetes client rejects
  with, an error with optional \<open>response.statusCode\<close> and \<open>statusCode\<close> members;
  \<open>PrismaError\<close> is a database error with its Prisma code or SQL reason.
\<close>

record kube_error =
  responseStatusCode :: "nat option"
  statusCode :: "nat option"
  kubeMessage :: string

datatype exn =
    HttpError nat string
  | JsError string
  | KubeError kube_error
  | PrismaError string

abbreviation BadRequest :: "string \<Rightarrow> exn" where
  "BadRequest m \<equiv> HttpError 400 m"
abbreviation Unauthorized :: "string \<Rightarrow> exn" where
  "Unauthorized m \<equiv> HttpError 401 m"
abbreviation Forbidden :: "string \<Rightarrow> exn" where
  "Forbidden m \<equiv> HttpError 403 m"
abbreviation NotFound :: "string \<Rightarrow> exn" where
  "NotFound m \<equiv> HttpError 404 m"
abbreviation InternalServerError :: "string \<Rightarrow> exn" where
  "InternalServerError m \<equiv> HttpError 500 m"
abbreviation BadGateway :: "string \<Rightarrow> exn" where
  "BadGateway m \<equiv> HttpError 502 m"
abbreviation ServiceUnavailable :: "string \<Rightarrow> exn" where
  "ServiceUnavailable m \<equiv> HttpError 503 m"

text \<open>The \<open>message\<close> member every one of them carries, being an \<open>Error\<close>.\<close>

fun errorMessage :: "exn \<Rightarrow> string" where
  "errorMessage (HttpError _ m) = m"
| "errorMessage (JsError m) = m"
| "errorMessage (KubeError k) = kubeMessage k"
| "errorMessage (PrismaError m) = m"

section \<open>Effectful programs\<close>

text \<open>
  An \<open>async\<close> method is a function from the state of the world to a result, an exception or
  a value, and the state it leaves behind. An exception does not undo the writes made before it.
\<close>

type_synonym ('w, 'a) io = "'w \<Rightarrow> (exn + 'a) \<times> 'w"

definition returnM :: "'a \<Rightarrow> ('w, 'a) io" where
  "returnM x = (\<lambda>w. (Inr x, w))"

definition throwM :: "exn \<Rightarrow> ('w, 'a) io" where
  "throwM e = (\<lambda>w. (Inl e, w))"

definition bindM :: "('w, 'a) io \<Rightarrow> ('a \<Rightarrow> ('w, 'b) io) \<Rightarrow> ('w, 'b) io" where
  "bindM m f = (\<lambda>w. case m w of (Inl e, w') \<Rightarrow> (Inl e, w') | (Inr x, w') \<Rightarrow> f x w')"

definition thenM :: "('w, 'a) io \<Rightarrow> ('w, 'b) io \<Rightarrow> ('w, 'b) io" where
  "thenM m n = bindM m (\<lambda>_. n)"

definition catchM :: "('w, 'a) io \<Rightarrow> (exn \<Rightarrow> ('w, 'a) io) \<Rightarrow> ('w, 'a) io" where
  "catchM m h = (\<lambda>w. case m w of (Inl e, w') \<Rightarrow> h e w' | (Inr x, w') \<Rightarrow> (Inr x, w'))"

definition liftM :: "exn + 'a \<Rightarrow> ('w, 'a) io" where
  "liftM r = (\<lambda>w. (r, w))"

definition readM :: "('w \<Rightarrow> 'a) \<Rightarrow> ('w, 'a) io" where
  "readM f = (\<lambda>w. (Inr (f w), w))"

definition modifyM :: "('w \<Rightarrow> 'w) \<Rightarrow> ('w, unit) io" where
  "modifyM f = (\<lambda>w. (Inr (), f w))"

definition whenM :: "bool \<Rightarrow> ('w, unit) io \<Rightarrow> ('w, unit) io" where
  "whenM b m = (if b then m else returnM ())"

text \<open>A \<open>for\<close> loop with \<open>await\<close> in its body, and the list of results of a \<open>map\<close>.\<close>

fun forM :: "'a list \<Rightarrow> ('a \<Rightarrow> ('w, unit) io) \<Rightarrow> ('w, unit) io" where
  "forM [] f = returnM ()"
| "forM (x # xs) f = thenM (f x) (forM xs f)"

fun mapM :: "('a \<Rightarrow> ('w, 'b) io) \<Rightarrow> 'a list \<Rightarrow> ('w, 'b list) io" where
  "mapM f [] = returnM []"
| "mapM f (x # xs) = bindM (f x) (\<lambda>y. bindM (mapM f xs) (\<lambda>ys. returnM (y # ys)))"

text \<open>The outcome of a program as a value, and a program run for its effect only.\<close>

definition attemptM :: "('w, 'a) io \<Rightarrow> ('w, exn + 'a) io" where
  "attemptM m = (\<lambda>w. case m w of (r, w') \<Rightarrow> (Inr r, w'))"

definition voidM :: "('w, 'a) io \<Rightarrow> ('w, unit) io" where
  "voidM m = bindM m (\<lambda>_. returnM ())"

text \<open>
  \<open>Promise.all(xs.map(f))\<close>: every call is made, in the order of the list, even when an earlier
  one fails; the first failure is the result.
\<close>

fun allM :: "('a \<Rightarrow> ('w, 'b) io) \<Rightarrow> 'a list \<Rightarrow> ('w, 'b list) io" where
  "allM f [] = returnM []"
| "allM f (x # xs) =
     bindM (attemptM (f x)) (\<lambda>r. bindM (attemptM (allM f xs)) (\<lambda>rs.
       liftM (case r of Inl e \<Rightarrow> Inl e
              | Inr y \<Rightarrow> (case rs of Inl e \<Rightarrow> Inl e | Inr ys \<Rightarrow> Inr (y # ys)))))"

lemma returnM_run [io_simps, simp]: "returnM x w = (Inr x, w)"
  by (simp add: returnM_def)

lemma throwM_run [io_simps, simp]: "throwM e w = (Inl e, w)"
  by (simp add: throwM_def)

lemma liftM_run [io_simps, simp]: "liftM r w = (r, w)"
  by (simp add: liftM_def)

lemma readM_run [io_simps, simp]: "readM f w = (Inr (f w), w)"
  by (simp add: readM_def)

lemma modifyM_run [io_simps, simp]: "modifyM f w = (Inr (), f w)"
  by (simp add: modifyM_def)

lemma bindM_run [io_simps]:
  "bindM m f w = (case m w of (Inl e, w') \<Rightarrow> (Inl e, w') | (Inr x, w') \<Rightarrow> f x w')"
  by (simp add: bindM_def)

lemma thenM_run [io_simps]:
  "thenM m n w = (case m w of (Inl e, w') \<Rightarrow> (Inl e, w') | (Inr _, w') \<Rightarrow> n w')"
  by (simp add: thenM_def bindM_def)

lemma catchM_run [io_simps]:
  "catchM m h w = (case m w of (Inl e, w') \<Rightarrow> h e w' | (Inr x, w') \<Rightarrow> (Inr x, w'))"
  by (simp add: catchM_def)

lemma attemptM_run [io_simps]: "attemptM m w = (Inr (fst (m w)), snd (m w))"
  by (simp add: attemptM_def split: prod.split)

lemma voidM_run [io_simps]:
  "voidM m w = (case m w of (Inl e, w') \<Rightarrow> (Inl e, w') | (Inr _, w') \<Rightarrow> (Inr (), w'))"
  by (simp add: voidM_def bindM_def returnM_def)

lemma whenM_run [io_simps]: "whenM b m w = (if b then m w else (Inr (), w))"
  by (simp add: whenM_def)

lemma bindM_assoc: "bindM (bindM m f) g = bindM m (\<lambda>x. bindM (f x) g)"
  by (rule ext) (auto simp: bindM_run split: prod.split sum.split)

lemma bindM_returnM: "bindM (returnM x) f = f x"
  by (rule ext) (simp add: bindM_run)

lemma thenM_assoc: "thenM (thenM m n) k = thenM m (thenM n k)"
  by (simp add: thenM_def bindM_assoc)

lemma bindM_Inr_iff:
  "bindM m f w = (Inr y, w'') \<longleftrightarrow> (\<exists>x w'. m w = (Inr x, w') \<and> f x w' = (Inr y, w''))"
  by (auto simp: bindM_run split: prod.splits sum.splits)

lemma thenM_Inr_iff:
  "thenM m n w = (Inr y, w'') \<longleftrightarrow> (\<exists>x w'. m w = (Inr x, w') \<and> n w' = (Inr y, w''))"
  by (auto simp: thenM_run split: prod.splits sum.splits)

text \<open>Taking a finished run apart.\<close>

lemma bindM_E:
  assumes "bindM m f w = (res, w')"
  obtains (raised) e where "m w = (Inl e, w')" "res = Inl e"
  | (returned) x w1 where "m w = (Inr x, w1)" "f x w1 = (res, w')"
  using assms by (auto simp: bindM_run split: prod.splits sum.splits)

lemma thenM_E:
  assumes "thenM m n w = (res, w')"
  obtains (raised) e where "m w = (Inl e, w')" "res = Inl e"
  | (returned) x w1 where "m w = (Inr x, w1)" "n w1 = (res, w')"
  using assms by (auto simp: thenM_run split: prod.splits sum.splits)

lemma catchM_E:
  assumes "catchM m h w = (res, w')"
  obtains (raised) e w1 where "m w = (Inl e, w1)" "h e w1 = (res, w')"
  | (returned) x where "m w = (Inr x, w')" "res = Inr x"
  using assms by (auto simp: catchM_run split: prod.splits sum.splits)

lemmas run_elims = bindM_E thenM_E catchM_E

text \<open>
  A program keeps a relation between the states before and after it: the shape of every frame
  and invariant lemma. The rules below reduce it to the primitive steps.
\<close>

definition keeps :: "('w \<Rightarrow> 'w \<Rightarrow> bool) \<Rightarrow> ('w, 'a) io \<Rightarrow> bool" where
  "keeps R m \<longleftrightarrow> (\<forall>w. R w (snd (m w)))"

definition preorder_rel :: "('w \<Rightarrow> 'w \<Rightarrow> bool) \<Rightarrow> bool" where
  "preorder_rel R \<longleftrightarrow> reflp R \<and> transp R"

named_theorems keeps_intros \<open>introduction rules that split a program\<close>

lemma keepsI: "(\<And>w. R w (snd (m w))) \<Longrightarrow> keeps R m"
  by (simp add: keeps_def)

lemma keepsD: "keeps R m \<Longrightarrow> R w (snd (m w))"
  by (simp add: keeps_def)

lemma keeps_returnM [keeps_intros]: "preorder_rel R \<Longrightarrow> keeps R (returnM x)"
  by (simp add: keeps_def preorder_rel_def reflp_def)

lemma keeps_throwM [keeps_intros]: "preorder_rel R \<Longrightarrow> keeps R (throwM e)"
  by (simp add: keeps_def preorder_rel_def reflp_def)

lemma keeps_liftM [keeps_intros]: "preorder_rel R \<Longrightarrow> keeps R (liftM r)"
  by (simp add: keeps_def preorder_rel_def reflp_def)

lemma keeps_readM [keeps_intros]: "preorder_rel R \<Longrightarrow> keeps R (readM f)"
  by (simp add: keeps_def preorder_rel_def reflp_def)

lemma keeps_bindM [keeps_intros]:
  assumes "preorder_rel R" "keeps R m" "\<And>x. keeps R (f x)"
  shows "keeps R (bindM m f)"
proof (rule keepsI)
  fix w
  have "transp R" using assms(1) by (simp add: preorder_rel_def)
  with keepsD [OF assms(2), of w] keepsD [OF assms(3)]
  show "R w (snd (bindM m f w))"
    by (auto simp: bindM_run split: prod.split sum.split dest: transpD)
       (metis snd_conv transpD)
qed

lemma keeps_thenM [keeps_intros]:
  "preorder_rel R \<Longrightarrow> keeps R m \<Longrightarrow> keeps R n \<Longrightarrow> keeps R (thenM m n)"
  unfolding thenM_def by (rule keeps_bindM)

lemma keeps_catchM [keeps_intros]:
  assumes "preorder_rel R" "keeps R m" "\<And>e. keeps R (h e)"
  shows "keeps R (catchM m h)"
proof (rule keepsI)
  fix w
  have "transp R" using assms(1) by (simp add: preorder_rel_def)
  with keepsD [OF assms(2), of w] keepsD [OF assms(3)]
  show "R w (snd (catchM m h w))"
    by (auto simp: catchM_run split: prod.split sum.split dest: transpD)
       (metis snd_conv transpD)
qed

lemma keeps_attemptM [keeps_intros]: "keeps R m \<Longrightarrow> keeps R (attemptM m)"
  by (simp add: keeps_def attemptM_run)

lemma keeps_voidM [keeps_intros]: "preorder_rel R \<Longrightarrow> keeps R m \<Longrightarrow> keeps R (voidM m)"
  unfolding voidM_def by (intro keeps_bindM keeps_returnM)

lemma keeps_whenM [keeps_intros]:
  "preorder_rel R \<Longrightarrow> (b \<Longrightarrow> keeps R m) \<Longrightarrow> keeps R (whenM b m)"
  by (simp add: whenM_def keeps_returnM)

lemma keeps_if [keeps_intros]:
  "(b \<Longrightarrow> keeps R m) \<Longrightarrow> (\<not> b \<Longrightarrow> keeps R n) \<Longrightarrow> keeps R (if b then m else n)"
  by simp

lemma keeps_forM [keeps_intros]:
  "preorder_rel R \<Longrightarrow> (\<And>x. x \<in> set xs \<Longrightarrow> keeps R (f x)) \<Longrightarrow> keeps R (forM xs f)"
  by (induction xs) (auto intro: keeps_intros)

lemma keeps_mapM [keeps_intros]:
  "preorder_rel R \<Longrightarrow> (\<And>x. x \<in> set xs \<Longrightarrow> keeps R (f x)) \<Longrightarrow> keeps R (mapM f xs)"
  by (induction xs) (auto intro: keeps_intros)

lemma keeps_allM [keeps_intros]:
  "preorder_rel R \<Longrightarrow> (\<And>x. x \<in> set xs \<Longrightarrow> keeps R (f x)) \<Longrightarrow> keeps R (allM f xs)"
proof (induction xs)
  case (Cons x xs)
  then have "keeps R (f x)" "keeps R (allM f xs)" by simp_all
  then show ?case
    unfolding allM.simps by (intro keeps_bindM keeps_attemptM keeps_liftM Cons.prems(1))
qed (simp add: keeps_returnM)

lemma keeps_sum [keeps_intros]:
  "(\<And>e. x = Inl e \<Longrightarrow> keeps R (g e)) \<Longrightarrow> (\<And>y. x = Inr y \<Longrightarrow> keeps R (f y)) \<Longrightarrow>
   keeps R (case x of Inl e \<Rightarrow> g e | Inr y \<Rightarrow> f y)"
  by (cases x) auto

lemma keeps_prod [keeps_intros]:
  "(\<And>a b. x = (a, b) \<Longrightarrow> keeps R (f a b)) \<Longrightarrow> keeps R (case x of (a, b) \<Rightarrow> f a b)"
  by (cases x) auto

lemma keeps_option [keeps_intros]:
  "(x = None \<Longrightarrow> keeps R m) \<Longrightarrow> (\<And>y. x = Some y \<Longrightarrow> keeps R (f y)) \<Longrightarrow>
   keeps R (case x of None \<Rightarrow> m | Some y \<Rightarrow> f y)"
  by (cases x) auto

text \<open>A read-only program: it keeps the state.\<close>

lemma preorder_eq [simp]: "preorder_rel (=)"
  by (simp add: preorder_rel_def reflp_def transp_def)

lemma readonly: "keeps (=) m \<Longrightarrow> m w = (r, w') \<Longrightarrow> w' = w"
  by (auto simp: keeps_def dest: spec [of _ w])

text \<open>A program that never raises.\<close>

definition total :: "('w, 'a) io \<Rightarrow> bool" where
  "total m \<longleftrightarrow> (\<forall>w. \<exists>y w'. m w = (Inr y, w'))"

named_theorems total_intros \<open>programs that never raise\<close>

lemma totalI: "(\<And>w. \<exists>y w'. m w = (Inr y, w')) \<Longrightarrow> total m"
  by (simp add: total_def)

lemma totalD: "total m \<Longrightarrow> \<exists>y w'. m w = (Inr y, w')"
  by (simp add: total_def)

lemma total_returnM [total_intros]: "total (returnM x)"
  by (simp add: total_def)

lemma total_readM [total_intros]: "total (readM f)"
  by (simp add: total_def)

lemma total_bindM [total_intros]: "total m \<Longrightarrow> (\<And>x. total (f x)) \<Longrightarrow> total (bindM m f)"
proof (rule totalI)
  fix w assume m: "total m" and f: "\<And>x. total (f x)"
  obtain x w1 where "m w = (Inr x, w1)" using totalD [OF m] by blast
  moreover obtain y w' where "f x w1 = (Inr y, w')" using totalD [OF f] by blast
  ultimately show "\<exists>y w'. bindM m f w = (Inr y, w')" by (simp add: bindM_run)
qed

lemma total_thenM [total_intros]: "total m \<Longrightarrow> total n \<Longrightarrow> total (thenM m n)"
  unfolding thenM_def by (rule total_bindM)

lemma total_catchM [total_intros]: "(\<And>e. total (h e)) \<Longrightarrow> total (catchM m h)"
  by (rule totalI) (auto simp: catchM_run total_def split: prod.split sum.split)

lemma total_voidM [total_intros]: "total m \<Longrightarrow> total (voidM m)"
  unfolding voidM_def by (intro total_bindM total_returnM)

lemma total_attemptM [total_intros]: "total (attemptM m)"
  by (simp add: total_def attemptM_run)

lemma total_forM [total_intros]: "(\<And>x. x \<in> set xs \<Longrightarrow> total (f x)) \<Longrightarrow> total (forM xs f)"
  by (induction xs) (auto intro: total_intros)

lemma total_allM [total_intros]: "(\<And>x. x \<in> set xs \<Longrightarrow> total (f x)) \<Longrightarrow> total (allM f xs)"
proof (induction xs)
  case (Cons x xs)
  then have t: "total (f x)" "total (allM f xs)" by simp_all
  show ?case
  proof (rule totalI)
    fix w
    obtain y w1 where 1: "f x w = (Inr y, w1)" using totalD [OF t(1)] by blast
    obtain ys w2 where 2: "allM f xs w1 = (Inr ys, w2)" using totalD [OF t(2)] by blast
    show "\<exists>y w'. allM f (x # xs) w = (Inr y, w')"
      using 1 2 by (simp add: bindM_run attemptM_run)
  qed
qed (simp add: total_returnM)

end
