(* ===== verification/JsLib.thy ===== *)
theory JsLib
  imports Prelude
begin

text \<open>
  The JavaScript standard library as far as the sources use it. A string is its sequence of
  UTF-16 code units; the model has the code units below 256 (the type \<^typ>\<open>char\<close>), on
  which \<open>toLowerCase\<close>, \<open>trim\<close> and the regular-expression classes are written out in full.
  An object of type \<open>Record<string, T>\<close> is the list of its entries in property order, with
  distinct keys. Instants (\<open>Date\<close>) are milliseconds since the epoch.
\<close>

type_synonym instant = int

section \<open>Characters\<close>

abbreviation code :: "char \<Rightarrow> nat" where
  "code c \<equiv> of_char c"

definition isLowerAlpha :: "char \<Rightarrow> bool" where
  "isLowerAlpha c \<longleftrightarrow> 97 \<le> code c \<and> code c \<le> 122"

definition isUpperAlpha :: "char \<Rightarrow> bool" where
  "isUpperAlpha c \<longleftrightarrow> 65 \<le> code c \<and> code c \<le> 90"

definition isDigit :: "char \<Rightarrow> bool" where
  "isDigit c \<longleftrightarrow> 48 \<le> code c \<and> code c \<le> 57"

text \<open>The class \<open>[a-z0-9]\<close>.\<close>

definition isLowerAlnum :: "char \<Rightarrow> bool" where
  "isLowerAlnum c \<longleftrightarrow> isLowerAlpha c \<or> isDigit c"

text \<open>White space of \<open>trim\<close> and \<open>\s\<close>: TAB, LF, VT, FF, CR, space and no-break space.\<close>

definition isSpace :: "char \<Rightarrow> bool" where
  "isSpace c \<longleftrightarrow> code c \<in> {9, 10, 11, 12, 13, 32, 160}"

text \<open>Lower case: A to Z, and the Latin-1 capitals 192 to 222 without the multiplication sign.\<close>

definition lowerChar :: "char \<Rightarrow> char" where
  "lowerChar c =
     (if isUpperAlpha c \<or> (192 \<le> code c \<and> code c \<le> 222 \<and> code c \<noteq> 215)
      then char_of (code c + 32) else c)"

definition toLowerCase :: "string \<Rightarrow> string" where
  "toLowerCase s = map lowerChar s"

lemma code_lowerChar:
  "code (lowerChar c) =
     (if isUpperAlpha c \<or> (192 \<le> code c \<and> code c \<le> 222 \<and> code c \<noteq> 215)
      then code c + 32 else code c)"
proof -
  have "code c + 32 < 256"
    if "isUpperAlpha c \<or> (192 \<le> code c \<and> code c \<le> 222 \<and> code c \<noteq> 215)"
    using that by (auto simp: isUpperAlpha_def)
  then show ?thesis by (auto simp: lowerChar_def of_char_of)
qed

lemma lowerChar_not_upper [js_simps]: "\<not> isUpperAlpha (lowerChar c)"
  by (auto simp: isUpperAlpha_def code_lowerChar)

lemma lowerChar_id [js_simps]: "isLowerAlnum c \<Longrightarrow> lowerChar c = c"
  by (auto simp: lowerChar_def isLowerAlnum_def isLowerAlpha_def isUpperAlpha_def isDigit_def)

lemma lowerChar_idem [js_simps]: "lowerChar (lowerChar c) = lowerChar c"
proof -
  have "\<not> (isUpperAlpha (lowerChar c)
      \<or> (192 \<le> code (lowerChar c) \<and> code (lowerChar c) \<le> 222 \<and> code (lowerChar c) \<noteq> 215))"
    by (auto simp: code_lowerChar isUpperAlpha_def)
  then show ?thesis by (auto simp: lowerChar_def [of "lowerChar c"])
qed

text \<open>Evaluation on the bits of a literal character.\<close>

lemma lowerChar_bits:
  "lowerChar (Char b0 b1 b2 b3 b4 b5 b6 b7) =
     Char b0 b1 b2 b3 b4
       (b5 \<or> (b6 \<and> \<not> b7 \<and> (b0 \<or> b1 \<or> b2 \<or> b3 \<or> b4) \<and> \<not> (b4 \<and> b3 \<and> (b2 \<or> b1 \<and> b0)))
           \<or> (b6 \<and> b7 \<and> \<not> (b0 \<and> b1 \<and> b2 \<and> b3 \<and> b4) \<and> \<not> (b0 \<and> b1 \<and> b2 \<and> \<not> b3 \<and> b4)))
       b6 b7"
  by (cases b0; cases b1; cases b2; cases b3; cases b4; cases b5; cases b6; cases b7;
      simp add: lowerChar_def isUpperAlpha_def char_of_def bit_simps)

lemma length_toLowerCase [js_simps]: "length (toLowerCase s) = length s"
  by (simp add: toLowerCase_def)

section \<open>Searching, trimming and splitting\<close>

fun startsWith :: "string \<Rightarrow> string \<Rightarrow> bool" where
  "startsWith s [] = True"
| "startsWith [] (p # ps) = False"
| "startsWith (c # s) (p # ps) = (c = p \<and> startsWith s ps)"

text \<open>\<open>s.includes(p)\<close>.\<close>

fun includesStr :: "string \<Rightarrow> string \<Rightarrow> bool" where
  "includesStr [] p = (p = [])"
| "includesStr (c # s) p = (startsWith (c # s) p \<or> includesStr s p)"

definition trim :: "string \<Rightarrow> string" where
  "trim s = rev (dropWhile isSpace (rev (dropWhile isSpace s)))"

text \<open>\<open>s.replace(/^c+|c+$/g, "")\<close>: the runs of \<open>c\<close> at both ends go.\<close>

definition stripEnds :: "char \<Rightarrow> string \<Rightarrow> string" where
  "stripEnds c s = rev (dropWhile (\<lambda>x. x = c) (rev (dropWhile (\<lambda>x. x = c) s)))"

text \<open>\<open>s.replace(/c{2,}/g, c)\<close>: every run of \<open>c\<close> becomes one \<open>c\<close>.\<close>

fun collapseRuns :: "char \<Rightarrow> string \<Rightarrow> string" where
  "collapseRuns c [] = []"
| "collapseRuns c [x] = [x]"
| "collapseRuns c (x # y # s) =
     (if x = c \<and> y = c then collapseRuns c (y # s) else x # collapseRuns c (y # s))"

text \<open>\<open>s.split(sep)\<close> for a one-character separator, and \<open>xs.join(sep)\<close>.\<close>

fun splitOn :: "char \<Rightarrow> string \<Rightarrow> string list" where
  "splitOn c [] = [[]]"
| "splitOn c (x # s) =
     (if x = c then [] # splitOn c s
      else (case splitOn c s of [] \<Rightarrow> [[x]] | p # ps \<Rightarrow> (x # p) # ps))"

fun joinWith :: "string \<Rightarrow> string list \<Rightarrow> string" where
  "joinWith sep [] = []"
| "joinWith sep [p] = p"
| "joinWith sep (p # q # ps) = p @ sep @ joinWith sep (q # ps)"

lemma splitOn_not_Nil [js_simps, simp]: "splitOn c s \<noteq> []"
  by (induction s) (auto split: list.splits)

lemma joinWith_splitOn [js_simps]: "joinWith [c] (splitOn c s) = s"
proof (induction s)
  case Nil
  then show ?case by simp
next
  case (Cons x s)
  obtain p ps where "splitOn c s = p # ps" by (meson splitOn_not_Nil list.exhaust)
  with Cons.IH show ?case by (cases ps) auto
qed

lemma splitOn_no_sep: "p \<in> set (splitOn c s) \<Longrightarrow> c \<notin> set p"
  by (induction s arbitrary: p) (auto split: if_splits list.splits)

lemma splitOn_absent: "c \<notin> set s \<Longrightarrow> splitOn c s = [s]"
  by (induction s) auto

lemma splitOn_append: "c \<notin> set p \<Longrightarrow> splitOn c (p @ c # s) = p # splitOn c s"
  by (induction p) auto

lemma splitOn_joinWith:
  "ps \<noteq> [] \<Longrightarrow> \<forall>p \<in> set ps. c \<notin> set p \<Longrightarrow> splitOn c (joinWith [c] ps) = ps"
proof (induction "[c]" ps rule: joinWith.induct)
  case 1
  then show ?case by simp
next
  case (2 p)
  then show ?case by (simp add: splitOn_absent)
next
  case (3 p q ps)
  then show ?case by (simp add: splitOn_append)
qed

lemma startsWith_append [js_simps, simp]: "startsWith (p @ s) p"
  by (induction p) auto

lemma startsWith_iff: "startsWith s p \<longleftrightarrow> (\<exists>t. s = p @ t)"
proof
  show "startsWith s p \<Longrightarrow> \<exists>t. s = p @ t"
    by (induction s p rule: startsWith.induct) auto
qed auto

lemma includes_iff: "includesStr s p \<longleftrightarrow> (\<exists>a b. s = a @ p @ b)"
proof (induction s)
  case Nil
  then show ?case by auto
next
  case (Cons c s)
  show ?case
  proof
    assume "includesStr (c # s) p"
    then consider "startsWith (c # s) p" | "includesStr s p" by auto
    then show "\<exists>a b. c # s = a @ p @ b"
    proof cases
      case 1
      then show ?thesis by (metis append_Nil startsWith_iff)
    next
      case 2
      with Cons.IH obtain a b where "s = a @ p @ b" by blast
      then have "c # s = (c # a) @ p @ b" by simp
      then show ?thesis by blast
    qed
  next
    assume "\<exists>a b. c # s = a @ p @ b"
    then obtain a b where ab: "c # s = a @ p @ b" by blast
    show "includesStr (c # s) p"
    proof (cases a)
      case Nil
      with ab have "startsWith (c # s) p" by simp
      then show ?thesis by simp
    next
      case (Cons x a')
      with ab have "s = a' @ p @ b" by simp
      with Cons.IH show ?thesis by auto
    qed
  qed
qed

lemma set_stripEnds: "set (stripEnds c s) \<subseteq> set s"
proof
  fix x assume "x \<in> set (stripEnds c s)"
  then have "x \<in> set (dropWhile (\<lambda>x. x = c) (rev (dropWhile (\<lambda>x. x = c) s)))"
    by (simp add: stripEnds_def)
  then have "x \<in> set (dropWhile (\<lambda>x. x = c) s)" by (metis set_dropWhileD set_rev)
  then show "x \<in> set s" by (rule set_dropWhileD)
qed

lemma length_stripEnds: "length (stripEnds c s) \<le> length s"
proof -
  have "length (dropWhile P xs) \<le> length xs" for P and xs :: string
    by (simp add: length_dropWhile_le)
  then show ?thesis by (metis (no_types) le_trans length_rev stripEnds_def)
qed

lemma stripEnds_last: "stripEnds c s \<noteq> [] \<Longrightarrow> last (stripEnds c s) \<noteq> c"
proof -
  define u where "u = dropWhile (\<lambda>x. x = c) (rev (dropWhile (\<lambda>x. x = c) s))"
  assume "stripEnds c s \<noteq> []"
  then have u: "stripEnds c s = rev u" "u \<noteq> []" by (auto simp: stripEnds_def u_def)
  from u(2) have "hd u \<noteq> c" unfolding u_def by (rule hd_dropWhile)
  with u show ?thesis by (simp add: last_rev)
qed

lemma stripEnds_hd: "stripEnds c s \<noteq> [] \<Longrightarrow> hd (stripEnds c s) \<noteq> c"
proof -
  define t where "t = dropWhile (\<lambda>x. x = c) s"
  assume ne: "stripEnds c s \<noteq> []"
  have "rev t = takeWhile (\<lambda>x. x = c) (rev t) @ dropWhile (\<lambda>x. x = c) (rev t)" by simp
  then have "rev (rev t) = rev (takeWhile (\<lambda>x. x = c) (rev t) @ dropWhile (\<lambda>x. x = c) (rev t))"
    by (rule arg_cong)
  then have t: "t = stripEnds c s @ rev (takeWhile (\<lambda>x. x = c) (rev t))"
    by (simp only: rev_append rev_rev_ident stripEnds_def t_def)
  with ne have "t \<noteq> []" by (metis append_is_Nil_conv)
  then have "hd t \<noteq> c" unfolding t_def by (rule hd_dropWhile)
  moreover have "hd t = hd (stripEnds c s)" using t ne by (metis hd_append2)
  ultimately show ?thesis by simp
qed

lemma set_collapseRuns: "set (collapseRuns c s) = set s"
  by (induction c s rule: collapseRuns.induct) auto

lemma length_collapseRuns: "length (collapseRuns c s) \<le> length s"
  by (induction c s rule: collapseRuns.induct) auto

lemma collapseRuns_Nil [js_simps, simp]: "collapseRuns c s = [] \<longleftrightarrow> s = []"
  by (metis set_collapseRuns set_empty)

lemma hd_collapseRuns: "s \<noteq> [] \<Longrightarrow> hd (collapseRuns c s) = hd s"
  by (induction c s rule: collapseRuns.induct) auto

lemma last_collapseRuns: "s \<noteq> [] \<Longrightarrow> last (collapseRuns c s) = last s"
  by (induction c s rule: collapseRuns.induct) auto

lemma collapseRuns_no_run: "\<not> includesStr (collapseRuns c s) [c, c]"
proof (induction c s rule: collapseRuns.induct)
  case (3 c x y s)
  show ?case
  proof (cases "x = c \<and> y = c")
    case True
    with 3 show ?thesis by simp
  next
    case False
    have "hd (collapseRuns c (y # s)) = y" by (simp add: hd_collapseRuns)
    then obtain r where "collapseRuns c (y # s) = y # r"
      by (metis collapseRuns_Nil list.distinct(1) list.exhaust_sel)
    with False 3 show ?thesis by auto
  qed
qed auto

section \<open>Numbers in strings\<close>

definition digitChar :: "nat \<Rightarrow> char" where
  "digitChar d = char_of (48 + d)"

text \<open>\<open>String(n)\<close> of a natural number, and of an integer.\<close>

fun showNat :: "nat \<Rightarrow> string" where
  "showNat n = (if n < 10 then [digitChar n] else showNat (n div 10) @ [digitChar (n mod 10)])"

declare showNat.simps [simp del]

definition showInt :: "int \<Rightarrow> string" where
  "showInt i = (if i < 0 then CHR ''-'' # showNat (nat (- i)) else showNat (nat i))"

definition readNat :: "string \<Rightarrow> nat" where
  "readNat s = foldl (\<lambda>n c. 10 * n + (code c - 48)) 0 s"

lemma code_digitChar: "d < 10 \<Longrightarrow> code (digitChar d) = 48 + d"
  by (simp add: digitChar_def of_char_of)

lemma readNat_showNat [js_simps]: "readNat (showNat n) = n"
proof (induction n rule: showNat.induct)
  case (1 n)
  show ?case
  proof (cases "n < 10")
    case True
    then show ?thesis by (simp add: showNat.simps [of n] readNat_def code_digitChar)
  next
    case False
    with 1 have "foldl (\<lambda>n c. 10 * n + (code c - 48)) 0 (showNat (n div 10)) = n div 10"
      by (simp add: readNat_def)
    with False show ?thesis
      by (simp add: showNat.simps [of n] readNat_def code_digitChar)
  qed
qed

lemma showNat_inj [js_simps]: "showNat m = showNat n \<longleftrightarrow> m = n"
  by (metis readNat_showNat)

section \<open>Records as entry lists\<close>

type_synonym 'v entries = "(string \<times> 'v) list"

abbreviation keys :: "'v entries \<Rightarrow> string list" where
  "keys kvs \<equiv> map fst kvs"

text \<open>Assigning a property keeps the position of an existing key and appends a new one.\<close>

fun setEntry :: "string \<Rightarrow> 'v \<Rightarrow> 'v entries \<Rightarrow> 'v entries" where
  "setEntry k v [] = [(k, v)]"
| "setEntry k v ((k', v') # kvs) =
     (if k = k' then (k, v) # kvs else (k', v') # setEntry k v kvs)"

text \<open>\<open>{ ...a, ...b }\<close> and \<open>Object.fromEntries(b)\<close>: later assignments win.\<close>

definition spread :: "'v entries \<Rightarrow> 'v entries \<Rightarrow> 'v entries" where
  "spread a b = foldl (\<lambda>kvs kv. setEntry (fst kv) (snd kv) kvs) a b"

definition fromEntries :: "'v entries \<Rightarrow> 'v entries" where
  "fromEntries b = spread [] b"

lemma map_of_setEntry [js_simps]: "map_of (setEntry k v kvs) = (map_of kvs)(k \<mapsto> v)"
  by (induction kvs) auto

lemma map_of_spread: "map_of (spread a b) = map_of a ++ map_of (rev b)"
proof (induction b arbitrary: a)
  case Nil
  then show ?case by (simp add: spread_def)
next
  case (Cons kv b)
  have "map_of (spread a (kv # b)) = map_of (spread (setEntry (fst kv) (snd kv) a) b)"
    by (simp add: spread_def)
  then show ?case by (simp add: Cons.IH map_of_setEntry map_add_def fun_eq_iff split: option.splits)
qed

lemma keys_setEntry: "k \<in> set (keys kvs) \<Longrightarrow> keys (setEntry k v kvs) = keys kvs"
  by (induction k v kvs rule: setEntry.induct) auto

lemma setEntry_fresh: "k \<notin> set (keys kvs) \<Longrightarrow> setEntry k v kvs = kvs @ [(k, v)]"
  by (induction kvs) auto

lemma spread_fresh:
  "distinct (keys b) \<Longrightarrow> set (keys a) \<inter> set (keys b) = {} \<Longrightarrow> spread a b = a @ b"
proof (induction b arbitrary: a)
  case Nil
  then show ?case by (simp add: spread_def)
next
  case (Cons kv b)
  have "spread a (kv # b) = spread (setEntry (fst kv) (snd kv) a) b" by (simp add: spread_def)
  also have "\<dots> = spread (a @ [kv]) b" using Cons.prems by (simp add: setEntry_fresh)
  also have "\<dots> = (a @ [kv]) @ b" using Cons.prems by (intro Cons.IH) auto
  finally show ?case by simp
qed

lemma fromEntries_distinct: "distinct (keys b) \<Longrightarrow> fromEntries b = b"
  by (simp add: fromEntries_def spread_fresh)

lemma distinct_setEntry: "distinct (keys kvs) \<Longrightarrow> distinct (keys (setEntry k v kvs))"
  by (cases "k \<in> set (keys kvs)") (auto simp: keys_setEntry setEntry_fresh)

lemma distinct_spread: "distinct (keys a) \<Longrightarrow> distinct (keys (spread a b))"
proof (induction b arbitrary: a)
  case Nil
  then show ?case by (simp add: spread_def)
next
  case (Cons kv b)
  then have "distinct (keys (spread (setEntry (fst kv) (snd kv) a) b))"
    by (intro Cons.IH distinct_setEntry)
  then show ?case by (simp add: spread_def)
qed

text \<open>\<open>if (name)\<close> on an optional string: neither \<open>undefined\<close> nor empty.\<close>

definition truthy :: "string option \<Rightarrow> bool" where
  "truthy s \<longleftrightarrow> s \<noteq> None \<and> s \<noteq> Some []"

end
