(* ===== verification/Json.thy ===== *)
theory Json
  imports JsLib
begin

text \<open>
  Untyped JavaScript data: the manifests sent to the Kubernetes API, the bodies it answers with,
  and the JSON columns of the database. \<open>JUndef\<close> is \<open>undefined\<close>, also the value of a member
  an object does not have.
\<close>

datatype json =
    JUndef
  | JNull
  | JBool bool
  | JNum int
  | JStr string
  | JDate instant
  | JArr "json list"
  | JObj "(string \<times> json) list"

text \<open>
  \<open>v?.k\<close>: member access that yields \<open>undefined\<close> on a value without members. The sources read
  only members that strings, arrays and dates do not have this way.
\<close>

fun member :: "json \<Rightarrow> string \<Rightarrow> json" where
  "member (JObj kvs) k = (case map_of kvs k of None \<Rightarrow> JUndef | Some v \<Rightarrow> v)"
| "member _ _ = JUndef"

text \<open>\<open>v?.k1?.k2\<close>, a path of members.\<close>

definition path :: "json \<Rightarrow> string list \<Rightarrow> json" where
  "path v ks = foldl member v ks"

text \<open>\<open>a ?? b\<close>.\<close>

fun orElse :: "json \<Rightarrow> json \<Rightarrow> json" where
  "orElse JUndef b = b"
| "orElse JNull b = b"
| "orElse a b = a"

text \<open>\<open>{ ...v, k: x }\<close> and the update of one member in place.\<close>

fun withMember :: "json \<Rightarrow> string \<Rightarrow> json \<Rightarrow> json" where
  "withMember (JObj kvs) k x = JObj (setEntry k x kvs)"
| "withMember _ k x = JObj [(k, x)]"

fun asItems :: "json \<Rightarrow> json list" where
  "asItems (JArr xs) = xs"
| "asItems _ = []"

fun asNum :: "json \<Rightarrow> int option" where
  "asNum (JNum n) = Some n"
| "asNum _ = None"

fun asStr :: "json \<Rightarrow> string option" where
  "asStr (JStr s) = Some s"
| "asStr _ = None"

fun asDate :: "json \<Rightarrow> instant option" where
  "asDate (JDate t) = Some t"
| "asDate _ = None"

text \<open>A \<open>Record<string, string>\<close> as an object.\<close>

definition jsonOfStrings :: "string entries \<Rightarrow> json" where
  "jsonOfStrings kvs = JObj (map (\<lambda>(k, v). (k, JStr v)) kvs)"

fun jsonOfOption :: "string option \<Rightarrow> json" where
  "jsonOfOption None = JUndef"
| "jsonOfOption (Some s) = JStr s"

text \<open>Columns of the database without a value are \<open>null\<close>.\<close>

definition nullable :: "('a \<Rightarrow> json) \<Rightarrow> 'a option \<Rightarrow> json" where
  "nullable f x = (case x of None \<Rightarrow> JNull | Some y \<Rightarrow> f y)"

text \<open>\<open>typeof v === "object" && v !== null && !Array.isArray(v)\<close>.\<close>

fun isRecord :: "json \<Rightarrow> bool" where
  "isRecord (JObj _) = True"
| "isRecord (JDate _) = True"
| "isRecord _ = False"

text \<open>\<open>Object.keys(v)\<close> and \<open>String(v)\<close> of a value read from a JSON column.\<close>

fun objectKeys :: "json \<Rightarrow> string list" where
  "objectKeys (JObj kvs) = keys kvs"
| "objectKeys _ = []"

fun stringOf :: "json \<Rightarrow> string" where
  "stringOf (JStr s) = s"
| "stringOf (JNum n) = showInt n"
| "stringOf (JBool b) = (if b then ''true'' else ''false'')"
| "stringOf JNull = ''null''"
| "stringOf JUndef = ''undefined''"
| "stringOf (JArr xs) = joinWith '','' (map (\<lambda>x. if x = JNull then [] else stringOf x) xs)"
| "stringOf (JObj _) = ''[object Object]''"
| "stringOf (JDate t) = showInt t"

lemma path_Nil [simp]: "path v [] = v"
  by (simp add: path_def)

lemma path_Cons [simp]: "path v (k # ks) = path (member v k) ks"
  by (simp add: path_def)

lemma map_of_jsonOfStrings: "member (jsonOfStrings kvs) k = jsonOfOption (map_of kvs k)"
  by (induction kvs) (auto simp: jsonOfStrings_def)

lemma jsonOfStrings_inj [simp]: "jsonOfStrings a = jsonOfStrings b \<longleftrightarrow> a = b"
proof -
  have "inj (\<lambda>(k, v). (k, JStr v))" by (auto simp: inj_def)
  then show ?thesis by (auto simp: jsonOfStrings_def dest: map_injective)
qed

lemma member_withMember:
  "isRecord v \<Longrightarrow> v \<noteq> JDate t \<Longrightarrow> member (withMember v k x) k' = (if k' = k then x else member v k')"
  by (cases v) (auto simp: map_of_setEntry)

end
