(* ===== verification/Naming.thy ===== *)
theory Naming
  imports Json
begin

text \<open>
  Names: DNS-safe segments, public host names (deployments/deployment-routing.ts), Kubernetes
  resource names, labels and label selectors (kubernetes/kubernetes.service.ts), image
  repositories (builds/builds.service.ts) and the path helpers of the build-job builders.
\<close>

section \<open>Definitions\<close>

text \<open>\<open>[a-z0-9-]\<close>, and a label of a DNS name as the wildcard pattern has it.\<close>

definition isDnsChar :: "char \<Rightarrow> bool" where
  "isDnsChar c \<longleftrightarrow> isLowerAlnum c \<or> c = CHR ''-''"

definition isDnsLabel :: "string \<Rightarrow> bool" where
  "isDnsLabel l \<longleftrightarrow>
     l \<noteq> [] \<and> isLowerAlnum (hd l) \<and> isLowerAlnum (last l) \<and> list_all isDnsChar l"

text \<open>deployments/deployment-routing.ts\<close>

definition wildcardHostnameMatches :: "string \<Rightarrow> bool" where
  "wildcardHostnameMatches w \<longleftrightarrow>
     startsWith w ''*.''
     \<and> 2 \<le> length (splitOn CHR ''.'' (drop 2 w))
     \<and> list_all isDnsLabel (splitOn CHR ''.'' (drop 2 w))"

definition routingDnsSafeName :: "string \<Rightarrow> string" where
  "routingDnsSafeName value =
     collapseRuns CHR ''-''
       (stripEnds CHR ''-''
         (map (\<lambda>c. if isDnsChar c then c else CHR ''-'') (toLowerCase value)))"

definition routingAppSegment :: "string \<Rightarrow> string" where
  "routingAppSegment appName =
     (let s = take 32 (routingDnsSafeName appName) in if s = [] then ''app'' else s)"

definition buildPublicHostname :: "string \<Rightarrow> string \<Rightarrow> string \<Rightarrow> exn + string" where
  "buildPublicHostname appName deploymentId wildcardHostname =
     (let wildcard = toLowerCase (trim wildcardHostname) in
      if \<not> wildcardHostnameMatches wildcard
      then Inl (JsError ''APPLICATION_WILDCARD_HOSTNAME must be a valid wildcard hostname'')
      else
        (let appSegment = routingAppSegment appName;
             deploymentSegment = toLowerCase (take 8 deploymentId)
         in Inr (appSegment @ ''-'' @ deploymentSegment @ ''.'' @ drop 2 wildcard)))"

text \<open>kubernetes/kubernetes.service.ts\<close>

record resource_names =
  deploymentName :: string
  serviceName :: string
  configMapName :: string
  fileConfigMapName :: "string option"
  secretName :: "string option"
  secretFileSecretName :: "string option"
  httpRouteName :: string
  httpRedirectRouteName :: string

definition kubeDnsSafeName :: "string \<Rightarrow> string" where
  "kubeDnsSafeName value =
     take 45
       (collapseRuns CHR ''-''
         (stripEnds CHR ''-''
           (map (\<lambda>c. if isDnsChar c then c else CHR ''-'') (toLowerCase value))))"

definition kubeAppSegment :: "string \<Rightarrow> string" where
  "kubeAppSegment appName =
     (let s = take 32 (kubeDnsSafeName appName) in if s = [] then ''app'' else s)"

definition buildResourceNames :: "string \<Rightarrow> string \<Rightarrow> resource_names" where
  "buildResourceNames appName deploymentId =
     (let base = kubeAppSegment appName @ ''-'' @ toLowerCase (take 8 deploymentId) in
      \<lparr> deploymentName = base,
        serviceName = base @ ''-svc'',
        configMapName = base @ ''-env'',
        fileConfigMapName = Some (base @ ''-files''),
        secretName = Some (base @ ''-secret''),
        secretFileSecretName = Some (base @ ''-secret-files''),
        httpRouteName = base @ ''-route'',
        httpRedirectRouteName = base @ ''-redirect'' \<rparr>)"

definition buildManagedLabels :: "string \<Rightarrow> string \<Rightarrow> string \<Rightarrow> string entries" where
  "buildManagedLabels workspaceId appId deploymentId =
     [(''app.kubernetes.io/managed-by'', ''deployment-manager-service''),
      (''rca-platform/workspace-id'', workspaceId),
      (''rca-platform/app-id'', appId),
      (''rca-platform/deployment-id'', deploymentId)]"

definition buildJobName :: "string \<Rightarrow> string \<Rightarrow> string" where
  "buildJobName appName buildId =
     kubeAppSegment appName @ ''-build-'' @ toLowerCase (take 8 buildId)"

definition buildJobLabels :: "string \<Rightarrow> string \<Rightarrow> string \<Rightarrow> string entries" where
  "buildJobLabels workspaceId appId buildId =
     [(''app.kubernetes.io/managed-by'', ''deployment-manager-service''),
      (''rca-platform/workspace-id'', workspaceId),
      (''rca-platform/app-id'', appId),
      (''rca-platform/build-id'', buildId)]"

definition toLabelSelector :: "string entries \<Rightarrow> string" where
  "toLabelSelector labels = joinWith '','' (map (\<lambda>(key, value). key @ ''='' @ value) labels)"

text \<open>builds/builds.service.ts\<close>

definition isImageChar :: "char \<Rightarrow> bool" where
  "isImageChar c \<longleftrightarrow> isLowerAlnum c \<or> c \<in> {CHR ''.'', CHR ''_'', CHR ''-''}"

definition toImageRepository :: "string \<Rightarrow> string" where
  "toImageRepository appName =
     (let s = take 80
                (collapseRuns CHR ''-''
                  (stripEnds CHR ''-''
                    (map (\<lambda>c. if isImageChar c then c else CHR ''-'') (toLowerCase appName))))
      in if s = [] then ''app'' else s)"

text \<open>kubernetes/builders/build-job-manifest.builder.ts and buildpack-job-manifest.builder.ts\<close>

definition trimPath :: "string \<Rightarrow> string" where
  "trimPath p = (let s = stripEnds CHR ''/'' p in if s = [] then ''.'' else s)"

definition buildpackTrimPath :: "string \<Rightarrow> string" where
  "buildpackTrimPath p = (let s = stripEnds CHR ''/'' p in if s = [] then ''.'' else s)"

text \<open>\<open>s.lastIndexOf(c)\<close>, with \<open>None\<close> for -1.\<close>

definition lastIndexOf :: "char \<Rightarrow> string \<Rightarrow> nat option" where
  "lastIndexOf c s =
     (if c \<in> set s then Some (length s - 1 - length (takeWhile (\<lambda>x. x \<noteq> c) (rev s))) else None)"

definition getDirectoryName :: "string \<Rightarrow> string" where
  "getDirectoryName p =
     (let normalized = trimPath p in
      case lastIndexOf CHR ''/'' normalized of
        None \<Rightarrow> ''.''
      | Some lastSlash \<Rightarrow>
          (let d = take lastSlash normalized in if d = [] then ''.'' else d))"

definition getBaseName :: "string \<Rightarrow> string" where
  "getBaseName p =
     (let normalized = trimPath p in
      case lastIndexOf CHR ''/'' normalized of
        None \<Rightarrow> normalized
      | Some lastSlash \<Rightarrow> drop (lastSlash + 1) normalized)"

text \<open>Evaluating names of concrete strings.\<close>

lemmas name_eval =
  buildPublicHostname_def wildcardHostnameMatches_def routingAppSegment_def routingDnsSafeName_def
  kubeAppSegment_def kubeDnsSafeName_def buildResourceNames_def isDnsLabel_def isDnsChar_def
  isLowerAlnum_def isLowerAlpha_def isUpperAlpha_def isDigit_def isSpace_def lowerChar_bits
  toLowerCase_def trim_def stripEnds_def toImageRepository_def isImageChar_def trimPath_def
  buildpackTrimPath_def Let_def

section \<open>DNS-safe segments\<close>

text \<open>
  The contract the callers of the two \<open>toDnsSafeName\<close> copies rely on: a segment that starts
  with a letter or digit, has only DNS characters and is at most \<open>bound\<close> long. What follows
  from it is proved once and used for host names, resource names and job names.
\<close>

locale dns_segment =
  fixes segment :: "string \<Rightarrow> string" and bound :: nat
  assumes segment_chars: "list_all isDnsChar (segment a)"
    and segment_hd: "segment a \<noteq> [] \<and> isLowerAlnum (hd (segment a))"
    and segment_length: "length (segment a) \<le> bound"
begin

lemma label_of_segment:
  assumes "isDnsLabel t"
  shows "isDnsLabel (segment a @ ''-'' @ t)"
  using assms segment_chars [of a] segment_hd [of a]
  by (auto simp: isDnsLabel_def isDnsChar_def)

lemma segment_no_dot: "CHR ''.'' \<notin> set (segment a)"
  using segment_chars [of a]
  by (auto simp: list_all_iff isDnsChar_def isLowerAlnum_def isLowerAlpha_def isDigit_def)

lemma label_length: "length (segment a @ ''-'' @ t) \<le> bound + 1 + length t"
  using segment_length [of a] by simp

lemma label_suffix_inj:
  "length t = length t' \<Longrightarrow> segment a @ ''-'' @ t = segment b @ ''-'' @ t' \<Longrightarrow> t = t'"
  using append_eq_append_conv [of t t' "segment a @ ''-''" "segment b @ ''-''"] by simp

end

definition sanitized :: "string \<Rightarrow> string" where
  "sanitized value =
     collapseRuns CHR ''-''
       (stripEnds CHR ''-''
         (map (\<lambda>c. if isDnsChar c then c else CHR ''-'') (toLowerCase value)))"

lemma sanitized_chars: "list_all isDnsChar (sanitized v)"
proof -
  have "set (sanitized v) \<subseteq> (\<lambda>c. if isDnsChar c then c else CHR ''-'') ` set (toLowerCase v)"
    unfolding sanitized_def using set_stripEnds by (fastforce simp: set_collapseRuns)
  then show ?thesis by (auto simp: list_all_iff isDnsChar_def split: if_splits)
qed

lemma sanitized_hd: "sanitized v \<noteq> [] \<Longrightarrow> isLowerAlnum (hd (sanitized v))"
proof -
  assume ne: "sanitized v \<noteq> []"
  then have "hd (sanitized v) \<in> set (sanitized v)" by simp
  with sanitized_chars have "isDnsChar (hd (sanitized v))" by (auto simp: list_all_iff)
  moreover have "hd (sanitized v) \<noteq> CHR ''-''"
    using ne unfolding sanitized_def by (simp add: hd_collapseRuns stripEnds_hd)
  ultimately show ?thesis by (simp add: isDnsChar_def)
qed

lemma app_segment:
  assumes "s = (if take 32 (sanitized a) = [] then ''app'' else take 32 (sanitized a))"
  shows "list_all isDnsChar s \<and> (s \<noteq> [] \<and> isLowerAlnum (hd s)) \<and> length s \<le> 32"
proof (cases "sanitized a = []")
  case True
  with assms show ?thesis
    by (simp add: isDnsChar_def isLowerAlnum_def isLowerAlpha_def)
next
  case False
  with assms have "s = take 32 (sanitized a)" by simp
  with False sanitized_chars [of a] sanitized_hd [OF False] show ?thesis
    by (auto simp: list_all_iff dest: in_set_takeD)
qed

lemma routingAppSegment_alt:
  "routingAppSegment a = (if take 32 (sanitized a) = [] then ''app'' else take 32 (sanitized a))"
  by (simp add: routingAppSegment_def routingDnsSafeName_def sanitized_def Let_def)

lemma kubeAppSegment_alt:
  "kubeAppSegment a = (if take 32 (sanitized a) = [] then ''app'' else take 32 (sanitized a))"
  by (simp add: kubeAppSegment_def kubeDnsSafeName_def sanitized_def Let_def min_def)

interpretation routing: dns_segment routingAppSegment 32
  using app_segment [OF routingAppSegment_alt] by unfold_locales auto

interpretation kube: dns_segment kubeAppSegment 32
  using app_segment [OF kubeAppSegment_alt] by unfold_locales auto

text \<open>
  What \<open>randomUUID()\<close> guarantees of the part of an id that goes into a name: eight
  hexadecimal digits before the first hyphen.
\<close>

definition uuidPrefix :: "string \<Rightarrow> bool" where
  "uuidPrefix i \<longleftrightarrow> 8 \<le> length i \<and> list_all (\<lambda>c. isLowerAlnum (lowerChar c)) (take 8 i)"

lemma uuid_segment_label: "uuidPrefix i \<Longrightarrow> isDnsLabel (toLowerCase (take 8 i))"
proof -
  assume u: "uuidPrefix i"
  then have "length (toLowerCase (take 8 i)) = 8" by (simp add: uuidPrefix_def toLowerCase_def)
  then have ne: "toLowerCase (take 8 i) \<noteq> []" by (metis list.size(3) zero_neq_numeral)
  have all: "\<forall>c \<in> set (toLowerCase (take 8 i)). isLowerAlnum c"
    using u by (auto simp: uuidPrefix_def toLowerCase_def list_all_iff)
  with ne show ?thesis
    by (auto simp: isDnsLabel_def list_all_iff isDnsChar_def)
qed

lemma dnsLabel_no_dot: "isDnsLabel l \<Longrightarrow> CHR ''.'' \<notin> set l"
  by (auto simp: isDnsLabel_def list_all_iff isDnsChar_def isLowerAlnum_def isLowerAlpha_def
      isDigit_def)

section \<open>Properties\<close>

text \<open>
  A public host name is one DNS label below the configured wildcard domain: it is the name of
  the Kubernetes Deployment, a dot and the wildcard's suffix, every label of it is a valid DNS
  label, and its first label has at most 41 characters.
\<close>

theorem public_hostname_wellformed:
  assumes "buildPublicHostname appName i w = Inr h" and "uuidPrefix i"
  shows "h = deploymentName (buildResourceNames appName i) @ ''.'' @ drop 2 (toLowerCase (trim w))
    \<and> list_all isDnsLabel (splitOn CHR ''.'' h)
    \<and> length (splitOn CHR ''.'' h) = length (splitOn CHR ''.'' (toLowerCase (trim w)))
    \<and> length (hd (splitOn CHR ''.'' h)) \<le> 41"
proof -
  let ?w = "toLowerCase (trim w)"
  let ?label = "kubeAppSegment appName @ ''-'' @ toLowerCase (take 8 i)"
  have seg: "routingAppSegment appName = kubeAppSegment appName"
    by (simp add: routingAppSegment_alt kubeAppSegment_alt)
  from assms(1) have m: "wildcardHostnameMatches ?w"
    and h: "h = ?label @ ''.'' @ drop 2 ?w"
    by (auto simp: buildPublicHostname_def Let_def seg split: if_splits)
  have lab: "isDnsLabel ?label"
    using kube.label_of_segment uuid_segment_label [OF assms(2)] by blast
  have split: "splitOn CHR ''.'' h = ?label # splitOn CHR ''.'' (drop 2 ?w)"
    using splitOn_append [OF dnsLabel_no_dot [OF lab], of "drop 2 ?w"] h by simp
  from m obtain t where "?w = ''*.'' @ t"
    unfolding wildcardHostnameMatches_def startsWith_iff by blast
  then have parts: "splitOn CHR ''.'' ?w = ''*'' # splitOn CHR ''.'' (drop 2 ?w)" by simp
  have "length ?label \<le> 41"
    using kube.label_length [of appName "toLowerCase (take 8 i)"] by (simp add: js_simps)
  with split parts lab m h show ?thesis
    by (simp add: wildcardHostnameMatches_def buildResourceNames_def Let_def)
qed

theorem public_hostname_wellformed_witness:
  "buildPublicHostname ''My App'' ''0F1E2d3c-aa'' '' *.Apps.rca.local '' =
     Inr ''my-app-0f1e2d3c.apps.rca.local''
   \<and> list_all isDnsLabel (splitOn CHR ''.'' ''my-app-0f1e2d3c.apps.rca.local'')"
proof -
  have h: "buildPublicHostname ''My App'' ''0F1E2d3c-aa'' '' *.Apps.rca.local '' =
     Inr ''my-app-0f1e2d3c.apps.rca.local''"
    by (simp add: name_eval)
  have u: "uuidPrefix ''0F1E2d3c-aa''" by (simp add: name_eval uuidPrefix_def)
  from h public_hostname_wellformed [OF h u] show ?thesis by blast
qed

definition allResourceNames :: "resource_names \<Rightarrow> string list" where
  "allResourceNames n =
     [deploymentName n, serviceName n, configMapName n]
     @ map the [fileConfigMapName n, secretName n, secretFileSecretName n]
     @ [httpRouteName n, httpRedirectRouteName n]"

lemma label_append:
  "isDnsLabel a \<Longrightarrow> list_all isDnsChar b \<Longrightarrow> b \<noteq> [] \<Longrightarrow> isLowerAlnum (last b) \<Longrightarrow> isDnsLabel (a @ b)"
  by (auto simp: isDnsLabel_def)

text \<open>
  C28. The eight resource names of a deployment are pairwise distinct valid DNS labels of at most
  63 characters, for every app name and every id with a UUID's first eight digits.
\<close>

theorem resource_names_valid:
  assumes "uuidPrefix i"
  shows "distinct (allResourceNames (buildResourceNames appName i))
    \<and> list_all (\<lambda>n. isDnsLabel n \<and> length n \<le> 63) (allResourceNames (buildResourceNames appName i))"
proof -
  let ?base = "kubeAppSegment appName @ ''-'' @ toLowerCase (take 8 i)"
  have base: "isDnsLabel ?base"
    using kube.label_of_segment uuid_segment_label [OF assms] by blast
  have len: "length ?base \<le> 41"
    using kube.label_length [of appName "toLowerCase (take 8 i)"] by (simp add: js_simps)
  have names: "allResourceNames (buildResourceNames appName i) =
      map (\<lambda>s. ?base @ s) ['''', ''-svc'', ''-env'', ''-files'', ''-secret'', ''-secret-files'',
        ''-route'', ''-redirect'']"
    by (simp add: allResourceNames_def buildResourceNames_def Let_def)
  have suffixes: "list_all (\<lambda>s. s = [] \<or> (list_all isDnsChar s \<and> isLowerAlnum (last s) \<and> length s \<le> 13))
      ['''', ''-svc'', ''-env'', ''-files'', ''-secret'', ''-secret-files'', ''-route'', ''-redirect'']"
    by (simp add: name_eval)
  have "isDnsLabel (?base @ s) \<and> length (?base @ s) \<le> 63"
    if "s = [] \<or> (list_all isDnsChar s \<and> isLowerAlnum (last s) \<and> length s \<le> 13)" for s
    using that base len label_append [OF base, of s] by (cases "s = []") simp_all
  with suffixes have "list_all (\<lambda>n. isDnsLabel n \<and> length n \<le> 63)
      (allResourceNames (buildResourceNames appName i))"
    unfolding names list.pred_map by (elim list.pred_mono_strong) (simp del: append_assoc)
  moreover have "distinct (allResourceNames (buildResourceNames appName i))"
    unfolding names by simp
  ultimately show ?thesis by blast
qed

theorem resource_names_valid_witness:
  "uuidPrefix ''0f1e2d3c-4b5a''
   \<and> distinct (allResourceNames (buildResourceNames ''Shop/API'' ''0f1e2d3c-4b5a''))
   \<and> deploymentName (buildResourceNames ''Shop/API'' ''0f1e2d3c-4b5a'') = ''shop-api-0f1e2d3c''"
proof -
  have u: "uuidPrefix ''0f1e2d3c-4b5a''" by (simp add: name_eval uuidPrefix_def)
  have n: "deploymentName (buildResourceNames ''Shop/API'' ''0f1e2d3c-4b5a'') = ''shop-api-0f1e2d3c''"
    by (simp add: name_eval)
  from u n resource_names_valid [OF u, of "''Shop/API''"] show ?thesis by blast
qed

text \<open>
  Two deployments share a Kubernetes Deployment name, and two builds a Job name, only when
  their ids agree in the first eight characters up to case, whatever their app names are.
\<close>

theorem names_separate_ids:
  assumes "8 \<le> length i" and "8 \<le> length j"
    and "toLowerCase (take 8 i) \<noteq> toLowerCase (take 8 j)"
  shows "deploymentName (buildResourceNames a i) \<noteq> deploymentName (buildResourceNames b j)
    \<and> buildJobName a i \<noteq> buildJobName b j"
proof -
  have len: "length (toLowerCase (take 8 i)) = length (toLowerCase (take 8 j))"
    using assms(1,2) by (simp add: js_simps)
  have "kubeAppSegment a @ ''-'' @ toLowerCase (take 8 i)
      \<noteq> kubeAppSegment b @ ''-'' @ toLowerCase (take 8 j)"
    using kube.label_suffix_inj [OF len] assms(3) by blast
  moreover have "kubeAppSegment a @ ''-build-'' @ toLowerCase (take 8 i)
      \<noteq> kubeAppSegment b @ ''-build-'' @ toLowerCase (take 8 j)"
    using append_eq_append_conv [OF disjI2 [OF len],
        of "kubeAppSegment a @ ''-build-''" "kubeAppSegment b @ ''-build-''"] assms(3)
    by simp
  ultimately show ?thesis
    by (simp add: buildResourceNames_def buildJobName_def Let_def)
qed

theorem names_separate_ids_witness:
  "deploymentName (buildResourceNames ''web'' ''aaaaaaaa-1'')
     \<noteq> deploymentName (buildResourceNames ''web'' ''aaaaaaab-1'')"
proof -
  have d: "toLowerCase (take 8 ''aaaaaaaa-1'') \<noteq> toLowerCase (take 8 ''aaaaaaab-1'')"
    by (simp add: name_eval)
  show ?thesis using names_separate_ids [OF _ _ d, of "''web''" "''web''"] by simp
qed

text \<open>
  The selector syntax of the Kubernetes API: \<open>key=value\<close> requirements separated by commas.
\<close>

definition parseSelector :: "string \<Rightarrow> string entries" where
  "parseSelector s =
     map (\<lambda>p. (takeWhile (\<lambda>c. c \<noteq> CHR ''='') p, drop 1 (dropWhile (\<lambda>c. c \<noteq> CHR ''='') p)))
       (splitOn CHR '','' s)"

lemma parse_requirement:
  "CHR ''='' \<notin> set k \<Longrightarrow>
   (takeWhile (\<lambda>c. c \<noteq> CHR ''='') (k @ ''='' @ v), drop 1 (dropWhile (\<lambda>c. c \<noteq> CHR ''='') (k @ ''='' @ v)))
     = (k, v)"
  by (induction k) auto

lemma parseSelector_toLabelSelector:
  assumes "labels \<noteq> []"
    and "\<forall>(k, v) \<in> set labels. CHR ''='' \<notin> set k \<and> CHR '','' \<notin> set k \<and> CHR '','' \<notin> set v"
  shows "parseSelector (toLabelSelector labels) = labels"
proof -
  let ?f = "\<lambda>(key, value). key @ ''='' @ value"
  let ?g = "\<lambda>p. (takeWhile (\<lambda>c. c \<noteq> CHR ''='') p, drop 1 (dropWhile (\<lambda>c. c \<noteq> CHR ''='') p))"
  have "splitOn CHR '','' (joinWith '','' (map ?f labels)) = map ?f labels"
    using assms by (intro splitOn_joinWith) auto
  moreover have "?g (?f kv) = kv" if "kv \<in> set labels" for kv
    using assms(2) that parse_requirement by (cases kv) fastforce
  ultimately show ?thesis
    by (simp add: parseSelector_def toLabelSelector_def map_idI)
qed

text \<open>
  The label selector a deployment's pods and logs are looked up with denotes exactly its
  managed labels: read back with the selector syntax it yields the manager, workspace, app and
  deployment requirements, so it never selects another workspace's or deployment's pods.
\<close>

theorem managed_selector_roundtrip:
  assumes "CHR '','' \<notin> set ws" and "CHR '','' \<notin> set app" and "CHR '','' \<notin> set d"
    and "CHR '','' \<notin> set ws'" and "CHR '','' \<notin> set app'" and "CHR '','' \<notin> set d'"
  shows "parseSelector (toLabelSelector (buildManagedLabels ws app d)) = buildManagedLabels ws app d
    \<and> parseSelector (toLabelSelector (buildJobLabels ws app d)) = buildJobLabels ws app d
    \<and> (toLabelSelector (buildManagedLabels ws app d) = toLabelSelector (buildManagedLabels ws' app' d')
       \<longleftrightarrow> ws = ws' \<and> app = app' \<and> d = d')"
proof -
  have rt: "parseSelector (toLabelSelector (buildManagedLabels w a x)) = buildManagedLabels w a x"
    if "CHR '','' \<notin> set w" "CHR '','' \<notin> set a" "CHR '','' \<notin> set x" for w a x
    using that by (intro parseSelector_toLabelSelector) (auto simp: buildManagedLabels_def)
  have "parseSelector (toLabelSelector (buildJobLabels ws app d)) = buildJobLabels ws app d"
    using assms by (intro parseSelector_toLabelSelector) (auto simp: buildJobLabels_def)
  moreover have "ws = ws' \<and> app = app' \<and> d = d'"
    if "toLabelSelector (buildManagedLabels ws app d) = toLabelSelector (buildManagedLabels ws' app' d')"
  proof -
    from that rt assms have "buildManagedLabels ws app d = buildManagedLabels ws' app' d'" by metis
    then show ?thesis by (simp add: buildManagedLabels_def)
  qed
  ultimately show ?thesis using rt assms by blast
qed

theorem managed_selector_roundtrip_witness:
  "parseSelector (toLabelSelector (buildManagedLabels ''w1'' ''a1'' ''d1'')) =
     buildManagedLabels ''w1'' ''a1'' ''d1''
   \<and> toLabelSelector (buildManagedLabels ''w1'' ''a1'' ''d1'')
       \<noteq> toLabelSelector (buildManagedLabels ''w2'' ''a1'' ''d1'')"
proof -
  have "CHR '','' \<notin> set ''w1''" "CHR '','' \<notin> set ''a1''" "CHR '','' \<notin> set ''d1''"
    "CHR '','' \<notin> set ''w2''" by simp_all
  from managed_selector_roundtrip [OF this(1-3) this(4) this(2-3)] show ?thesis by simp
qed

lemma lastIndexOf_Some:
  assumes "c \<in> set s"
  obtains a b where "s = a @ c # b" "c \<notin> set b" "lastIndexOf c s = Some (length a)"
proof -
  from split_list_last [OF assms] obtain a b where ab: "s = a @ c # b" "c \<notin> set b" by blast
  have "takeWhile (\<lambda>x. x \<noteq> c) (rev b @ c # rev a) = rev b"
    using ab(2) by (subst takeWhile_append2) auto
  with ab assms that show ?thesis by (auto simp: lastIndexOf_def)
qed

text \<open>
  Splitting a Dockerfile path loses nothing and never leaves a slash in the file name: the
  base name has no slash, and directory, slash and base name give back the trimmed path, or the
  directory is \<open>.\<close> and the trimmed path has no slash at all.
\<close>

theorem dockerfile_path_roundtrip:
  "CHR ''/'' \<notin> set (getBaseName p) \<and> getBaseName p \<noteq> [] \<and>
   (if CHR ''/'' \<in> set (trimPath p)
    then getDirectoryName p @ ''/'' @ getBaseName p = trimPath p
    else getDirectoryName p = ''.'' \<and> getBaseName p = trimPath p)"
proof (cases "CHR ''/'' \<in> set (trimPath p)")
  case False
  then have "lastIndexOf CHR ''/'' (trimPath p) = None" by (simp add: lastIndexOf_def)
  moreover have "trimPath p \<noteq> []" by (simp add: trimPath_def Let_def)
  ultimately show ?thesis
    using False by (simp add: getDirectoryName_def getBaseName_def Let_def)
next
  case True
  then obtain a b where ab: "trimPath p = a @ CHR ''/'' # b" "CHR ''/'' \<notin> set b"
    "lastIndexOf CHR ''/'' (trimPath p) = Some (length a)"
    by (rule lastIndexOf_Some)
  have "trimPath p = stripEnds CHR ''/'' p" "stripEnds CHR ''/'' p \<noteq> []"
    using ab(1) by (auto simp: trimPath_def Let_def Cons_eq_append_conv split: if_splits)
  with stripEnds_hd [of "CHR ''/''" p] stripEnds_last [of "CHR ''/''" p]
  have "hd (trimPath p) \<noteq> CHR ''/''" "last (trimPath p) \<noteq> CHR ''/''" by auto
  with ab(1) have "a \<noteq> []" "b \<noteq> []" by auto
  with True ab show ?thesis by (simp add: getDirectoryName_def getBaseName_def Let_def)
qed

end
