(* ===== verification/Manifests.thy ===== *)
theory Manifests
  imports Naming
begin

text \<open>
  The manifest builders of kubernetes/builders/: each function returns the object the source
  returns, members in the source's order, with \<open>undefined\<close> members as \<open>JUndef\<close>. Then
  the meaning the Kubernetes API gives selectors and network policies, and what the manifests
  achieve under it.
\<close>

section \<open>Builders\<close>

subsection \<open>ConfigMap, Secret, Namespace, Service\<close>

definition metadataOf :: "string \<Rightarrow> string entries \<Rightarrow> json" where
  "metadataOf name labels = JObj [(''name'', JStr name), (''labels'', jsonOfStrings labels)]"

definition buildConfigMapManifest :: "string \<Rightarrow> string entries \<Rightarrow> string entries \<Rightarrow> json" where
  "buildConfigMapManifest name labels data =
     JObj [(''apiVersion'', JStr ''v1''),
           (''kind'', JStr ''ConfigMap''),
           (''metadata'', metadataOf name labels),
           (''data'', jsonOfStrings data)]"

definition buildSecretManifest :: "string \<Rightarrow> string entries \<Rightarrow> string entries \<Rightarrow> json" where
  "buildSecretManifest name labels stringData =
     JObj [(''apiVersion'', JStr ''v1''),
           (''kind'', JStr ''Secret''),
           (''type'', JStr ''Opaque''),
           (''metadata'', metadataOf name labels),
           (''stringData'', jsonOfStrings stringData)]"

definition buildNamespaceManifest :: "string \<Rightarrow> string option entries \<Rightarrow> json" where
  "buildNamespaceManifest name labels =
     JObj [(''apiVersion'', JStr ''v1''),
           (''kind'', JStr ''Namespace''),
           (''metadata'', JObj [(''name'', JStr name),
              (''labels'', JObj (map (\<lambda>(k, v). (k, jsonOfOption v)) labels))])]"

definition buildServiceManifest :: "string \<Rightarrow> int \<Rightarrow> string entries \<Rightarrow> json" where
  "buildServiceManifest name port labels =
     JObj [(''apiVersion'', JStr ''v1''),
           (''kind'', JStr ''Service''),
           (''metadata'', metadataOf name labels),
           (''spec'', JObj [(''type'', JStr ''ClusterIP''),
              (''selector'', jsonOfStrings labels),
              (''ports'', JArr [JObj [(''name'', JStr ''http''),
                 (''port'', JNum port),
                 (''targetPort'', JNum port)]])])]"

subsection \<open>Deployment\<close>

record file_volume =
  volumeName :: string
  mountPath :: string
  volumeItems :: "(string \<times> string) list" \<comment> \<open>key and path of each item\<close>

record deployment_input =
  dmName :: string
  dmImage :: string
  dmPort :: int
  dmReplicas :: int
  dmLabels :: "string entries"
  dmConfigMapName :: "string option"
  dmSecretName :: "string option"
  dmConfigFileConfigMapName :: "string option"
  dmSecretFileSecretName :: "string option"
  dmConfigFileVolume :: "file_volume option"
  dmSecretFileVolume :: "file_volume option"

definition itemsJson :: "(string \<times> string) list \<Rightarrow> json" where
  "itemsJson items = JArr (map (\<lambda>(k, p). JObj [(''key'', JStr k), (''path'', JStr p)]) items)"

definition mountJson :: "file_volume \<Rightarrow> json" where
  "mountJson v = JObj [(''name'', JStr (volumeName v)),
                       (''mountPath'', JStr (mountPath v)),
                       (''readOnly'', JBool True)]"

definition orUndefined :: "json list \<Rightarrow> json" where
  "orUndefined xs = (if xs \<noteq> [] then JArr xs else JUndef)"

definition buildDeploymentManifest :: "deployment_input \<Rightarrow> json" where
  "buildDeploymentManifest i =
     (let envFrom =
            (if truthy (dmConfigMapName i)
             then [JObj [(''configMapRef'', JObj [(''name'', JStr (the (dmConfigMapName i)))])]]
             else []) @
            (if truthy (dmSecretName i)
             then [JObj [(''secretRef'', JObj [(''name'', JStr (the (dmSecretName i)))])]]
             else []);
          configVolume =
            (case dmConfigFileVolume i of
               Some v \<Rightarrow> if truthy (dmConfigFileConfigMapName i) then Some v else None
             | None \<Rightarrow> None);
          secretVolume =
            (case dmSecretFileVolume i of
               Some v \<Rightarrow> if truthy (dmSecretFileSecretName i) then Some v else None
             | None \<Rightarrow> None);
          volumes =
            (case configVolume of None \<Rightarrow> [] | Some v \<Rightarrow>
               [JObj [(''name'', JStr (volumeName v)),
                      (''configMap'', JObj [
                         (''name'', JStr (the (dmConfigFileConfigMapName i))),
                         (''items'', itemsJson (volumeItems v))])]]) @
            (case secretVolume of None \<Rightarrow> [] | Some v \<Rightarrow>
               [JObj [(''name'', JStr (volumeName v)),
                      (''secret'', JObj [
                         (''secretName'', JStr (the (dmSecretFileSecretName i))),
                         (''items'', itemsJson (volumeItems v))])]]);
          volumeMounts =
            (case configVolume of None \<Rightarrow> [] | Some v \<Rightarrow> [mountJson v]) @
            (case secretVolume of None \<Rightarrow> [] | Some v \<Rightarrow> [mountJson v])
      in JObj [(''apiVersion'', JStr ''apps/v1''),
               (''kind'', JStr ''Deployment''),
               (''metadata'', metadataOf (dmName i) (dmLabels i)),
               (''spec'', JObj [
                  (''replicas'', JNum (dmReplicas i)),
                  (''selector'', JObj [(''matchLabels'', jsonOfStrings (dmLabels i))]),
                  (''template'', JObj [
                     (''metadata'', JObj [(''labels'', jsonOfStrings (dmLabels i))]),
                     (''spec'', JObj [
                        (''volumes'', orUndefined volumes),
                        (''containers'', JArr [JObj [
                           (''name'', JStr ''app''),
                           (''image'', JStr (dmImage i)),
                           (''ports'', JArr [JObj [(''containerPort'', JNum (dmPort i))]]),
                           (''envFrom'', orUndefined envFrom),
                           (''volumeMounts'', orUndefined volumeMounts)]])])])])])"

subsection \<open>Application routes\<close>

definition parentRef :: "string \<Rightarrow> string \<Rightarrow> string \<Rightarrow> json" where
  "parentRef gatewayName gatewayNamespace sectionName =
     JObj [(''name'', JStr gatewayName),
           (''namespace'', JStr gatewayNamespace),
           (''sectionName'', JStr sectionName)]"

definition buildApplicationRouteManifest ::
  "string \<Rightarrow> string \<Rightarrow> string \<Rightarrow> string \<Rightarrow> string \<Rightarrow> string \<Rightarrow> int \<Rightarrow> string entries \<Rightarrow> json"
where
  "buildApplicationRouteManifest name ns hostname gatewayName gatewayNamespace
     svcName svcPort labels =
     JObj [(''apiVersion'', JStr ''gateway.networking.k8s.io/v1''),
           (''kind'', JStr ''HTTPRoute''),
           (''metadata'', JObj [(''name'', JStr name), (''namespace'', JStr ns),
              (''labels'', jsonOfStrings labels)]),
           (''spec'', JObj [
              (''parentRefs'', JArr [parentRef gatewayName gatewayNamespace ''https'']),
              (''hostnames'', JArr [JStr hostname]),
              (''rules'', JArr [JObj [
                 (''matches'', JArr [JObj [(''path'',
                    JObj [(''type'', JStr ''PathPrefix''), (''value'', JStr ''/'')])]]),
                 (''backendRefs'', JArr [JObj [
                    (''group'', JStr []),
                    (''kind'', JStr ''Service''),
                    (''name'', JStr svcName),
                    (''port'', JNum svcPort)]])]])])]"

definition buildApplicationRedirectRouteManifest ::
  "string \<Rightarrow> string \<Rightarrow> string \<Rightarrow> string \<Rightarrow> string \<Rightarrow> string entries \<Rightarrow> json"
where
  "buildApplicationRedirectRouteManifest name ns hostname gatewayName gatewayNamespace labels =
     JObj [(''apiVersion'', JStr ''gateway.networking.k8s.io/v1''),
           (''kind'', JStr ''HTTPRoute''),
           (''metadata'', JObj [(''name'', JStr name), (''namespace'', JStr ns),
              (''labels'', jsonOfStrings labels)]),
           (''spec'', JObj [
              (''parentRefs'', JArr [parentRef gatewayName gatewayNamespace ''http'']),
              (''hostnames'', JArr [JStr hostname]),
              (''rules'', JArr [JObj [
                 (''filters'', JArr [JObj [
                    (''type'', JStr ''RequestRedirect''),
                    (''requestRedirect'', JObj [(''scheme'', JStr ''https''),
                       (''statusCode'', JNum 308)])]])]])])]"

subsection \<open>Tenant network policies\<close>

definition PUBLIC_APPLICATION_LABEL :: string where
  "PUBLIC_APPLICATION_LABEL = ''rca-platform.io/public''"

definition buildApplicationPodLabels :: "string entries \<Rightarrow> bool \<Rightarrow> string entries" where
  "buildApplicationPodLabels labels publiclyExposed =
     (if publiclyExposed then setEntry PUBLIC_APPLICATION_LABEL ''true'' labels else labels)"

definition networkPolicy :: "string \<Rightarrow> string \<Rightarrow> json \<Rightarrow> json list \<Rightarrow> json" where
  "networkPolicy name ns podSelector ingress =
     JObj [(''apiVersion'', JStr ''networking.k8s.io/v1''),
           (''kind'', JStr ''NetworkPolicy''),
           (''metadata'', JObj [(''name'', JStr name), (''namespace'', JStr ns)]),
           (''spec'', JObj [(''podSelector'', podSelector),
              (''policyTypes'', JArr [JStr ''Ingress'']),
              (''ingress'', JArr ingress)])]"

definition buildTenantNetworkPolicyManifests :: "string \<Rightarrow> string \<Rightarrow> string \<Rightarrow> json list" where
  "buildTenantNetworkPolicyManifests ns gatewayName gatewayNamespace =
     [networkPolicy ''default-deny-ingress'' ns (JObj []) [],
      networkPolicy ''allow-same-namespace'' ns (JObj [])
        [JObj [(''from'', JArr [JObj [(''podSelector'', JObj [])]])]],
      networkPolicy ''allow-shared-gateway'' ns
        (JObj [(''matchLabels'', JObj [(PUBLIC_APPLICATION_LABEL, JStr ''true'')])])
        [JObj [(''from'', JArr [JObj [
           (''namespaceSelector'', JObj [(''matchLabels'',
              JObj [(''kubernetes.io/metadata.name'', JStr gatewayNamespace)])]),
           (''podSelector'', JObj [(''matchLabels'',
              JObj [(''gateway.networking.k8s.io/gateway-name'', JStr gatewayName)])])]])]]]"

subsection \<open>Build jobs\<close>

definition cloneContainer :: "string \<Rightarrow> string \<Rightarrow> json" where
  "cloneContainer branch repoUrl =
     JObj [(''name'', JStr ''clone-repo''),
           (''image'', JStr ''alpine/git:2.45.2''),
           (''args'', JArr (map JStr [''clone'', ''--depth'', ''1'', ''--branch'', branch, repoUrl,
              ''/workspace/repo''])),
           (''volumeMounts'', JArr [JObj [(''name'', JStr ''workspace''),
              (''mountPath'', JStr ''/workspace'')]])]"

definition jobManifest ::
  "string \<Rightarrow> string entries \<Rightarrow> string \<Rightarrow> string \<Rightarrow> string \<Rightarrow> string \<Rightarrow> json"
where
  "jobManifest name labels branch repoUrl img script =
     JObj [(''apiVersion'', JStr ''batch/v1''),
           (''kind'', JStr ''Job''),
           (''metadata'', metadataOf name labels),
           (''spec'', JObj [
              (''backoffLimit'', JNum 0),
              (''template'', JObj [
                 (''metadata'', JObj [(''labels'', jsonOfStrings labels)]),
                 (''spec'', JObj [
                    (''restartPolicy'', JStr ''Never''),
                    (''volumes'', JArr [JObj [(''name'', JStr ''workspace''),
                       (''emptyDir'', JObj [])]]),
                    (''initContainers'', JArr [cloneContainer branch repoUrl]),
                    (''containers'', JArr [JObj [
                       (''name'', JStr ''build-and-push''),
                       (''image'', JStr img),
                       (''securityContext'', JObj [(''privileged'', JBool True)]),
                       (''command'', JArr [JStr ''/bin/sh'', JStr ''-c'']),
                       (''args'', JArr [JStr script]),
                       (''volumeMounts'', JArr [JObj [(''name'', JStr ''workspace''),
                          (''mountPath'', JStr ''/workspace'')]])]])])])])]"

definition newline :: string where
  "newline = [CHR 0x0A]"

definition buildctlScript :: "string \<Rightarrow> string \<Rightarrow> string \<Rightarrow> string" where
  "buildctlScript buildContext dockerfilePath clusterImage =
     joinWith newline
       [''set -eu'',
        joinWith '' ''
          [''buildctl-daemonless.sh build'',
           ''--frontend dockerfile.v0'',
           ''--local context=/workspace/repo/'' @ trimPath buildContext,
           ''--local dockerfile=/workspace/repo/'' @ trimPath (getDirectoryName dockerfilePath),
           ''--opt filename='' @ getBaseName dockerfilePath,
           ''--output type=image,name='' @ clusterImage @ '',push=true,registry.insecure=true'']]"

definition buildBuildJobManifest ::
  "string \<Rightarrow> string entries \<Rightarrow> string \<Rightarrow> string \<Rightarrow> string \<Rightarrow> string \<Rightarrow> string \<Rightarrow> json"
where
  "buildBuildJobManifest name labels repoUrl branch buildContext dockerfilePath clusterImage =
     jobManifest name labels branch repoUrl ''moby/buildkit:buildx-stable-1''
       (buildctlScript buildContext dockerfilePath clusterImage)"

definition packScript :: "string \<Rightarrow> string \<Rightarrow> string \<Rightarrow> string \<Rightarrow> string" where
  "packScript buildContext clusterImage builderImage insecureRegistry =
     joinWith newline
       [''set -eu'',
        joinWith '' ''
          [''dockerd-entrypoint.sh dockerd'',
           ''--host=unix:///var/run/docker.sock'',
           ''--insecure-registry='' @ insecureRegistry,
           ''> /tmp/dockerd.log 2>&1 &''],
        ''for i in $(seq 1 60); do docker info >/dev/null 2>&1 && break; sleep 1; done'',
        ''docker info'',
        ''pack build '' @ clusterImage @ '' --path '' @ ''/workspace/repo/'' @ buildpackTrimPath buildContext
          @ '' --builder '' @ builderImage @ '' --network host'',
        ''docker push '' @ clusterImage]"

definition buildBuildpackJobManifest ::
  "string \<Rightarrow> string entries \<Rightarrow> string \<Rightarrow> string \<Rightarrow> string \<Rightarrow> string \<Rightarrow> string \<Rightarrow> string \<Rightarrow> string \<Rightarrow> json"
where
  "buildBuildpackJobManifest name labels repoUrl branch buildContext clusterImage builderImage
     runnerImage insecureRegistry =
     jobManifest name labels branch repoUrl runnerImage
       (packScript buildContext clusterImage builderImage insecureRegistry)"

section \<open>What selectors and network policies mean to the cluster\<close>

text \<open>
  A label selector's \<open>matchLabels\<close> holds of a set of labels when each of its entries is in it;
  a selector without \<open>matchLabels\<close> holds of everything.
\<close>

fun labelsSatisfy :: "json \<Rightarrow> string entries \<Rightarrow> bool" where
  "labelsSatisfy (JObj req) labels = (\<forall>(k, v) \<in> set req. member (jsonOfStrings labels) k = v)"
| "labelsSatisfy _ labels = True"

definition selectorHolds :: "json \<Rightarrow> string entries \<Rightarrow> bool" where
  "selectorHolds sel labels \<longleftrightarrow> labelsSatisfy (member sel ''matchLabels'') labels"

text \<open>A pod as the policies see it: its namespace, that namespace's labels, its own labels.\<close>

record pod =
  podNamespace :: string
  namespaceLabels :: "string entries"
  podLabels :: "string entries"

definition peerHolds :: "string \<Rightarrow> pod \<Rightarrow> json \<Rightarrow> bool" where
  "peerHolds ns src peer \<longleftrightarrow>
     (if member peer ''namespaceSelector'' = JUndef then podNamespace src = ns
      else selectorHolds (member peer ''namespaceSelector'') (namespaceLabels src))
     \<and> (member peer ''podSelector'' = JUndef
        \<or> selectorHolds (member peer ''podSelector'') (podLabels src))"

definition policyApplies :: "json \<Rightarrow> pod \<Rightarrow> bool" where
  "policyApplies p dst \<longleftrightarrow>
     path p [''metadata'', ''namespace''] = JStr (podNamespace dst)
     \<and> JStr ''Ingress'' \<in> set (asItems (path p [''spec'', ''policyTypes'']))
     \<and> selectorHolds (path p [''spec'', ''podSelector'']) (podLabels dst)"

definition policyAdmits :: "json \<Rightarrow> pod \<Rightarrow> bool" where
  "policyAdmits p src \<longleftrightarrow>
     (\<exists>rule \<in> set (asItems (path p [''spec'', ''ingress''])).
        asItems (member rule ''from'') = []
        \<or> (\<exists>peer \<in> set (asItems (member rule ''from'')).
             \<exists>ns. path p [''metadata'', ''namespace''] = JStr ns \<and> peerHolds ns src peer))"

text \<open>
  Ingress from \<open>src\<close> to \<open>dst\<close>: allowed when no policy applies to the destination, or one that
  applies admits the source.
\<close>

definition ingressAllowed :: "json list \<Rightarrow> pod \<Rightarrow> pod \<Rightarrow> bool" where
  "ingressAllowed policies dst src \<longleftrightarrow>
     filter (\<lambda>p. policyApplies p dst) policies = []
     \<or> (\<exists>p \<in> set policies. policyApplies p dst \<and> policyAdmits p src)"

section \<open>Properties\<close>

lemma buildApplicationPodLabels_lookup:
  "map_of (buildApplicationPodLabels labels public) k =
     (if public \<and> k = PUBLIC_APPLICATION_LABEL then Some ''true'' else map_of labels k)"
  by (auto simp: buildApplicationPodLabels_def map_of_setEntry)

lemma labelsSatisfy_entries:
  "labelsSatisfy (jsonOfStrings req) labels \<longleftrightarrow> (\<forall>(k, v) \<in> set req. map_of labels k = Some v)"
proof -
  have opt: "jsonOfOption x = JStr v \<longleftrightarrow> x = Some v" for x v by (cases x) auto
  have "labelsSatisfy (jsonOfStrings req) labels \<longleftrightarrow>
      (\<forall>kv \<in> set req. member (jsonOfStrings labels) (fst kv) = JStr (snd kv))"
    by (auto simp: jsonOfStrings_def [of req])
  then show ?thesis by (auto simp: map_of_jsonOfStrings opt)
qed

text \<open>
  The Service built for a deployment selects the pods of a Deployment manifest exactly when
  both were built for the same workspace, app and deployment, whether or not the pods carry the
  public label; and the Deployment's own \<open>matchLabels\<close> select its pod template.
\<close>

theorem service_selects_own_pods:
  assumes "dmLabels i = buildApplicationPodLabels (buildManagedLabels ws' app' d') public"
    and "map_of podLabs = map_of (dmLabels i)"
  shows "(labelsSatisfy (path (buildServiceManifest n p (buildManagedLabels ws app d))
            [''spec'', ''selector'']) podLabs
          \<longleftrightarrow> ws = ws' \<and> app = app' \<and> d = d')
         \<and> path (buildDeploymentManifest i) [''spec'', ''template'', ''metadata'', ''labels''] =
             jsonOfStrings (dmLabels i)
         \<and> selectorHolds (path (buildDeploymentManifest i) [''spec'', ''selector'']) podLabs"
proof (intro conjI)
  have sel: "path (buildServiceManifest n p labels) [''spec'', ''selector''] = jsonOfStrings labels"
    for labels by (simp add: buildServiceManifest_def)
  show "labelsSatisfy (path (buildServiceManifest n p (buildManagedLabels ws app d))
            [''spec'', ''selector'']) podLabs \<longleftrightarrow> ws = ws' \<and> app = app' \<and> d = d'"
    unfolding sel labelsSatisfy_entries assms
    by (auto simp: buildManagedLabels_def buildApplicationPodLabels_lookup PUBLIC_APPLICATION_LABEL_def)
  show "path (buildDeploymentManifest i) [''spec'', ''template'', ''metadata'', ''labels''] =
         jsonOfStrings (dmLabels i)"
    by (simp add: buildDeploymentManifest_def Let_def)
  have "distinct (keys (buildManagedLabels ws' app' d'))" by (simp add: buildManagedLabels_def)
  then have "distinct (keys (dmLabels i))"
    unfolding assms(1) buildApplicationPodLabels_def by (auto intro: distinct_setEntry)
  then have "labelsSatisfy (jsonOfStrings (dmLabels i)) podLabs"
    unfolding labelsSatisfy_entries assms(2) by auto
  then show "selectorHolds (path (buildDeploymentManifest i) [''spec'', ''selector'']) podLabs"
    by (simp add: buildDeploymentManifest_def selectorHolds_def Let_def)
qed

text \<open>A deployment input for the witnesses: one published deployment without config files.\<close>

definition sampleDeploymentInput :: deployment_input where
  "sampleDeploymentInput =
     \<lparr> dmName = ''web-0f1e2d3c'', dmImage = ''nginx'', dmPort = 80, dmReplicas = 2,
       dmLabels = buildApplicationPodLabels (buildManagedLabels ''w1'' ''a1'' ''d1'') True,
       dmConfigMapName = Some ''web-0f1e2d3c-env'', dmSecretName = None,
       dmConfigFileConfigMapName = None, dmSecretFileSecretName = None,
       dmConfigFileVolume = None, dmSecretFileVolume = None \<rparr>"

theorem service_selects_own_pods_witness:
  "labelsSatisfy (path (buildServiceManifest ''web-svc'' 80 (buildManagedLabels ''w1'' ''a1'' ''d1''))
      [''spec'', ''selector'']) (dmLabels sampleDeploymentInput)
   \<and> \<not> labelsSatisfy (path (buildServiceManifest ''web-svc'' 80 (buildManagedLabels ''w1'' ''a1'' ''d2''))
      [''spec'', ''selector'']) (dmLabels sampleDeploymentInput)"
proof -
  have l: "dmLabels sampleDeploymentInput =
      buildApplicationPodLabels (buildManagedLabels ''w1'' ''a1'' ''d1'') True"
    by (simp add: sampleDeploymentInput_def)
  show ?thesis
    using service_selects_own_pods [OF l refl, of "''web-svc''" 80 "''w1''" "''a1''" "''d1''"]
      service_selects_own_pods [OF l refl, of "''web-svc''" 80 "''w1''" "''a1''" "''d2''"]
    by simp
qed

text \<open>
  C22. Under the three policies of a tenant namespace, a pod of the namespace accepts traffic from
  exactly two kinds of pods: those of the same namespace, and, when it carries the public label,
  the pods of the shared Gateway in the Gateway's namespace. Everything else is denied.
\<close>

theorem tenant_ingress_isolation:
  assumes "podNamespace dst = ns"
  shows "ingressAllowed (buildTenantNetworkPolicyManifests ns gw gwNs) dst src \<longleftrightarrow>
     podNamespace src = ns
     \<or> (map_of (podLabels dst) PUBLIC_APPLICATION_LABEL = Some ''true''
        \<and> map_of (namespaceLabels src) ''kubernetes.io/metadata.name'' = Some gwNs
        \<and> map_of (podLabels src) ''gateway.networking.k8s.io/gateway-name'' = Some gw)"
proof -
  have opt: "jsonOfOption x = JStr v \<longleftrightarrow> x = Some v" for x v by (cases x) auto
  show ?thesis
    using assms
    by (auto simp: ingressAllowed_def buildTenantNetworkPolicyManifests_def networkPolicy_def
        policyApplies_def policyAdmits_def peerHolds_def selectorHolds_def map_of_jsonOfStrings opt)
qed

theorem tenant_ingress_isolation_witness:
  "\<not> ingressAllowed (buildTenantNetworkPolicyManifests ''rca-w-1'' ''rca-gateway'' ''rca-platform'')
      \<lparr>podNamespace = ''rca-w-1'', namespaceLabels = [],
       podLabels = [(PUBLIC_APPLICATION_LABEL, ''true'')]\<rparr>
      \<lparr>podNamespace = ''rca-w-2'', namespaceLabels = [(''kubernetes.io/metadata.name'', ''rca-w-2'')],
       podLabels = [(''gateway.networking.k8s.io/gateway-name'', ''rca-gateway'')]\<rparr>"
  by (subst tenant_ingress_isolation) simp_all

text \<open>
  The volumes of a Deployment manifest and the mounts of its container correspond one to one
  and in order by name, every mount is read-only, and the environment comes from exactly the
  ConfigMap and Secret whose names were given: no setting's value is in the manifest.
\<close>

theorem deployment_manifest_mounts:
  "map (\<lambda>v. member v ''name'')
       (asItems (path (buildDeploymentManifest i) [''spec'', ''template'', ''spec'', ''volumes''])) =
   map (\<lambda>m. member m ''name'')
       (asItems (path (hd (asItems (path (buildDeploymentManifest i)
          [''spec'', ''template'', ''spec'', ''containers'']))) [''volumeMounts'']))
   \<and> list_all (\<lambda>m. member m ''readOnly'' = JBool True)
       (asItems (path (hd (asItems (path (buildDeploymentManifest i)
          [''spec'', ''template'', ''spec'', ''containers'']))) [''volumeMounts'']))
   \<and> asItems (path (hd (asItems (path (buildDeploymentManifest i)
          [''spec'', ''template'', ''spec'', ''containers'']))) [''envFrom'']) =
       (if truthy (dmConfigMapName i)
        then [JObj [(''configMapRef'', JObj [(''name'', JStr (the (dmConfigMapName i)))])]] else [])
       @ (if truthy (dmSecretName i)
          then [JObj [(''secretRef'', JObj [(''name'', JStr (the (dmSecretName i)))])]] else [])"
  by (simp add: buildDeploymentManifest_def Let_def orUndefined_def mountJson_def
      split: option.split)

lemma splitOn_append_any: "splitOn c (p @ c # s) = splitOn c p @ splitOn c s"
proof (induction p)
  case (Cons x p)
  obtain y ys where "splitOn c p = y # ys" by (meson splitOn_not_Nil list.exhaust)
  with Cons show ?case by simp
qed simp

text \<open>
  The build context of a build request is not confined to its place in the build script: for
  every command line there is a build context, the directory \<open>x\<close> followed by that line, with
  which the script of the privileged build container has the command as a line of its own.
\<close>

theorem build_context_injects_commands:
  assumes "CHR 0x0A \<notin> set cmd"
  shows "cmd \<in> set (splitOn CHR 0x0A
      (buildctlScript (''x'' @ newline @ cmd @ newline @ ''x'') dockerfilePath clusterImage))"
proof -
  let ?ctx = "''x'' @ newline @ cmd @ newline @ ''x''"
  have trim: "trimPath ?ctx = ?ctx"
    by (simp add: trimPath_def stripEnds_def newline_def)
  have script: "buildctlScript ?ctx dockerfilePath clusterImage =
      (''set -eu'' @ newline @ ''buildctl-daemonless.sh build --frontend dockerfile.v0 ''
        @ ''--local context=/workspace/repo/x'') @ CHR 0x0A # cmd @ CHR 0x0A # ''x '' @
      joinWith '' ''
        [''--local dockerfile=/workspace/repo/'' @ trimPath (getDirectoryName dockerfilePath),
         ''--opt filename='' @ getBaseName dockerfilePath,
         ''--output type=image,name='' @ clusterImage @ '',push=true,registry.insecure=true'']"
    unfolding buildctlScript_def trim by (simp add: newline_def)
  show ?thesis
    unfolding script splitOn_append_any [of _ _ "cmd @ _"] splitOn_append [OF assms]
    by (simp del: splitOn.simps)
qed

theorem build_context_injects_commands_witness:
  "''id'' \<in> set (splitOn CHR 0x0A
      (buildctlScript (''x'' @ newline @ ''id'' @ newline @ ''x'') ''Dockerfile'' ''r:5000/app:1''))"
  by (rule build_context_injects_commands) simp

end
