(* ===== verification/DataModel.thy ===== *)
theory DataModel
  imports Json
begin

text \<open>
  The persistent data of the service, one record per model of database/prisma/schema.prisma,
  and the state of the world the services run in: the database tables, the tenant context of
  the current asynchronous call, the Kubernetes cluster (an abstract state, type \<open>'c\<close>), the
  clock, and the source of fresh ids and tokens. A table is the list of its rows in insertion
  order. The \<open>updatedAt\<close> columns, which no code reads for a decision, are left out.
\<close>

section \<open>Enumerations\<close>

datatype app_source = SourceImage | SourceGit
datatype deployment_status = Creating | Running | Failed | Stopped | Deleted
datatype build_status = BuildPending | BuildRunning | BuildSucceeded | BuildFailed | BuildSkipped
datatype build_strategy = Dockerfile | Buildpack
datatype config_type = ConfigEnv | ConfigSecret | ConfigFile
datatype incident_status = IncidentOpen | IncidentResolved
datatype severity = Info | Warning | Critical
datatype source = Manual | Automatic
datatype rca_status = RcaPending | RcaRunning | RcaCompleted | RcaFailed
datatype workspace_status = WorkspaceActive | WorkspaceSuspended | WorkspaceDeleted

fun statusName :: "deployment_status \<Rightarrow> string" where
  "statusName Creating = ''creating''"
| "statusName Running = ''running''"
| "statusName Failed = ''failed''"
| "statusName Stopped = ''stopped''"
| "statusName Deleted = ''deleted''"

lemma statusName_inj [simp]: "statusName s = statusName t \<longleftrightarrow> s = t"
  by (cases s; cases t) simp_all

fun sourceName :: "source \<Rightarrow> string" where
  "sourceName Manual = ''manual''"
| "sourceName Automatic = ''automatic''"

text \<open>Severities are ordered as the schema lists them.\<close>

instantiation severity :: linorder
begin

fun rank_severity :: "severity \<Rightarrow> nat" where
  "rank_severity Info = 0"
| "rank_severity Warning = 1"
| "rank_severity Critical = 2"

definition less_eq_severity :: "severity \<Rightarrow> severity \<Rightarrow> bool" where
  "less_eq_severity a b \<longleftrightarrow> rank_severity a \<le> rank_severity b"

definition less_severity :: "severity \<Rightarrow> severity \<Rightarrow> bool" where
  "less_severity a b \<longleftrightarrow> rank_severity a < rank_severity b"

instance
proof
  fix x y z :: severity
  show "x < y \<longleftrightarrow> x \<le> y \<and> \<not> y \<le> x"
    by (auto simp: less_severity_def less_eq_severity_def)
  show "x \<le> x" by (simp add: less_eq_severity_def)
  show "x \<le> y \<Longrightarrow> y \<le> z \<Longrightarrow> x \<le> z" by (simp add: less_eq_severity_def)
  show "x \<le> y \<Longrightarrow> y \<le> x \<Longrightarrow> x = y"
    by (cases x; cases y) (simp_all add: less_eq_severity_def)
  show "x \<le> y \<or> y \<le> x" by (auto simp: less_eq_severity_def)
qed

end

section \<open>Rows\<close>

record workspace =
  ws_id :: string
  ws_organizationId :: string \<comment> \<open>asgardeoOrganizationId\<close>
  ws_displayName :: string
  ws_status :: workspace_status
  ws_namespace :: string \<comment> \<open>kubernetesNamespace\<close>

record identity_user =
  u_id :: string
  u_subject :: string
  u_email :: "string option"
  u_displayName :: "string option"

record membership =
  m_workspaceId :: string
  m_userId :: string
  m_roles :: "string list"
  m_scopes :: "string list"
  m_lastSeenAt :: instant

record login_attempt =
  la_stateHash :: string
  la_nonce :: string
  la_codeVerifierEncrypted :: string
  la_returnTo :: "string option"
  la_expiresAt :: instant

record auth_session =
  s_idHash :: string
  s_userId :: string
  s_workspaceId :: string
  s_organizationId :: string
  s_roles :: "string list"
  s_scopes :: "string list"
  s_csrfToken :: string
  s_accessTokenEncrypted :: "string option"
  s_refreshTokenEncrypted :: "string option"
  s_idTokenEncrypted :: "string option"
  s_accessTokenExpiresAt :: "instant option"
  s_idleExpiresAt :: instant
  s_absoluteExpiresAt :: instant
  s_lastSeenAt :: instant

record audit_event =
  ae_actorUserId :: "string option"
  ae_workspaceId :: "string option"
  ae_action :: string
  ae_resourceType :: "string option"
  ae_resourceId :: "string option"
  ae_outcome :: string
  ae_metadata :: json

record app =
  a_id :: string
  a_workspaceId :: string
  a_name :: string
  a_displayName :: string
  a_sourceType :: app_source
  a_image :: "string option"
  a_defaultPort :: "int option"
  a_repoUrl :: "string option"
  a_branch :: "string option"
  a_buildContext :: "string option"
  a_dockerfilePath :: "string option"
  a_createdAt :: instant

record build =
  b_id :: string
  b_workspaceId :: string
  b_appId :: string
  b_status :: build_status
  b_strategy :: build_strategy
  b_repoUrl :: string
  b_branch :: string
  b_buildContext :: string
  b_dockerfilePath :: "string option"
  b_image :: "string option"
  b_kubernetesJob :: "string option"
  b_errorMessage :: "string option"
  b_createdAt :: instant

record deployment =
  d_id :: string
  d_workspaceId :: string
  d_appId :: string
  d_buildId :: "string option"
  d_namespace :: string
  d_image :: string
  d_replicas :: int
  d_desiredReplicas :: int
  d_lastNonZeroReplicas :: "int option"
  d_port :: int
  d_status :: deployment_status
  d_kubernetesDeployment :: string
  d_kubernetesService :: string
  d_kubernetesConfigMap :: "string option"
  d_kubernetesFileConfigMap :: "string option"
  d_kubernetesSecret :: "string option"
  d_kubernetesSecretFiles :: "string option"
  d_publicHostname :: "string option"
  d_stoppedAt :: "instant option"
  d_lastRestartedAt :: "instant option"
  d_deletedAt :: "instant option"
  d_createdAt :: instant

record runtime_config =
  rc_workspaceId :: string
  rc_deploymentId :: string
  rc_type :: config_type
  rc_data :: json

record health_sample =
  h_id :: string
  h_workspaceId :: string
  h_deploymentId :: string
  h_status :: string
  h_desiredReplicas :: int
  h_readyReplicas :: int
  h_availableReplicas :: int
  h_podCount :: int
  h_warningEventCount :: int
  h_restartCount :: int
  h_data :: json
  h_collectedAt :: instant

record incident =
  i_id :: string
  i_workspaceId :: string
  i_appId :: string
  i_deploymentId :: string
  i_status :: incident_status
  i_severity :: severity
  i_source :: source
  i_ruleKey :: "string option"
  i_title :: string
  i_summary :: "string option"
  i_metadata :: json
  i_latestHealthSampleId :: "string option"
  i_openedAt :: instant
  i_resolvedAt :: "instant option"

record rca_run =
  r_id :: string
  r_workspaceId :: string
  r_incidentId :: string
  r_deploymentId :: string
  r_status :: rca_status
  r_source :: source
  r_startedAt :: "instant option"
  r_createdAt :: instant

record rca_run_event =
  e_id :: string
  e_workspaceId :: string
  e_rcaRunId :: string
  e_type :: string
  e_data :: json

record evidence_snapshot =
  es_id :: string
  es_workspaceId :: string
  es_deploymentId :: string
  es_status :: string
  es_summary :: "string option"
  es_data :: json
  es_createdAt :: instant

section \<open>The tenant context and the world\<close>

text \<open>database/tenant-context.service.ts: the value of the \<open>AsyncLocalStorage\<close>.\<close>

record tenant_context =
  c_workspaceId :: string
  c_userId :: "string option"
  c_organizationId :: "string option"
  c_roles :: "string list option"
  c_scopes :: "string list option"
  c_transactionActive :: bool

text \<open>What the OIDC client keeps of the issuer's metadata.\<close>

record oidc_metadata =
  om_tokenEndpoint :: "string option"
  om_jwksUri :: "string option"

record 'c world =
  workspaces :: "workspace list"
  users :: "identity_user list"
  memberships :: "membership list"
  attempts :: "login_attempt list"
  sessions :: "auth_session list"
  audits :: "audit_event list"
  apps :: "app list"
  builds :: "build list"
  deployments :: "deployment list"
  runtimeConfigs :: "runtime_config list"
  samples :: "health_sample list"
  incidents :: "incident list"
  runs :: "rca_run list"
  runEvents :: "rca_run_event list"
  snapshots :: "evidence_snapshot list"
  tenant :: "tenant_context option"
  cluster :: 'c
  collecting :: bool \<comment> \<open>ObservabilityService.isCollecting\<close>
  detecting :: bool \<comment> \<open>IncidentsService.isDetecting\<close>
  oidcClient :: "(exn + oidc_metadata) option" \<comment> \<open>OidcService.clientPromise, settled\<close>
  clock :: "nat \<Rightarrow> instant"
  ticks :: nat
  entropy :: "nat \<Rightarrow> string"
  drawn :: nat

text \<open>\<open>Date.now()\<close> and the database's \<open>now()\<close>: every reading takes the next value of the clock.\<close>

definition now :: "('c world, instant) io" where
  "now = (\<lambda>w. (Inr (clock w (ticks w)), w\<lparr>ticks := Suc (ticks w)\<rparr>))"

text \<open>
  \<open>randomUUID()\<close>, \<open>randomToken()\<close> and the schema's \<open>cuid()\<close>: the next value of a source of
  fresh strings.
\<close>

definition fresh :: "('c world, string) io" where
  "fresh = (\<lambda>w. (Inr (entropy w (drawn w)), w\<lparr>drawn := Suc (drawn w)\<rparr>))"

lemma now_run [io_simps]: "now w = (Inr (clock w (ticks w)), w\<lparr>ticks := Suc (ticks w)\<rparr>)"
  by (simp add: now_def)

lemma fresh_run [io_simps]: "fresh w = (Inr (entropy w (drawn w)), w\<lparr>drawn := Suc (drawn w)\<rparr>)"
  by (simp add: fresh_def)

text \<open>A world with empty tables, the base of the witnesses.\<close>

definition emptyWorld :: "'c \<Rightarrow> 'c world" where
  "emptyWorld c =
     \<lparr> workspaces = [], users = [], memberships = [], attempts = [], sessions = [], audits = [],
       apps = [], builds = [], deployments = [], runtimeConfigs = [], samples = [], incidents = [],
       runs = [], runEvents = [], snapshots = [], tenant = None, cluster = c, collecting = False,
       detecting = False, oidcClient = None,
       clock = (\<lambda>n. 1000000 + int n), ticks = 0,
       entropy = (\<lambda>n. ''id-'' @ showNat n), drawn = 0 \<rparr>"

end
