(* ===== verification/Tenancy.thy ===== *)
theory Tenancy
  imports DataModel
begin

text \<open>
  Tenant context and database access: database/tenant-context.service.ts,
  database/prisma.service.ts and the row-level-security policies of the
  auth_tenancy_rls migration. Prisma's calls are operations on the tables: a query on a tenant
  model sees and changes only the rows of the workspace that \<open>app.workspace_id\<close> is set to.
  Failures of the database connection are not modelled; constraint violations are.
\<close>

section \<open>Tenant context\<close>

definition currentContext :: "('c world, tenant_context option) io" where
  "currentContext = readM tenant"

definition runInContext :: "tenant_context \<Rightarrow> ('c world, 'a) io \<Rightarrow> ('c world, 'a) io" where
  "runInContext ctx callback =
     (\<lambda>w. case callback (w\<lparr>tenant := Some ctx\<rparr>) of (r, w') \<Rightarrow> (r, w'\<lparr>tenant := tenant w\<rparr>))"

definition requireWorkspaceId :: "('c world, string) io" where
  "requireWorkspaceId =
     (\<lambda>w. case tenant w of
        Some c \<Rightarrow> (if c_workspaceId c = []
                   then (Inl (Unauthorized ''A workspace context is required''), w)
                   else (Inr (c_workspaceId c), w))
      | None \<Rightarrow> (Inl (Unauthorized ''A workspace context is required''), w))"

text \<open>
  The workspace a query runs under. The query extension sets \<open>app.workspace_id\<close> to the
  context's workspace when there is one; within \<open>withTenantTransaction\<close> the transaction has set
  it to the same workspace already. Without a workspace the setting is absent, and the policies
  admit no row.
\<close>

definition databaseWorkspace :: "'c world \<Rightarrow> string option" where
  "databaseWorkspace w =
     (case tenant w of
        None \<Rightarrow> None
      | Some c \<Rightarrow> (if c_workspaceId c = [] then None else Some (c_workspaceId c)))"

section \<open>Tables\<close>

text \<open>
  What the schema says of a model: where its rows are, the workspace column, whether it is one of
  \<open>TENANT_MODELS\<close>, which pairs of rows a unique index forbids, and whether the rows a row's
  (composite) foreign keys refer to exist.
\<close>

record ('c, 'r) table =
  rowsOf :: "'c world \<Rightarrow> 'r list"
  setRows :: "'r list \<Rightarrow> 'c world \<Rightarrow> 'c world"
  workspaceOf :: "'r \<Rightarrow> string"
  tenantModel :: bool
  uniqueClash :: "'r \<Rightarrow> 'r \<Rightarrow> bool"
  parentsExist :: "'c world \<Rightarrow> 'r \<Rightarrow> bool"

definition visible :: "('c, 'r) table \<Rightarrow> 'c world \<Rightarrow> 'r \<Rightarrow> bool" where
  "visible t w r \<longleftrightarrow> (tenantModel t \<longrightarrow> databaseWorkspace w = Some (workspaceOf t r))"

definition findMany :: "('c, 'r) table \<Rightarrow> ('r \<Rightarrow> bool) \<Rightarrow> ('c world, 'r list) io" where
  "findMany t p = (\<lambda>w. (Inr (filter (\<lambda>r. visible t w r \<and> p r) (rowsOf t w)), w))"

definition findFirst :: "('c, 'r) table \<Rightarrow> ('r \<Rightarrow> bool) \<Rightarrow> ('c world, 'r option) io" where
  "findFirst t p = (\<lambda>w. (Inr (find (\<lambda>r. visible t w r \<and> p r) (rowsOf t w)), w))"

text \<open>
  \<open>orderBy: { c: "desc" }\<close>. Rows with equal keys keep the order of the table; the database
  promises no order for them.
\<close>

definition newestFirst :: "('r \<Rightarrow> instant) \<Rightarrow> 'r list \<Rightarrow> 'r list" where
  "newestFirst key rs = sort_key (\<lambda>r. - key r) rs"

text \<open>
  \<open>create\<close>: the workspace column defaults to the setting, so a tenant row cannot be created
  without one; then the policy's check, the unique indexes and the foreign keys.
\<close>

definition createRow :: "('c, 'r) table \<Rightarrow> (string \<Rightarrow> 'r) \<Rightarrow> ('c world, 'r) io" where
  "createRow t mk =
     (\<lambda>w. case (if tenantModel t then databaseWorkspace w else Some []) of
        None \<Rightarrow> (Inl (PrismaError ''unrecognized configuration parameter app.workspace_id''), w)
      | Some ws \<Rightarrow>
          (let r = mk ws in
           if \<not> visible t w r then (Inl (PrismaError ''row violates row-level security policy''), w)
           else if list_ex (\<lambda>r'. uniqueClash t r' r) (rowsOf t w) then (Inl (PrismaError ''P2002''), w)
           else if \<not> parentsExist t w r then (Inl (PrismaError ''P2003''), w)
           else (Inr r, setRows t (rowsOf t w @ [r]) w)))"

text \<open>\<open>update\<close> by a unique key: P2025 when no visible row has it.\<close>

definition updateRow :: "('c, 'r) table \<Rightarrow> ('r \<Rightarrow> bool) \<Rightarrow> ('r \<Rightarrow> 'r) \<Rightarrow> ('c world, 'r) io" where
  "updateRow t p f =
     (\<lambda>w. case find (\<lambda>r. visible t w r \<and> p r) (rowsOf t w) of
        None \<Rightarrow> (Inl (PrismaError ''P2025''), w)
      | Some r \<Rightarrow>
          (if \<not> visible t w (f r) then (Inl (PrismaError ''row violates row-level security policy''), w)
           else if list_ex (\<lambda>r'. \<not> (visible t w r' \<and> p r') \<and> uniqueClash t r' (f r)) (rowsOf t w)
           then (Inl (PrismaError ''P2002''), w)
           else (Inr (f r),
                 setRows t (map (\<lambda>r'. if visible t w r' \<and> p r' then f r' else r') (rowsOf t w)) w)))"

definition deleteMany :: "('c, 'r) table \<Rightarrow> ('r \<Rightarrow> bool) \<Rightarrow> ('c world, nat) io" where
  "deleteMany t p =
     (\<lambda>w. (Inr (length (filter (\<lambda>r. visible t w r \<and> p r) (rowsOf t w))),
           setRows t (filter (\<lambda>r. \<not> (visible t w r \<and> p r)) (rowsOf t w)) w))"

text \<open>\<open>delete\<close> of one row: P2025 when there is none.\<close>

definition deleteRow :: "('c, 'r) table \<Rightarrow> ('r \<Rightarrow> bool) \<Rightarrow> ('c world, unit) io" where
  "deleteRow t p =
     (\<lambda>w. if list_ex (\<lambda>r. visible t w r \<and> p r) (rowsOf t w)
           then (Inr (), setRows t (filter (\<lambda>r. \<not> (visible t w r \<and> p r)) (rowsOf t w)) w)
           else (Inl (PrismaError ''P2025''), w))"

subsection \<open>The models\<close>

definition workspaceTable :: "('c, workspace) table" where
  "workspaceTable =
     \<lparr> rowsOf = workspaces, setRows = (\<lambda>rs w. w\<lparr>workspaces := rs\<rparr>), workspaceOf = ws_id,
       tenantModel = False,
       uniqueClash = (\<lambda>r r'. ws_id r = ws_id r' \<or> ws_organizationId r = ws_organizationId r'
                             \<or> ws_namespace r = ws_namespace r'),
       parentsExist = (\<lambda>_ _. True) \<rparr>"

definition userTable :: "('c, identity_user) table" where
  "userTable =
     \<lparr> rowsOf = users, setRows = (\<lambda>rs w. w\<lparr>users := rs\<rparr>), workspaceOf = (\<lambda>_. []),
       tenantModel = False,
       uniqueClash = (\<lambda>r r'. u_id r = u_id r' \<or> u_subject r = u_subject r'),
       parentsExist = (\<lambda>_ _. True) \<rparr>"

definition membershipTable :: "('c, membership) table" where
  "membershipTable =
     \<lparr> rowsOf = memberships, setRows = (\<lambda>rs w. w\<lparr>memberships := rs\<rparr>), workspaceOf = m_workspaceId,
       tenantModel = False,
       uniqueClash = (\<lambda>r r'. m_workspaceId r = m_workspaceId r' \<and> m_userId r = m_userId r'),
       parentsExist = (\<lambda>w r. list_ex (\<lambda>x. ws_id x = m_workspaceId r) (workspaces w)
                              \<and> list_ex (\<lambda>u. u_id u = m_userId r) (users w)) \<rparr>"

definition attemptTable :: "('c, login_attempt) table" where
  "attemptTable =
     \<lparr> rowsOf = attempts, setRows = (\<lambda>rs w. w\<lparr>attempts := rs\<rparr>), workspaceOf = (\<lambda>_. []),
       tenantModel = False,
       uniqueClash = (\<lambda>r r'. la_stateHash r = la_stateHash r'),
       parentsExist = (\<lambda>_ _. True) \<rparr>"

definition sessionTable :: "('c, auth_session) table" where
  "sessionTable =
     \<lparr> rowsOf = sessions, setRows = (\<lambda>rs w. w\<lparr>sessions := rs\<rparr>), workspaceOf = s_workspaceId,
       tenantModel = False,
       uniqueClash = (\<lambda>r r'. s_idHash r = s_idHash r'),
       parentsExist = (\<lambda>w r. list_ex (\<lambda>x. ws_id x = s_workspaceId r) (workspaces w)
                              \<and> list_ex (\<lambda>u. u_id u = s_userId r) (users w)) \<rparr>"

definition auditTable :: "('c, audit_event) table" where
  "auditTable =
     \<lparr> rowsOf = audits, setRows = (\<lambda>rs w. w\<lparr>audits := rs\<rparr>), workspaceOf = (\<lambda>_. []),
       tenantModel = False, uniqueClash = (\<lambda>_ _. False),
       parentsExist = (\<lambda>w r.
          (case ae_workspaceId r of None \<Rightarrow> True | Some i \<Rightarrow> list_ex (\<lambda>x. ws_id x = i) (workspaces w))
          \<and> (case ae_actorUserId r of None \<Rightarrow> True | Some i \<Rightarrow> list_ex (\<lambda>u. u_id u = i) (users w))) \<rparr>"

definition appTable :: "('c, app) table" where
  "appTable =
     \<lparr> rowsOf = apps, setRows = (\<lambda>rs w. w\<lparr>apps := rs\<rparr>), workspaceOf = a_workspaceId,
       tenantModel = True,
       uniqueClash = (\<lambda>r r'. a_id r = a_id r'
                             \<or> a_workspaceId r = a_workspaceId r' \<and> a_name r = a_name r'),
       parentsExist = (\<lambda>w r. list_ex (\<lambda>x. ws_id x = a_workspaceId r) (workspaces w)) \<rparr>"

definition buildTable :: "('c, build) table" where
  "buildTable =
     \<lparr> rowsOf = builds, setRows = (\<lambda>rs w. w\<lparr>builds := rs\<rparr>), workspaceOf = b_workspaceId,
       tenantModel = True, uniqueClash = (\<lambda>r r'. b_id r = b_id r'),
       parentsExist = (\<lambda>w r. list_ex (\<lambda>a. a_id a = b_appId r \<and> a_workspaceId a = b_workspaceId r)
                                (apps w)) \<rparr>"

definition deploymentTable :: "('c, deployment) table" where
  "deploymentTable =
     \<lparr> rowsOf = deployments, setRows = (\<lambda>rs w. w\<lparr>deployments := rs\<rparr>), workspaceOf = d_workspaceId,
       tenantModel = True, uniqueClash = (\<lambda>r r'. d_id r = d_id r'),
       parentsExist = (\<lambda>w r.
          list_ex (\<lambda>a. a_id a = d_appId r \<and> a_workspaceId a = d_workspaceId r) (apps w)
          \<and> (case d_buildId r of None \<Rightarrow> True | Some i \<Rightarrow> list_ex (\<lambda>b. b_id b = i) (builds w))) \<rparr>"

definition runtimeConfigTable :: "('c, runtime_config) table" where
  "runtimeConfigTable =
     \<lparr> rowsOf = runtimeConfigs, setRows = (\<lambda>rs w. w\<lparr>runtimeConfigs := rs\<rparr>),
       workspaceOf = rc_workspaceId, tenantModel = True, uniqueClash = (\<lambda>_ _. False),
       parentsExist = (\<lambda>w r. list_ex (\<lambda>d. d_id d = rc_deploymentId r
                                \<and> d_workspaceId d = rc_workspaceId r) (deployments w)) \<rparr>"

definition sampleTable :: "('c, health_sample) table" where
  "sampleTable =
     \<lparr> rowsOf = samples, setRows = (\<lambda>rs w. w\<lparr>samples := rs\<rparr>), workspaceOf = h_workspaceId,
       tenantModel = True, uniqueClash = (\<lambda>r r'. h_id r = h_id r'),
       parentsExist = (\<lambda>w r. list_ex (\<lambda>d. d_id d = h_deploymentId r
                                \<and> d_workspaceId d = h_workspaceId r) (deployments w)) \<rparr>"

definition incidentTable :: "('c, incident) table" where
  "incidentTable =
     \<lparr> rowsOf = incidents, setRows = (\<lambda>rs w. w\<lparr>incidents := rs\<rparr>), workspaceOf = i_workspaceId,
       tenantModel = True, uniqueClash = (\<lambda>r r'. i_id r = i_id r'),
       parentsExist = (\<lambda>w r.
          list_ex (\<lambda>a. a_id a = i_appId r \<and> a_workspaceId a = i_workspaceId r) (apps w)
          \<and> list_ex (\<lambda>d. d_id d = i_deploymentId r \<and> d_workspaceId d = i_workspaceId r)
              (deployments w)
          \<and> (case i_latestHealthSampleId r of None \<Rightarrow> True
             | Some h \<Rightarrow> list_ex (\<lambda>s. h_id s = h) (samples w))) \<rparr>"

definition runTable :: "('c, rca_run) table" where
  "runTable =
     \<lparr> rowsOf = runs, setRows = (\<lambda>rs w. w\<lparr>runs := rs\<rparr>), workspaceOf = r_workspaceId,
       tenantModel = True, uniqueClash = (\<lambda>r r'. r_id r = r_id r'),
       parentsExist = (\<lambda>w r.
          list_ex (\<lambda>i. i_id i = r_incidentId r \<and> i_workspaceId i = r_workspaceId r) (incidents w)
          \<and> list_ex (\<lambda>d. d_id d = r_deploymentId r \<and> d_workspaceId d = r_workspaceId r)
              (deployments w)) \<rparr>"

definition runEventTable :: "('c, rca_run_event) table" where
  "runEventTable =
     \<lparr> rowsOf = runEvents, setRows = (\<lambda>rs w. w\<lparr>runEvents := rs\<rparr>), workspaceOf = e_workspaceId,
       tenantModel = True, uniqueClash = (\<lambda>r r'. e_id r = e_id r'),
       parentsExist = (\<lambda>w r. list_ex (\<lambda>x. r_id x = e_rcaRunId r
                                \<and> r_workspaceId x = e_workspaceId r) (runs w)) \<rparr>"

definition snapshotTable :: "('c, evidence_snapshot) table" where
  "snapshotTable =
     \<lparr> rowsOf = snapshots, setRows = (\<lambda>rs w. w\<lparr>snapshots := rs\<rparr>), workspaceOf = es_workspaceId,
       tenantModel = True, uniqueClash = (\<lambda>r r'. es_id r = es_id r'),
       parentsExist = (\<lambda>w r. list_ex (\<lambda>d. d_id d = es_deploymentId r
                                \<and> d_workspaceId d = es_workspaceId r) (deployments w)) \<rparr>"

lemmas table_defs =
  workspaceTable_def userTable_def membershipTable_def attemptTable_def sessionTable_def
  auditTable_def appTable_def buildTable_def deploymentTable_def runtimeConfigTable_def
  sampleTable_def incidentTable_def runTable_def runEventTable_def snapshotTable_def

subsection \<open>Transactions\<close>

text \<open>An exception inside a transaction undoes its writes to the tables, and nothing else.\<close>

definition restoreTables :: "'c world \<Rightarrow> 'c world \<Rightarrow> 'c world" where
  "restoreTables w w' =
     w'\<lparr> workspaces := workspaces w, users := users w, memberships := memberships w,
         attempts := attempts w, sessions := sessions w, audits := audits w, apps := apps w,
         builds := builds w, deployments := deployments w, runtimeConfigs := runtimeConfigs w,
         samples := samples w, incidents := incidents w, runs := runs w, runEvents := runEvents w,
         snapshots := snapshots w \<rparr>"

definition transaction :: "('c world, 'a) io \<Rightarrow> ('c world, 'a) io" where
  "transaction m =
     (\<lambda>w. case m w of (Inl e, w') \<Rightarrow> (Inl e, restoreTables w w') | (Inr x, w') \<Rightarrow> (Inr x, w'))"

definition withTenantTransaction :: "('c world, 'a) io \<Rightarrow> ('c world, 'a) io" where
  "withTenantTransaction callback =
     bindM currentContext (\<lambda>current.
     bindM requireWorkspaceId (\<lambda>workspaceId.
     transaction
       (runInContext
          (case current of
             Some c \<Rightarrow> c\<lparr>c_workspaceId := workspaceId, c_transactionActive := True\<rparr>
           | None \<Rightarrow> \<lparr> c_workspaceId = workspaceId, c_userId = None, c_organizationId = None,
                       c_roles = None, c_scopes = None, c_transactionActive = True \<rparr>)
          callback)))"

lemma transaction_run [io_simps]:
  "transaction m w =
     (case m w of (Inl e, w') \<Rightarrow> (Inl e, restoreTables w w') | (Inr x, w') \<Rightarrow> (Inr x, w'))"
  by (simp add: transaction_def)

lemma runInContext_run [io_simps]:
  "runInContext ctx m w =
     (case m (w\<lparr>tenant := Some ctx\<rparr>) of (r, w') \<Rightarrow> (r, w'\<lparr>tenant := tenant w\<rparr>))"
  by (simp add: runInContext_def)

end
