(* ===== verification/Isolation.thy ===== *)
theory Isolation
  imports Tenancy
begin

text \<open>
  Tenant isolation as a frame property: a program run in the context of one workspace leaves the
  rows of every other workspace, and the context itself, as they were. The table contract is a
  locale, interpreted on every table of the model; its lemmas feed the collection
  \<open>keeps_intros\<close>, with which a service operation is proved isolated by splitting its program.
\<close>

section \<open>The frame\<close>

definition hiddenRows :: "('r \<Rightarrow> string) \<Rightarrow> string option \<Rightarrow> 'r list \<Rightarrow> 'r list" where
  "hiddenRows wsOf ws rs = filter (\<lambda>r. ws \<noteq> Some (wsOf r)) rs"

definition tenantFrame :: "'c world \<Rightarrow> 'c world \<Rightarrow> bool" where
  "tenantFrame w w' \<longleftrightarrow>
     tenant w' = tenant w
     \<and> hiddenRows a_workspaceId (databaseWorkspace w) (apps w')
         = hiddenRows a_workspaceId (databaseWorkspace w) (apps w)
     \<and> hiddenRows b_workspaceId (databaseWorkspace w) (builds w')
         = hiddenRows b_workspaceId (databaseWorkspace w) (builds w)
     \<and> hiddenRows d_workspaceId (databaseWorkspace w) (deployments w')
         = hiddenRows d_workspaceId (databaseWorkspace w) (deployments w)
     \<and> hiddenRows rc_workspaceId (databaseWorkspace w) (runtimeConfigs w')
         = hiddenRows rc_workspaceId (databaseWorkspace w) (runtimeConfigs w)
     \<and> hiddenRows h_workspaceId (databaseWorkspace w) (samples w')
         = hiddenRows h_workspaceId (databaseWorkspace w) (samples w)
     \<and> hiddenRows i_workspaceId (databaseWorkspace w) (incidents w')
         = hiddenRows i_workspaceId (databaseWorkspace w) (incidents w)
     \<and> hiddenRows r_workspaceId (databaseWorkspace w) (runs w')
         = hiddenRows r_workspaceId (databaseWorkspace w) (runs w)
     \<and> hiddenRows e_workspaceId (databaseWorkspace w) (runEvents w')
         = hiddenRows e_workspaceId (databaseWorkspace w) (runEvents w)
     \<and> hiddenRows es_workspaceId (databaseWorkspace w) (snapshots w')
         = hiddenRows es_workspaceId (databaseWorkspace w) (snapshots w)"

lemma databaseWorkspace_cong: "tenant w' = tenant w \<Longrightarrow> databaseWorkspace w' = databaseWorkspace w"
  by (simp add: databaseWorkspace_def)

lemma databaseWorkspace_update [simp]:
  "databaseWorkspace (workspaces_update f w) = databaseWorkspace w"
  "databaseWorkspace (users_update f2 w) = databaseWorkspace w"
  "databaseWorkspace (memberships_update f3 w) = databaseWorkspace w"
  "databaseWorkspace (attempts_update f4 w) = databaseWorkspace w"
  "databaseWorkspace (sessions_update f5 w) = databaseWorkspace w"
  "databaseWorkspace (audits_update f6 w) = databaseWorkspace w"
  "databaseWorkspace (apps_update f7 w) = databaseWorkspace w"
  "databaseWorkspace (builds_update f8 w) = databaseWorkspace w"
  "databaseWorkspace (deployments_update f9 w) = databaseWorkspace w"
  "databaseWorkspace (runtimeConfigs_update f10 w) = databaseWorkspace w"
  "databaseWorkspace (samples_update f11 w) = databaseWorkspace w"
  "databaseWorkspace (incidents_update f12 w) = databaseWorkspace w"
  "databaseWorkspace (runs_update f13 w) = databaseWorkspace w"
  "databaseWorkspace (runEvents_update f14 w) = databaseWorkspace w"
  "databaseWorkspace (snapshots_update f15 w) = databaseWorkspace w"
  "databaseWorkspace (cluster_update f16 w) = databaseWorkspace w"
  "databaseWorkspace (ticks_update f17 w) = databaseWorkspace w"
  "databaseWorkspace (drawn_update f18 w) = databaseWorkspace w"
  "databaseWorkspace (collecting_update f19 w) = databaseWorkspace w"
  "databaseWorkspace (detecting_update f20 w) = databaseWorkspace w"
  "databaseWorkspace (oidcClient_update f21 w) = databaseWorkspace w"
  by (simp_all add: databaseWorkspace_def)

lemma tenantFrame_refl [simp]: "tenantFrame w w"
  by (simp add: tenantFrame_def)

lemma tenantFrame_tenant: "tenantFrame w w' \<Longrightarrow> tenant w' = tenant w"
  by (simp add: tenantFrame_def)

lemma tenantFrame_trans: "tenantFrame w w' \<Longrightarrow> tenantFrame w' w'' \<Longrightarrow> tenantFrame w w''"
  using databaseWorkspace_cong [of w' w] by (simp add: tenantFrame_def)

lemma preorder_tenantFrame [keeps_intros, simp]: "preorder_rel tenantFrame"
  unfolding preorder_rel_def
proof (rule conjI)
  show "reflp (tenantFrame :: 'a world \<Rightarrow> _)" by (rule reflpI) simp
  show "transp (tenantFrame :: 'a world \<Rightarrow> _)" by (rule transpI) (rule tenantFrame_trans)
qed

section \<open>The table contract\<close>

text \<open>
  A table of a tenant model: its setter stores what it is given, and a write that leaves the
  hidden rows of this table alone is framed. A table of a global model: its setter touches no
  tenant table.
\<close>

locale lawful_table =
  fixes t :: "('c, 'r) table"
  assumes rows_setRows: "rowsOf t (setRows t rs w) = rs"
    and tenant_setRows: "tenant (setRows t rs w) = tenant w"
begin

lemma visible_setRows: "visible t (setRows t rs w) r = visible t w r"
  using databaseWorkspace_cong [OF tenant_setRows] by (simp add: visible_def)

lemma findMany_visible: "findMany t p w = (Inr rs, w') \<Longrightarrow> r \<in> set rs \<Longrightarrow> visible t w r \<and> p r"
  by (auto simp: findMany_def)

lemma findFirst_visible: "findFirst t p w = (Inr (Some r), w') \<Longrightarrow> visible t w r \<and> p r \<and> r \<in> set (rowsOf t w)"
  by (auto simp: findFirst_def find_Some_iff)

lemma createRow_stored:
  "createRow t mk w = (Inr r, w') \<Longrightarrow>
   visible t w' r \<and> rowsOf t w' = rowsOf t w @ [r] \<and> tenant w' = tenant w
   \<and> \<not> list_ex (\<lambda>r'. uniqueClash t r' r) (rowsOf t w) \<and> parentsExist t w r"
  by (auto simp: createRow_def Let_def rows_setRows tenant_setRows visible_setRows
      split: option.splits if_splits)

lemma createRow_failed: "createRow t mk w = (Inl e, w') \<Longrightarrow> w' = w"
  by (auto simp: createRow_def Let_def split: option.splits if_splits)

lemma updateRow_stored:
  assumes "updateRow t p f w = (Inr r', w')"
  shows "\<exists>r. visible t w r \<and> p r \<and> r \<in> set (rowsOf t w) \<and> r' = f r
    \<and> rowsOf t w' = map (\<lambda>x. if visible t w x \<and> p x then f x else x) (rowsOf t w)"
proof (cases "find (\<lambda>r. visible t w r \<and> p r) (rowsOf t w)")
  case None
  with assms show ?thesis by (simp add: updateRow_def)
next
  case (Some r)
  then have "visible t w r \<and> p r \<and> r \<in> set (rowsOf t w)" by (auto simp: find_Some_iff)
  with assms Some show ?thesis
    by (auto simp: updateRow_def rows_setRows split: if_splits)
qed

text \<open>Updating the row just appended, when its key is new.\<close>

lemma updateRow_last:
  assumes "rowsOf t w = rs @ [r]" "visible t w r" "p r" "\<forall>x \<in> set rs. \<not> p x"
    and "visible t w (f r)" "\<forall>x \<in> set rs. \<not> uniqueClash t x (f r)"
  shows "updateRow t p f w = (Inr (f r), setRows t (rs @ [f r]) w)"
proof -
  have none: "find (\<lambda>x. visible t w x \<and> p x) rs = None"
    using assms(4) by (auto simp: find_None_iff)
  have "find (\<lambda>x. visible t w x \<and> p x) (qs @ [r]) = Some r"
    if "\<forall>x \<in> set qs. \<not> p x" for qs
    using that assms(2,3) by (induction qs) auto
  moreover have "map (\<lambda>x. if visible t w x \<and> p x then f x else x) rs = rs"
    using assms(4) by (intro map_idI) auto
  ultimately show ?thesis
    using assms by (auto simp: updateRow_def list_ex_iff)
qed

lemma updateRow_absent:
  "\<not> (\<exists>r \<in> set (rowsOf t w). visible t w r \<and> p r) \<Longrightarrow> updateRow t p f w = (Inl (PrismaError ''P2025''), w)"
proof -
  assume "\<not> (\<exists>r \<in> set (rowsOf t w). visible t w r \<and> p r)"
  then have "find (\<lambda>r. visible t w r \<and> p r) (rowsOf t w) = None" by (auto simp: find_None_iff)
  then show ?thesis by (simp add: updateRow_def)
qed

end

locale tenant_table = lawful_table t for t :: "('c, 'r) table" +
  assumes tenant_model: "tenantModel t"
    and frame_setRows:
      "hiddenRows (workspaceOf t) (databaseWorkspace w) rs
         = hiddenRows (workspaceOf t) (databaseWorkspace w) (rowsOf t w)
       \<Longrightarrow> tenantFrame w (setRows t rs w)"
begin

lemma visible_iff: "visible t w r \<longleftrightarrow> databaseWorkspace w = Some (workspaceOf t r)"
  by (simp add: visible_def tenant_model)

lemma keeps_createRow: "keeps tenantFrame (createRow t mk)"
proof (rule keepsI)
  fix w
  show "tenantFrame w (snd (createRow t mk w))"
    by (auto simp: createRow_def Let_def tenant_model visible_iff hiddenRows_def
        split: option.split intro!: frame_setRows)
qed

lemma filter_map_frame:
  "(\<And>x. x \<in> set xs \<Longrightarrow> if P x then g x = x else \<not> P (g x)) \<Longrightarrow> filter P (map g xs) = filter P xs"
  by (induction xs) (auto split: if_splits)

lemma hidden_map:
  assumes "\<And>x. x \<in> set rs \<Longrightarrow> ws = Some (workspaceOf t x) \<Longrightarrow> q x \<Longrightarrow> ws = Some (workspaceOf t (f x))"
  shows "hiddenRows (workspaceOf t) ws
      (map (\<lambda>x. if ws = Some (workspaceOf t x) \<and> q x then f x else x) rs) = hiddenRows (workspaceOf t) ws rs"
  unfolding hiddenRows_def
proof (rule filter_map_frame)
  fix x assume "x \<in> set rs"
  with assms [of x] show "(if ws \<noteq> Some (workspaceOf t x)
      then (if ws = Some (workspaceOf t x) \<and> q x then f x else x) = x
      else \<not> ws \<noteq> Some (workspaceOf t (if ws = Some (workspaceOf t x) \<and> q x then f x else x)))"
    by (cases "ws = Some (workspaceOf t x)"; cases "q x") simp_all
qed

lemma keeps_updateRow:
  assumes "\<And>r. workspaceOf t (f r) = workspaceOf t r"
  shows "keeps tenantFrame (updateRow t p f)"
proof (rule keepsI)
  fix w
  show "tenantFrame w (snd (updateRow t p f w))"
  proof (cases "snd (updateRow t p f w) = w")
    case False
    then have "snd (updateRow t p f w) =
        setRows t (map (\<lambda>x. if visible t w x \<and> p x then f x else x) (rowsOf t w)) w"
      by (auto simp: updateRow_def split: option.splits if_splits)
    moreover have "hiddenRows (workspaceOf t) (databaseWorkspace w)
        (map (\<lambda>x. if visible t w x \<and> p x then f x else x) (rowsOf t w))
        = hiddenRows (workspaceOf t) (databaseWorkspace w) (rowsOf t w)"
      unfolding visible_iff using hidden_map assms by simp
    ultimately show ?thesis using frame_setRows by simp
  qed simp
qed

lemma keeps_deleteMany: "keeps tenantFrame (deleteMany t p)"
proof (rule keepsI)
  fix w
  show "tenantFrame w (snd (deleteMany t p w))"
    by (auto simp: deleteMany_def visible_iff hiddenRows_def intro!: frame_setRows
        arg_cong [of _ _ "\<lambda>P. filter P (rowsOf t w)"])
qed

lemma findFirst_found:
  assumes "findFirst t p w = (Inr (Some r), w')"
  shows "w' = w" "r \<in> set (rowsOf t w)" "p r" "databaseWorkspace w = Some (workspaceOf t r)"
  using assms by (auto simp: findFirst_def find_Some_iff visible_iff)

lemma findFirst_state: "findFirst t p w = (x, w') \<Longrightarrow> w' = w"
  by (simp add: findFirst_def)

lemma created_in_workspace:
  "createRow t mk w = (Inr r, w') \<Longrightarrow> databaseWorkspace w = Some (workspaceOf t r)"
  using createRow_stored visible_iff databaseWorkspace_cong by metis

lemma createRow_without_workspace:
  "databaseWorkspace w = None \<Longrightarrow> createRow t mk w =
    (Inl (PrismaError ''unrecognized configuration parameter app.workspace_id''), w)"
  by (simp add: createRow_def tenant_model)

lemma find_without_workspace:
  "databaseWorkspace w = None \<Longrightarrow> findFirst t p w = (Inr None, w) \<and> findMany t p w = (Inr [], w)"
  by (simp add: findFirst_def findMany_def visible_iff find_None_iff)

end

locale global_table = lawful_table t for t :: "('c, 'r) table" +
  assumes global_model: "\<not> tenantModel t"
    and frame_any: "tenantFrame w (setRows t rs w)"
begin

lemma keeps_createRow: "keeps tenantFrame (createRow t mk)"
  by (rule keepsI) (auto simp: createRow_def Let_def frame_any split: option.split)

lemma keeps_updateRow: "keeps tenantFrame (updateRow t p f)"
  by (rule keepsI) (auto simp: updateRow_def frame_any split: option.split)

lemma keeps_deleteMany: "keeps tenantFrame (deleteMany t p)"
  by (rule keepsI) (auto simp: deleteMany_def frame_any)

lemma keeps_deleteRow: "keeps tenantFrame (deleteRow t p)"
  by (rule keepsI) (auto simp: deleteRow_def frame_any)

lemma visible_always: "visible t w r"
  by (simp add: visible_def global_model)

end

interpretation app: tenant_table appTable
  by unfold_locales (auto simp: appTable_def tenantFrame_def)
interpretation build: tenant_table buildTable
  by unfold_locales (auto simp: buildTable_def tenantFrame_def)
interpretation deployment: tenant_table deploymentTable
  by unfold_locales (auto simp: deploymentTable_def tenantFrame_def)
interpretation runtimeConfig: tenant_table runtimeConfigTable
  by unfold_locales (auto simp: runtimeConfigTable_def tenantFrame_def)
interpretation sample: tenant_table sampleTable
  by unfold_locales (auto simp: sampleTable_def tenantFrame_def)
interpretation incident: tenant_table incidentTable
  by unfold_locales (auto simp: incidentTable_def tenantFrame_def)
interpretation run: tenant_table runTable
  by unfold_locales (auto simp: runTable_def tenantFrame_def)
interpretation runEvent: tenant_table runEventTable
  by unfold_locales (auto simp: runEventTable_def tenantFrame_def)
interpretation snapshot: tenant_table snapshotTable
  by unfold_locales (auto simp: snapshotTable_def tenantFrame_def)

interpretation workspace: global_table workspaceTable
  by unfold_locales (auto simp: workspaceTable_def tenantFrame_def)
interpretation user: global_table userTable
  by unfold_locales (auto simp: userTable_def tenantFrame_def)
interpretation membership: global_table membershipTable
  by unfold_locales (auto simp: membershipTable_def tenantFrame_def)
interpretation attempt: global_table attemptTable
  by unfold_locales (auto simp: attemptTable_def tenantFrame_def)
interpretation session: global_table sessionTable
  by unfold_locales (auto simp: sessionTable_def tenantFrame_def)
interpretation audit: global_table auditTable
  by unfold_locales (auto simp: auditTable_def tenantFrame_def)

section \<open>Splitting programs\<close>

lemma findFirst_E:
  assumes "bindM (findFirst t p) f w = (res, w')"
  obtains found where "findFirst t p w = (Inr found, w)" "f found w = (res, w')"
  using assms by (auto simp: bindM_run findFirst_def)

lemma keeps_findFirst: "preorder_rel R \<Longrightarrow> keeps R (findFirst t p)"
  by (simp add: keeps_def findFirst_def preorder_rel_def reflp_def)

lemma keeps_findMany: "preorder_rel R \<Longrightarrow> keeps R (findMany t p)"
  by (simp add: keeps_def findMany_def preorder_rel_def reflp_def)

lemma keeps_requireWorkspaceId: "preorder_rel R \<Longrightarrow> keeps R requireWorkspaceId"
  by (auto simp: keeps_def requireWorkspaceId_def preorder_rel_def reflp_def split: option.split)

lemma keeps_currentContext: "preorder_rel R \<Longrightarrow> keeps R currentContext"
  by (simp add: currentContext_def keeps_readM)

lemma keeps_now: "keeps tenantFrame now"
  by (auto simp: keeps_def now_def tenantFrame_def)

lemma keeps_fresh: "keeps tenantFrame fresh"
  by (auto simp: keeps_def fresh_def tenantFrame_def)

lemma tenant_restoreTables [simp]: "tenant (restoreTables w w') = tenant w'"
  by (simp add: restoreTables_def)

lemma tenantFrame_restoreTables: "tenant w' = tenant w \<Longrightarrow> tenantFrame w (restoreTables w w')"
  by (simp add: tenantFrame_def restoreTables_def)

lemma tenantFrame_transaction:
  "tenantFrame w (snd (m w)) \<Longrightarrow> tenantFrame w (snd (transaction m w))"
  by (cases "m w"; cases "fst (m w)")
    (auto simp: transaction_run tenantFrame_restoreTables tenantFrame_tenant)

lemma keeps_transaction: "keeps tenantFrame m \<Longrightarrow> keeps tenantFrame (transaction m)"
  by (simp add: keeps_def tenantFrame_transaction)

lemma keeps_runInContext:
  assumes "keeps tenantFrame m" and "c_workspaceId ctx = ws" and "ws \<noteq> []"
    and "databaseWorkspace w = Some ws"
  shows "tenantFrame w (snd (runInContext ctx m w))"
proof -
  let ?w = "w\<lparr>tenant := Some ctx\<rparr>"
  have "databaseWorkspace ?w = databaseWorkspace w"
    using assms(2-4) by (simp add: databaseWorkspace_def)
  moreover have "tenantFrame ?w (snd (m ?w))" using assms(1) by (rule keepsD)
  ultimately show ?thesis
    by (auto simp: runInContext_run tenantFrame_def split: prod.split)
qed

lemma withTenantTransaction_run:
  "withTenantTransaction m w =
     (case databaseWorkspace w of
        None \<Rightarrow> (Inl (Unauthorized ''A workspace context is required''), w)
      | Some ws \<Rightarrow>
          transaction (runInContext ((the (tenant w))\<lparr>c_workspaceId := ws, c_transactionActive := True\<rparr>) m) w)"
  by (auto simp: withTenantTransaction_def currentContext_def requireWorkspaceId_def
      databaseWorkspace_def bindM_run split: option.splits if_splits)

lemma keeps_withTenantTransaction:
  assumes "keeps tenantFrame m"
  shows "keeps tenantFrame (withTenantTransaction m)"
proof (rule keepsI)
  fix w
  show "tenantFrame w (snd (withTenantTransaction m w))"
  proof (cases "databaseWorkspace w")
    case None
    then show ?thesis by (simp add: withTenantTransaction_run)
  next
    case (Some ws)
    then have "ws \<noteq> []" by (auto simp: databaseWorkspace_def split: option.splits if_splits)
    then show ?thesis
      using keeps_runInContext [OF assms, of _ ws w] Some
      by (simp add: withTenantTransaction_run tenantFrame_transaction)
  qed
qed

lemmas tenant_keeps =
  app.keeps_createRow build.keeps_createRow deployment.keeps_createRow
  runtimeConfig.keeps_createRow sample.keeps_createRow incident.keeps_createRow
  run.keeps_createRow runEvent.keeps_createRow snapshot.keeps_createRow
  build.keeps_updateRow deployment.keeps_updateRow incident.keeps_updateRow
  sample.keeps_deleteMany
  workspace.keeps_createRow user.keeps_createRow membership.keeps_createRow
  attempt.keeps_createRow session.keeps_createRow audit.keeps_createRow
  workspace.keeps_updateRow user.keeps_updateRow membership.keeps_updateRow
  session.keeps_updateRow session.keeps_deleteMany session.keeps_deleteRow
  attempt.keeps_deleteMany attempt.keeps_deleteRow
  keeps_findFirst keeps_findMany keeps_requireWorkspaceId keeps_currentContext keeps_now keeps_fresh
  keeps_transaction keeps_withTenantTransaction

declare tenant_keeps [keeps_intros]

section \<open>Other relations\<close>

definition sameTenant :: "'c world \<Rightarrow> 'c world \<Rightarrow> bool" where
  "sameTenant w w' \<longleftrightarrow> tenant w' = tenant w"

lemma preorder_sameTenant [simp]: "preorder_rel sameTenant"
  by (auto simp: preorder_rel_def reflp_def transp_def sameTenant_def)

lemma sameTenant_runInContext: "keeps sameTenant (runInContext c m)"
  by (auto simp: keeps_def sameTenant_def runInContext_run split: prod.split)

lemma sameTenant_modifyM: "(\<And>w. tenant (f w) = tenant w) \<Longrightarrow> keeps sameTenant (modifyM f)"
  by (simp add: keeps_def sameTenant_def)

text \<open>A relation on one component of the world that the primitive steps of another keep.\<close>

lemma keeps_withTenantTransaction_by:
  assumes "keeps R m" "preorder_rel R" "\<And>w w'. R w (restoreTables w w')"
    and "\<And>w w' t. R (w\<lparr>tenant := t\<rparr>) w' \<Longrightarrow> R w (w'\<lparr>tenant := tenant w\<rparr>)"
  shows "keeps R (withTenantTransaction m)"
proof (rule keepsI)
  fix w
  show "R w (snd (withTenantTransaction m w))"
  proof (cases "databaseWorkspace w")
    case None
    then show ?thesis using assms(2) by (simp add: withTenantTransaction_run preorder_rel_def reflp_def)
  next
    case (Some ws)
    let ?ctx = "(the (tenant w))\<lparr>c_workspaceId := ws, c_transactionActive := True\<rparr>"
    obtain r v where "m (w\<lparr>tenant := Some ?ctx\<rparr>) = (r, v)" by fastforce
    then show ?thesis
      using Some assms(3) assms(4) [where w = w and t = "Some ?ctx" and w' = v] keepsD [OF assms(1), of "w\<lparr>tenant := Some ?ctx\<rparr>"]
      by (cases r) (auto simp: withTenantTransaction_run transaction_run runInContext_run)
  qed
qed

section \<open>Rows the witnesses use\<close>

definition sampleDeployment :: deployment where
  "sampleDeployment =
     \<lparr> d_id = ''d1'', d_workspaceId = ''w1'', d_appId = ''a1'', d_buildId = None,
       d_namespace = ''rca-w-1'', d_image = ''nginx'', d_replicas = 3, d_desiredReplicas = 3,
       d_lastNonZeroReplicas = Some 3, d_port = 80, d_status = Running,
       d_kubernetesDeployment = ''web-d1'', d_kubernetesService = ''web-d1-svc'',
       d_kubernetesConfigMap = Some ''web-d1-env'', d_kubernetesFileConfigMap = None,
       d_kubernetesSecret = None, d_kubernetesSecretFiles = None, d_publicHostname = None,
       d_stoppedAt = None, d_lastRestartedAt = None, d_deletedAt = None, d_createdAt = 0 \<rparr>"

definition sampleContext :: tenant_context where
  "sampleContext =
     \<lparr> c_workspaceId = ''w1'', c_userId = Some ''u1'', c_organizationId = Some ''o1'',
       c_roles = None, c_scopes = None, c_transactionActive = False \<rparr>"

end
