(* ===== verification/Config.thy ===== *)
theory Config
  imports JsLib
begin

text \<open>
  The configuration of the service (src/config/): what \<open>ConfigService.get\<close> returns, one record
  for the merged configuration files, and the loaders that read text settings from the
  environment. Numeric settings are fields of the record; their parsing is not modelled.
\<close>

record service_config =
  applicationRoutingEnabled :: bool
  applicationGatewayName :: string
  applicationGatewayNamespace :: string
  applicationWildcardHostname :: string
  gatewayAccessNamespaceLabelKey :: string
  gatewayAccessNamespaceLabelValue :: string
  tenantNetworkPolicyEnabled :: bool
  registryUrl :: "string option"
  localRegistryHost :: string
  localRegistryCluster :: string
  buildpackBuilderImage :: string
  buildpackRunnerImage :: string
  observabilityEnabled :: bool
  otelExporterOtlpEndpoint :: string
  otelExporterOtlpProtocol :: string
  healthSampleIntervalSeconds :: int
  healthSampleRetentionMinutes :: int
  prometheusUrl :: string
  lokiUrl :: string
  tempoUrl :: string
  telemetryMaxLookbackMinutes :: int
  telemetryMaxLogLines :: int
  telemetryMaxTraces :: int
  incidentDetectionEnabled :: bool
  autoRcaEnabled :: bool
  rcaEvidenceLookbackMinutes :: int
  rcaEvidenceLookaheadMinutes :: int
  rcaAgentEnabled :: bool
  rcaAgentServiceUrl :: string
  rcaMcpServerUrl :: string
  rcaAgentTriggerMode :: string
  internalServiceJwtSecret :: string
  incidentDetectionIntervalSeconds :: int
  telemetryQueryTimeoutSeconds :: int

type_synonym environment = "string \<Rightarrow> string option"

text \<open>\<open>process.env.NAME ?? fallback\<close>.\<close>

definition envOr :: "environment \<Rightarrow> string \<Rightarrow> string \<Rightarrow> string" where
  "envOr env name fallback = (case env name of None \<Rightarrow> fallback | Some v \<Rightarrow> v)"

definition kubernetesConfig :: "environment \<Rightarrow> service_config \<Rightarrow> service_config" where
  "kubernetesConfig env cfg =
     cfg\<lparr> applicationRoutingEnabled := (env ''APPLICATION_ROUTING_ENABLED'' = Some ''true''),
          applicationGatewayName := envOr env ''APPLICATION_GATEWAY_NAME'' [],
          applicationGatewayNamespace := envOr env ''APPLICATION_GATEWAY_NAMESPACE'' [],
          applicationWildcardHostname := envOr env ''APPLICATION_WILDCARD_HOSTNAME'' [],
          gatewayAccessNamespaceLabelKey :=
            envOr env ''GATEWAY_ACCESS_NAMESPACE_LABEL_KEY'' ''rca-platform.io/gateway-access'',
          gatewayAccessNamespaceLabelValue :=
            envOr env ''GATEWAY_ACCESS_NAMESPACE_LABEL_VALUE'' ''true'',
          tenantNetworkPolicyEnabled := (env ''TENANT_NETWORK_POLICY_ENABLED'' = Some ''true'') \<rparr>"

definition registryConfig :: "environment \<Rightarrow> service_config \<Rightarrow> service_config" where
  "registryConfig env cfg =
     cfg\<lparr> registryUrl := env ''REGISTRY_URL'',
          localRegistryHost := envOr env ''LOCAL_REGISTRY_HOST'' ''localhost:5001'',
          localRegistryCluster := envOr env ''LOCAL_REGISTRY_CLUSTER'' ''kind-registry:5000'',
          buildpackBuilderImage :=
            envOr env ''BUILDPACK_BUILDER_IMAGE'' ''gcr.io/buildpacks/builder'',
          buildpackRunnerImage :=
            envOr env ''BUILDPACK_RUNNER_IMAGE''
              ''ghcr.io/venumigihansa/nexcause-buildpack-runner:0.1.3'' \<rparr>"

text \<open>The settings of the two files that are text or switches; their numbers are the record's.\<close>

definition observabilityConfig :: "environment \<Rightarrow> service_config \<Rightarrow> service_config" where
  "observabilityConfig env cfg =
     cfg\<lparr> observabilityEnabled := (env ''OBSERVABILITY_ENABLED'' \<noteq> Some ''false''),
          otelExporterOtlpEndpoint := envOr env ''OTEL_EXPORTER_OTLP_ENDPOINT''
            ''http://otel-collector-opentelemetry-collector.observability.svc.cluster.local:4318'',
          otelExporterOtlpProtocol := envOr env ''OTEL_EXPORTER_OTLP_PROTOCOL'' ''http/protobuf'',
          prometheusUrl := envOr env ''PROMETHEUS_URL'' [],
          lokiUrl := envOr env ''LOKI_URL'' [],
          tempoUrl := envOr env ''TEMPO_URL'' [] \<rparr>"

definition rcaConfig :: "environment \<Rightarrow> service_config \<Rightarrow> service_config" where
  "rcaConfig env cfg =
     cfg\<lparr> incidentDetectionEnabled := (env ''INCIDENT_DETECTION_ENABLED'' \<noteq> Some ''false''),
          autoRcaEnabled := (env ''AUTO_RCA_ENABLED'' \<noteq> Some ''false''),
          rcaMcpServerUrl := envOr env ''RCA_MCP_SERVER_URL''
            ''http://rca-mcp-server.deployment-manager.svc.cluster.local/mcp'',
          rcaAgentServiceUrl := envOr env ''RCA_AGENT_SERVICE_URL''
            ''http://rca-agent-service.deployment-manager.svc.cluster.local'',
          rcaAgentEnabled := (env ''RCA_AGENT_ENABLED'' \<noteq> Some ''false''),
          rcaAgentTriggerMode := envOr env ''RCA_AGENT_TRIGGER_MODE'' ''async'',
          internalServiceJwtSecret := envOr env ''INTERNAL_SERVICE_JWT_SECRET'' [] \<rparr>"

text \<open>The defaults of every setting, as the service runs with an empty environment.\<close>

definition defaultConfig :: service_config where
  "defaultConfig =
     kubernetesConfig (\<lambda>_. None) (registryConfig (\<lambda>_. None)
       (observabilityConfig (\<lambda>_. None) (rcaConfig (\<lambda>_. None)
       \<lparr> applicationRoutingEnabled = False, applicationGatewayName = [],
         applicationGatewayNamespace = [], applicationWildcardHostname = [],
         gatewayAccessNamespaceLabelKey = [], gatewayAccessNamespaceLabelValue = [],
         tenantNetworkPolicyEnabled = False, registryUrl = None, localRegistryHost = [],
         localRegistryCluster = [], buildpackBuilderImage = [], buildpackRunnerImage = [],
         observabilityEnabled = True, otelExporterOtlpEndpoint = [], otelExporterOtlpProtocol = [],
         healthSampleIntervalSeconds = 60, healthSampleRetentionMinutes = 60, prometheusUrl = [],
         lokiUrl = [], tempoUrl = [], telemetryMaxLookbackMinutes = 360, telemetryMaxLogLines = 500,
         telemetryMaxTraces = 200, incidentDetectionEnabled = True, autoRcaEnabled = True,
         rcaEvidenceLookbackMinutes = 10, rcaEvidenceLookaheadMinutes = 2, rcaAgentEnabled = True,
         rcaAgentServiceUrl = [], rcaMcpServerUrl = [], rcaAgentTriggerMode = [],
         internalServiceJwtSecret = [], incidentDetectionIntervalSeconds = 60,
         telemetryQueryTimeoutSeconds = 15 \<rparr>)))"

end
