(* ===== verification/Kubernetes.thy ===== *)
theory Kubernetes
  imports Manifests Isolation Config "HOL-Library.Option_ord"
begin

text \<open>
  kubernetes/kubernetes.service.ts. The Kubernetes API is a parameter: a function from a call
  and the state of the cluster to the client's outcome, an error or the response body, and the
  next state. What the service relies on of it is stated where a property needs it.
\<close>

section \<open>The API\<close>

datatype kind =
    KNamespace | KConfigMap | KSecret | KDeployment | KService | KNetworkPolicy | KHttpRoute | KJob

text \<open>
  One constructor per kind of request: kind, name and namespace (empty for a namespace itself) of
  the object, and the body sent.
\<close>

datatype k8s_call =
    Read kind string string
  | Replace kind string string json
  | Create kind string json
  | Delete kind string string
  | MergePatch kind string string json
  | ListPods string string \<comment> \<open>namespace, label selector\<close>
  | ListEvents string
  | ReadLog string string "int option" "int option" \<comment> \<open>pod, namespace, sinceSeconds, tailLines\<close>

type_synonym 'c kubernetes_api = "k8s_call \<Rightarrow> 'c \<Rightarrow> (kube_error + json) \<times> 'c"

definition callK :: "'c kubernetes_api \<Rightarrow> k8s_call \<Rightarrow> ('c world, json) io" where
  "callK api call =
     (\<lambda>w. case api call (cluster w) of
        (Inl e, c) \<Rightarrow> (Inl (KubeError e), w\<lparr>cluster := c\<rparr>)
      | (Inr body, c) \<Rightarrow> (Inr body, w\<lparr>cluster := c\<rparr>))"

lemma callK_run [io_simps]:
  "callK api call w =
     (case api call (cluster w) of
        (Inl e, c) \<Rightarrow> (Inl (KubeError e), w\<lparr>cluster := c\<rparr>)
      | (Inr body, c) \<Rightarrow> (Inr body, w\<lparr>cluster := c\<rparr>))"
  by (simp add: callK_def)

fun isKubernetesNotFound :: "exn \<Rightarrow> bool" where
  "isKubernetesNotFound (KubeError e) \<longleftrightarrow> responseStatusCode e = Some 404 \<or> statusCode e = Some 404"
| "isKubernetesNotFound _ \<longleftrightarrow> False"

section \<open>Inputs\<close>

record file_config =
  fc_data :: "string entries"
  fc_items :: "(string \<times> string) list" \<comment> \<open>key and path\<close>

record routing_input =
  ar_hostname :: string
  ar_gatewayName :: string
  ar_gatewayNamespace :: string
  ar_namespaceLabelKey :: string
  ar_namespaceLabelValue :: string

record deploy_input =
  di_namespace :: string
  di_names :: resource_names
  di_image :: string
  di_port :: int
  di_replicas :: int
  di_env :: "string entries"
  di_secrets :: "string entries"
  di_files :: file_config
  di_secretFiles :: file_config
  di_labels :: "string entries"
  di_routing :: "routing_input option"

section \<open>Creating or replacing an object\<close>

text \<open>
  The pattern every \<open>upsert\<close> method has: read the object, copy what the update needs from the
  answer into the manifest, replace; on a 404 from either call create the manifest as it is by
  then, and pass any other error on.
\<close>

definition upsertObject ::
  "'c kubernetes_api \<Rightarrow> kind \<Rightarrow> string \<Rightarrow> string \<Rightarrow> json \<Rightarrow> (json \<Rightarrow> json) \<Rightarrow> ('c world, unit) io"
where
  "upsertObject api k name ns manifest merged =
     (let createOn404 = (\<lambda>body e. if \<not> isKubernetesNotFound e then throwM e
                                   else voidM (callK api (Create k ns body)))
      in bindM (attemptM (callK api (Read k name ns)))
           (\<lambda>r. case r of
              Inl e \<Rightarrow> createOn404 manifest e
            | Inr existing \<Rightarrow>
                catchM (voidM (callK api (Replace k name ns (merged existing))))
                  (createOn404 (merged existing))))"

definition withResourceVersion :: "json \<Rightarrow> json \<Rightarrow> json" where
  "withResourceVersion manifest existing =
     withMember manifest ''metadata''
       (withMember (member manifest ''metadata'') ''resourceVersion''
          (path existing [''metadata'', ''resourceVersion'']))"

definition deleteIfExists :: "'c kubernetes_api \<Rightarrow> kind \<Rightarrow> string \<Rightarrow> string \<Rightarrow> ('c world, unit) io" where
  "deleteIfExists api k name ns =
     catchM (voidM (callK api (Delete k name ns)))
       (\<lambda>e. if \<not> isKubernetesNotFound e then throwM e else returnM ())"

definition upsertConfigMap :: "'c kubernetes_api \<Rightarrow> deploy_input \<Rightarrow> ('c world, unit) io" where
  "upsertConfigMap api i =
     (let name = configMapName (di_names i);
          configMap = buildConfigMapManifest name (di_labels i) (di_env i)
      in upsertObject api KConfigMap name (di_namespace i) configMap (withResourceVersion configMap))"

definition upsertFileConfigMap :: "'c kubernetes_api \<Rightarrow> deploy_input \<Rightarrow> ('c world, unit) io" where
  "upsertFileConfigMap api i =
     (let fileConfigMapName = fileConfigMapName (di_names i) in
      if fc_items (di_files i) = []
      then whenM (truthy fileConfigMapName)
             (deleteIfExists api KConfigMap (the fileConfigMapName) (di_namespace i))
      else if \<not> truthy fileConfigMapName
      then throwM (JsError ''File config was provided without a Kubernetes ConfigMap name'')
      else
        (let name = the fileConfigMapName;
             configMap = buildConfigMapManifest name (di_labels i) (fc_data (di_files i))
         in upsertObject api KConfigMap name (di_namespace i) configMap
              (withResourceVersion configMap)))"

definition upsertSecret :: "'c kubernetes_api \<Rightarrow> deploy_input \<Rightarrow> ('c world, unit) io" where
  "upsertSecret api i =
     (let secretName = secretName (di_names i) in
      if di_secrets i = []
      then whenM (truthy secretName)
             (deleteIfExists api KSecret (the secretName) (di_namespace i))
      else if \<not> truthy secretName
      then throwM (JsError ''Secret data was provided without a Kubernetes Secret name'')
      else
        (let name = the secretName;
             secret = buildSecretManifest name (di_labels i) (di_secrets i)
         in upsertObject api KSecret name (di_namespace i) secret (withResourceVersion secret)))"

definition upsertSecretFiles :: "'c kubernetes_api \<Rightarrow> deploy_input \<Rightarrow> ('c world, unit) io" where
  "upsertSecretFiles api i =
     (let secretFileSecretName = secretFileSecretName (di_names i) in
      if fc_items (di_secretFiles i) = []
      then whenM (truthy secretFileSecretName)
             (deleteIfExists api KSecret (the secretFileSecretName) (di_namespace i))
      else if \<not> truthy secretFileSecretName
      then throwM (JsError ''Secret files were provided without a Kubernetes Secret name'')
      else
        (let name = the secretFileSecretName;
             secret = buildSecretManifest name (di_labels i) (fc_data (di_secretFiles i))
         in upsertObject api KSecret name (di_namespace i) secret (withResourceVersion secret)))"

text \<open>The Deployment manifest of an input.\<close>

definition workloadManifest :: "deploy_input \<Rightarrow> json" where
  "workloadManifest i =
     buildDeploymentManifest
       \<lparr> dmName = deploymentName (di_names i),
         dmImage = di_image i,
         dmPort = di_port i,
         dmReplicas = di_replicas i,
         dmLabels = buildApplicationPodLabels (di_labels i) (di_routing i \<noteq> None),
         dmConfigMapName = Some (configMapName (di_names i)),
         dmSecretName = (if di_secrets i \<noteq> [] then secretName (di_names i) else None),
         dmConfigFileConfigMapName =
           (if fc_items (di_files i) \<noteq> [] then fileConfigMapName (di_names i) else None),
         dmSecretFileSecretName =
           (if fc_items (di_secretFiles i) \<noteq> [] then secretFileSecretName (di_names i) else None),
         dmConfigFileVolume =
           (if fc_items (di_files i) \<noteq> []
            then Some \<lparr> volumeName = ''config-files'', mountPath = ''/app/config'',
                        volumeItems = fc_items (di_files i) \<rparr>
            else None),
         dmSecretFileVolume =
           (if fc_items (di_secretFiles i) \<noteq> []
            then Some \<lparr> volumeName = ''secret-files'', mountPath = ''/app/secrets'',
                        volumeItems = fc_items (di_secretFiles i) \<rparr>
            else None) \<rparr>"

definition upsertDeployment :: "'c kubernetes_api \<Rightarrow> deploy_input \<Rightarrow> ('c world, unit) io" where
  "upsertDeployment api i =
     upsertObject api KDeployment (deploymentName (di_names i)) (di_namespace i)
       (workloadManifest i) (withResourceVersion (workloadManifest i))"

definition mergedService :: "json \<Rightarrow> json \<Rightarrow> json" where
  "mergedService service existing =
     (let m = withResourceVersion service existing in
      withMember m ''spec''
        (fold (\<lambda>k spec. withMember spec k (path existing [''spec'', k]))
           [''clusterIP'', ''clusterIPs'', ''ipFamilies'', ''ipFamilyPolicy'']
           (member m ''spec'')))"

definition upsertService :: "'c kubernetes_api \<Rightarrow> deploy_input \<Rightarrow> ('c world, unit) io" where
  "upsertService api i =
     (let name = serviceName (di_names i);
          service = buildServiceManifest name (di_port i) (di_labels i)
      in upsertObject api KService name (di_namespace i) service (mergedService service))"

section \<open>Namespaces and tenant network policies\<close>

definition upsertNetworkPolicy :: "'c kubernetes_api \<Rightarrow> string \<Rightarrow> json \<Rightarrow> ('c world, unit) io" where
  "upsertNetworkPolicy api ns policy =
     (let name = asStr (path policy [''metadata'', ''name'']) in
      if \<not> truthy name then throwM (JsError ''Tenant NetworkPolicy is missing metadata.name'')
      else upsertObject api KNetworkPolicy (the name) ns policy (withResourceVersion policy))"

definition reconcileTenantNetworkPolicies ::
  "'c kubernetes_api \<Rightarrow> service_config \<Rightarrow> string \<Rightarrow> ('c world, unit) io"
where
  "reconcileTenantNetworkPolicies api cfg ns =
     (let gatewayName = applicationGatewayName cfg;
          gatewayNamespace = applicationGatewayNamespace cfg
      in if gatewayName = [] \<or> gatewayNamespace = []
         then throwM (JsError
           ''Tenant NetworkPolicy requires an application Gateway name and namespace'')
         else catchM
           (forM (buildTenantNetworkPolicyManifests ns gatewayName gatewayNamespace)
              (upsertNetworkPolicy api ns))
           (\<lambda>e. throwM (JsError (''Failed to reconcile tenant NetworkPolicies in namespace ''
                  @ ns @ '': '' @ errorMessage e))))"

definition ensureNamespace ::
  "'c kubernetes_api \<Rightarrow> service_config \<Rightarrow> string \<Rightarrow> string entries \<Rightarrow> ('c world, unit) io"
where
  "ensureNamespace api cfg ns labels =
     thenM
       (catchM (voidM (callK api (Read KNamespace ns [])))
          (\<lambda>e. if \<not> isKubernetesNotFound e then throwM e
               else voidM (callK api (Create KNamespace []
                 (buildNamespaceManifest ns
                    [(''app.kubernetes.io/managed-by'', map_of labels ''app.kubernetes.io/managed-by''),
                     (''rca-platform/workspace-id'', map_of labels ''rca-platform/workspace-id'')])))))
       (whenM (tenantNetworkPolicyEnabled cfg) (reconcileTenantNetworkPolicies api cfg ns))"

section \<open>Application routing\<close>

definition createHttpRoute :: "'c kubernetes_api \<Rightarrow> string \<Rightarrow> json \<Rightarrow> ('c world, unit) io" where
  "createHttpRoute api ns route = voidM (callK api (Create KHttpRoute ns route))"

definition deleteHttpRoute :: "'c kubernetes_api \<Rightarrow> string \<Rightarrow> string \<Rightarrow> ('c world, unit) io" where
  "deleteHttpRoute api ns name = deleteIfExists api KHttpRoute name ns"

definition enableApplicationRouting :: "'c kubernetes_api \<Rightarrow> deploy_input \<Rightarrow> ('c world, unit) io" where
  "enableApplicationRouting api i =
     (case di_routing i of
        None \<Rightarrow> returnM ()
      | Some r \<Rightarrow>
          thenM
            (voidM (callK api (MergePatch KNamespace (di_namespace i) []
               (JObj [(''metadata'', JObj [(''labels'',
                  JObj [(ar_namespaceLabelKey r, JStr (ar_namespaceLabelValue r))])])]))))
            (let route = buildApplicationRouteManifest (httpRouteName (di_names i)) (di_namespace i)
                   (ar_hostname r) (ar_gatewayName r) (ar_gatewayNamespace r)
                   (serviceName (di_names i)) (di_port i) (di_labels i);
                 redirectRoute = buildApplicationRedirectRouteManifest
                   (httpRedirectRouteName (di_names i)) (di_namespace i) (ar_hostname r)
                   (ar_gatewayName r) (ar_gatewayNamespace r) (di_labels i)
             in catchM
                  (thenM (createHttpRoute api (di_namespace i) route)
                         (createHttpRoute api (di_namespace i) redirectRoute))
                  (\<lambda>e. thenM (deleteHttpRoute api (di_namespace i) (httpRedirectRouteName (di_names i)))
                       (thenM (deleteHttpRoute api (di_namespace i) (httpRouteName (di_names i)))
                         (throwM e)))))"

section \<open>The operations\<close>

definition deployImage ::
  "'c kubernetes_api \<Rightarrow> service_config \<Rightarrow> deploy_input \<Rightarrow> ('c world, unit) io"
where
  "deployImage api cfg i =
     thenM (ensureNamespace api cfg (di_namespace i) (di_labels i))
     (thenM (upsertConfigMap api i)
     (thenM (upsertFileConfigMap api i)
     (thenM (upsertSecret api i)
     (thenM (upsertSecretFiles api i)
     (thenM (upsertDeployment api i)
     (thenM (upsertService api i)
       (whenM (di_routing i \<noteq> None) (enableApplicationRouting api i))))))))"

definition deleteDeploymentResources ::
  "'c kubernetes_api \<Rightarrow> string \<Rightarrow> resource_names \<Rightarrow> bool \<Rightarrow> ('c world, unit) io"
where
  "deleteDeploymentResources api ns names deleteRoutes =
     thenM
       (whenM deleteRoutes
          (thenM (deleteHttpRoute api ns (httpRedirectRouteName names))
                 (deleteHttpRoute api ns (httpRouteName names))))
     (thenM (deleteIfExists api KDeployment (deploymentName names) ns)
     (thenM (deleteIfExists api KService (serviceName names) ns)
     (thenM (deleteIfExists api KConfigMap (configMapName names) ns)
     (thenM
       (whenM (truthy (fileConfigMapName names))
          (deleteIfExists api KConfigMap (the (fileConfigMapName names)) ns))
     (thenM
       (whenM (truthy (secretName names))
          (deleteIfExists api KSecret (the (secretName names)) ns))
       (whenM (truthy (secretFileSecretName names))
          (deleteIfExists api KSecret (the (secretFileSecretName names)) ns)))))))"

record build_job_input =
  bj_namespace :: string
  bj_jobName :: string
  bj_labels :: "string entries"
  bj_repoUrl :: string
  bj_branch :: string
  bj_buildContext :: string
  bj_dockerfilePath :: string
  bj_clusterImage :: string
  bj_builderImage :: string
  bj_runnerImage :: string
  bj_insecureRegistry :: string

definition createBuildJob ::
  "'c kubernetes_api \<Rightarrow> service_config \<Rightarrow> build_job_input \<Rightarrow> ('c world, unit) io"
where
  "createBuildJob api cfg i =
     thenM (ensureNamespace api cfg (bj_namespace i) (bj_labels i))
       (voidM (callK api (Create KJob (bj_namespace i)
          (buildBuildJobManifest (bj_jobName i) (bj_labels i) (bj_repoUrl i) (bj_branch i)
             (bj_buildContext i) (bj_dockerfilePath i) (bj_clusterImage i)))))"

definition createBuildpackJob ::
  "'c kubernetes_api \<Rightarrow> service_config \<Rightarrow> build_job_input \<Rightarrow> ('c world, unit) io"
where
  "createBuildpackJob api cfg i =
     thenM (ensureNamespace api cfg (bj_namespace i) (bj_labels i))
       (voidM (callK api (Create KJob (bj_namespace i)
          (buildBuildpackJobManifest (bj_jobName i) (bj_labels i) (bj_repoUrl i) (bj_branch i)
             (bj_buildContext i) (bj_clusterImage i) (bj_builderImage i) (bj_runnerImage i)
             (bj_insecureRegistry i)))))"

text \<open>\<open>status?.k ?? 0\<close> and \<open>status?.k ?? []\<close>.\<close>

definition count0 :: "json \<Rightarrow> string \<Rightarrow> int" where
  "count0 status k = (case asNum (member status k) of None \<Rightarrow> 0 | Some n \<Rightarrow> n)"

record job_status =
  js_active :: int
  js_succeeded :: int
  js_failed :: int
  js_conditions :: json

definition getBuildJobStatus :: "'c kubernetes_api \<Rightarrow> string \<Rightarrow> string \<Rightarrow> ('c world, job_status) io" where
  "getBuildJobStatus api ns jobName =
     bindM (callK api (Read KJob jobName ns)) (\<lambda>job.
       let status = member job ''status'' in
       returnM \<lparr> js_active = count0 status ''active'', js_succeeded = count0 status ''succeeded'',
                 js_failed = count0 status ''failed'',
                 js_conditions = orElse (member status ''conditions'') (JArr []) \<rparr>)"

record live_status =
  ls_desiredReplicas :: int
  ls_readyReplicas :: int
  ls_availableReplicas :: int
  ls_updatedReplicas :: int
  ls_unavailableReplicas :: int
  ls_conditions :: json

definition kubeDeploymentStatus ::
  "'c kubernetes_api \<Rightarrow> string \<Rightarrow> string \<Rightarrow> ('c world, live_status) io"
where
  "kubeDeploymentStatus api ns name =
     bindM (callK api (Read KDeployment name ns)) (\<lambda>deployment.
       let status = member deployment ''status'' in
       returnM \<lparr> ls_desiredReplicas = count0 (member deployment ''spec'') ''replicas'',
                 ls_readyReplicas = count0 status ''readyReplicas'',
                 ls_availableReplicas = count0 status ''availableReplicas'',
                 ls_updatedReplicas = count0 status ''updatedReplicas'',
                 ls_unavailableReplicas = count0 status ''unavailableReplicas'',
                 ls_conditions = orElse (member status ''conditions'') (JArr []) \<rparr>)"

definition scaleDeployment ::
  "'c kubernetes_api \<Rightarrow> string \<Rightarrow> string \<Rightarrow> int \<Rightarrow> ('c world, unit) io"
where
  "scaleDeployment api ns name replicas =
     voidM (callK api (MergePatch KDeployment name ns
       (JObj [(''spec'', JObj [(''replicas'', JNum replicas)])])))"

definition restartDeployment :: "'c kubernetes_api \<Rightarrow> string \<Rightarrow> string \<Rightarrow> ('c world, instant) io" where
  "restartDeployment api ns name =
     bindM now (\<lambda>restartedAt.
       thenM
         (callK api (MergePatch KDeployment name ns
            (JObj [(''spec'', JObj [(''template'', JObj [(''metadata'', JObj [(''annotations'',
               JObj [(''kubectl.kubernetes.io/restartedAt'', JDate restartedAt)])])])])])))
         (returnM restartedAt))"

section \<open>Pods, events and logs\<close>

text \<open>An object built from the listed members of another, \<open>{ k: v?.k, ... }\<close>.\<close>

definition pick :: "json \<Rightarrow> string list \<Rightarrow> (string \<times> json) list" where
  "pick v ks = map (\<lambda>k. (k, member v k)) ks"

definition toDeploymentPodSummary :: "json \<Rightarrow> json" where
  "toDeploymentPodSummary pod =
     JObj ([(''name'', orElse (path pod [''metadata'', ''name'']) (JStr [])),
            (''namespace'', path pod [''metadata'', ''namespace''])]
           @ pick (member pod ''status'') [''phase'', ''podIP'', ''hostIP'']
           @ [(''nodeName'', path pod [''spec'', ''nodeName'']),
              (''startTime'', path pod [''status'', ''startTime'']),
              (''labels'', path pod [''metadata'', ''labels'']),
              (''conditions'', JArr (map
                 (\<lambda>c. JObj (pick c [''type'', ''status'', ''reason'', ''message'',
                                     ''lastTransitionTime'']))
                 (asItems (path pod [''status'', ''conditions''])))),
              (''containers'', JArr (map
                 (\<lambda>c. JObj (pick c [''name'', ''image'', ''ready'', ''restartCount'', ''state'',
                                     ''lastState'']))
                 (asItems (path pod [''status'', ''containerStatuses'']))))])"

definition listDeploymentPods ::
  "'c kubernetes_api \<Rightarrow> string \<Rightarrow> string entries \<Rightarrow> ('c world, json list) io"
where
  "listDeploymentPods api ns labels =
     bindM (callK api (ListPods ns (toLabelSelector labels))) (\<lambda>pods.
       returnM (map toDeploymentPodSummary (asItems (member pods ''items''))))"

text \<open>
  The time an event is ordered by, an ISO string in the source: \<open>None\<close> for the empty string. ISO
  strings of dates with a four-digit year are ordered as the dates.
\<close>

definition getEventTime :: "json \<Rightarrow> instant option" where
  "getEventTime event =
     (case asDate (member event ''lastTimestamp'') of
        Some t \<Rightarrow> Some t
      | None \<Rightarrow>
          (case asDate (member event ''firstTimestamp'') of
             Some t \<Rightarrow> Some t
           | None \<Rightarrow> asDate (path event [''metadata'', ''creationTimestamp''])))"

definition toDeploymentEventSummary :: "json \<Rightarrow> json" where
  "toDeploymentEventSummary event =
     JObj ([(''name'', path event [''metadata'', ''name''])]
           @ pick event [''type'', ''reason'', ''message'', ''count'']
           @ [(''involvedObject'', JObj (pick (member event ''involvedObject'') [''kind'', ''name'']))]
           @ pick event [''firstTimestamp'', ''lastTimestamp'']
           @ [(''eventTime'', case getEventTime event of None \<Rightarrow> JStr [] | Some t \<Rightarrow> JDate t)])"

definition isDeploymentEvent :: "string \<Rightarrow> json list \<Rightarrow> json \<Rightarrow> bool" where
  "isDeploymentEvent deployName pods event \<longleftrightarrow>
     (let involvedName = path event [''involvedObject'', ''name''] in
      involvedName = JStr deployName
      \<or> (involvedName \<noteq> JUndef \<and> involvedName \<in> set (map (\<lambda>pod. member pod ''name'') pods))
      \<or> (case asStr involvedName of
           None \<Rightarrow> False | Some n \<Rightarrow> startsWith n (deployName @ ''-'')))"

definition listDeploymentEvents ::
  "'c kubernetes_api \<Rightarrow> string \<Rightarrow> string \<Rightarrow> string entries \<Rightarrow> ('c world, json list) io"
where
  "listDeploymentEvents api ns deployName labels =
     bindM (attemptM (callK api (ListEvents ns))) (\<lambda>allEvents.
     bindM (attemptM (listDeploymentPods api ns labels)) (\<lambda>pods.
     bindM (liftM allEvents) (\<lambda>evs.
     bindM (liftM pods) (\<lambda>ps.
       returnM (map toDeploymentEventSummary
         (sort_key getEventTime
            (filter (isDeploymentEvent deployName ps) (asItems (member evs ''items'')))))))))"

text \<open>A pod without a name ends its own request with a 404 before any log is read for it.\<close>

definition getPodLogsByLabels ::
  "'c kubernetes_api \<Rightarrow> string \<Rightarrow> string entries \<Rightarrow> int option \<Rightarrow> int option
   \<Rightarrow> ('c world, (string \<times> json) list) io"
where
  "getPodLogsByLabels api ns labels tailLines sinceSeconds =
     bindM (callK api (ListPods ns (toLabelSelector labels))) (\<lambda>pods.
       allM
         (\<lambda>pod.
            let podName = asStr (path pod [''metadata'', ''name'']) in
            if \<not> truthy podName then throwM (NotFound ''A matching pod was missing its name'')
            else bindM (callK api (ReadLog (the podName) ns sinceSeconds tailLines)) (\<lambda>logs.
                   returnM (the podName, logs)))
         (asItems (member pods ''items'')))"

definition getBuildJobLogs ::
  "'c kubernetes_api \<Rightarrow> string \<Rightarrow> string entries \<Rightarrow> ('c world, (string \<times> json) list) io"
where
  "getBuildJobLogs api ns labels = getPodLogsByLabels api ns labels None None"

definition kubeDeploymentLogs ::
  "'c kubernetes_api \<Rightarrow> string \<Rightarrow> string entries \<Rightarrow> ('c world, (string \<times> json) list) io"
where
  "kubeDeploymentLogs api ns labels = getPodLogsByLabels api ns labels None None"

definition getDeploymentEvidenceLogs ::
  "'c kubernetes_api \<Rightarrow> string \<Rightarrow> string entries \<Rightarrow> int \<Rightarrow> int option
   \<Rightarrow> ('c world, (string \<times> json) list) io"
where
  "getDeploymentEvidenceLogs api ns labels tailLines sinceSeconds =
     getPodLogsByLabels api ns labels (Some tailLines) sinceSeconds"

section \<open>Frames\<close>

text \<open>
  A Kubernetes call touches no table and no context: every operation of this theory keeps all of
  the world but the cluster, the clock and the source of fresh strings.
\<close>

definition sameTables :: "'c world \<Rightarrow> 'c world \<Rightarrow> bool" where
  "sameTables w w' \<longleftrightarrow>
     w' = w\<lparr>cluster := cluster w', ticks := ticks w', drawn := drawn w'\<rparr>"

lemma preorder_sameTables [keeps_intros, simp]: "preorder_rel sameTables"
  unfolding preorder_rel_def
proof (rule conjI)
  show "reflp (sameTables :: 'a world \<Rightarrow> _)" by (rule reflpI) (simp add: sameTables_def)
  show "transp (sameTables :: 'a world \<Rightarrow> _)"
  proof (rule transpI)
    fix x y z :: "'a world"
    assume "sameTables x y" "sameTables y z"
    then obtain c t d c' t' d' where
      "y = x\<lparr>cluster := c, ticks := t, drawn := d\<rparr>" "z = y\<lparr>cluster := c', ticks := t', drawn := d'\<rparr>"
      unfolding sameTables_def by blast
    then show "sameTables x z" by (simp add: sameTables_def)
  qed
qed

lemma sameTables_tenantFrame: "sameTables w w' \<Longrightarrow> tenantFrame w w'"
proof -
  assume "sameTables w w'"
  then obtain c t d where "w' = w\<lparr>cluster := c, ticks := t, drawn := d\<rparr>"
    unfolding sameTables_def by blast
  then show ?thesis by (simp add: tenantFrame_def)
qed

lemma keeps_sameTables_tenantFrame: "keeps sameTables m \<Longrightarrow> keeps tenantFrame m"
  by (simp add: keeps_def sameTables_tenantFrame)

lemma sameTables_callK: "keeps sameTables (callK api call)"
  by (rule keepsI) (auto simp: callK_run sameTables_def split: prod.split sum.split)

lemma sameTables_now: "keeps sameTables now"
  by (rule keepsI) (simp add: now_run sameTables_def)

lemmas kube_steps = keeps_bindM keeps_thenM keeps_catchM keeps_returnM keeps_throwM keeps_liftM
  keeps_attemptM keeps_voidM keeps_whenM keeps_if keeps_forM keeps_allM keeps_sum keeps_option
  preorder_sameTables sameTables_callK sameTables_now

lemma sameTables_upsertObject: "keeps sameTables (upsertObject api k name ns m f)"
  unfolding upsertObject_def Let_def by (intro kube_steps)

lemma sameTables_deleteIfExists: "keeps sameTables (deleteIfExists api k name ns)"
  unfolding deleteIfExists_def by (intro kube_steps)

lemma sameTables_ensureNamespace: "keeps sameTables (ensureNamespace api cfg ns labels)"
  unfolding ensureNamespace_def reconcileTenantNetworkPolicies_def upsertNetworkPolicy_def Let_def
  by (intro kube_steps sameTables_upsertObject)

lemma sameTables_enableApplicationRouting: "keeps sameTables (enableApplicationRouting api i)"
  unfolding enableApplicationRouting_def createHttpRoute_def deleteHttpRoute_def Let_def
  by (intro kube_steps sameTables_deleteIfExists)

lemma sameTables_deployImage: "keeps sameTables (deployImage api cfg i)"
  unfolding deployImage_def upsertConfigMap_def upsertFileConfigMap_def upsertSecret_def
    upsertSecretFiles_def upsertDeployment_def upsertService_def Let_def
  by (intro kube_steps sameTables_deleteIfExists sameTables_upsertObject sameTables_ensureNamespace
      sameTables_enableApplicationRouting)

lemma sameTables_deleteDeploymentResources:
  "keeps sameTables (deleteDeploymentResources api ns names deleteRoutes)"
  unfolding deleteDeploymentResources_def deleteHttpRoute_def
  by (intro kube_steps sameTables_deleteIfExists)

lemma sameTables_createBuildJob: "keeps sameTables (createBuildJob api cfg i)"
  "keeps sameTables (createBuildpackJob api cfg i)"
  unfolding createBuildJob_def createBuildpackJob_def
  by (intro kube_steps sameTables_ensureNamespace)+

lemma sameTables_status: "keeps sameTables (getBuildJobStatus api ns n)"
  "keeps sameTables (kubeDeploymentStatus api ns n)"
  "keeps sameTables (scaleDeployment api ns n r)"
  "keeps sameTables (restartDeployment api ns n)"
  unfolding getBuildJobStatus_def kubeDeploymentStatus_def scaleDeployment_def
    restartDeployment_def Let_def
  by (intro kube_steps)+

lemma sameTables_listDeploymentPods: "keeps sameTables (listDeploymentPods api ns labels)"
  unfolding listDeploymentPods_def by (intro kube_steps)

lemma sameTables_getPodLogsByLabels: "keeps sameTables (getPodLogsByLabels api ns labels t s)"
  unfolding getPodLogsByLabels_def Let_def by (intro kube_steps)

lemma sameTables_listing: "keeps sameTables (listDeploymentEvents api ns n labels)"
  "keeps sameTables (getBuildJobLogs api ns labels)"
  "keeps sameTables (kubeDeploymentLogs api ns labels)"
  "keeps sameTables (getDeploymentEvidenceLogs api ns labels n2 s)"
  unfolding listDeploymentEvents_def getBuildJobLogs_def kubeDeploymentLogs_def
    getDeploymentEvidenceLogs_def
  by (intro kube_steps sameTables_listDeploymentPods sameTables_getPodLogsByLabels)+

lemmas kube_sameTables = sameTables_deployImage sameTables_deleteDeploymentResources
  sameTables_createBuildJob sameTables_status sameTables_listDeploymentPods sameTables_listing

lemmas kube_tenantFrame = kube_sameTables [THEN keeps_sameTables_tenantFrame]

declare kube_tenantFrame [keeps_intros]

end
