(* ===== verification/Apps.thy ===== *)
theory Apps
  imports Kubernetes
begin

text \<open>
  apps/apps.service.ts, auth/authorization.service.ts and the workspace lookup the build and
  deployment services share.
\<close>

section \<open>Authorization\<close>

definition requirePermissions :: "string list \<Rightarrow> ('c world, unit) io" where
  "requirePermissions permissions =
     bindM currentContext (\<lambda>current.
       let granted = (case current of
             None \<Rightarrow> [] | Some c \<Rightarrow> (case c_scopes c of None \<Rightarrow> [] | Some s \<Rightarrow> s)) in
       whenM (\<not> list_all (\<lambda>p. p \<in> set granted) permissions)
         (throwM (Forbidden ''The required permission is missing'')))"

definition workspaceNamespace :: "string \<Rightarrow> ('c world, string) io" where
  "workspaceNamespace workspaceId =
     bindM (findFirst workspaceTable (\<lambda>r. ws_id r = workspaceId)) (\<lambda>workspace.
       case workspace of
         None \<Rightarrow> throwM (NotFound ''Workspace was not found'')
       | Some ws \<Rightarrow> returnM (ws_namespace ws))"

section \<open>Apps\<close>

record create_app_dto =
  ca_name :: string
  ca_displayName :: string
  ca_sourceType :: "app_source option"
  ca_image :: "string option"
  ca_defaultPort :: "int option"
  ca_repoUrl :: "string option"
  ca_branch :: "string option"
  ca_buildContext :: "string option"
  ca_dockerfilePath :: "string option"

text \<open>\<open>a ?? b\<close> on optional values.\<close>

definition orDefault :: "'a option \<Rightarrow> 'a \<Rightarrow> 'a" where
  "orDefault x d = (case x of None \<Rightarrow> d | Some y \<Rightarrow> y)"

lemma orDefault_simps [simp]: "orDefault None d = d" "orDefault (Some y) d = y"
  by (simp_all add: orDefault_def)

definition createApp :: "create_app_dto \<Rightarrow> ('c world, app) io" where
  "createApp dto =
     (let sourceType = orDefault (ca_sourceType dto) SourceImage in
      if sourceType = SourceGit \<and> \<not> truthy (ca_repoUrl dto)
      then throwM (BadRequest ''repoUrl is required for git apps'')
      else if truthy (ca_repoUrl dto) \<and> \<not> startsWith (the (ca_repoUrl dto)) ''https://''
      then throwM (BadRequest ''repoUrl must be a public HTTPS URL'')
      else
        bindM fresh (\<lambda>i. bindM now (\<lambda>createdAt.
          createRow appTable (\<lambda>ws.
            \<lparr> a_id = i, a_workspaceId = ws, a_name = ca_name dto,
              a_displayName = ca_displayName dto, a_sourceType = sourceType,
              a_image = ca_image dto, a_defaultPort = ca_defaultPort dto,
              a_repoUrl = ca_repoUrl dto,
              a_branch = Some (orDefault (ca_branch dto) ''main''),
              a_buildContext = Some (orDefault (ca_buildContext dto) ''.''),
              a_dockerfilePath = Some (orDefault (ca_dockerfilePath dto) ''Dockerfile''),
              a_createdAt = createdAt \<rparr>))))"

definition findAllApps :: "('c world, app list) io" where
  "findAllApps = bindM (findMany appTable (\<lambda>_. True)) (\<lambda>rs. returnM (newestFirst a_createdAt rs))"

definition findAppOrThrow :: "string \<Rightarrow> ('c world, app) io" where
  "findAppOrThrow i =
     bindM (findFirst appTable (\<lambda>a. a_id a = i)) (\<lambda>found.
       case found of
         None \<Rightarrow> throwM (NotFound (''App '' @ i @ '' was not found''))
       | Some a \<Rightarrow> returnM a)"

section \<open>Facts\<close>

lemma keeps_requirePermissions [keeps_intros]:
  "preorder_rel R \<Longrightarrow> keeps R (requirePermissions ps)"
  unfolding requirePermissions_def Let_def
  by (intro keeps_bindM keeps_currentContext keeps_whenM keeps_throwM)

lemma keeps_workspaceNamespace [keeps_intros]:
  "preorder_rel R \<Longrightarrow> keeps R (workspaceNamespace i)"
  unfolding workspaceNamespace_def
  by (intro keeps_bindM keeps_findFirst keeps_option keeps_throwM keeps_returnM)

lemma keeps_findAppOrThrow [keeps_intros]: "preorder_rel R \<Longrightarrow> keeps R (findAppOrThrow i)"
  unfolding findAppOrThrow_def
  by (intro keeps_bindM keeps_findFirst keeps_option keeps_throwM keeps_returnM)

lemma keeps_createApp [keeps_intros]: "keeps tenantFrame (createApp dto)"
  unfolding createApp_def Let_def by (intro keeps_intros)

lemma keeps_findAllApps [keeps_intros]: "preorder_rel R \<Longrightarrow> keeps R findAllApps"
  unfolding findAllApps_def by (intro keeps_bindM keeps_findMany keeps_returnM)

lemma requirePermissions_run:
  "requirePermissions ps w =
     (if list_all (\<lambda>p. p \<in> set (case tenant w of None \<Rightarrow> [] | Some c \<Rightarrow> orDefault (c_scopes c) [])) ps
      then Inr () else Inl (Forbidden ''The required permission is missing''), w)"
  by (cases "tenant w"; cases "c_scopes (the (tenant w))")
    (simp_all add: requirePermissions_def currentContext_def bindM_run whenM_run Let_def)

lemma findAppOrThrow_Inr:
  "findAppOrThrow i w = (Inr a, w') \<Longrightarrow> w' = w \<and> a \<in> set (apps w) \<and> a_id a = i
     \<and> databaseWorkspace w = Some (a_workspaceId a)"
  by (auto simp: findAppOrThrow_def findFirst_def bindM_run app.visible_iff appTable_def
      find_Some_iff visible_def split: option.splits)

text \<open>
  A git app is stored only with a public HTTPS repository, in the workspace of the caller, and
  with its build settings filled in; an app without one is refused before anything is written.
\<close>

theorem created_app_is_buildable:
  assumes "createApp dto w = (res, w')"
  shows "(case res of
      Inr a \<Rightarrow> databaseWorkspace w = Some (a_workspaceId a)
        \<and> apps w' = apps w @ [a]
        \<and> (a_sourceType a = SourceGit \<longrightarrow> a_repoUrl a \<noteq> None)
        \<and> (\<forall>url. a_repoUrl a = Some url \<and> url \<noteq> [] \<longrightarrow> startsWith url ''https://'')
        \<and> a_branch a \<noteq> None \<and> a_buildContext a \<noteq> None \<and> a_dockerfilePath a \<noteq> None
    | Inl e \<Rightarrow> apps w' = apps w)
    \<and> (orDefault (ca_sourceType dto) SourceImage = SourceGit
         \<and> \<not> truthy (ca_repoUrl dto) \<longrightarrow> res = Inl (BadRequest ''repoUrl is required for git apps''))"
  using assms
  by (auto simp: createApp_def Let_def bindM_run fresh_run now_run createRow_def appTable_def
      visible_def truthy_def databaseWorkspace_def split: if_splits option.splits)

theorem created_app_is_buildable_witness:
  "fst (createApp \<lparr> ca_name = ''web'', ca_displayName = ''Web'', ca_sourceType = Some SourceGit,
     ca_image = None, ca_defaultPort = None, ca_repoUrl = None, ca_branch = None,
     ca_buildContext = None, ca_dockerfilePath = None \<rparr> (emptyWorld ()))
   = Inl (BadRequest ''repoUrl is required for git apps'')"
  using created_app_is_buildable [OF surjective_pairing, of
    "\<lparr> ca_name = ''web'', ca_displayName = ''Web'', ca_sourceType = Some SourceGit,
     ca_image = None, ca_defaultPort = None, ca_repoUrl = None, ca_branch = None,
     ca_buildContext = None, ca_dockerfilePath = None \<rparr>" "emptyWorld ()"]
  by (simp add: truthy_def)

end
