(* ===== verification/Cluster.thy ===== *)
theory Cluster
  imports Kubernetes
begin

text \<open>
  The documented behaviour of the Kubernetes object API as an abstract store of objects, and the
  refinement of the service's operations: each of them changes the store by the update it
  promises, and nothing else. A concrete store shows the assumptions can hold.
\<close>

section \<open>The abstract store\<close>

type_synonym object_key = "kind \<times> string \<times> string" \<comment> \<open>kind, namespace, name\<close>
type_synonym object_store = "object_key \<Rightarrow> json option"

fun without :: "string list \<Rightarrow> json \<Rightarrow> json" where
  "without ks (JObj kvs) = JObj (filter (\<lambda>kv. fst kv \<notin> set ks) kvs)"
| "without ks v = v"

definition clusterAssigned :: "string list" where
  "clusterAssigned = [''clusterIP'', ''clusterIPs'', ''ipFamilies'', ''ipFamilyPolicy'']"

text \<open>An object without the members the API server manages.\<close>

definition contentOf :: "kind \<Rightarrow> json \<Rightarrow> json" where
  "contentOf k v =
     (let m = withMember v ''metadata'' (without [''resourceVersion''] (member v ''metadata'')) in
      if k = KService then withMember m ''spec'' (without clusterAssigned (member m ''spec'')) else m)"

definition resourceVersionOf :: "json \<Rightarrow> json" where
  "resourceVersionOf v = path v [''metadata'', ''resourceVersion'']"

text \<open>JSON merge patch (RFC 7386).\<close>

fun mergePatch :: "json \<Rightarrow> json \<Rightarrow> json"
  and mergeMembers :: "(string \<times> json) list \<Rightarrow> (string \<times> json) list \<Rightarrow> (string \<times> json) list" where
  "mergePatch target (JObj kvs) = JObj (mergeMembers (case target of JObj t \<Rightarrow> t | _ \<Rightarrow> []) kvs)"
| "mergePatch target v = v"
| "mergeMembers t [] = t"
| "mergeMembers t ((k, v) # kvs) =
     mergeMembers
       (if v = JNull then filter (\<lambda>kv. fst kv \<noteq> k) t
        else setEntry k (mergePatch (member (JObj t) k) v) t) kvs"

text \<open>
  What the API promises of a store of contents \<open>look\<close>: reading finds an object or answers 404;
  replacing needs the current resource version; creating needs a namespace, no resource version
  and no object of that name, else it is refused; deleting an absent object answers 404; a patch merges.
\<close>

definition missing :: "'c kubernetes_api \<Rightarrow> k8s_call \<Rightarrow> 'c \<Rightarrow> bool" where
  "missing api call c \<longleftrightarrow> (\<exists>e. api call c = (Inl e, c) \<and> isKubernetesNotFound (KubeError e))"

definition answers :: "'c kubernetes_api \<Rightarrow> ('c \<Rightarrow> object_store) \<Rightarrow> k8s_call \<Rightarrow> 'c \<Rightarrow> object_store \<Rightarrow> bool" where
  "answers api look call c s \<longleftrightarrow> (\<exists>r c'. api call c = (Inr r, c') \<and> look c' = s)"

definition namespaceReady :: "string \<Rightarrow> object_store \<Rightarrow> bool" where
  "namespaceReady ns s \<longleftrightarrow> s (KNamespace, [], ns) \<noteq> None"

definition absentLaw :: "'c kubernetes_api \<Rightarrow> ('c \<Rightarrow> object_store) \<Rightarrow> bool" where
  "absentLaw api look \<longleftrightarrow>
     (\<forall>k ns n c. look c (k, ns, n) = None \<longrightarrow> missing api (Read k n ns) c \<and> missing api (Delete k n ns) c)"

definition presentLaw :: "'c kubernetes_api \<Rightarrow> ('c \<Rightarrow> object_store) \<Rightarrow> bool" where
  "presentLaw api look \<longleftrightarrow>
     (\<forall>k ns n c. look c (k, ns, n) \<noteq> None \<longrightarrow>
        (\<exists>r. api (Read k n ns) c = (Inr r, c)
             \<and> (\<forall>body. resourceVersionOf body = resourceVersionOf r \<longrightarrow>
                  answers api look (Replace k n ns body) c
                    ((look c)((k, ns, n) \<mapsto> contentOf k body))))
        \<and> answers api look (Delete k n ns) c ((look c)((k, ns, n) := None)))"

definition createLaw :: "'c kubernetes_api \<Rightarrow> ('c \<Rightarrow> object_store) \<Rightarrow> bool" where
  "createLaw api look \<longleftrightarrow>
     (\<forall>k ns n c body. look c (k, ns, n) = None \<longrightarrow> k = KNamespace \<or> namespaceReady ns (look c) \<longrightarrow>
        path body [''metadata'', ''name''] = JStr n \<longrightarrow> resourceVersionOf body = JUndef \<longrightarrow>
        answers api look (Create k ns body) c ((look c)((k, ns, n) \<mapsto> contentOf k body)))"

definition takenLaw :: "'c kubernetes_api \<Rightarrow> ('c \<Rightarrow> object_store) \<Rightarrow> bool" where
  "takenLaw api look \<longleftrightarrow>
     (\<forall>k ns n c body. look c (k, ns, n) \<noteq> None \<longrightarrow> path body [''metadata'', ''name''] = JStr n \<longrightarrow>
        (\<exists>e. api (Create k ns body) c = (Inl e, c)))"

definition patchLaw :: "'c kubernetes_api \<Rightarrow> ('c \<Rightarrow> object_store) \<Rightarrow> bool" where
  "patchLaw api look \<longleftrightarrow>
     (\<forall>k ns n c j p. look c (k, ns, n) = Some j \<longrightarrow>
        answers api look (MergePatch k n ns p) c
          ((look c)((k, ns, n) \<mapsto> contentOf k (mergePatch j p))))"

definition lawfulApi :: "'c kubernetes_api \<Rightarrow> ('c \<Rightarrow> object_store) \<Rightarrow> bool" where
  "lawfulApi api look \<longleftrightarrow>
     absentLaw api look \<and> presentLaw api look \<and> createLaw api look \<and> takenLaw api look \<and> patchLaw api look"

text \<open>The laws one by one.\<close>

lemma lawful_absent:
  "lawfulApi api look \<Longrightarrow> look c (k, ns, n) = None \<Longrightarrow>
   missing api (Read k n ns) c \<and> missing api (Delete k n ns) c"
  by (simp add: lawfulApi_def absentLaw_def)

lemma lawful_present:
  "lawfulApi api look \<Longrightarrow> look c (k, ns, n) \<noteq> None \<Longrightarrow>
   (\<exists>r. api (Read k n ns) c = (Inr r, c)
        \<and> (\<forall>body. resourceVersionOf body = resourceVersionOf r \<longrightarrow>
             answers api look (Replace k n ns body) c ((look c)((k, ns, n) \<mapsto> contentOf k body))))
   \<and> answers api look (Delete k n ns) c ((look c)((k, ns, n) := None))"
  unfolding lawfulApi_def presentLaw_def by blast

lemma lawful_create:
  "lawfulApi api look \<Longrightarrow> look c (k, ns, n) = None \<Longrightarrow> k = KNamespace \<or> namespaceReady ns (look c) \<Longrightarrow>
   path body [''metadata'', ''name''] = JStr n \<Longrightarrow> resourceVersionOf body = JUndef \<Longrightarrow>
   answers api look (Create k ns body) c ((look c)((k, ns, n) \<mapsto> contentOf k body))"
  unfolding lawfulApi_def createLaw_def by blast

lemma lawful_taken:
  "lawfulApi api look \<Longrightarrow> look c (k, ns, n) \<noteq> None \<Longrightarrow> path body [''metadata'', ''name''] = JStr n \<Longrightarrow>
   \<exists>e. api (Create k ns body) c = (Inl e, c)"
  unfolding lawfulApi_def takenLaw_def by blast

lemma lawful_patch:
  "lawfulApi api look \<Longrightarrow> look c (k, ns, n) = Some j \<Longrightarrow>
   answers api look (MergePatch k n ns p) c ((look c)((k, ns, n) \<mapsto> contentOf k (mergePatch j p)))"
  unfolding lawfulApi_def patchLaw_def by blast

section \<open>Effects on the store\<close>

definition effect ::
  "('c \<Rightarrow> object_store) \<Rightarrow> (object_store \<Rightarrow> bool) \<Rightarrow> ('c world, 'a) io \<Rightarrow> (object_store \<Rightarrow> object_store) \<Rightarrow> bool"
where
  "effect look P m f \<longleftrightarrow>
     (\<forall>w. P (look (cluster w)) \<longrightarrow>
        (\<exists>r w'. m w = (Inr r, w') \<and> look (cluster w') = f (look (cluster w))))"

lemma effect_thenM:
  "effect look P m f \<Longrightarrow> effect look Q n g \<Longrightarrow> (\<And>s. P s \<Longrightarrow> Q (f s)) \<Longrightarrow>
   effect look P (thenM m n) (\<lambda>s. g (f s))"
  unfolding effect_def
proof (intro allI impI)
  fix w :: "'a world"
  assume m: "\<forall>w. P (look (cluster w)) \<longrightarrow>
      (\<exists>r w'. m w = (Inr r, w') \<and> look (cluster w') = f (look (cluster w)))"
    and n: "\<forall>w. Q (look (cluster w)) \<longrightarrow>
      (\<exists>r w'. n w = (Inr r, w') \<and> look (cluster w') = g (look (cluster w)))"
    and q: "\<And>s. P s \<Longrightarrow> Q (f s)" and p: "P (look (cluster w))"
  from m p obtain r w' where "m w = (Inr r, w')" "look (cluster w') = f (look (cluster w))"
    by blast
  moreover from n [rule_format, of w'] q [OF p] calculation
  obtain r' w'' where "n w' = (Inr r', w'')" "look (cluster w'') = g (look (cluster w'))" by auto
  ultimately show "\<exists>r w'. thenM m n w = (Inr r, w') \<and> look (cluster w') = g (f (look (cluster w)))"
    by (simp add: thenM_run)
qed

lemma effect_weaken: "effect look Q m f \<Longrightarrow> (\<And>s. P s \<Longrightarrow> Q s) \<Longrightarrow> effect look P m f"
  unfolding effect_def by blast

lemma effect_cong: "effect look P m f \<Longrightarrow> (\<And>s. P s \<Longrightarrow> f s = g s) \<Longrightarrow> effect look P m g"
  unfolding effect_def by metis

lemma effect_returnM: "effect look P (returnM x) (\<lambda>s. s)"
  by (simp add: effect_def)

lemma effect_voidM: "effect look P m f \<Longrightarrow> effect look P (voidM m) f"
  unfolding effect_def by (fastforce simp: voidM_run)

lemma effect_call:
  "(\<And>c. P (look c) \<Longrightarrow> answers api look call c (f (look c))) \<Longrightarrow> effect look P (callK api call) f"
  unfolding effect_def answers_def by (fastforce simp: callK_run)

lemma effect_catchM: "effect look P m f \<Longrightarrow> effect look P (catchM m h) f"
  unfolding effect_def by (fastforce simp: catchM_run)

lemma effect_deleteIfExists:
  assumes "lawfulApi api look"
  shows "effect look P (deleteIfExists api k n ns) (\<lambda>s. s((k, ns, n) := None))"
  unfolding effect_def
proof (intro allI impI)
  fix w :: "'a world"
  show "\<exists>r w'. deleteIfExists api k n ns w = (Inr r, w')
      \<and> look (cluster w') = (look (cluster w))((k, ns, n) := None)"
  proof (cases "look (cluster w) (k, ns, n) = None")
    case True
    then have "missing api (Delete k n ns) (cluster w)"
      using lawful_absent [OF assms] by simp
    moreover have "(look (cluster w))((k, ns, n) := None) = look (cluster w)"
      using True by (simp add: fun_upd_idem)
    ultimately show ?thesis
      by (auto simp: missing_def deleteIfExists_def catchM_run voidM_run callK_run)
  next
    case False
    then have "answers api look (Delete k n ns) (cluster w) ((look (cluster w))((k, ns, n) := None))"
      using lawful_present [OF assms] by blast
    then show ?thesis
      by (auto simp: answers_def deleteIfExists_def catchM_run voidM_run callK_run)
  qed
qed

lemma effect_upsertObject:
  assumes "lawfulApi api look"
    and "path manifest [''metadata'', ''name''] = JStr n"
    and "resourceVersionOf manifest = JUndef"
    and "\<And>e. resourceVersionOf (merged e) = resourceVersionOf e"
    and "\<And>e. contentOf k (merged e) = contentOf k manifest"
  shows "effect look (namespaceReady ns) (upsertObject api k n ns manifest merged)
           (\<lambda>s. s((k, ns, n) \<mapsto> contentOf k manifest))"
  unfolding effect_def
proof (intro allI impI)
  fix w :: "'a world"
  assume ready: "namespaceReady ns (look (cluster w))"
  let ?goal = "\<exists>r w'. upsertObject api k n ns manifest merged w = (Inr r, w')
      \<and> look (cluster w') = (look (cluster w))((k, ns, n) \<mapsto> contentOf k manifest)"
  show ?goal
  proof (cases "look (cluster w) (k, ns, n) = None")
    case True
    then have "missing api (Read k n ns) (cluster w)"
      using lawful_absent [OF assms(1)] by simp
    moreover have "answers api look (Create k ns manifest) (cluster w)
        ((look (cluster w))((k, ns, n) \<mapsto> contentOf k manifest))"
      using lawful_create [OF assms(1) True] ready assms(2,3) by blast
    ultimately show ?goal
      by (auto simp: missing_def answers_def upsertObject_def Let_def bindM_run attemptM_run
          voidM_run callK_run)
  next
    case False
    then obtain r where r: "api (Read k n ns) (cluster w) = (Inr r, cluster w)"
      and rep: "\<And>body. resourceVersionOf body = resourceVersionOf r \<Longrightarrow>
        answers api look (Replace k n ns body) (cluster w)
          ((look (cluster w))((k, ns, n) \<mapsto> contentOf k body))"
      using lawful_present [OF assms(1) False] by blast
    from rep [of "merged r"] assms(4,5) obtain r' c' where
      "api (Replace k n ns (merged r)) (cluster w) = (Inr r', c')"
      "look c' = (look (cluster w))((k, ns, n) \<mapsto> contentOf k manifest)"
      by (auto simp: answers_def)
    with r show ?goal
      by (simp add: upsertObject_def Let_def bindM_run attemptM_run voidM_run callK_run catchM_run)
  qed
qed

section \<open>The manifests as store contents\<close>

lemma without_fresh [simp]:
  "without [''resourceVersion''] (metadataOf n labels) = metadataOf n labels"
  by (simp add: metadataOf_def)

lemma metadata_version [simp]: "member (metadataOf n labels) ''resourceVersion'' = JUndef"
  by (simp add: metadataOf_def)

lemma metadata_name [simp]: "member (metadataOf n labels) ''name'' = JStr n"
  by (simp add: metadataOf_def)

lemma member_withMember_same [simp]: "member (withMember v k x) k = x"
  by (cases v) (simp_all add: map_of_setEntry)

lemma resourceVersionOf_merged [simp]:
  "resourceVersionOf (withResourceVersion m e) = resourceVersionOf e"
  by (simp add: resourceVersionOf_def withResourceVersion_def)

lemma without_withVersion [simp]:
  "without [''resourceVersion''] (withMember (metadataOf n labels) ''resourceVersion'' x) = metadataOf n labels"
  by (simp add: metadataOf_def)

lemma withMember_metadata:
  "withMember (withMember v ''metadata'' a) ''metadata'' b = withMember v ''metadata'' b"
proof -
  have "setEntry k b (setEntry k a kvs) = setEntry k b kvs" for k :: string and a b :: json and kvs
    by (induction kvs) auto
  then show ?thesis by (cases v) simp_all
qed

text \<open>
  Merging the resource version into a manifest whose metadata came from \<open>metadataOf\<close> leaves its
  content alone, and so does copying the cluster-assigned members of a Service.
\<close>

lemma contentOf_withResourceVersion:
  assumes "member m ''metadata'' = metadataOf n labels"
    and "k \<noteq> KService"
  shows "contentOf k (withResourceVersion m e) = contentOf k m"
  using assms by (simp add: contentOf_def withResourceVersion_def withMember_metadata)

lemma contentOf_mergedService:
  "contentOf KService (mergedService (buildServiceManifest n p labels) e) =
   contentOf KService (buildServiceManifest n p labels)"
  by (simp add: contentOf_def mergedService_def withResourceVersion_def buildServiceManifest_def
      clusterAssigned_def metadataOf_def)

lemma resourceVersionOf_mergedService [simp]:
  "resourceVersionOf (mergedService (buildServiceManifest n p labels) e) = resourceVersionOf e"
  by (simp add: resourceVersionOf_def mergedService_def withResourceVersion_def
      buildServiceManifest_def)

lemma manifest_metadata [simp]:
  "member (buildConfigMapManifest n labels d) ''metadata'' = metadataOf n labels"
  "member (buildSecretManifest n labels d) ''metadata'' = metadataOf n labels"
  "member (buildServiceManifest n p labels) ''metadata'' = metadataOf n labels"
  "member (buildDeploymentManifest i) ''metadata'' = metadataOf (dmName i) (dmLabels i)"
  by (simp_all add: buildConfigMapManifest_def buildSecretManifest_def buildServiceManifest_def
      buildDeploymentManifest_def Let_def)

lemma workload_metadata [simp]:
  "member (workloadManifest i) ''metadata'' =
     metadataOf (deploymentName (di_names i))
       (buildApplicationPodLabels (di_labels i) (di_routing i \<noteq> None))"
  by (simp add: workloadManifest_def)

section \<open>What a deployment asks of the store\<close>

type_synonym store_change = "object_key \<times> json option"

definition applyChanges :: "store_change list \<Rightarrow> object_store \<Rightarrow> object_store" where
  "applyChanges cs s = foldl (\<lambda>s (k, v). s(k := v)) s cs"

definition optionalObject ::
  "kind \<Rightarrow> string \<Rightarrow> string option \<Rightarrow> bool \<Rightarrow> (string \<Rightarrow> json) \<Rightarrow> store_change list"
where
  "optionalObject k ns name wanted manifest =
     (if truthy name
      then [((k, ns, the name), if wanted then Some (contentOf k (manifest (the name))) else None)]
      else [])"

text \<open>
  The objects of a deployment: a ConfigMap of its plain variables; a Secret, a file ConfigMap and
  a secret-file Secret exactly when it has such settings; the Deployment; the Service.
\<close>

definition desiredObjects :: "deploy_input \<Rightarrow> store_change list" where
  "desiredObjects i =
     (let ns = di_namespace i; names = di_names i; labels = di_labels i in
      [((KConfigMap, ns, configMapName names),
         Some (contentOf KConfigMap (buildConfigMapManifest (configMapName names) labels (di_env i))))]
      @ optionalObject KConfigMap ns (fileConfigMapName names) (fc_items (di_files i) \<noteq> [])
          (\<lambda>n. buildConfigMapManifest n labels (fc_data (di_files i)))
      @ optionalObject KSecret ns (secretName names) (di_secrets i \<noteq> [])
          (\<lambda>n. buildSecretManifest n labels (di_secrets i))
      @ optionalObject KSecret ns (secretFileSecretName names) (fc_items (di_secretFiles i) \<noteq> [])
          (\<lambda>n. buildSecretManifest n labels (fc_data (di_secretFiles i)))
      @ [((KDeployment, ns, deploymentName names), Some (contentOf KDeployment (workloadManifest i))),
         ((KService, ns, serviceName names),
           Some (contentOf KService (buildServiceManifest (serviceName names) (di_port i) labels)))])"

text \<open>The settings that need a name have one.\<close>

definition namesGiven :: "deploy_input \<Rightarrow> bool" where
  "namesGiven i \<longleftrightarrow>
     (fc_items (di_files i) \<noteq> [] \<longrightarrow> truthy (fileConfigMapName (di_names i)))
     \<and> (di_secrets i \<noteq> [] \<longrightarrow> truthy (secretName (di_names i)))
     \<and> (fc_items (di_secretFiles i) \<noteq> [] \<longrightarrow> truthy (secretFileSecretName (di_names i)))"

lemma applyChanges_simps [simp]:
  "applyChanges [] s = s"
  "applyChanges ((k, v) # cs) s = applyChanges cs (s(k := v))"
  by (simp_all add: applyChanges_def)

lemma applyChanges_append: "applyChanges (a @ b) s = applyChanges b (applyChanges a s)"
  by (simp add: applyChanges_def)

lemma applyChanges_other: "k \<notin> fst ` set cs \<Longrightarrow> applyChanges cs s k = s k"
  by (induction cs arbitrary: s) (auto simp: fun_upd_apply)

definition changes :: "('c \<Rightarrow> object_store) \<Rightarrow> string \<Rightarrow> ('c world, 'a) io \<Rightarrow> store_change list \<Rightarrow> bool" where
  "changes look ns m cs \<longleftrightarrow>
     effect look (namespaceReady ns) m (applyChanges cs)
     \<and> (\<forall>c \<in> set cs. fst (fst c) \<noteq> KNamespace)"

lemma ready_applyChanges:
  "namespaceReady ns s \<Longrightarrow> \<forall>c \<in> set cs. fst (fst c) \<noteq> KNamespace \<Longrightarrow> namespaceReady ns (applyChanges cs s)"
  by (induction cs arbitrary: s) (auto simp: namespaceReady_def)

lemma changes_thenM:
  "changes look ns m a \<Longrightarrow> changes look ns n b \<Longrightarrow> changes look ns (thenM m n) (a @ b)"
  unfolding changes_def
  by (auto intro!: effect_cong [OF effect_thenM] ready_applyChanges simp: applyChanges_append)

lemma changes_Cons:
  "changes look ns m [x] \<Longrightarrow> changes look ns n b \<Longrightarrow> changes look ns (thenM m n) (x # b)"
  using changes_thenM [of look ns m "[x]"] by simp

lemma changes_upsert:
  assumes "lawfulApi api look" and "member manifest ''metadata'' = metadataOf n labels"
    and "k \<noteq> KService" "k \<noteq> KNamespace"
  shows "changes look ns (upsertObject api k n ns manifest (withResourceVersion manifest))
           [((k, ns, n), Some (contentOf k manifest))]"
  unfolding changes_def
proof (intro conjI)
  show "effect look (namespaceReady ns)
      (upsertObject api k n ns manifest (withResourceVersion manifest))
      (applyChanges [((k, ns, n), Some (contentOf k manifest))])"
    by (rule effect_cong [OF effect_upsertObject [OF assms(1)]])
       (use assms in \<open>simp_all add: resourceVersionOf_def [of manifest] contentOf_withResourceVersion\<close>)
  show "\<forall>c\<in>set [((k, ns, n), Some (contentOf k manifest))]. fst (fst c) \<noteq> KNamespace"
    using assms(4) by simp
qed

lemma changes_delete:
  assumes "lawfulApi api look" and "k \<noteq> KNamespace"
  shows "changes look ns (deleteIfExists api k n ns) [((k, ns, n), None)]"
  unfolding changes_def
  by (intro conjI effect_cong [OF effect_deleteIfExists [OF assms(1)]]) (simp_all add: assms(2))

lemma changes_nothing: "changes look ns (returnM x) []"
  unfolding changes_def by (intro conjI effect_cong [OF effect_returnM]) simp_all

definition policyObjects :: "service_config \<Rightarrow> string \<Rightarrow> store_change list" where
  "policyObjects cfg ns =
     (if tenantNetworkPolicyEnabled cfg
      then map (\<lambda>p. ((KNetworkPolicy, ns, the (asStr (path p [''metadata'', ''name'']))),
                      Some (contentOf KNetworkPolicy p)))
             (buildTenantNetworkPolicyManifests ns (applicationGatewayName cfg)
                (applicationGatewayNamespace cfg))
      else [])"

text \<open>The namespace object is created when it is absent, and left alone otherwise.\<close>

definition withNamespace :: "string \<Rightarrow> string entries \<Rightarrow> object_store \<Rightarrow> object_store" where
  "withNamespace ns labels s =
     (if namespaceReady ns s then s
      else s((KNamespace, [], ns) \<mapsto> contentOf KNamespace (buildNamespaceManifest ns
         [(''app.kubernetes.io/managed-by'', map_of labels ''app.kubernetes.io/managed-by''),
          (''rca-platform/workspace-id'', map_of labels ''rca-platform/workspace-id'')])))"

lemma ready_withNamespace: "namespaceReady ns (withNamespace ns labels s)"
  by (simp add: withNamespace_def namespaceReady_def)

lemma policy_content:
  "p = networkPolicy n ns sel ing \<Longrightarrow> contentOf KNetworkPolicy (withResourceVersion p e) = contentOf KNetworkPolicy p"
  by (simp add: contentOf_def withResourceVersion_def networkPolicy_def)

lemma changes_upsertNetworkPolicy:
  assumes "lawfulApi api look" and "n \<noteq> []"
  shows "changes look ns (upsertNetworkPolicy api ns (networkPolicy n ns sel ing))
           [((KNetworkPolicy, ns, n), Some (contentOf KNetworkPolicy (networkPolicy n ns sel ing)))]"
proof -
  let ?p = "networkPolicy n ns sel ing"
  have name: "path ?p [''metadata'', ''name''] = JStr n" "resourceVersionOf ?p = JUndef"
    by (simp_all add: networkPolicy_def resourceVersionOf_def)
  have "upsertNetworkPolicy api ns ?p =
      upsertObject api KNetworkPolicy n ns ?p (withResourceVersion ?p)"
    using assms(2) name(1) by (simp add: upsertNetworkPolicy_def truthy_def)
  moreover have "effect look (namespaceReady ns)
      (upsertObject api KNetworkPolicy n ns ?p (withResourceVersion ?p))
      (\<lambda>s. s((KNetworkPolicy, ns, n) \<mapsto> contentOf KNetworkPolicy ?p))"
    using effect_upsertObject [OF assms(1) name] policy_content [OF refl] by simp
  ultimately show ?thesis by (simp add: changes_def effect_def)
qed

lemma changes_reconcile:
  assumes "lawfulApi api look"
    and "applicationGatewayName cfg \<noteq> []" "applicationGatewayNamespace cfg \<noteq> []"
    and "tenantNetworkPolicyEnabled cfg"
  shows "changes look ns (reconcileTenantNetworkPolicies api cfg ns) (policyObjects cfg ns)"
proof -
  let ?ps = "buildTenantNetworkPolicyManifests ns (applicationGatewayName cfg)
      (applicationGatewayNamespace cfg)"
  have names: "path (networkPolicy n ns' sel ing) [''metadata'', ''name''] = JStr n" for n ns' sel ing
    by (simp add: networkPolicy_def)
  have "changes look ns (forM ?ps (upsertNetworkPolicy api ns)) (policyObjects cfg ns)"
    unfolding buildTenantNetworkPolicyManifests_def policyObjects_def forM.simps list.map names
      asStr.simps option.sel if_P [OF assms(4)]
    by (intro changes_Cons changes_upsertNetworkPolicy [OF assms(1)] changes_nothing) simp_all
  then show ?thesis
    using assms(2,3) unfolding reconcileTenantNetworkPolicies_def changes_def Let_def
    by (simp add: effect_catchM)
qed

lemma effect_ensureNamespace:
  assumes law: "lawfulApi api look"
    and "tenantNetworkPolicyEnabled cfg \<Longrightarrow>
      applicationGatewayName cfg \<noteq> [] \<and> applicationGatewayNamespace cfg \<noteq> []"
  shows "effect look (\<lambda>_. True) (ensureNamespace api cfg ns labels)
           (\<lambda>s. applyChanges (policyObjects cfg ns) (withNamespace ns labels s))"
proof -
  let ?m = "buildNamespaceManifest ns
         [(''app.kubernetes.io/managed-by'', map_of labels ''app.kubernetes.io/managed-by''),
          (''rca-platform/workspace-id'', map_of labels ''rca-platform/workspace-id'')]"
  let ?head = "catchM (voidM (callK api (Read KNamespace ns [])))
     (\<lambda>e. if \<not> isKubernetesNotFound e then throwM e
          else voidM (callK api (Create KNamespace [] ?m)))"
  have head: "effect look (\<lambda>_. True) ?head (withNamespace ns labels)"
    unfolding effect_def
  proof (intro allI impI)
    fix w :: "'a world"
    show "\<exists>r w'. ?head w = (Inr r, w') \<and> look (cluster w') = withNamespace ns labels (look (cluster w))"
    proof (cases "look (cluster w) (KNamespace, [], ns) = None")
      case True
      then have "missing api (Read KNamespace ns []) (cluster w)"
        using lawful_absent [OF law] by simp
      moreover have "answers api look (Create KNamespace [] ?m) (cluster w)
          ((look (cluster w))((KNamespace, [], ns) \<mapsto> contentOf KNamespace ?m))"
        using lawful_create [OF law True]
        by (simp add: buildNamespaceManifest_def resourceVersionOf_def)
      ultimately show ?thesis
        using True by (auto simp: missing_def answers_def catchM_run voidM_run callK_run
            withNamespace_def namespaceReady_def)
    next
      case False
      then obtain r where "api (Read KNamespace ns []) (cluster w) = (Inr r, cluster w)"
        using lawful_present [OF law False] by blast
      then show ?thesis
        using False by (auto simp: catchM_run voidM_run callK_run withNamespace_def namespaceReady_def)
    qed
  qed
  have tail: "effect look (namespaceReady ns)
      (whenM (tenantNetworkPolicyEnabled cfg) (reconcileTenantNetworkPolicies api cfg ns))
      (applyChanges (policyObjects cfg ns))"
  proof (cases "tenantNetworkPolicyEnabled cfg")
    case True
    then show ?thesis
      using changes_reconcile [OF law] assms(2) by (simp add: whenM_def changes_def)
  next
    case False
    then show ?thesis
      by (simp add: whenM_def policyObjects_def effect_def)
  qed
  show ?thesis
    unfolding ensureNamespace_def
    using effect_thenM [OF head tail] ready_withNamespace by blast
qed

lemma changes_optional:
  assumes "lawfulApi api look" and "\<not> none \<Longrightarrow> truthy name" and "k \<noteq> KService" "k \<noteq> KNamespace"
    and "\<And>n. member (manifest n) ''metadata'' = metadataOf n labels"
  shows "changes look ns
     (if none then whenM (truthy name) (deleteIfExists api k (the name) ns)
      else if \<not> truthy name then throwM e
      else upsertObject api k (the name) ns (manifest (the name)) (withResourceVersion (manifest (the name))))
     (optionalObject k ns name (\<not> none) manifest)"
  using assms(2) changes_upsert [OF assms(1) assms(5) assms(3,4), where n = "the name" and ns = ns]
    changes_delete [OF assms(1,4), of ns "the name"] changes_nothing [of look ns "()"]
  by (auto simp: optionalObject_def whenM_def)

lemma changes_upsertService:
  assumes "lawfulApi api look"
  shows "changes look (di_namespace i) (upsertService api i)
    [((KService, di_namespace i, serviceName (di_names i)),
       Some (contentOf KService (buildServiceManifest (serviceName (di_names i)) (di_port i) (di_labels i))))]"
proof -
  let ?m = "buildServiceManifest (serviceName (di_names i)) (di_port i) (di_labels i)"
  have "effect look (namespaceReady (di_namespace i)) (upsertService api i)
      (\<lambda>s. s((KService, di_namespace i, serviceName (di_names i)) \<mapsto> contentOf KService ?m))"
    unfolding upsertService_def Let_def
    by (rule effect_upsertObject [OF assms])
       (simp_all add: resourceVersionOf_def [of ?m] contentOf_mergedService)
  then show ?thesis by (simp add: changes_def effect_def)
qed

text \<open>The objects of a deployment are brought about in one run of the six upserts.\<close>

lemma changes_deployment_objects:
  assumes law: "lawfulApi api look" and "namesGiven i"
  shows "changes look (di_namespace i)
     (thenM (upsertConfigMap api i) (thenM (upsertFileConfigMap api i) (thenM (upsertSecret api i)
       (thenM (upsertSecretFiles api i) (thenM (upsertDeployment api i) (upsertService api i))))))
     (desiredObjects i)"
proof -
  note opt = changes_optional [OF law]
  have "changes look (di_namespace i) (upsertConfigMap api i)
      [((KConfigMap, di_namespace i, configMapName (di_names i)), Some (contentOf KConfigMap
         (buildConfigMapManifest (configMapName (di_names i)) (di_labels i) (di_env i))))]"
    unfolding upsertConfigMap_def Let_def by (rule changes_upsert [OF law]) simp_all
  moreover have "changes look (di_namespace i) (upsertFileConfigMap api i)
      (optionalObject KConfigMap (di_namespace i) (fileConfigMapName (di_names i))
         (fc_items (di_files i) \<noteq> [])
         (\<lambda>n. buildConfigMapManifest n (di_labels i) (fc_data (di_files i))))"
    unfolding upsertFileConfigMap_def Let_def by (rule opt) (use assms(2) in \<open>simp_all add: namesGiven_def\<close>)
  moreover have "changes look (di_namespace i) (upsertSecret api i)
      (optionalObject KSecret (di_namespace i) (secretName (di_names i)) (di_secrets i \<noteq> [])
         (\<lambda>n. buildSecretManifest n (di_labels i) (di_secrets i)))"
    unfolding upsertSecret_def Let_def by (rule opt) (use assms(2) in \<open>simp_all add: namesGiven_def\<close>)
  moreover have "changes look (di_namespace i) (upsertSecretFiles api i)
      (optionalObject KSecret (di_namespace i) (secretFileSecretName (di_names i))
         (fc_items (di_secretFiles i) \<noteq> [])
         (\<lambda>n. buildSecretManifest n (di_labels i) (fc_data (di_secretFiles i))))"
    unfolding upsertSecretFiles_def Let_def by (rule opt) (use assms(2) in \<open>simp_all add: namesGiven_def\<close>)
  moreover have "changes look (di_namespace i) (upsertDeployment api i)
      [((KDeployment, di_namespace i, deploymentName (di_names i)),
         Some (contentOf KDeployment (workloadManifest i)))]"
    unfolding upsertDeployment_def by (rule changes_upsert [OF law]) simp_all
  moreover note changes_upsertService [OF law, of i]
  ultimately show ?thesis
    unfolding desiredObjects_def Let_def
    by - (rule changes_thenM, assumption, rule changes_thenM, assumption, rule changes_thenM,
      assumption, rule changes_thenM, assumption, rule changes_Cons, assumption, assumption)
qed

section \<open>Application routing on the store\<close>

definition routeOf :: "deploy_input \<Rightarrow> routing_input \<Rightarrow> json" where
  "routeOf i r = buildApplicationRouteManifest (httpRouteName (di_names i)) (di_namespace i)
     (ar_hostname r) (ar_gatewayName r) (ar_gatewayNamespace r)
     (serviceName (di_names i)) (di_port i) (di_labels i)"

definition redirectOf :: "deploy_input \<Rightarrow> routing_input \<Rightarrow> json" where
  "redirectOf i r = buildApplicationRedirectRouteManifest (httpRedirectRouteName (di_names i))
     (di_namespace i) (ar_hostname r) (ar_gatewayName r) (ar_gatewayNamespace r) (di_labels i)"

definition routeKey :: "deploy_input \<Rightarrow> object_key" where
  "routeKey i = (KHttpRoute, di_namespace i, httpRouteName (di_names i))"

definition redirectKey :: "deploy_input \<Rightarrow> object_key" where
  "redirectKey i = (KHttpRoute, di_namespace i, httpRedirectRouteName (di_names i))"

text \<open>The label that admits the namespace's routes to the Gateway.\<close>

definition openedToGateway :: "deploy_input \<Rightarrow> routing_input \<Rightarrow> object_store \<Rightarrow> object_store" where
  "openedToGateway i r s =
     s((KNamespace, [], di_namespace i) \<mapsto>
         contentOf KNamespace (mergePatch (the (s (KNamespace, [], di_namespace i)))
           (JObj [(''metadata'', JObj [(''labels'',
              JObj [(ar_namespaceLabelKey r, JStr (ar_namespaceLabelValue r))])])])))"

definition routedStore :: "deploy_input \<Rightarrow> object_store \<Rightarrow> object_store" where
  "routedStore i s =
     (case di_routing i of
        None \<Rightarrow> s
      | Some r \<Rightarrow>
          (openedToGateway i r s)
            (routeKey i \<mapsto> contentOf KHttpRoute (routeOf i r),
             redirectKey i \<mapsto> contentOf KHttpRoute (redirectOf i r)))"

lemma route_facts:
  "path (routeOf i r) [''metadata'', ''name''] = JStr (httpRouteName (di_names i))"
  "path (redirectOf i r) [''metadata'', ''name''] = JStr (httpRedirectRouteName (di_names i))"
  "resourceVersionOf (routeOf i r) = JUndef" "resourceVersionOf (redirectOf i r) = JUndef"
  by (simp_all add: routeOf_def redirectOf_def buildApplicationRouteManifest_def
      buildApplicationRedirectRouteManifest_def resourceVersionOf_def)

text \<open>Publishing an application, by the state of its two routes: all of it or none of it.\<close>

lemma enableApplicationRouting_outcome:
  assumes law: "lawfulApi api look" and r: "di_routing i = Some r"
    and ready: "namespaceReady (di_namespace i) (look (cluster w))"
    and ne: "routeKey i \<noteq> redirectKey i"
  shows "\<exists>res w'. enableApplicationRouting api i w = (res, w')
    \<and> (if look (cluster w) (routeKey i) = None \<and> look (cluster w) (redirectKey i) = None
       then res = Inr () \<and> look (cluster w') = routedStore i (look (cluster w))
       else (\<exists>e. res = Inl e)
         \<and> look (cluster w') = (openedToGateway i r (look (cluster w)))
             (redirectKey i := None, routeKey i := None))"
proof -
  let ?ns = "di_namespace i" and ?names = "di_names i"
  let ?s1 = "openedToGateway i r (look (cluster w))"
  from ready obtain j where j: "look (cluster w) (KNamespace, [], ?ns) = Some j"
    by (auto simp: namespaceReady_def)
  from lawful_patch [OF law j, of "JObj [(''metadata'', JObj [(''labels'',
              JObj [(ar_namespaceLabelKey r, JStr (ar_namespaceLabelValue r))])])]"] obtain b c1 where
    patch: "api (MergePatch KNamespace ?ns [] (JObj [(''metadata'', JObj [(''labels'',
              JObj [(ar_namespaceLabelKey r, JStr (ar_namespaceLabelValue r))])])])) (cluster w)
            = (Inr b, c1)" and c1: "look c1 = ?s1"
    using j by (auto simp: answers_def openedToGateway_def simp del: mergePatch.simps)
  let ?creates = "thenM (createHttpRoute api ?ns (routeOf i r)) (createHttpRoute api ?ns (redirectOf i r))"
  let ?undo = "\<lambda>e. thenM (deleteHttpRoute api ?ns (httpRedirectRouteName ?names))
      (thenM (deleteHttpRoute api ?ns (httpRouteName ?names)) (throwM e :: ('a world, unit) io))"
  have run: "enableApplicationRouting api i w = catchM ?creates ?undo (w\<lparr>cluster := c1\<rparr>)"
    using patch by (simp add: enableApplicationRouting_def r Let_def thenM_run voidM_run callK_run
        routeOf_def redirectOf_def)
  have undo: "\<exists>w'. ?undo e v = (Inl e, w')
      \<and> look (cluster w') = (look (cluster v))(redirectKey i := None, routeKey i := None)"
    for e and v :: "'a world"
  proof -
    have "effect look (\<lambda>_. True)
        (thenM (deleteHttpRoute api ?ns (httpRedirectRouteName ?names))
               (deleteHttpRoute api ?ns (httpRouteName ?names)))
        (\<lambda>s. s(redirectKey i := None, routeKey i := None))"
      using effect_thenM [OF effect_deleteIfExists [OF law] effect_deleteIfExists [OF law],
          of "\<lambda>_. True" "\<lambda>_. True"]
      by (simp add: deleteHttpRoute_def routeKey_def redirectKey_def)
    then obtain x w' where
      "thenM (deleteHttpRoute api ?ns (httpRedirectRouteName ?names))
          (deleteHttpRoute api ?ns (httpRouteName ?names)) v = (Inr x, w')"
      "look (cluster w') = (look (cluster v))(redirectKey i := None, routeKey i := None)"
      unfolding effect_def by blast
    then show ?thesis by (auto simp: thenM_run split: prod.splits sum.splits)
  qed
  have keys: "?s1 (routeKey i) = look (cluster w) (routeKey i)"
    "?s1 (redirectKey i) = look (cluster w) (redirectKey i)"
    by (simp_all add: openedToGateway_def routeKey_def redirectKey_def)
  have ready1: "namespaceReady ?ns ?s1" by (simp add: openedToGateway_def namespaceReady_def)
  have fails: ?thesis if "?creates (w\<lparr>cluster := c1\<rparr>) = (Inl e, v)"
    and "(look (cluster v))(redirectKey i := None, routeKey i := None) =
         ?s1(redirectKey i := None, routeKey i := None)"
    and "\<not> (look (cluster w) (routeKey i) = None \<and> look (cluster w) (redirectKey i) = None)" for e v
  proof -
    from undo [of e v] obtain w' where w': "?undo e v = (Inl e, w')"
      "look (cluster w') = (look (cluster v))(redirectKey i := None, routeKey i := None)"
        by blast
    then have "enableApplicationRouting api i w = (Inl e, w')"
      using that(1) by (simp add: run catchM_run)
    then show ?thesis using that(2,3) w'(2) by simp
  qed
  show ?thesis
  proof (cases "look (cluster w) (routeKey i) = None")
    case False
    with keys c1 obtain e where "api (Create KHttpRoute ?ns (routeOf i r)) c1 = (Inl e, c1)"
      using lawful_taken [OF law _ route_facts(1), of c1 KHttpRoute ?ns] by (force simp: routeKey_def)
    then show ?thesis
      using False c1 by (intro fails) (auto simp: createHttpRoute_def thenM_run voidM_run callK_run)
  next
    case True
    then have "look c1 (KHttpRoute, ?ns, httpRouteName ?names) = None"
      using keys c1 by (simp add: routeKey_def)
    from lawful_create [OF law this _ route_facts(1,3)] ready1 c1 obtain x c2 where
      c2: "api (Create KHttpRoute ?ns (routeOf i r)) c1 = (Inr x, c2)"
      "look c2 = ?s1(routeKey i \<mapsto> contentOf KHttpRoute (routeOf i r))"
      unfolding answers_def routeKey_def by fastforce
    have redir: "look c2 (redirectKey i) = look (cluster w) (redirectKey i)"
      using c2(2) keys ne by simp
    show ?thesis
    proof (cases "look (cluster w) (redirectKey i) = None")
      case False
      with redir obtain e where "api (Create KHttpRoute ?ns (redirectOf i r)) c2 = (Inl e, c2)"
        using lawful_taken [OF law _ route_facts(2), of c2 KHttpRoute ?ns] by (force simp: redirectKey_def)
      then show ?thesis
        using False c2 by (intro fails) (auto simp: createHttpRoute_def thenM_run voidM_run callK_run)
    next
      case free: True
      have "namespaceReady ?ns (look c2)"
        using ready1 c2(2) by (simp add: namespaceReady_def routeKey_def)
      with free redir have "answers api look (Create KHttpRoute ?ns (redirectOf i r)) c2
          ((look c2)(redirectKey i \<mapsto> contentOf KHttpRoute (redirectOf i r)))"
        using lawful_create [OF law _ _ route_facts(2,4) [of i r], of c2 KHttpRoute ?ns]
        by (simp add: redirectKey_def)
      then obtain y c3 where
        "api (Create KHttpRoute ?ns (redirectOf i r)) c2 = (Inr y, c3)"
        "look c3 = (look c2)(redirectKey i \<mapsto> contentOf KHttpRoute (redirectOf i r))"
        unfolding answers_def by blast
      then show ?thesis
        using True free c2 by (simp add: run catchM_run createHttpRoute_def thenM_run voidM_run
            callK_run routedStore_def r)
    qed
  qed
qed

section \<open>A concrete store\<close>

text \<open>Objects with a version number, which every write increments.\<close>

type_synonym store = "object_key \<Rightarrow> (json \<times> nat) option"

definition apiError :: "nat \<Rightarrow> kube_error" where
  "apiError status = \<lparr> responseStatusCode = Some status, statusCode = Some status, kubeMessage = [] \<rparr>"

fun storeApi :: "store kubernetes_api" where
  "storeApi (Read k n ns) s =
     (case s (k, ns, n) of
        None \<Rightarrow> (Inl (apiError 404), s)
      | Some (v, ver) \<Rightarrow>
          (Inr (withMember v ''metadata''
             (withMember (member v ''metadata'') ''resourceVersion'' (JNum (int ver)))), s))"
| "storeApi (Replace k n ns body) s =
     (case s (k, ns, n) of
        None \<Rightarrow> (Inl (apiError 404), s)
      | Some (_, ver) \<Rightarrow>
          (if resourceVersionOf body = JNum (int ver)
           then (Inr body, s((k, ns, n) \<mapsto> (contentOf k body, Suc ver)))
           else (Inl (apiError 409), s)))"
| "storeApi (Create k ns body) s =
     (case path body [''metadata'', ''name''] of
        JStr n \<Rightarrow>
          (if s (k, ns, n) \<noteq> None then (Inl (apiError 409), s)
           else if k \<noteq> KNamespace \<and> s (KNamespace, [], ns) = None then (Inl (apiError 404), s)
           else if resourceVersionOf body \<noteq> JUndef then (Inl (apiError 400), s)
           else (Inr body, s((k, ns, n) \<mapsto> (contentOf k body, 0))))
      | _ \<Rightarrow> (Inl (apiError 400), s))"
| "storeApi (Delete k n ns) s =
     (if s (k, ns, n) = None then (Inl (apiError 404), s) else (Inr (JObj []), s((k, ns, n) := None)))"
| "storeApi (MergePatch k n ns p) s =
     (case s (k, ns, n) of
        None \<Rightarrow> (Inl (apiError 404), s)
      | Some (v, ver) \<Rightarrow>
          (Inr (mergePatch v p), s((k, ns, n) \<mapsto> (contentOf k (mergePatch v p), Suc ver))))"
| "storeApi (ListPods ns sel) s = (Inr (JObj [(''items'', JArr [])]), s)"
| "storeApi (ListEvents ns) s = (Inr (JObj [(''items'', JArr [])]), s)"
| "storeApi (ReadLog p ns since lines) s = (Inl (apiError 404), s)"

definition storeLook :: "store \<Rightarrow> object_store" where
  "storeLook s = (\<lambda>k. map_option fst (s k))"

lemma storeLook_update: "storeLook (s(k \<mapsto> (v, n))) = (storeLook s)(k \<mapsto> v)"
  "storeLook (s(k := None)) = (storeLook s)(k := None)"
  by (auto simp: storeLook_def)

lemma storeLook_cases:
  "storeLook s k = None \<longleftrightarrow> s k = None" "storeLook s k \<noteq> None \<longleftrightarrow> (\<exists>v n. s k = Some (v, n))"
  by (auto simp: storeLook_def)

lemma storeLook_SomeD: "storeLook s k = Some v \<Longrightarrow> \<exists>n. s k = Some (v, n)"
  by (auto simp: storeLook_def)

lemma answersI: "api call c = (Inr r, c') \<Longrightarrow> look c' = s \<Longrightarrow> answers api look call c s"
  by (auto simp: answers_def)

lemma apiError_notFound [simp]: "isKubernetesNotFound (KubeError (apiError 404))"
  by (simp add: apiError_def)

theorem storeApi_lawful: "lawfulApi storeApi storeLook"
  unfolding lawfulApi_def
proof (intro conjI)
  show "absentLaw storeApi storeLook"
    by (auto simp: absentLaw_def missing_def storeLook_def apiError_def)
  show "presentLaw storeApi storeLook"
    by (auto simp: presentLaw_def resourceVersionOf_def storeLook_cases storeLook_update
        intro!: answersI)
  show "createLaw storeApi storeLook"
    by (auto simp: createLaw_def answers_def storeLook_update namespaceReady_def
        simp: storeLook_def)
  show "takenLaw storeApi storeLook"
    by (auto simp: takenLaw_def storeLook_def)
  show "patchLaw storeApi storeLook"
    by (auto simp: patchLaw_def storeLook_update dest!: storeLook_SomeD
        simp del: mergePatch.simps intro!: answersI)
qed

section \<open>Deploying an image, and deleting it\<close>

lemma applyChanges_kind:
  "\<forall>c \<in> set cs. fst (fst c) \<noteq> fst k \<Longrightarrow> applyChanges cs s k = s k"
  by (rule applyChanges_other) auto

lemma desired_kinds:
  "c \<in> set (policyObjects cfg ns @ desiredObjects i) \<Longrightarrow>
   fst (fst c) \<notin> {KNamespace, KHttpRoute, KJob}"
  by (auto simp: policyObjects_def desiredObjects_def Let_def optionalObject_def split: if_splits)

definition deployedStore :: "service_config \<Rightarrow> deploy_input \<Rightarrow> object_store \<Rightarrow> object_store" where
  "deployedStore cfg i s =
     routedStore i (applyChanges (policyObjects cfg (di_namespace i) @ desiredObjects i)
       (withNamespace (di_namespace i) (di_labels i) s))"

definition routesFree :: "deploy_input \<Rightarrow> object_store \<Rightarrow> bool" where
  "routesFree i s \<longleftrightarrow> (di_routing i \<noteq> None \<longrightarrow>
     routeKey i \<noteq> redirectKey i \<and> s (routeKey i) = None \<and> s (redirectKey i) = None)"

definition gatewayConfigured :: "service_config \<Rightarrow> bool" where
  "gatewayConfigured cfg \<longleftrightarrow> (tenantNetworkPolicyEnabled cfg \<longrightarrow>
     applicationGatewayName cfg \<noteq> [] \<and> applicationGatewayNamespace cfg \<noteq> [])"

lemma deployImage_store:
  assumes law: "lawfulApi api look" and "namesGiven i" "gatewayConfigured cfg"
    and free: "routesFree i (look (cluster w))"
  shows "\<exists>w'. deployImage api cfg i w = (Inr (), w')
    \<and> look (cluster w') = deployedStore cfg i (look (cluster w)) \<and> sameTables w w'"
proof -
  let ?ns = "di_namespace i"
  let ?objs = "thenM (upsertConfigMap api i) (thenM (upsertFileConfigMap api i) (thenM (upsertSecret api i)
       (thenM (upsertSecretFiles api i) (thenM (upsertDeployment api i) (upsertService api i)))))"
  let ?s = "applyChanges (policyObjects cfg ?ns @ desiredObjects i)
       (withNamespace ?ns (di_labels i) (look (cluster w)))"
  have objs: "changes look ?ns ?objs (desiredObjects i)"
    using changes_deployment_objects [OF law assms(2)] .
  have ready: "namespaceReady ?ns (applyChanges cs (withNamespace ?ns (di_labels i) s))"
    if "\<And>c. c \<in> set cs \<Longrightarrow> fst (fst c) \<noteq> KNamespace" for cs s
    using ready_applyChanges [OF ready_withNamespace] that by blast
  have "effect look (\<lambda>_. True) (thenM (ensureNamespace api cfg ?ns (di_labels i)) ?objs)
      (\<lambda>s. applyChanges (desiredObjects i)
         (applyChanges (policyObjects cfg ?ns) (withNamespace ?ns (di_labels i) s)))"
  proof (rule effect_thenM [OF effect_ensureNamespace [OF law]])
    show "effect look (namespaceReady ?ns) ?objs (applyChanges (desiredObjects i))"
      using objs by (simp add: changes_def)
    show "namespaceReady ?ns (applyChanges (policyObjects cfg ?ns) (withNamespace ?ns (di_labels i) s))"
      for s by (rule ready) (use desired_kinds [of _ cfg ?ns i] in auto)
  qed (use assms(3) in \<open>auto simp: gatewayConfigured_def\<close>)
  then obtain x w1 where w1: "thenM (ensureNamespace api cfg ?ns (di_labels i)) ?objs w = (Inr x, w1)"
    "look (cluster w1) = ?s"
    unfolding effect_def by (auto simp: applyChanges_append)
  have eq: "deployImage api cfg i w =
      thenM (thenM (ensureNamespace api cfg ?ns (di_labels i)) ?objs)
        (whenM (di_routing i \<noteq> None) (enableApplicationRouting api i)) w"
    by (simp add: deployImage_def thenM_assoc)
  have kind: "?s k = look (cluster w) k" if "fst k = KHttpRoute" for k
    using applyChanges_kind [of "policyObjects cfg ?ns @ desiredObjects i" k] desired_kinds that
    by (auto simp: withNamespace_def)
  have "\<exists>w'. deployImage api cfg i w = (Inr (), w') \<and> look (cluster w') = routedStore i ?s"
  proof (cases "di_routing i")
    case None
    then show ?thesis using w1 by (simp add: eq thenM_run whenM_def routedStore_def)
  next
    case (Some r)
    have "namespaceReady ?ns (look (cluster w1))"
      unfolding w1(2) by (rule ready) (use desired_kinds in blast)
    moreover have "?s (routeKey i) = None" "?s (redirectKey i) = None"
      using kind [of "routeKey i"] kind [of "redirectKey i"] free Some
      by (auto simp: routesFree_def routeKey_def redirectKey_def)
    ultimately obtain w' where "enableApplicationRouting api i w1 = (Inr (), w')"
      "look (cluster w') = routedStore i ?s"
      using enableApplicationRouting_outcome [OF law Some, of w1] free Some w1(2)
      by (auto simp: routesFree_def)
    then show ?thesis using w1(1) Some by (simp add: eq thenM_run whenM_def)
  qed
  then show ?thesis
    using keepsD [OF sameTables_deployImage, of w api cfg i] by (auto simp: deployedStore_def)
qed


definition sampleDeployInput :: deploy_input where
  "sampleDeployInput =
     \<lparr> di_namespace = ''rca-w-1'', di_names = buildResourceNames ''web'' ''0f1e2d3c'',
       di_image = ''nginx'', di_port = 80, di_replicas = 2, di_env = [(''A'', ''1'')],
       di_secrets = [(''KEY'', ''hunter2'')], di_files = \<lparr>fc_data = [], fc_items = []\<rparr>,
       di_secretFiles = \<lparr>fc_data = [], fc_items = []\<rparr>,
       di_labels = buildManagedLabels ''w1'' ''a1'' ''d1'', di_routing = None \<rparr>"

lemma sampleDeployInput_facts:
  "namesGiven sampleDeployInput" "gatewayConfigured defaultConfig" "routesFree sampleDeployInput s"
  by (simp_all add: sampleDeployInput_def namesGiven_def gatewayConfigured_def routesFree_def
      defaultConfig_def kubernetesConfig_def registryConfig_def buildResourceNames_def Let_def
      truthy_def)


definition resourceKeys :: "string \<Rightarrow> resource_names \<Rightarrow> bool \<Rightarrow> object_key list" where
  "resourceKeys ns names deleteRoutes =
     (if deleteRoutes
      then [(KHttpRoute, ns, httpRedirectRouteName names)] @ [(KHttpRoute, ns, httpRouteName names)]
      else [])
     @ [(KDeployment, ns, deploymentName names)] @ [(KService, ns, serviceName names)]
     @ [(KConfigMap, ns, configMapName names)]
     @ (if truthy (fileConfigMapName names) then [(KConfigMap, ns, the (fileConfigMapName names))] else [])
     @ (if truthy (secretName names) then [(KSecret, ns, the (secretName names))] else [])
     @ (if truthy (secretFileSecretName names)
        then [(KSecret, ns, the (secretFileSecretName names))] else [])"

definition removed :: "object_key list \<Rightarrow> object_store \<Rightarrow> object_store" where
  "removed ks s = (\<lambda>k. if k \<in> set ks then None else s k)"

lemma effect_removed_append:
  "effect look (\<lambda>_. True) m (removed a) \<Longrightarrow> effect look (\<lambda>_. True) n (removed b) \<Longrightarrow>
   effect look (\<lambda>_. True) (thenM m n) (removed (a @ b))"
  by (rule effect_cong, rule effect_thenM, assumption, assumption) (auto simp: removed_def)

lemma effect_removed_delete:
  "lawfulApi api look \<Longrightarrow> effect look (\<lambda>_. True) (deleteIfExists api k n ns) (removed [(k, ns, n)])"
  by (rule effect_cong [OF effect_deleteIfExists]) (auto simp: removed_def)

lemma effect_removed_when:
  "effect look (\<lambda>_. True) m (removed a) \<Longrightarrow>
   effect look (\<lambda>_. True) (whenM b m) (removed (if b then a else []))"
  by (auto simp: whenM_def effect_def removed_def)

lemma effect_deleteDeploymentResources:
  assumes "lawfulApi api look"
  shows "effect look (\<lambda>_. True) (deleteDeploymentResources api ns names deleteRoutes)
           (removed (resourceKeys ns names deleteRoutes))"
proof -
  note del = effect_removed_delete [OF assms]
  have routes: "effect look (\<lambda>_. True)
      (thenM (deleteIfExists api KHttpRoute (httpRedirectRouteName names) ns)
             (deleteIfExists api KHttpRoute (httpRouteName names) ns))
      (removed ([(KHttpRoute, ns, httpRedirectRouteName names)] @ [(KHttpRoute, ns, httpRouteName names)]))"
    by (intro effect_removed_append del)
  show ?thesis
    unfolding resourceKeys_def deleteDeploymentResources_def deleteHttpRoute_def
    by (intro effect_removed_append effect_removed_when routes del)
qed

text \<open>
  Deleting a deployment's resources succeeds whatever part of them still exists, removes all of
  them (the routes only when asked to), touches no other object, and doing it twice is the same as
  doing it once.
\<close>

theorem delete_resources_complete:
  assumes "lawfulApi api look"
  shows "\<exists>w'. deleteDeploymentResources api ns names deleteRoutes w = (Inr (), w')
    \<and> look (cluster w') = removed (resourceKeys ns names deleteRoutes) (look (cluster w))
    \<and> sameTables w w'
    \<and> (\<exists>w''. deleteDeploymentResources api ns names deleteRoutes w' = (Inr (), w'')
         \<and> look (cluster w'') = look (cluster w'))"
proof -
  have eff: "\<exists>w'. deleteDeploymentResources api ns names deleteRoutes v = (Inr (), w')
      \<and> look (cluster w') = removed (resourceKeys ns names deleteRoutes) (look (cluster v))" for v
    using effect_deleteDeploymentResources [OF assms, of ns names deleteRoutes]
    by (simp add: effect_def)
  obtain w' where w': "deleteDeploymentResources api ns names deleteRoutes w = (Inr (), w')"
    "look (cluster w') = removed (resourceKeys ns names deleteRoutes) (look (cluster w))"
    using eff [of w] by blast
  moreover obtain w'' where "deleteDeploymentResources api ns names deleteRoutes w' = (Inr (), w'')"
    "look (cluster w'') = removed (resourceKeys ns names deleteRoutes) (look (cluster w'))"
    using eff [of w'] by blast
  moreover have "sameTables w w'"
    using keepsD [OF sameTables_deleteDeploymentResources, of w api ns names deleteRoutes] w'(1) by simp
  ultimately show ?thesis by (auto simp: removed_def)
qed

theorem delete_resources_complete_witness:
  "\<exists>w'. deleteDeploymentResources storeApi ''rca-w-1'' (buildResourceNames ''web'' ''0f1e2d3c'') True
          (emptyWorld (\<lambda>_. None)) = (Inr (), w')"
  using delete_resources_complete [OF storeApi_lawful] by blast


definition sampleRouting :: routing_input where
  "sampleRouting =
     \<lparr> ar_hostname = ''web-0f1e2d3c.apps.example.com'', ar_gatewayName = ''gw'',
       ar_gatewayNamespace = ''gw-ns'', ar_namespaceLabelKey = ''rca-platform.io/gateway-access'',
       ar_namespaceLabelValue = ''true'' \<rparr>"


end
