(* ===== verification/Builds.thy ===== *)
theory Builds
  imports Apps Cluster
begin

text \<open>builds/builds.service.ts: starting a build Job and following it.\<close>

record create_build_dto =
  cb_strategy :: "build_strategy option"
  cb_branch :: "string option"
  cb_buildContext :: "string option"
  cb_dockerfilePath :: "string option"

definition setBuild :: "string \<Rightarrow> (build \<Rightarrow> build) \<Rightarrow> ('c world, build) io" where
  "setBuild i f = updateRow buildTable (\<lambda>b. b_id b = i) f"

text \<open>The part of \<open>create\<close> after the record is stored: lines 85 to 128.\<close>

definition startBuildJob ::
  "'c kubernetes_api \<Rightarrow> service_config \<Rightarrow> build_strategy \<Rightarrow> build_job_input \<Rightarrow> build
   \<Rightarrow> ('c world, build) io"
where
  "startBuildJob api cfg strategy job build =
     thenM
       (catchM
          (if strategy = Buildpack then createBuildpackJob api cfg job else createBuildJob api cfg job)
          (\<lambda>e. thenM
             (setBuild (b_id build) (\<lambda>b. b\<lparr>b_status := BuildFailed, b_errorMessage := Some (errorMessage e)\<rparr>))
             (throwM e)))
       (setBuild (b_id build) (\<lambda>b. b\<lparr>b_status := BuildRunning\<rparr>))"

definition createBuild ::
  "'c kubernetes_api \<Rightarrow> service_config \<Rightarrow> string \<Rightarrow> create_build_dto \<Rightarrow> ('c world, build) io"
where
  "createBuild api cfg appId dto =
     bindM (findAppOrThrow appId) (\<lambda>app.
       if a_sourceType app \<noteq> SourceGit
       then throwM (BadRequest ''Builds can only be created for git apps'')
       else if \<not> truthy (a_repoUrl app)
       then throwM (BadRequest ''Git apps must have a repoUrl before building'')
       else
     bindM fresh (\<lambda>buildId.
     bindM requireWorkspaceId (\<lambda>workspaceId.
     bindM (workspaceNamespace workspaceId) (\<lambda>ns.
       let repoUrl = the (a_repoUrl app);
           strategy = orDefault (cb_strategy dto) Dockerfile;
           branch = orDefault (cb_branch dto) (orDefault (a_branch app) ''main'');
           buildContext = orDefault (cb_buildContext dto) (orDefault (a_buildContext app) ''.'');
           dockerfilePath =
             (if strategy = Dockerfile
              then Some (orDefault (cb_dockerfilePath dto) (orDefault (a_dockerfilePath app) ''Dockerfile''))
              else None);
           jobName = buildJobName (a_name app) buildId;
           labels = buildJobLabels workspaceId (a_id app) buildId;
           imageRepository = toImageRepository (a_name app);
           hostImage = localRegistryHost cfg @ ''/'' @ imageRepository @ '':'' @ buildId;
           clusterImage = localRegistryCluster cfg @ ''/'' @ imageRepository @ '':'' @ buildId
       in
     bindM now (\<lambda>createdAt.
     bindM (createRow buildTable (\<lambda>ws.
         \<lparr> b_id = buildId, b_workspaceId = ws, b_appId = a_id app, b_status = BuildPending,
           b_strategy = strategy, b_repoUrl = repoUrl, b_branch = branch,
           b_buildContext = buildContext, b_dockerfilePath = dockerfilePath,
           b_image = Some hostImage, b_kubernetesJob = Some jobName, b_errorMessage = None,
           b_createdAt = createdAt \<rparr>)) (\<lambda>build.
       let job = \<lparr> bj_namespace = ns, bj_jobName = jobName, bj_labels = labels,
                   bj_repoUrl = repoUrl, bj_branch = branch, bj_buildContext = buildContext,
                   bj_dockerfilePath = orDefault dockerfilePath ''Dockerfile'',
                   bj_clusterImage = clusterImage, bj_builderImage = buildpackBuilderImage cfg,
                   bj_runnerImage = buildpackRunnerImage cfg,
                   bj_insecureRegistry = localRegistryCluster cfg \<rparr>
       in
     startBuildJob api cfg strategy job build))))))"

definition findBuildsByApp :: "string \<Rightarrow> ('c world, build list) io" where
  "findBuildsByApp appId =
     thenM (findAppOrThrow appId)
       (bindM (findMany buildTable (\<lambda>b. b_appId b = appId)) (\<lambda>rs.
          returnM (newestFirst b_createdAt rs)))"

definition findBuildOrThrow :: "string \<Rightarrow> ('c world, build) io" where
  "findBuildOrThrow i =
     bindM (findFirst buildTable (\<lambda>b. b_id b = i)) (\<lambda>found.
       case found of
         None \<Rightarrow> throwM (NotFound (''Build '' @ i @ '' was not found''))
       | Some b \<Rightarrow> returnM b)"

definition getBuildStatusFromJob :: "build_status \<Rightarrow> job_status \<Rightarrow> build_status" where
  "getBuildStatusFromJob currentStatus liveStatus =
     (if js_succeeded liveStatus > 0 then BuildSucceeded
      else if js_failed liveStatus > 0 then BuildFailed
      else if js_active liveStatus > 0 then BuildRunning
      else currentStatus)"

definition getFailedConditionMessage :: "json \<Rightarrow> string option" where
  "getFailedConditionMessage conditions =
     (case find (\<lambda>c. member c ''type'' = JStr ''Failed'') (asItems conditions) of
        None \<Rightarrow> None
      | Some c \<Rightarrow> asStr (member c ''message''))"

record build_status_view =
  bs_buildId :: string
  bs_status :: build_status
  bs_image :: "string option"
  bs_live :: "job_status option"

text \<open>An \<open>undefined\<close> error message leaves the stored one as it is.\<close>

definition getBuildStatus ::
  "'c kubernetes_api \<Rightarrow> string \<Rightarrow> ('c world, build_status_view) io"
where
  "getBuildStatus api i =
     bindM (findBuildOrThrow i) (\<lambda>build.
       case (if truthy (b_kubernetesJob build) then b_kubernetesJob build else None) of
         None \<Rightarrow> returnM \<lparr> bs_buildId = b_id build, bs_status = b_status build,
                            bs_image = b_image build, bs_live = None \<rparr>
       | Some jobName \<Rightarrow>
     bindM (workspaceNamespace (b_workspaceId build)) (\<lambda>ns.
     bindM (getBuildJobStatus api ns jobName) (\<lambda>liveStatus.
       let nextStatus = getBuildStatusFromJob (b_status build) liveStatus in
     thenM
       (whenM (nextStatus \<noteq> b_status build)
          (voidM (setBuild (b_id build) (\<lambda>b. b\<lparr>
             b_status := nextStatus,
             b_errorMessage :=
               (if nextStatus = BuildFailed
                then (case getFailedConditionMessage (js_conditions liveStatus) of
                        None \<Rightarrow> b_errorMessage b | Some m \<Rightarrow> Some m)
                else b_errorMessage build)\<rparr>))))
       (returnM \<lparr> bs_buildId = b_id build, bs_status = nextStatus, bs_image = b_image build,
                  bs_live = Some liveStatus \<rparr>))))"

definition getBuildLogs :: "'c kubernetes_api \<Rightarrow> string \<Rightarrow> ('c world, (string \<times> json) list) io" where
  "getBuildLogs api i =
     bindM (findBuildOrThrow i) (\<lambda>build.
     bindM (workspaceNamespace (b_workspaceId build)) (\<lambda>ns.
       getBuildJobLogs api ns (buildJobLabels (b_workspaceId build) (b_appId build) (b_id build))))"

section \<open>Isolation\<close>

lemma keeps_setBuild [keeps_intros]:
  "(\<And>b. b_workspaceId (f b) = b_workspaceId b) \<Longrightarrow> keeps tenantFrame (setBuild i f)"
  unfolding setBuild_def by (rule build.keeps_updateRow) (simp add: buildTable_def)

lemma keeps_findBuildOrThrow [keeps_intros]: "preorder_rel R \<Longrightarrow> keeps R (findBuildOrThrow i)"
  unfolding findBuildOrThrow_def
  by (intro keeps_bindM keeps_findFirst keeps_option keeps_throwM keeps_returnM)

lemma keeps_createBuild [keeps_intros]: "keeps tenantFrame (createBuild api cfg appId dto)"
  unfolding createBuild_def startBuildJob_def Let_def by (intro keeps_intros) simp_all

lemma keeps_getBuildStatus [keeps_intros]: "keeps tenantFrame (getBuildStatus api i)"
  unfolding getBuildStatus_def Let_def by (intro keeps_intros) simp_all

lemma keeps_getBuildLogs [keeps_intros]: "keeps tenantFrame (getBuildLogs api i)"
  unfolding getBuildLogs_def by (intro keeps_intros)

section \<open>The outcome of starting a build\<close>

lemma sameTables_builds: "sameTables w w' \<Longrightarrow> builds w' = builds w \<and> tenant w' = tenant w"
proof -
  assume "sameTables w w'"
  then obtain c t d where "w' = w\<lparr>cluster := c, ticks := t, drawn := d\<rparr>"
    unfolding sameTables_def by blast
  then show ?thesis by simp
qed

text \<open>Setting the row that was just created, after calls that touched no table.\<close>

lemma setBuild_created:
  assumes "createRow buildTable mk w = (Inr b, w1)" and "sameTables w1 w2"
    and "b_workspaceId (f b) = b_workspaceId b" "b_id (f b) = b_id b"
  shows "setBuild (b_id b) f w2 = (Inr (f b), w2\<lparr>builds := builds w @ [f b]\<rparr>)"
proof -
  have w1: "builds w1 = builds w @ [b]" "visible buildTable w1 b"
    "\<forall>x \<in> set (builds w). b_id x \<noteq> b_id b"
    using build.createRow_stored [OF assms(1)] by (auto simp: buildTable_def list_ex_iff)
  have vis: "visible buildTable w2 x \<longleftrightarrow> visible buildTable w1 x" for x
    using sameTables_builds [OF assms(2)] by (simp add: visible_def databaseWorkspace_def)
  have "visible buildTable w2 (f b)"
    using w1(2) assms(3) unfolding vis by (simp add: visible_def buildTable_def)
  then show ?thesis
    unfolding setBuild_def
    using build.updateRow_last [of w2 "builds w" b "\<lambda>x. b_id x = b_id b" f] w1 vis
      sameTables_builds [OF assms(2)] assms(4)
    by (auto simp: buildTable_def)
qed

lemma sameTables_buildJob: "keeps sameTables (if c then createBuildpackJob api cfg j else createBuildJob api cfg j)"
  by (simp add: kube_sameTables)

lemma startBuildJob_outcome:
  assumes "createRow buildTable mk w = (Inr b, w1)"
    and "startBuildJob api cfg strategy job b w1 = (res, w')"
  shows "b_id b \<notin> b_id ` set (builds w) \<and> (case res of
      Inr b' \<Rightarrow> builds w' = builds w @ [b'] \<and> b_status b' = BuildRunning \<and> b_id b' = b_id b
    | Inl e \<Rightarrow> \<exists>b'. builds w' = builds w @ [b'] \<and> b_status b' = BuildFailed \<and> b_id b' = b_id b
        \<and> b_errorMessage b' = Some (errorMessage e))"
proof -
  let ?m = "if strategy = Buildpack then createBuildpackJob api cfg job else createBuildJob api cfg job"
  obtain r w2 where m: "?m w1 = (r, w2)" by fastforce
  have same: "sameTables w1 w2"
    using keepsD [OF sameTables_buildJob, of w1 "strategy = Buildpack" api cfg job] m by simp
  note set = setBuild_created [OF assms(1) same]
  have "b_id b \<notin> b_id ` set (builds w)"
    using build.createRow_stored [OF assms(1)] by (auto simp: buildTable_def list_ex_iff)
  then show ?thesis
    using assms(2) m by (cases r) (auto simp: startBuildJob_def thenM_run catchM_run set)
qed

lemma createBuild_outcome:
  assumes "createBuild api cfg appId dto w = (res, w')"
  shows "case res of
      Inr b \<Rightarrow> builds w' = builds w @ [b] \<and> b_status b = BuildRunning \<and> b_id b \<notin> b_id ` set (builds w)
        \<and> (\<exists>a \<in> set (apps w). a_id a = appId \<and> a_sourceType a = SourceGit
             \<and> databaseWorkspace w = Some (a_workspaceId a))
    | Inl e \<Rightarrow> builds w' = builds w
        \<or> (\<exists>b. builds w' = builds w @ [b] \<and> b_status b = BuildFailed \<and> b_id b \<notin> b_id ` set (builds w)
             \<and> b_errorMessage b = Some (errorMessage e))"
  using assms unfolding createBuild_def Let_def
proof (cases rule: bindM_E)
  case (raised e)
  then show ?thesis
    by (auto simp: findAppOrThrow_def findFirst_def bindM_run split: option.splits)
next
  case (returned a w1)
  note app = findAppOrThrow_Inr [OF returned(1)]
  show ?thesis
  proof (cases "a_sourceType a = SourceGit \<and> truthy (a_repoUrl a)")
    case False
    then show ?thesis using returned(2) app by (auto split: if_splits)
  next
    case True
    note ro = readonly [OF keeps_requireWorkspaceId [OF preorder_eq]]
      readonly [OF keeps_workspaceNamespace [OF preorder_eq]]
    let ?w = "w\<lparr>drawn := Suc (drawn w), ticks := Suc (ticks w)\<rparr>"
    from True returned(2) app consider
        e where "res = Inl e" "builds w' = builds w"
      | mk b w2 strategy job where "createRow buildTable mk ?w = (Inr b, w2)"
          "startBuildJob api cfg strategy job b w2 = (res, w')"
      by (simp, elim bindM_E)
        (auto simp: fresh_run now_run dest!: ro dest: build.createRow_failed)
    then show ?thesis
    proof cases
      case 2
      from startBuildJob_outcome [OF this] app True show ?thesis
        by (auto split: sum.splits)
    qed simp
  qed
qed

text \<open>
  Starting a build leaves no build pending: it returns a stored build that is running, or it
  raises, and then either nothing was stored or the one stored build is failed and carries the
  message of the error raised. Builds are only ever started for git apps of the caller's
  workspace.
\<close>

theorem build_is_running_or_failed:
  assumes "createBuild api cfg appId dto w = (res, w')"
  shows "case res of
      Inr b \<Rightarrow> builds w' = builds w @ [b] \<and> b_status b = BuildRunning
        \<and> (\<exists>a \<in> set (apps w). a_id a = appId \<and> a_sourceType a = SourceGit
             \<and> databaseWorkspace w = Some (a_workspaceId a))
    | Inl e \<Rightarrow> builds w' = builds w
        \<or> (\<exists>b. builds w' = builds w @ [b] \<and> b_status b = BuildFailed
             \<and> b_errorMessage b = Some (errorMessage e))"
  using createBuild_outcome [OF assms] by (auto split: sum.splits)

theorem build_is_running_or_failed_witness:
  "case createBuild storeApi defaultConfig ''a1''
      \<lparr> cb_strategy = None, cb_branch = None, cb_buildContext = None, cb_dockerfilePath = None \<rparr>
      (emptyWorld (\<lambda>_. None)) of
     (Inr b, w') \<Rightarrow> b_status b = BuildRunning
   | (Inl e, w') \<Rightarrow> builds w' = [] \<or> (\<exists>b. builds w' = [b] \<and> b_status b = BuildFailed)"
  using build_is_running_or_failed [of storeApi defaultConfig "''a1''"
      "\<lparr> cb_strategy = None, cb_branch = None, cb_buildContext = None, cb_dockerfilePath = None \<rparr>"
      "emptyWorld (\<lambda>_. None)", OF prod.collapse [symmetric]]
  by (auto simp: emptyWorld_def split: prod.splits sum.splits)

end
