(* ===== verification/Observability.thy ===== *)
theory Observability
  imports Apps
begin

text \<open>
  observability/observability.service.ts: the telemetry variables of a managed container and the
  periodic health samples. The log lines are not modelled; a tick is a call of
  \<open>collectAllHealthSamples\<close>, and the timer that makes it is modelled in Server.
\<close>

definition isEnabled :: "service_config \<Rightarrow> bool" where
  "isEnabled cfg = observabilityEnabled cfg"

definition buildTelemetryEnv ::
  "service_config \<Rightarrow> string \<Rightarrow> string \<Rightarrow> string \<Rightarrow> string \<Rightarrow> string \<Rightarrow> string entries"
where
  "buildTelemetryEnv cfg appId appName depId depName ns =
     (if \<not> isEnabled cfg then []
      else
        [(''OTEL_SERVICE_NAME'', appName),
         (''OTEL_EXPORTER_OTLP_ENDPOINT'', otelExporterOtlpEndpoint cfg),
         (''OTEL_EXPORTER_OTLP_PROTOCOL'', otelExporterOtlpProtocol cfg),
         (''OTEL_RESOURCE_ATTRIBUTES'',
            joinWith '',''
              [''service.namespace='' @ ns,
               ''app.id='' @ appId,
               ''deployment.id='' @ depId,
               ''deployment.name='' @ depName,
               ''app.kubernetes.io/managed-by=deployment-manager-service''])])"

definition getPublicConfig :: "service_config \<Rightarrow> json" where
  "getPublicConfig cfg =
     JObj [(''enabled'', JBool (isEnabled cfg)),
           (''otelExporterOtlpEndpoint'', JStr (otelExporterOtlpEndpoint cfg)),
           (''otelExporterOtlpProtocol'', JStr (otelExporterOtlpProtocol cfg)),
           (''healthSampleIntervalSeconds'', JNum (healthSampleIntervalSeconds cfg)),
           (''healthSampleRetentionMinutes'', JNum (healthSampleRetentionMinutes cfg))]"

section \<open>Samples\<close>

definition countWarningEvents :: "json list \<Rightarrow> int" where
  "countWarningEvents events =
     int (length (filter (\<lambda>e. member e ''type'' = JStr ''Warning'') events))"

definition countRestarts :: "json list \<Rightarrow> int" where
  "countRestarts pods =
     foldl (\<lambda>total pod.
         total + foldl (\<lambda>t c. t + count0 c ''restartCount'') 0 (asItems (member pod ''containers'')))
       0 pods"

definition deriveSampleStatus :: "deployment_status \<Rightarrow> int \<Rightarrow> int \<Rightarrow> int \<Rightarrow> string" where
  "deriveSampleStatus storedStatus desiredReplicas readyReplicas warningEventCount =
     (if storedStatus = Stopped \<or> desiredReplicas = 0 then statusName Stopped
      else if storedStatus = Deleted then statusName Deleted
      else if warningEventCount > 0 then ''warning''
      else if desiredReplicas > 0 \<and> readyReplicas \<ge> desiredReplicas then statusName Running
      else statusName storedStatus)"

text \<open>Milliseconds; \<open>Date.now() - minutes * 60 * 1000\<close>.\<close>

definition minutesAgo :: "int \<Rightarrow> ('c world, instant) io" where
  "minutesAgo minutes = bindM now (\<lambda>t. returnM (t - minutes * 60 * 1000))"

definition findDeploymentForHealthSample :: "string \<Rightarrow> ('c world, deployment) io" where
  "findDeploymentForHealthSample i =
     bindM (findFirst deploymentTable (\<lambda>d. d_id d = i)) (\<lambda>found.
       case found of
         None \<Rightarrow> throwM (NotFound (''Deployment '' @ i @ '' was not found''))
       | Some d \<Rightarrow> returnM d)"

text \<open>The three reads of \<open>Promise.all\<close> are made in the source's order; the first failure wins.\<close>

definition readKubernetesState ::
  "'c kubernetes_api \<Rightarrow> deployment \<Rightarrow> string entries \<Rightarrow> ('c world, live_status \<times> json list \<times> json list) io"
where
  "readKubernetesState api d labels =
     bindM (attemptM (kubeDeploymentStatus api (d_namespace d) (d_kubernetesDeployment d))) (\<lambda>status.
     bindM (attemptM (listDeploymentPods api (d_namespace d) labels)) (\<lambda>pods.
     bindM (attemptM (listDeploymentEvents api (d_namespace d) (d_kubernetesDeployment d) labels)) (\<lambda>evs.
     bindM (liftM status) (\<lambda>s. bindM (liftM pods) (\<lambda>ps. bindM (liftM evs) (\<lambda>es.
       returnM (s, ps, es)))))))"

definition liveStatusJson :: "live_status \<Rightarrow> json" where
  "liveStatusJson s =
     JObj [(''desiredReplicas'', JNum (ls_desiredReplicas s)),
           (''readyReplicas'', JNum (ls_readyReplicas s)),
           (''availableReplicas'', JNum (ls_availableReplicas s)),
           (''updatedReplicas'', JNum (ls_updatedReplicas s)),
           (''unavailableReplicas'', JNum (ls_unavailableReplicas s)),
           (''conditions'', ls_conditions s)]"

definition collectDeploymentHealthSample ::
  "'c kubernetes_api \<Rightarrow> string \<Rightarrow> ('c world, health_sample) io"
where
  "collectDeploymentHealthSample api depId =
     bindM (findDeploymentForHealthSample depId) (\<lambda>d.
     let labels = buildManagedLabels (d_workspaceId d) (d_appId d) (d_id d) in
     bindM now (\<lambda>collectedAt.
     bindM (readKubernetesState api d labels) (\<lambda>(status, pods, events).
       let warningEventCount = countWarningEvents events;
           sampleStatus = deriveSampleStatus (d_status d) (ls_desiredReplicas status)
             (ls_readyReplicas status) warningEventCount
       in
     bindM fresh (\<lambda>i.
       createRow sampleTable (\<lambda>ws.
         \<lparr> h_id = i, h_workspaceId = ws, h_deploymentId = d_id d, h_status = sampleStatus,
           h_desiredReplicas = ls_desiredReplicas status,
           h_readyReplicas = ls_readyReplicas status,
           h_availableReplicas = ls_availableReplicas status,
           h_podCount = int (length pods), h_warningEventCount = warningEventCount,
           h_restartCount = countRestarts pods,
           h_data = JObj [
             (''collectedAt'', JDate collectedAt),
             (''deployment'', JObj [
                (''id'', JStr (d_id d)),
                (''namespace'', JStr (d_namespace d)),
                (''status'', JStr (statusName (d_status d))),
                (''kubernetesDeployment'', JStr (d_kubernetesDeployment d))]),
             (''kubernetes'', JObj [
                (''status'', liveStatusJson status),
                (''pods'', JArr pods),
                (''events'', JArr events)])],
           h_collectedAt = collectedAt \<rparr>)))))"

text \<open>
  \<open>onDelete: SetNull\<close>: deleting samples clears the references incidents have to them, whatever the
  workspace, as referential actions are not subject to the policies.
\<close>

definition deleteSamples :: "(health_sample \<Rightarrow> bool) \<Rightarrow> ('c world, nat) io" where
  "deleteSamples p =
     (\<lambda>w. let gone = filter (\<lambda>h. visible sampleTable w h \<and> p h) (samples w) in
       case deleteMany sampleTable p w of
         (r, w') \<Rightarrow>
           (r, w'\<lparr>incidents := map (\<lambda>i.
                 case i_latestHealthSampleId i of
                   None \<Rightarrow> i
                 | Some k \<Rightarrow> (if list_ex (\<lambda>h. h_id h = k) gone then i\<lparr>i_latestHealthSampleId := None\<rparr> else i))
               (incidents w')\<rparr>))"

definition deleteExpiredHealthSamples :: "service_config \<Rightarrow> ('c world, unit) io" where
  "deleteExpiredHealthSamples cfg =
     bindM (minutesAgo (healthSampleRetentionMinutes cfg)) (\<lambda>t.
       voidM (deleteSamples (\<lambda>h. h_collectedAt h < t)))"

text \<open>\<open>tenantContext.run\<close> with only a workspace, the context of the background jobs.\<close>

definition workspaceContext :: "string \<Rightarrow> tenant_context" where
  "workspaceContext ws =
     \<lparr> c_workspaceId = ws, c_userId = None, c_organizationId = None, c_roles = None,
       c_scopes = None, c_transactionActive = False \<rparr>"

text \<open>One workspace's turn: every deployment is sampled, failures ignored, then old samples go.\<close>

definition collectWorkspace :: "'c kubernetes_api \<Rightarrow> service_config \<Rightarrow> ('c world, unit) io" where
  "collectWorkspace api cfg =
     bindM (findMany deploymentTable (\<lambda>d. d_deletedAt d = None \<and> d_status d \<noteq> Deleted)) (\<lambda>ds.
       thenM
         (allM (\<lambda>d. catchM (voidM (collectDeploymentHealthSample api (d_id d))) (\<lambda>_. returnM ())) ds)
         (deleteExpiredHealthSamples cfg))"

definition collectAllHealthSamples :: "'c kubernetes_api \<Rightarrow> service_config \<Rightarrow> ('c world, unit) io" where
  "collectAllHealthSamples api cfg =
     bindM (readM collecting) (\<lambda>busy.
       if busy then returnM ()
       else
         thenM (modifyM (\<lambda>w. w\<lparr>collecting := True\<rparr>))
         (bindM
            (attemptM
               (bindM (findMany workspaceTable (\<lambda>ws. ws_status ws = WorkspaceActive)) (\<lambda>wss.
                  forM wss (\<lambda>ws. runInContext (workspaceContext (ws_id ws)) (collectWorkspace api cfg)))))
            (\<lambda>r. thenM (modifyM (\<lambda>w. w\<lparr>collecting := False\<rparr>)) (liftM r))))"

section \<open>Reading samples\<close>

definition ensureDeploymentExists :: "string \<Rightarrow> ('c world, unit) io" where
  "ensureDeploymentExists i =
     bindM (findFirst deploymentTable (\<lambda>d. d_id d = i)) (\<lambda>found.
       whenM (found = None) (throwM (NotFound (''Deployment '' @ i @ '' was not found''))))"

definition listHealthSamples :: "string \<Rightarrow> int option \<Rightarrow> ('c world, health_sample list) io" where
  "listHealthSamples depId sinceMinutes =
     thenM (ensureDeploymentExists depId)
     (bindM (case sinceMinutes of
               None \<Rightarrow> returnM None
             | Some m \<Rightarrow> if m = 0 then returnM None
                         else bindM (minutesAgo m) (\<lambda>t. returnM (Some t))) (\<lambda>since.
      bindM (findMany sampleTable (\<lambda>h. h_deploymentId h = depId
               \<and> (case since of None \<Rightarrow> True | Some t \<Rightarrow> t \<le> h_collectedAt h))) (\<lambda>rs.
        returnM (newestFirst h_collectedAt rs))))"

definition getLatestHealthSample :: "string \<Rightarrow> ('c world, health_sample option) io" where
  "getLatestHealthSample depId =
     thenM (ensureDeploymentExists depId)
     (bindM (findMany sampleTable (\<lambda>h. h_deploymentId h = depId)) (\<lambda>rs.
        returnM (case newestFirst h_collectedAt rs of [] \<Rightarrow> None | r # _ \<Rightarrow> Some r)))"

section \<open>Isolation\<close>

lemma keeps_findDeploymentForHealthSample [keeps_intros]:
  "preorder_rel R \<Longrightarrow> keeps R (findDeploymentForHealthSample i)"
  unfolding findDeploymentForHealthSample_def
  by (intro keeps_bindM keeps_findFirst keeps_option keeps_throwM keeps_returnM)

lemma keeps_ensureDeploymentExists [keeps_intros]:
  "preorder_rel R \<Longrightarrow> keeps R (ensureDeploymentExists i)"
  unfolding ensureDeploymentExists_def
  by (intro keeps_bindM keeps_findFirst keeps_whenM keeps_throwM)

lemma keeps_minutesAgo [keeps_intros]: "keeps tenantFrame (minutesAgo m)"
  unfolding minutesAgo_def by (intro keeps_intros)

lemma sameTables_readKubernetesState: "keeps sameTables (readKubernetesState api d labels)"
  unfolding readKubernetesState_def by (intro kube_steps kube_sameTables)

lemma keeps_readKubernetesState [keeps_intros]: "keeps tenantFrame (readKubernetesState api d labels)"
  by (rule keeps_sameTables_tenantFrame [OF sameTables_readKubernetesState])

lemma keeps_collectDeploymentHealthSample [keeps_intros]:
  "keeps tenantFrame (collectDeploymentHealthSample api i)"
  unfolding collectDeploymentHealthSample_def Let_def by (intro keeps_intros)

lemma keeps_listHealthSamples [keeps_intros]: "keeps tenantFrame (listHealthSamples i m)"
  unfolding listHealthSamples_def by (intro keeps_intros)

lemma keeps_getLatestHealthSample [keeps_intros]: "keeps tenantFrame (getLatestHealthSample i)"
  unfolding getLatestHealthSample_def by (intro keeps_intros)

section \<open>Properties\<close>

lemma total_database [total_intros]:
  "total (findMany t p)" "total (findFirst t p)" "total (deleteMany t p)" "total now" "total (deleteSamples q)"
  by (simp_all add: total_def findMany_def findFirst_def deleteMany_def now_run deleteSamples_def Let_def)

lemma total_runInContext [total_intros]: "total m \<Longrightarrow> total (runInContext c m)"
proof (rule totalI)
  fix w assume m: "total m"
  obtain x w1 where "m (w\<lparr>tenant := Some c\<rparr>) = (Inr x, w1)" using totalD [OF m] by blast
  then show "\<exists>y w'. runInContext c m w = (Inr y, w')" by (simp add: runInContext_run)
qed

lemma total_collectWorkspace [total_intros]: "total (collectWorkspace api cfg)"
  unfolding collectWorkspace_def deleteExpiredHealthSamples_def minutesAgo_def
  by (intro total_intros)

text \<open>The loop over the workspaces, for any turn that does not fail.\<close>

lemma workspace_loop:
  assumes "total turn"
  shows "\<exists>w'. bindM (findMany workspaceTable p) (\<lambda>wss.
      forM wss (\<lambda>ws. runInContext (workspaceContext (ws_id ws)) turn)) w = (Inr (), w') \<and> tenant w' = tenant w"
proof -
  let ?loop = "bindM (findMany workspaceTable p) (\<lambda>wss.
      forM wss (\<lambda>ws. runInContext (workspaceContext (ws_id ws)) turn))"
  have "total ?loop" by (intro total_intros assms)
  from totalD [OF this, of w] obtain w' where run: "?loop w = (Inr (), w')" by auto
  have "keeps sameTenant ?loop"
    by (intro keeps_bindM keeps_findMany keeps_forM sameTenant_runInContext preorder_sameTenant)
  from keepsD [OF this, of w] run show ?thesis by (simp add: sameTenant_def)
qed

text \<open>
  A collection tick never fails, whatever the cluster answers for single deployments; it
  leaves the single-flight flag down and the tenant context as it was, and while another tick is
  running it does nothing at all.
\<close>

theorem collection_tick_total:
  "if collecting w then collectAllHealthSamples api cfg w = (Inr (), w)
   else \<exists>w'. collectAllHealthSamples api cfg w = (Inr (), w') \<and> \<not> collecting w' \<and> tenant w' = tenant w"
proof (cases "collecting w")
  case True
  then show ?thesis by (simp add: collectAllHealthSamples_def bindM_run)
next
  case False
  obtain w' where "bindM (findMany workspaceTable (\<lambda>ws. ws_status ws = WorkspaceActive)) (\<lambda>wss.
      forM wss (\<lambda>ws. runInContext (workspaceContext (ws_id ws)) (collectWorkspace api cfg)))
      (w\<lparr>collecting := True\<rparr>) = (Inr (), w') \<and> tenant w' = tenant w"
    using workspace_loop [OF total_collectWorkspace [of api cfg],
        where w = "w\<lparr>collecting := True\<rparr>" and p = "\<lambda>ws. ws_status ws = WorkspaceActive"]
    by auto
  then show ?thesis
    using False by (auto simp: collectAllHealthSamples_def bindM_run thenM_run attemptM_run)
qed

text \<open>
  A sample says \<open>running\<close> only of a deployment that should be running, has no warning events
  and all of its replicas ready; a stopped deployment, or one with no desired replicas, is always
  sampled as stopped, and a stored failure is not hidden by the absence of warnings.
\<close>

theorem sample_status_sound:
  "(deriveSampleStatus st desired ready warnings = ''running'' \<and> st \<noteq> Running \<longrightarrow>
      st \<notin> {Stopped, Deleted} \<and> warnings \<le> 0 \<and> 0 < desired \<and> desired \<le> ready)
   \<and> (st = Stopped \<or> desired = 0 \<longrightarrow> deriveSampleStatus st desired ready warnings = ''stopped'')
   \<and> (st = Failed \<and> desired \<noteq> 0 \<and> warnings \<le> 0 \<and> ready < desired \<longrightarrow>
        deriveSampleStatus st desired ready warnings = ''failed'')
   \<and> (st \<notin> {Stopped, Deleted} \<and> desired \<noteq> 0 \<and> 0 < warnings \<longrightarrow>
        deriveSampleStatus st desired ready warnings = ''warning'')"
  by (cases st) (auto simp: deriveSampleStatus_def)

theorem sample_status_sound_witness:
  "deriveSampleStatus Creating 2 2 0 = ''running''
   \<and> (Creating \<notin> {Stopped, Deleted} \<and> (0::int) \<le> 0 \<and> (0::int) < 2 \<and> (2::int) \<le> 2)"
proof -
  have "deriveSampleStatus Creating 2 2 0 = ''running''" by (simp add: deriveSampleStatus_def)
  then show ?thesis using sample_status_sound [of Creating 2 2 0] by simp
qed

end
