(* ===== verification/Deployments.thy ===== *)
theory Deployments
  imports Builds Observability
begin

text \<open>deployments/deployments.service.ts: the life of a deployment.\<close>

section \<open>Settings\<close>

record create_deployment_dto =
  cd_image :: "string option"
  cd_buildId :: "string option"
  cd_port :: "int option"
  cd_replicas :: "int option"
  cd_expose :: bool
  cd_env :: "string entries option"
  cd_secrets :: "string entries option"
  cd_files :: "string entries option"
  cd_secretFiles :: "string entries option"

definition normalizeEnv :: "string entries \<Rightarrow> string entries" where
  "normalizeEnv env = fromEntries env"

definition validateRelativeFilePath :: "string \<Rightarrow> exn + unit" where
  "validateRelativeFilePath p =
     (if startsWith p ''/'' \<or> includesStr p ''..''
      then Inl (BadRequest ''File config paths must be relative and cannot contain ..'')
      else if trim p = [] then Inl (BadRequest ''File config paths cannot be empty'')
      else Inr ())"

fun validateFilePaths :: "string entries \<Rightarrow> exn + unit" where
  "validateFilePaths [] = Inr ()"
| "validateFilePaths ((p, _) # rest) =
     (case validateRelativeFilePath p of Inl e \<Rightarrow> Inl e | Inr _ \<Rightarrow> validateFilePaths rest)"

definition fileKey :: "nat \<Rightarrow> string" where
  "fileKey i = ''file-'' @ showNat i"

text \<open>The \<open>raw\<close> member, and the \<open>data\<close> and \<open>items\<close> members as a \<open>file_config\<close>.\<close>

definition normalizeFileConfig :: "string entries \<Rightarrow> exn + (string entries \<times> file_config)" where
  "normalizeFileConfig files =
     (case validateFilePaths files of
        Inl e \<Rightarrow> Inl e
      | Inr _ \<Rightarrow>
          Inr (fromEntries files,
               \<lparr> fc_data = fromEntries (map (\<lambda>(i, (p, v)). (fileKey i, v)) (enumerate 0 files)),
                 fc_items = map (\<lambda>(i, (p, v)). (fileKey i, p)) (enumerate 0 files) \<rparr>))"

definition buildRuntimeConfigRecords ::
  "string entries \<Rightarrow> string entries \<Rightarrow> string entries \<Rightarrow> string entries \<Rightarrow> (config_type \<times> json) list"
where
  "buildRuntimeConfigRecords env secrets files secretFiles =
     (if env \<noteq> [] then [(ConfigEnv, jsonOfStrings env)] else [])
     @ (if secrets \<noteq> [] \<or> secretFiles \<noteq> []
        then [(ConfigSecret, JObj [(''envKeys'', JArr (map JStr (keys secrets))),
                                   (''filePaths'', JArr (map JStr (keys secretFiles)))])]
        else [])
     @ (if files \<noteq> [] then [(ConfigFile, jsonOfStrings files)] else [])"

section \<open>What a caller is shown\<close>

definition redactSecretRuntimeConfig :: "json \<Rightarrow> json" where
  "redactSecretRuntimeConfig data =
     (if \<not> isRecord data then JObj [(''envKeys'', JArr []), (''filePaths'', JArr [])]
      else
        (let listed = (\<lambda>ks obj.
               case member data ks of
                 JArr xs \<Rightarrow> map stringOf xs
               | _ \<Rightarrow> (if isRecord (member data obj) then objectKeys (member data obj) else []))
         in JObj [(''envKeys'', JArr (map JStr (listed ''envKeys'' ''env''))),
                  (''filePaths'', JArr (map JStr (listed ''filePaths'' ''files'')))]))"

record deployment_view =
  dv_deployment :: deployment
  dv_publicUrl :: "string option"
  dv_runtimeConfigs :: "runtime_config list option"

definition sanitizeDeployment :: "deployment \<Rightarrow> runtime_config list option \<Rightarrow> deployment_view" where
  "sanitizeDeployment d configs =
     \<lparr> dv_deployment = d,
       dv_publicUrl =
         (if truthy (d_publicHostname d) then Some (''https://'' @ the (d_publicHostname d)) else None),
       dv_runtimeConfigs =
         map_option (map (\<lambda>rc. if rc_type rc \<noteq> ConfigSecret then rc
                               else rc\<lparr>rc_data := redactSecretRuntimeConfig (rc_data rc)\<rparr>)) configs \<rparr>"

section \<open>Lookups\<close>

definition findDeploymentOrThrow :: "string \<Rightarrow> ('c world, deployment) io" where
  "findDeploymentOrThrow i =
     bindM (findFirst deploymentTable (\<lambda>d. d_id d = i)) (\<lambda>found.
       case found of
         None \<Rightarrow> throwM (NotFound (''Deployment '' @ i @ '' was not found''))
       | Some d \<Rightarrow> returnM d)"

definition runtimeConfigsOf :: "deployment \<Rightarrow> ('c world, runtime_config list) io" where
  "runtimeConfigsOf d = findMany runtimeConfigTable (\<lambda>rc. rc_deploymentId rc = d_id d)"

definition resolveDeploymentImage :: "string \<Rightarrow> create_deployment_dto \<Rightarrow> ('c world, string) io" where
  "resolveDeploymentImage appId dto =
     (if truthy (cd_image dto) \<and> truthy (cd_buildId dto)
      then throwM (BadRequest ''Provide either image or buildId, not both'')
      else if \<not> truthy (cd_image dto) \<and> \<not> truthy (cd_buildId dto)
      then throwM (BadRequest ''Either image or buildId is required'')
      else if truthy (cd_image dto) then returnM (the (cd_image dto))
      else
        bindM (findFirst buildTable (\<lambda>b. b_id b = the (cd_buildId dto))) (\<lambda>found.
          case found of
            None \<Rightarrow> throwM (NotFound (''Build '' @ the (cd_buildId dto) @ '' was not found''))
          | Some build \<Rightarrow>
              (if b_appId build \<noteq> appId
               then throwM (BadRequest ''Build does not belong to this app'')
               else if b_status build \<noteq> BuildSucceeded
               then throwM (BadRequest ''Build must be succeeded before deployment'')
               else if \<not> truthy (b_image build)
               then throwM (BadRequest ''Build has no deployable image'')
               else returnM (the (b_image build)))))"

definition applicationRouting :: "service_config \<Rightarrow> string \<Rightarrow> string \<Rightarrow> exn + routing_input" where
  "applicationRouting cfg appName depId =
     (if \<not> applicationRoutingEnabled cfg \<or> applicationGatewayName cfg = []
         \<or> applicationGatewayNamespace cfg = [] \<or> applicationWildcardHostname cfg = []
         \<or> gatewayAccessNamespaceLabelKey cfg = [] \<or> gatewayAccessNamespaceLabelValue cfg = []
      then Inl (ServiceUnavailable ''Public application routing is not configured'')
      else
        (case buildPublicHostname appName depId (applicationWildcardHostname cfg) of
           Inl _ \<Rightarrow> Inl (ServiceUnavailable ''Public application routing is not configured correctly'')
         | Inr hostname \<Rightarrow>
             Inr \<lparr> ar_hostname = hostname,
                   ar_gatewayName = applicationGatewayName cfg,
                   ar_gatewayNamespace = applicationGatewayNamespace cfg,
                   ar_namespaceLabelKey = gatewayAccessNamespaceLabelKey cfg,
                   ar_namespaceLabelValue = gatewayAccessNamespaceLabelValue cfg \<rparr>))"

definition getManagedLabels :: "deployment \<Rightarrow> string entries" where
  "getManagedLabels d = buildManagedLabels (d_workspaceId d) (d_appId d) (d_id d)"

definition deploymentToResourceNames :: "deployment \<Rightarrow> exn + resource_names" where
  "deploymentToResourceNames d =
     (if \<not> truthy (d_kubernetesConfigMap d)
      then Inl (BadRequest ''Deployment has no Kubernetes ConfigMap name'')
      else Inr
        \<lparr> deploymentName = d_kubernetesDeployment d,
          serviceName = d_kubernetesService d,
          configMapName = the (d_kubernetesConfigMap d),
          fileConfigMapName = d_kubernetesFileConfigMap d,
          secretName = d_kubernetesSecret d,
          secretFileSecretName = d_kubernetesSecretFiles d,
          httpRouteName = d_kubernetesDeployment d @ ''-route'',
          httpRedirectRouteName = d_kubernetesDeployment d @ ''-redirect'' \<rparr>)"

definition setDeployment :: "string \<Rightarrow> (deployment \<Rightarrow> deployment) \<Rightarrow> ('c world, deployment) io" where
  "setDeployment i f = updateRow deploymentTable (\<lambda>d. d_id d = i) f"

section \<open>Creating\<close>

text \<open>The nested create stores the deployment and its settings in one transaction.\<close>

definition storeDeployment ::
  "(string \<Rightarrow> deployment) \<Rightarrow> (config_type \<times> json) list \<Rightarrow> ('c world, deployment \<times> runtime_config list) io"
where
  "storeDeployment mk records =
     transaction
       (bindM (createRow deploymentTable mk) (\<lambda>d.
        bindM (mapM (\<lambda>(t, data). createRow runtimeConfigTable (\<lambda>ws.
                 \<lparr> rc_workspaceId = ws, rc_deploymentId = d_id d, rc_type = t, rc_data = data \<rparr>))
               records) (\<lambda>configs.
          returnM (d, configs))))"

text \<open>Lines 127 to 150: deploy what was stored, and mark the record failed if that fails.\<close>

definition deployStored ::
  "'c kubernetes_api \<Rightarrow> service_config \<Rightarrow> deploy_input \<Rightarrow> deployment \<Rightarrow> runtime_config list
   \<Rightarrow> ('c world, deployment_view) io"
where
  "deployStored api cfg input d configs =
     thenM
       (catchM (deployImage api cfg input)
          (\<lambda>e. thenM (setDeployment (d_id d) (\<lambda>x. x\<lparr>d_status := Failed\<rparr>)) (throwM e)))
       (returnM (sanitizeDeployment d (Some configs)))"

definition createDeployment ::
  "'c kubernetes_api \<Rightarrow> service_config \<Rightarrow> string \<Rightarrow> create_deployment_dto
   \<Rightarrow> ('c world, deployment_view) io"
where
  "createDeployment api cfg appId dto =
     thenM
       (whenM (orDefault (cd_secrets dto) [] \<noteq> [] \<or> orDefault (cd_secretFiles dto) [] \<noteq> [])
          (requirePermissions [''secrets:write'']))
     (bindM (findAppOrThrow appId) (\<lambda>app.
      bindM fresh (\<lambda>depId.
      bindM (resolveDeploymentImage appId dto) (\<lambda>img.
      bindM requireWorkspaceId (\<lambda>workspaceId.
      bindM (workspaceNamespace workspaceId) (\<lambda>ns.
      bindM (liftM (normalizeFileConfig (orDefault (cd_files dto) []))) (\<lambda>(rawFiles, files).
      bindM (liftM (normalizeFileConfig (orDefault (cd_secretFiles dto) []))) (\<lambda>(rawSecretFiles, secretFiles).
      bindM (if cd_expose dto
             then bindM (liftM (applicationRouting cfg (a_name app) depId)) (\<lambda>r. returnM (Some r))
             else returnM None) (\<lambda>routing.
        let port = (case cd_port dto of Some p \<Rightarrow> Some p | None \<Rightarrow> a_defaultPort app);
            replicas = orDefault (cd_replicas dto) 1;
            secrets = normalizeEnv (orDefault (cd_secrets dto) []);
            names = buildResourceNames (a_name app) depId;
            labels = buildManagedLabels workspaceId (a_id app) depId;
            env = spread (normalizeEnv (orDefault (cd_env dto) []))
                    (buildTelemetryEnv cfg (a_id app) (a_name app) depId (deploymentName names) ns);
            records = buildRuntimeConfigRecords env secrets rawFiles rawSecretFiles
        in
        if port = None \<or> port = Some 0
        then throwM (BadRequest ''Deployment port is required when the app has no default port'')
        else
      bindM now (\<lambda>createdAt.
      bindM (storeDeployment (\<lambda>ws.
          \<lparr> d_id = depId, d_workspaceId = ws, d_appId = a_id app, d_buildId = cd_buildId dto,
            d_namespace = ns, d_image = img, d_replicas = replicas,
            d_desiredReplicas = replicas,
            d_lastNonZeroReplicas = (if replicas > 0 then Some replicas else None),
            d_port = the port, d_status = Creating,
            d_kubernetesDeployment = deploymentName names,
            d_kubernetesService = serviceName names,
            d_kubernetesConfigMap = Some (configMapName names),
            d_kubernetesFileConfigMap = fileConfigMapName names,
            d_kubernetesSecret = secretName names,
            d_kubernetesSecretFiles = secretFileSecretName names,
            d_publicHostname = map_option ar_hostname routing,
            d_stoppedAt = None, d_lastRestartedAt = None, d_deletedAt = None,
            d_createdAt = createdAt \<rparr>) records) (\<lambda>(d, configs).
        deployStored api cfg
          \<lparr> di_namespace = ns, di_names = names, di_image = img, di_port = the port,
            di_replicas = replicas, di_env = env, di_secrets = secrets, di_files = files,
            di_secretFiles = secretFiles, di_labels = labels, di_routing = routing \<rparr>
          d configs)))))))))))"

section \<open>Reading\<close>

definition findDeploymentsByApp :: "string \<Rightarrow> ('c world, deployment_view list) io" where
  "findDeploymentsByApp appId =
     thenM (findAppOrThrow appId)
     (bindM (findMany deploymentTable (\<lambda>d. d_appId d = appId)) (\<lambda>ds.
        mapM (\<lambda>d. bindM (runtimeConfigsOf d) (\<lambda>cs. returnM (sanitizeDeployment d (Some cs))))
          (newestFirst d_createdAt ds)))"

record deployment_status_view =
  sv_deploymentId :: string
  sv_status :: deployment_status
  sv_desiredReplicas :: int
  sv_readyReplicas :: int
  sv_live :: "live_status option"

definition getDeploymentStatus ::
  "'c kubernetes_api \<Rightarrow> string \<Rightarrow> ('c world, deployment_status_view) io"
where
  "getDeploymentStatus api i =
     bindM (findDeploymentOrThrow i) (\<lambda>d.
       if d_status d = Deleted
       then returnM \<lparr> sv_deploymentId = d_id d, sv_status = Deleted,
                      sv_desiredReplicas = d_desiredReplicas d, sv_readyReplicas = 0,
                      sv_live = None \<rparr>
       else
     bindM (kubeDeploymentStatus api (d_namespace d) (d_kubernetesDeployment d)) (\<lambda>live.
       let nextStatus =
             (if ls_readyReplicas live \<ge> ls_desiredReplicas live \<and> ls_desiredReplicas live > 0
              then Running else d_status d)
       in
     thenM
       (whenM (nextStatus \<noteq> d_status d)
          (voidM (setDeployment (d_id d) (\<lambda>x. x\<lparr>d_status := nextStatus\<rparr>))))
       (returnM \<lparr> sv_deploymentId = d_id d, sv_status = nextStatus,
                  sv_desiredReplicas = ls_desiredReplicas live,
                  sv_readyReplicas = ls_readyReplicas live, sv_live = Some live \<rparr>)))"

definition getDeploymentLogs :: "'c kubernetes_api \<Rightarrow> string \<Rightarrow> ('c world, (string \<times> json) list) io" where
  "getDeploymentLogs api i =
     bindM (findDeploymentOrThrow i) (\<lambda>d. kubeDeploymentLogs api (d_namespace d) (getManagedLabels d))"

definition getPods :: "'c kubernetes_api \<Rightarrow> string \<Rightarrow> ('c world, json list) io" where
  "getPods api i =
     bindM (findDeploymentOrThrow i) (\<lambda>d. listDeploymentPods api (d_namespace d) (getManagedLabels d))"

definition getEvents :: "'c kubernetes_api \<Rightarrow> string \<Rightarrow> ('c world, json list) io" where
  "getEvents api i =
     bindM (findDeploymentOrThrow i) (\<lambda>d.
       listDeploymentEvents api (d_namespace d) (d_kubernetesDeployment d) (getManagedLabels d))"

section \<open>Scaling, stopping, starting, restarting, deleting\<close>

definition scaleTo :: "'c kubernetes_api \<Rightarrow> deployment \<Rightarrow> int \<Rightarrow> ('c world, unit) io" where
  "scaleTo api d replicas =
     scaleDeployment api (d_namespace d) (d_kubernetesDeployment d) replicas"

definition scale :: "'c kubernetes_api \<Rightarrow> string \<Rightarrow> int \<Rightarrow> ('c world, deployment) io" where
  "scale api i replicas =
     bindM (findDeploymentOrThrow i) (\<lambda>d.
     thenM (scaleTo api d replicas)
     (bindM (if replicas = 0 then bindM now (\<lambda>t. returnM (Some t)) else returnM None) (\<lambda>stoppedAt.
        setDeployment i (\<lambda>x. x\<lparr>
          d_replicas := replicas, d_desiredReplicas := replicas,
          d_lastNonZeroReplicas :=
            (if replicas > 0 then Some replicas else d_lastNonZeroReplicas d),
          d_status := (if replicas = 0 then Stopped else Creating),
          d_stoppedAt := stoppedAt\<rparr>))))"

definition stop :: "'c kubernetes_api \<Rightarrow> string \<Rightarrow> ('c world, deployment) io" where
  "stop api i =
     bindM (findDeploymentOrThrow i) (\<lambda>d.
     thenM (scaleTo api d 0)
     (bindM now (\<lambda>t.
        setDeployment i (\<lambda>x. x\<lparr>
          d_replicas := 0, d_desiredReplicas := 0,
          d_lastNonZeroReplicas :=
            (if d_replicas d > 0 then Some (d_replicas d) else d_lastNonZeroReplicas d),
          d_status := Stopped, d_stoppedAt := Some t\<rparr>))))"

definition start :: "'c kubernetes_api \<Rightarrow> string \<Rightarrow> int option \<Rightarrow> ('c world, deployment) io" where
  "start api i requested =
     bindM (findDeploymentOrThrow i) (\<lambda>d.
       let replicas = orDefault requested (orDefault (d_lastNonZeroReplicas d)
             (if d_desiredReplicas d > 0 then d_desiredReplicas d else 1))
       in
     thenM (scaleTo api d replicas)
       (setDeployment i (\<lambda>x. x\<lparr>
          d_replicas := replicas, d_desiredReplicas := replicas,
          d_lastNonZeroReplicas := Some replicas,
          d_status := Creating, d_stoppedAt := None\<rparr>)))"

definition restart :: "'c kubernetes_api \<Rightarrow> string \<Rightarrow> ('c world, deployment) io" where
  "restart api i =
     bindM (findDeploymentOrThrow i) (\<lambda>d.
     bindM (restartDeployment api (d_namespace d) (d_kubernetesDeployment d)) (\<lambda>restartedAt.
       setDeployment i (\<lambda>x. x\<lparr>d_status := Creating, d_lastRestartedAt := Some restartedAt\<rparr>)))"

definition deleteDeployment :: "'c kubernetes_api \<Rightarrow> string \<Rightarrow> ('c world, deployment_view) io" where
  "deleteDeployment api i =
     bindM (findDeploymentOrThrow i) (\<lambda>d.
     bindM (liftM (deploymentToResourceNames d)) (\<lambda>names.
     thenM (deleteDeploymentResources api (d_namespace d) names (truthy (d_publicHostname d)))
     (bindM now (\<lambda>t.
      bindM (setDeployment i (\<lambda>x. x\<lparr>
          d_status := Deleted, d_deletedAt := Some t, d_publicHostname := None\<rparr>)) (\<lambda>r.
        returnM (sanitizeDeployment r None))))))"

section \<open>Isolation\<close>

lemma keeps_setDeployment [keeps_intros]:
  "(\<And>d. d_workspaceId (f d) = d_workspaceId d) \<Longrightarrow> keeps tenantFrame (setDeployment i f)"
  unfolding setDeployment_def by (rule deployment.keeps_updateRow) (simp add: deploymentTable_def)

lemma keeps_lookups [keeps_intros]:
  "preorder_rel R \<Longrightarrow> keeps R (findDeploymentOrThrow i)"
  "preorder_rel R \<Longrightarrow> keeps R (runtimeConfigsOf d)"
  "preorder_rel R \<Longrightarrow> keeps R (resolveDeploymentImage appId dto)"
  unfolding findDeploymentOrThrow_def runtimeConfigsOf_def resolveDeploymentImage_def
  by (intro keeps_bindM keeps_findFirst keeps_findMany keeps_option keeps_throwM keeps_returnM
      keeps_if; assumption)+

lemma keeps_storeDeployment [keeps_intros]: "keeps tenantFrame (storeDeployment mk records)"
  unfolding storeDeployment_def by (intro keeps_intros)

lemma keeps_deployStored [keeps_intros]: "keeps tenantFrame (deployStored api cfg input d cs)"
  unfolding deployStored_def by (intro keeps_intros) simp

lemma keeps_createDeployment [keeps_intros]:
  "keeps tenantFrame (createDeployment api cfg appId dto)"
  unfolding createDeployment_def Let_def by (intro keeps_intros)

lemma keeps_deployment_operations [keeps_intros]:
  "keeps tenantFrame (findDeploymentsByApp i)"
  "keeps tenantFrame (getDeploymentStatus api i)"
  "keeps tenantFrame (getDeploymentLogs api i)"
  "keeps tenantFrame (getPods api i)"
  "keeps tenantFrame (getEvents api i)"
  "keeps tenantFrame (scale api i n)"
  "keeps tenantFrame (stop api i)"
  "keeps tenantFrame (start api i requested)"
  "keeps tenantFrame (restart api i)"
  "keeps tenantFrame (deleteDeployment api i)"
  unfolding findDeploymentsByApp_def getDeploymentStatus_def getDeploymentLogs_def getPods_def
    getEvents_def scale_def stop_def start_def restart_def deleteDeployment_def scaleTo_def Let_def
  by ((intro keeps_intros); simp)+

end
