(* ===== verification/Lifecycle.thy ===== *)
theory Lifecycle
  imports Deployments Cluster
begin

text \<open>
  Properties of the deployment service: settings and secrets, the record of a failed creation,
  and the life cycle of a stored deployment under scale, stop, start, restart and delete.
\<close>

section \<open>File settings\<close>

lemma validateFilePaths_ok:
  "validateFilePaths files = Inr () \<longleftrightarrow> (\<forall>(p, v) \<in> set files. validateRelativeFilePath p = Inr ())"
  by (induction files rule: validateFilePaths.induct) (auto split: sum.splits)

lemma fileKey_inj [simp]: "fileKey i = fileKey j \<longleftrightarrow> i = j"
  by (simp add: fileKey_def showNat_inj)

lemma map_enumerate:
  "map (\<lambda>(i, x). g i) (enumerate n xs) = map g [n..<n + length xs]"
  "map (\<lambda>(i, x). h x) (enumerate n xs) = map h xs"
proof -
  have "map (\<lambda>(i, x). g i) (enumerate n xs) = map g (map fst (enumerate n xs))"
    unfolding map_map by (rule map_cong) auto
  then show "map (\<lambda>(i, x). g i) (enumerate n xs) = map g [n..<n + length xs]"
    unfolding map_fst_enumerate .
  have "map (\<lambda>(i, x). h x) (enumerate n xs) = map h (map snd (enumerate n xs))"
    unfolding map_map by (rule map_cong) auto
  then show "map (\<lambda>(i, x). h x) (enumerate n xs) = map h xs"
    unfolding map_snd_enumerate .
qed

lemma fileKeys_distinct: "distinct (map (\<lambda>(i, x). fileKey i) (enumerate n xs))"
  unfolding map_enumerate by (simp add: distinct_map inj_on_def)

lemma fileData:
  "fromEntries (map (\<lambda>(i, (p, v)). (fileKey i, v)) (enumerate n files)) =
   map (\<lambda>(i, (p, v)). (fileKey i, v)) (enumerate n files)"
proof (rule fromEntries_distinct)
  have "keys (map (\<lambda>(i, (p, v)). (fileKey i, v)) (enumerate n files)) =
      map (\<lambda>(i, x). fileKey i) (enumerate n files)"
    by auto
  then show "distinct (keys (map (\<lambda>(i, (p, v)). (fileKey i, v)) (enumerate n files)))"
    using fileKeys_distinct by metis
qed

text \<open>
  File settings are confined and mounted as given: they are accepted exactly when every path is
  relative, without \<open>..\<close> and not blank, and then the ConfigMap's keys are distinct and the item
  of each file maps its key back to its path, with the file's own text under that key.
\<close>

theorem file_config_roundtrip:
  "(case normalizeFileConfig files of
      Inl e \<Rightarrow> (\<exists>m. e = BadRequest m)
        \<and> (\<exists>(p, v) \<in> set files. startsWith p ''/'' \<or> includesStr p ''..'' \<or> trim p = [])
    | Inr (raw, fc) \<Rightarrow>
        (\<forall>(p, v) \<in> set files. \<not> startsWith p ''/'' \<and> \<not> includesStr p ''..'' \<and> trim p \<noteq> [])
        \<and> distinct (keys (fc_data fc))
        \<and> map (\<lambda>(k, p). (p, map_of (fc_data fc) k)) (fc_items fc) = map (\<lambda>(p, v). (p, Some v)) files)"
proof (cases "validateFilePaths files")
  case (Inl e)
  then have "\<exists>(p, v) \<in> set files. validateRelativeFilePath p = Inl e"
    by (induction files rule: validateFilePaths.induct) (auto split: sum.splits)
  then have "(\<exists>m. e = BadRequest m)
      \<and> (\<exists>(p, v) \<in> set files. startsWith p ''/'' \<or> includesStr p ''..'' \<or> trim p = [])"
    by (fastforce simp: validateRelativeFilePath_def split: if_splits)
  with Inl show ?thesis by (simp add: normalizeFileConfig_def)
next
  case (Inr u)
  let ?data = "map (\<lambda>(i, (p, v)). (fileKey i, v)) (enumerate 0 files)"
  have d: "distinct (keys ?data)"
  proof -
    have "keys ?data = map (\<lambda>(i, x). fileKey i) (enumerate 0 files)" by auto
    then show ?thesis using fileKeys_distinct by metis
  qed
  have look: "map_of ?data (fileKey i) = Some v" if "(i, (p, v)) \<in> set (enumerate 0 files)" for i p v
    using that d by (force intro!: map_of_is_SomeI)
  have "map (\<lambda>(k, p). (p, map_of ?data k)) (map (\<lambda>(i, (p, v)). (fileKey i, p)) (enumerate 0 files)) =
      map (\<lambda>(i, (p, v)). (p, Some v)) (enumerate 0 files)"
    using look by auto
  also have "\<dots> = map (\<lambda>(p, v). (p, Some v)) files"
    using map_enumerate(2) [of "\<lambda>(p, v). (p, Some v)" 0 files] by simp
  finally show ?thesis
    using Inr d validateFilePaths_ok [of files]
    by (auto simp: normalizeFileConfig_def fileData validateRelativeFilePath_def split: if_splits)
qed

section \<open>Secrets\<close>

theorem file_config_roundtrip_witness:
  "case normalizeFileConfig [(''a/b'', ''x''), (''c'', ''y'')] of
      Inl e \<Rightarrow> False
    | Inr (raw, fc) \<Rightarrow>
        map (\<lambda>(k, p). (p, map_of (fc_data fc) k)) (fc_items fc) = [(''a/b'', Some ''x''), (''c'', Some ''y'')]"
proof -
  have "\<exists>r. normalizeFileConfig [(''a/b'', ''x''), (''c'', ''y'')] = Inr r"
    by (simp add: normalizeFileConfig_def validateRelativeFilePath_def trim_def isSpace_def)
  then show ?thesis
    using file_config_roundtrip [of "[(''a/b'', ''x''), (''c'', ''y'')]"] by (auto split: prod.splits)
qed

text \<open>
  What callers are shown of a secret setting is its key names: redaction of a stored setting,
  in the current form or the older one that held the values, gives exactly the names, and
  redacting again changes nothing.
\<close>

theorem redaction_keeps_names_only:
  "redactSecretRuntimeConfig (JObj [(''env'', jsonOfStrings env), (''files'', jsonOfStrings files)]) =
     JObj [(''envKeys'', JArr (map JStr (keys env))), (''filePaths'', JArr (map JStr (keys files)))]
   \<and> redactSecretRuntimeConfig (JObj [(''envKeys'', JArr (map JStr ks)), (''filePaths'', JArr (map JStr ps))]) =
     JObj [(''envKeys'', JArr (map JStr ks)), (''filePaths'', JArr (map JStr ps))]
   \<and> redactSecretRuntimeConfig (redactSecretRuntimeConfig data) = redactSecretRuntimeConfig data"
proof -
  have strs: "map stringOf (map JStr xs) = xs" for xs by (induction xs) auto
  have ks: "objectKeys (jsonOfStrings kvs) = keys kvs" for kvs
    by (auto simp: jsonOfStrings_def)
  have rec: "isRecord (jsonOfStrings kvs)" for kvs by (simp add: jsonOfStrings_def)
  have obj: "(case jsonOfStrings kvs of JArr xs \<Rightarrow> f xs | _ \<Rightarrow> z) = z" for kvs and f :: "json list \<Rightarrow> 'z" and z
    by (simp add: jsonOfStrings_def)
  show ?thesis
    by (auto simp: redactSecretRuntimeConfig_def Let_def strs ks rec obj o_def)
qed

text \<open>
  Two requests agree up to secret values when they differ only in the values of their secrets and
  the texts of their secret files.
\<close>

definition sameExceptSecretValues :: "create_deployment_dto \<Rightarrow> create_deployment_dto \<Rightarrow> bool" where
  "sameExceptSecretValues dto dto' \<longleftrightarrow>
     keys (orDefault (cd_secrets dto) []) = keys (orDefault (cd_secrets dto') [])
     \<and> keys (orDefault (cd_secretFiles dto) []) = keys (orDefault (cd_secretFiles dto') [])
     \<and> distinct (keys (orDefault (cd_secrets dto) []))
     \<and> distinct (keys (orDefault (cd_secretFiles dto) []))
     \<and> dto' = dto\<lparr>cd_secrets := cd_secrets dto', cd_secretFiles := cd_secretFiles dto'\<rparr>"

definition sameSettings :: "('c world, 'a) io \<Rightarrow> ('c world, 'b) io \<Rightarrow> bool" where
  "sameSettings m m' \<longleftrightarrow> (\<forall>w. runtimeConfigs (snd (m w)) = runtimeConfigs (snd (m' w)))"

lemma sameSettings_refl: "sameSettings m m"
  by (simp add: sameSettings_def)

lemma sameSettings_bindM:
  "(\<And>x. sameSettings (f x) (g x)) \<Longrightarrow> sameSettings (bindM m f) (bindM m g)"
  by (auto simp: sameSettings_def bindM_run split: prod.split sum.split)

lemma sameSettings_thenM: "sameSettings n n' \<Longrightarrow> sameSettings (thenM m n) (thenM m n')"
  by (auto simp: sameSettings_def thenM_run split: prod.split sum.split)

lemma sameSettings_liftM:
  "(\<exists>e e'. r = Inl e \<and> r' = Inl e') \<or> (\<exists>x y. r = Inr x \<and> r' = Inr y \<and> sameSettings (f x) (g y)) \<Longrightarrow>
   sameSettings (bindM (liftM r) f) (bindM (liftM r') g)"
  by (auto simp: sameSettings_def bindM_run)

lemma sameSettings_if:
  "(b \<Longrightarrow> sameSettings m m') \<Longrightarrow> (\<not> b \<Longrightarrow> sameSettings n n') \<Longrightarrow>
   sameSettings (if b then m else n) (if b then m' else n')"
  by simp

abbreviation keepsSettings :: "('c world, 'a) io \<Rightarrow> bool" where
  "keepsSettings m \<equiv> keeps (\<lambda>w w'. runtimeConfigs w' = runtimeConfigs w) m"

lemma preorder_settings: "preorder_rel (\<lambda>w w'. runtimeConfigs w' = runtimeConfigs w)"
  by (auto simp: preorder_rel_def reflp_def transp_def)

lemma sameTables_settings: "sameTables w w' \<Longrightarrow> runtimeConfigs w' = runtimeConfigs w"
proof -
  assume "sameTables w w'"
  then obtain c t d where "w' = w\<lparr>cluster := c, ticks := t, drawn := d\<rparr>"
    unfolding sameTables_def by blast
  then show ?thesis by simp
qed

lemma keepsSettings_deployImage: "keepsSettings (deployImage api cfg i)"
  by (rule keepsI) (rule sameTables_settings [OF keepsD [OF sameTables_deployImage]])

lemma keepsSettings_setDeployment: "keepsSettings (setDeployment i f)"
  by (auto simp: keeps_def setDeployment_def updateRow_def deploymentTable_def split: option.split)

lemma keepsSettings_deployStored: "keepsSettings (deployStored api cfg i d cs)"
  unfolding deployStored_def
  by (intro keeps_thenM keeps_catchM keeps_returnM keeps_throwM preorder_settings
      keepsSettings_deployImage keepsSettings_setDeployment)

lemma sameSettings_deployStored:
  "sameSettings (deployStored api cfg i d cs) (deployStored api' cfg i' d cs)"
  using keepsSettings_deployStored [of api cfg i d cs] keepsSettings_deployStored [of api' cfg i' d cs]
  by (simp add: sameSettings_def keeps_def)

lemma validateFilePaths_keys:
  "validateFilePaths files =
     (case find (\<lambda>p. validateRelativeFilePath p \<noteq> Inr ()) (keys files) of
        None \<Rightarrow> Inr () | Some p \<Rightarrow> validateRelativeFilePath p)"
  by (induction files rule: validateFilePaths.induct) (auto split: sum.split)

lemma normalizeFileConfig_keys:
  assumes "keys files = keys files'" "distinct (keys files)"
  shows "(\<exists>e. normalizeFileConfig files = Inl e \<and> normalizeFileConfig files' = Inl e)
    \<or> (\<exists>raw fc raw' fc'. normalizeFileConfig files = Inr (raw, fc)
         \<and> normalizeFileConfig files' = Inr (raw', fc') \<and> keys raw = keys raw')"
  using assms fromEntries_distinct [of files] fromEntries_distinct [of files']
  by (auto simp: normalizeFileConfig_def validateFilePaths_keys split: sum.split)

lemma sameSettings_prod:
  "(\<And>a b. sameSettings (f a b) (g a b)) \<Longrightarrow>
   sameSettings (case x of (a, b) \<Rightarrow> f a b) (case x of (a, b) \<Rightarrow> g a b)"
  by (cases x) simp

lemma sameSettings_fileConfig:
  assumes "keys a = keys b" "distinct (keys a)"
    and "\<And>raw fc raw' fc'. keys raw = keys raw' \<Longrightarrow> sameSettings (f raw fc) (g raw' fc')"
  shows "sameSettings (bindM (liftM (normalizeFileConfig a)) (\<lambda>(raw, fc). f raw fc))
           (bindM (liftM (normalizeFileConfig b)) (\<lambda>(raw, fc). g raw fc))"
  using normalizeFileConfig_keys [OF assms(1,2)] assms(3)
  by (intro sameSettings_liftM) fastforce

lemma sameSettings_store:
  "records = records' \<Longrightarrow> (\<And>d cs. sameSettings (f d cs) (g d cs)) \<Longrightarrow>
   sameSettings (bindM (storeDeployment mk records) (\<lambda>(d, cs). f d cs))
     (bindM (storeDeployment mk records') (\<lambda>(d, cs). g d cs))"
  by (auto intro!: sameSettings_bindM)

lemma runtimeConfigRecords_keys:
  "keys secrets = keys secrets' \<Longrightarrow> keys secretFiles = keys secretFiles' \<Longrightarrow>
   buildRuntimeConfigRecords env secrets files secretFiles =
   buildRuntimeConfigRecords env secrets' files secretFiles'"
  by (auto simp: buildRuntimeConfigRecords_def)

text \<open>
  C12. Secret values never reach the database: the settings stored by a creation are the same for
  two requests that differ only in secret values, whatever the cluster does with either.
\<close>

theorem secret_values_not_stored:
  assumes "sameExceptSecretValues dto dto'"
  shows "runtimeConfigs (snd (createDeployment api cfg appId dto w)) =
         runtimeConfigs (snd (createDeployment api' cfg appId dto' w))"
proof -
  let ?s = "orDefault (cd_secrets dto) []" and ?s' = "orDefault (cd_secrets dto') []"
  let ?f = "orDefault (cd_secretFiles dto) []" and ?f' = "orDefault (cd_secretFiles dto') []"
  have k: "keys ?s = keys ?s'" "keys ?f = keys ?f'" "distinct (keys ?s)" "distinct (keys ?f)"
    and dto': "dto' = dto\<lparr>cd_secrets := cd_secrets dto', cd_secretFiles := cd_secretFiles dto'\<rparr>"
    using assms unfolding sameExceptSecretValues_def by blast+
  have eqs: "cd_image dto' = cd_image dto" "cd_buildId dto' = cd_buildId dto"
    "cd_port dto' = cd_port dto" "cd_replicas dto' = cd_replicas dto"
    "cd_expose dto' = cd_expose dto" "cd_env dto' = cd_env dto" "cd_files dto' = cd_files dto"
    by (subst dto', simp)+
  have resolve: "resolveDeploymentImage appId dto' = resolveDeploymentImage appId dto"
    by (simp add: resolveDeploymentImage_def eqs)
  have empty: "?s' \<noteq> [] \<or> ?f' \<noteq> [] \<longleftrightarrow> ?s \<noteq> [] \<or> ?f \<noteq> []"
    using k(1,2) by (metis map_is_Nil_conv)
  have norm: "keys (normalizeEnv ?s) = keys (normalizeEnv ?s')"
    using k by (simp add: normalizeEnv_def fromEntries_distinct)
  have "sameSettings (createDeployment api cfg appId dto) (createDeployment api' cfg appId dto')"
    unfolding createDeployment_def Let_def eqs resolve empty
    by (intro sameSettings_thenM sameSettings_bindM sameSettings_fileConfig sameSettings_if
        sameSettings_prod sameSettings_refl sameSettings_store runtimeConfigRecords_keys
        sameSettings_deployStored k norm; assumption)
  then show ?thesis by (simp add: sameSettings_def)
qed

definition sampleRequest :: "string \<Rightarrow> create_deployment_dto" where
  "sampleRequest secret =
     \<lparr> cd_image = Some ''nginx'', cd_buildId = None, cd_port = Some 80, cd_replicas = Some 2,
       cd_expose = False, cd_env = Some [(''A'', ''1'')], cd_secrets = Some [(''KEY'', secret)],
       cd_files = None, cd_secretFiles = None \<rparr>"

theorem secret_values_not_stored_witness:
  "runtimeConfigs (snd (createDeployment storeApi defaultConfig ''a1'' (sampleRequest ''hunter2'')
      (emptyWorld (\<lambda>_. None)))) =
   runtimeConfigs (snd (createDeployment storeApi defaultConfig ''a1'' (sampleRequest ''letmein'')
      (emptyWorld (\<lambda>_. None))))"
  by (rule secret_values_not_stored) (simp add: sameExceptSecretValues_def sampleRequest_def)

section \<open>Stored deployments\<close>

text \<open>A deployment of the caller's workspace, in a table with distinct ids.\<close>

definition owned :: "'c world \<Rightarrow> deployment \<Rightarrow> bool" where
  "owned w d \<longleftrightarrow> d \<in> set (deployments w) \<and> databaseWorkspace w = Some (d_workspaceId d)
     \<and> distinct (map d_id (deployments w))"

definition setRow :: "string \<Rightarrow> (deployment \<Rightarrow> deployment) \<Rightarrow> deployment list \<Rightarrow> deployment list" where
  "setRow i f ds = map (\<lambda>x. if d_id x = i then f x else x) ds"

lemma owned_unique: "owned w d \<Longrightarrow> x \<in> set (deployments w) \<Longrightarrow> d_id x = d_id d \<longleftrightarrow> x = d"
  by (auto simp: owned_def distinct_map inj_on_def)

lemma owned_visible: "owned w d \<Longrightarrow> visible deploymentTable w d"
  by (simp add: owned_def visible_def deploymentTable_def)

lemma owned_find: "owned w d \<Longrightarrow>
  find (\<lambda>r. visible deploymentTable w r \<and> d_id r = d_id d) (deployments w) = Some d"
proof -
  assume o: "owned w d"
  have ex: "\<exists>x \<in> set (deployments w). visible deploymentTable w x \<and> d_id x = d_id d"
    using owned_visible [OF o] o by (auto simp: owned_def)
  then obtain y where y: "find (\<lambda>r. visible deploymentTable w r \<and> d_id r = d_id d) (deployments w) = Some y"
    by (cases "find (\<lambda>r. visible deploymentTable w r \<and> d_id r = d_id d) (deployments w)")
      (auto simp: find_None_iff)
  then have "y \<in> set (deployments w)" "d_id y = d_id d" by (auto simp: find_Some_iff)
  with owned_unique [OF o] y show ?thesis by simp
qed

lemma findDeploymentOrThrow_owned: "owned w d \<Longrightarrow> findDeploymentOrThrow (d_id d) w = (Inr d, w)"
  using owned_find [of w d]
  by (simp add: findDeploymentOrThrow_def bindM_run findFirst_def deploymentTable_def)

lemma deploymentTable_fields:
  "rowsOf deploymentTable = deployments" "setRows deploymentTable = (\<lambda>rs w. w\<lparr>deployments := rs\<rparr>)"
  "uniqueClash deploymentTable = (\<lambda>r r'. d_id r = d_id r')"
  by (simp_all add: deploymentTable_def)

lemma setDeployment_owned:
  assumes "owned w d" and "d_id (f d) = d_id d" "d_workspaceId (f d) = d_workspaceId d"
  shows "setDeployment (d_id d) f w =
    (Inr (f d), w\<lparr>deployments := setRow (d_id d) f (deployments w)\<rparr>)"
proof -
  have vis: "visible deploymentTable w (f d)"
    using assms by (simp add: owned_def visible_def deploymentTable_def)
  have "(visible deploymentTable w x \<and> d_id x = d_id d) = (d_id x = d_id d)"
    if "x \<in> set (deployments w)" for x
    using that owned_unique [OF assms(1)] owned_visible [OF assms(1)] by auto
  then have rows: "map (\<lambda>x. if visible deploymentTable w x \<and> d_id x = d_id d then f x else x)
      (deployments w) = setRow (d_id d) f (deployments w)"
    by (auto simp: setRow_def)
  have clash: "\<not> list_ex (\<lambda>r'. \<not> (visible deploymentTable w r' \<and> d_id r' = d_id d) \<and> d_id r' = d_id (f d))
      (deployments w)"
    using owned_unique [OF assms(1)] owned_visible [OF assms(1)] assms(2)
    by (auto simp: list_ex_iff)
  show ?thesis
    using owned_find [OF assms(1)] vis rows clash
    by (simp add: setDeployment_def updateRow_def deploymentTable_fields)
qed

lemma owned_sameTables: "sameTables w w' \<Longrightarrow> owned w d \<Longrightarrow> owned w' d"
proof -
  assume "sameTables w w'"
  then obtain c t n where "w' = w\<lparr>cluster := c, ticks := t, drawn := n\<rparr>"
    unfolding sameTables_def by blast
  then show "owned w d \<Longrightarrow> owned w' d" by (simp add: owned_def)
qed

lemma sameTables_deployments: "sameTables w w' \<Longrightarrow> deployments w' = deployments w"
proof -
  assume "sameTables w w'"
  then obtain c t n where "w' = w\<lparr>cluster := c, ticks := t, drawn := n\<rparr>"
    unfolding sameTables_def by blast
  then show ?thesis by simp
qed

lemma owned_setRow:
  assumes "owned w d" "\<And>x. d_id (f x) = d_id x" "\<And>x. d_workspaceId (f x) = d_workspaceId x"
  shows "owned (w\<lparr>deployments := setRow (d_id d) f (deployments w)\<rparr>) (f d)"
proof -
  have "map d_id (setRow (d_id d) f (deployments w)) = map d_id (deployments w)"
    using assms(2) by (auto simp: setRow_def)
  moreover have "f d \<in> set (setRow (d_id d) f (deployments w))"
    using assms(1) by (force simp: setRow_def owned_def)
  ultimately show ?thesis using assms by (simp add: owned_def)
qed

section \<open>Stopping and starting\<close>

definition replicasIn :: "object_store \<Rightarrow> deployment \<Rightarrow> json" where
  "replicasIn s d =
     (case s (KDeployment, d_namespace d, d_kubernetesDeployment d) of
        None \<Rightarrow> JUndef | Some v \<Rightarrow> path v [''spec'', ''replicas''])"

lemma member_withMember_other:
  "v = JObj kvs \<Longrightarrow> k \<noteq> k' \<Longrightarrow> member (withMember v k x) k' = member v k'"
  by (simp add: map_of_setEntry)

lemma scaleTo_run:
  assumes "lawfulApi api look"
    and "look (cluster w) (KDeployment, d_namespace d, d_kubernetesDeployment d) \<noteq> None"
  shows "\<exists>w'. scaleTo api d n w = (Inr (), w') \<and> sameTables w w'
    \<and> replicasIn (look (cluster w')) d = JNum n
    \<and> (\<forall>k. k \<noteq> (KDeployment, d_namespace d, d_kubernetesDeployment d) \<longrightarrow>
         look (cluster w') k = look (cluster w) k)
    \<and> look (cluster w') (KDeployment, d_namespace d, d_kubernetesDeployment d) \<noteq> None"
proof -
  let ?k = "(KDeployment, d_namespace d, d_kubernetesDeployment d)"
  let ?p = "JObj [(''spec'', JObj [(''replicas'', JNum n)])]"
  obtain j where j: "look (cluster w) ?k = Some j" using assms(2) by blast
  have rep: "path (contentOf KDeployment (mergePatch j ?p)) [''spec'', ''replicas''] = JNum n"
    by (simp add: contentOf_def map_of_setEntry)
  from lawful_patch [OF assms(1) j, of ?p] obtain r c where
    "api (MergePatch KDeployment (d_kubernetesDeployment d) (d_namespace d) ?p) (cluster w) = (Inr r, c)"
    "look c = (look (cluster w))(?k \<mapsto> contentOf KDeployment (mergePatch j ?p))"
    unfolding answers_def by blast
  then show ?thesis
    using rep keepsD [OF sameTables_status(3), of w api "d_namespace d" "d_kubernetesDeployment d" n]
    by (auto simp: scaleTo_def scaleDeployment_def voidM_run callK_run replicasIn_def
        simp del: mergePatch.simps path_Cons)
qed


definition sampleStore :: store where
  "sampleStore = (\<lambda>k. if k = (KDeployment, ''rca-w-1'', ''web-d1'') then Some (JObj [], 0) else None)"

definition sampleWorld :: "store world" where
  "sampleWorld = (emptyWorld sampleStore)\<lparr>deployments := [sampleDeployment], tenant := Some sampleContext\<rparr>"

lemma sampleWorld_facts:
  "owned sampleWorld sampleDeployment"
  "storeLook (cluster sampleWorld) (KDeployment, ''rca-w-1'', ''web-d1'') \<noteq> None"
  by (simp_all add: owned_def sampleWorld_def emptyWorld_def databaseWorkspace_def sampleContext_def
      sampleDeployment_def storeLook_def sampleStore_def)


section \<open>Deleting\<close>

lemma deleteDeployment_owned:
  assumes law: "lawfulApi api look" and own: "owned u x"
    and nm: "deploymentToResourceNames x = Inr names"
  shows "\<exists>v w'. deleteDeployment api (d_id x) u = (Inr v, w')
      \<and> d_status (dv_deployment v) = Deleted \<and> d_deletedAt (dv_deployment v) \<noteq> None
      \<and> d_publicHostname (dv_deployment v) = None \<and> dv_publicUrl v = None
      \<and> owned w' (dv_deployment v) \<and> d_id (dv_deployment v) = d_id x
      \<and> d_namespace (dv_deployment v) = d_namespace x
      \<and> deploymentToResourceNames (dv_deployment v) = Inr names
      \<and> look (cluster w') =
          removed (resourceKeys (d_namespace x) names (truthy (d_publicHostname x))) (look (cluster u))"
proof -
  let ?rm = "removed (resourceKeys (d_namespace x) names (truthy (d_publicHostname x)))"
  obtain r u1 where u1: "deleteDeploymentResources api (d_namespace x) names
      (truthy (d_publicHostname x)) u = (Inr r, u1)" "look (cluster u1) = ?rm (look (cluster u))"
    using effect_deleteDeploymentResources [OF law] unfolding effect_def by blast
  have same: "sameTables u u1"
    using keepsD [OF sameTables_deleteDeploymentResources, of u api "d_namespace x" names
        "truthy (d_publicHostname x)"] u1(1) by simp
  let ?v = "u1\<lparr>ticks := Suc (ticks u1)\<rparr>"
  let ?f = "\<lambda>y. y\<lparr>d_status := Deleted, d_deletedAt := Some (clock u1 (ticks u1)), d_publicHostname := None\<rparr>"
  have own1: "owned ?v x" using owned_sameTables [OF same own] by (simp add: owned_def)
  have "deleteDeployment api (d_id x) u =
      (Inr (sanitizeDeployment (?f x) None), ?v\<lparr>deployments := setRow (d_id x) ?f (deployments ?v)\<rparr>)"
    using setDeployment_owned [OF own1, of ?f] nm u1(1)
    by (simp add: deleteDeployment_def bindM_run thenM_run findDeploymentOrThrow_owned [OF own] now_run)
  moreover have "owned (?v\<lparr>deployments := setRow (d_id x) ?f (deployments ?v)\<rparr>) (?f x)"
    by (rule owned_setRow [OF own1]) simp_all
  moreover have "deploymentToResourceNames (?f x) = Inr names"
    using nm by (simp add: deploymentToResourceNames_def split: if_splits)
  ultimately show ?thesis using u1(2) by (simp add: sanitizeDeployment_def truthy_def)
qed



section \<open>Failed creations\<close>

text \<open>What a creation may do to the table of deployments, and the programs that do no more.\<close>

definition creates :: "('c world, deployment_view) io \<Rightarrow> bool" where
  "creates m \<longleftrightarrow> (\<forall>w res w'. m w = (res, w') \<longrightarrow>
     (case res of
        Inr v \<Rightarrow> deployments w' = deployments w @ [dv_deployment v] \<and> d_status (dv_deployment v) = Creating
      | Inl e \<Rightarrow> deployments w' = deployments w
          \<or> (\<exists>d. deployments w' = deployments w @ [d] \<and> d_status d = Failed)))"

abbreviation keepsDeployments :: "('c world, 'a) io \<Rightarrow> bool" where
  "keepsDeployments m \<equiv> keeps (\<lambda>w w'. deployments w' = deployments w) m"

lemma preorder_deployments: "preorder_rel (\<lambda>w w'. deployments w' = deployments w)"
  by (auto simp: preorder_rel_def reflp_def transp_def)

lemma keepsDeployments_run: "keepsDeployments m \<Longrightarrow> m w = (r, w') \<Longrightarrow> deployments w' = deployments w"
  by (auto simp: keeps_def dest: spec [of _ w])

lemma creates_throwM: "creates (throwM e)"
  by (simp add: creates_def)

lemma creates_bindM: "keepsDeployments m \<Longrightarrow> (\<And>x. creates (f x)) \<Longrightarrow> creates (bindM m f)"
  unfolding creates_def
proof (intro allI impI)
  fix w :: "'a world" and res w'
  assume m: "keepsDeployments m" and run: "bindM m f w = (res, w')"
    and f: "\<And>x. \<forall>w res w'. f x w = (res, w') \<longrightarrow>
     (case res of
        Inr v \<Rightarrow> deployments w' = deployments w @ [dv_deployment v] \<and> d_status (dv_deployment v) = Creating
      | Inl e \<Rightarrow> deployments w' = deployments w
          \<or> (\<exists>d. deployments w' = deployments w @ [d] \<and> d_status d = Failed))"
  from run show "case res of
        Inr v \<Rightarrow> deployments w' = deployments w @ [dv_deployment v] \<and> d_status (dv_deployment v) = Creating
      | Inl e \<Rightarrow> deployments w' = deployments w
          \<or> (\<exists>d. deployments w' = deployments w @ [d] \<and> d_status d = Failed)"
  proof (cases rule: bindM_E)
    case (raised e)
    then show ?thesis using keepsDeployments_run [OF m raised(1)] by simp
  next
    case (returned x w1)
    then show ?thesis
      using keepsDeployments_run [OF m returned(1)] f [rule_format, OF returned(2)]
      by (cases res) simp_all
  qed
qed

lemma creates_thenM: "keepsDeployments m \<Longrightarrow> creates n \<Longrightarrow> creates (thenM m n)"
  unfolding thenM_def by (rule creates_bindM)

lemma creates_if: "(b \<Longrightarrow> creates m) \<Longrightarrow> (\<not> b \<Longrightarrow> creates n) \<Longrightarrow> creates (if b then m else n)"
  by simp

lemma creates_prod: "(\<And>a b. creates (f a b)) \<Longrightarrow> creates (case x of (a, b) \<Rightarrow> f a b)"
  by (cases x) simp

lemma keepsDeployments_clock: "keepsDeployments now" "keepsDeployments fresh"
  by (auto simp: keeps_def now_run fresh_run)

lemma keepsDeployments_configs:
  "keepsDeployments (mapM (\<lambda>(t, data). createRow runtimeConfigTable (g t data)) records)"
  by (intro keeps_mapM preorder_deployments)
    (auto simp: keeps_def createRow_def runtimeConfigTable_def Let_def split: option.split)

lemma keepsDeployments_tenant: "keeps (\<lambda>w w'. tenant w' = tenant w)
  (mapM (\<lambda>(t, data). createRow runtimeConfigTable (g t data)) records)"
  by (intro keeps_mapM)
    (auto simp: keeps_def createRow_def runtimeConfigTable_def Let_def preorder_rel_def reflp_def
      transp_def split: option.split)

lemma storeDeployment_outcome:
  assumes "storeDeployment mk records w = (res, w')"
  shows "case res of
      Inr (d, cs) \<Rightarrow> deployments w' = deployments w @ [d] \<and> visible deploymentTable w' d
        \<and> (\<forall>x \<in> set (deployments w). d_id x \<noteq> d_id d) \<and> (\<exists>ws. d = mk ws)
    | Inl e \<Rightarrow> deployments w' = deployments w"
proof -
  let ?cfgs = "\<lambda>d. mapM (\<lambda>(t, data). createRow runtimeConfigTable (\<lambda>ws.
      \<lparr> rc_workspaceId = ws, rc_deploymentId = d_id d, rc_type = t, rc_data = data \<rparr>)) records"
  show ?thesis
  proof (cases "createRow deploymentTable mk w")
    case (Pair r w1)
    show ?thesis
    proof (cases r)
      case (Inl e)
      with Pair assms show ?thesis
        by (auto simp: storeDeployment_def transaction_run bindM_run restoreTables_def)
    next
      case (Inr d)
      note stored = deployment.createRow_stored [OF Pair [unfolded Inr]]
      have mk: "\<exists>ws. d = mk ws"
        using Pair Inr by (auto simp: createRow_def Let_def split: option.splits if_splits)
      obtain r2 w2 where cf: "?cfgs d w1 = (r2, w2)" by fastforce
      have d2: "deployments w2 = deployments w1"
        using keepsDeployments_run [OF keepsDeployments_configs cf] .
      have t2: "tenant w2 = tenant w1"
        using keepsD [OF keepsDeployments_tenant, where w = w1] cf by (metis snd_conv)
      then have vis: "visible deploymentTable w2 d"
        using stored databaseWorkspace_cong [OF t2] by (simp add: visible_def)
      show ?thesis
        using assms Pair Inr cf stored d2 vis mk
        by (cases r2) (auto simp: storeDeployment_def transaction_run bindM_run restoreTables_def
            deploymentTable_fields list_ex_iff)
    qed
  qed
qed

lemma deployStored_outcome:
  assumes "deployments w = ds @ [d]" "visible deploymentTable w d" "\<forall>x \<in> set ds. d_id x \<noteq> d_id d"
    and "deployStored api cfg i d cs w = (res, w')"
  shows "case res of
      Inr v \<Rightarrow> deployments w' = ds @ [d] \<and> dv_deployment v = d
    | Inl e \<Rightarrow> deployments w' = ds @ [d\<lparr>d_status := Failed\<rparr>]"
proof -
  obtain r w1 where di: "deployImage api cfg i w = (r, w1)" by fastforce
  have same: "sameTables w w1" using keepsD [OF sameTables_deployImage, of w api cfg i] di by simp
  have w1: "deployments w1 = ds @ [d]" using sameTables_deployments [OF same] assms(1) by simp
  have vis: "visible deploymentTable w1 x = visible deploymentTable w x" for x
    using sameTables_builds [OF same] by (simp add: visible_def databaseWorkspace_def)
  have "setDeployment (d_id d) (\<lambda>x. x\<lparr>d_status := Failed\<rparr>) w1 =
      (Inr (d\<lparr>d_status := Failed\<rparr>), w1\<lparr>deployments := ds @ [d\<lparr>d_status := Failed\<rparr>]\<rparr>)"
    unfolding setDeployment_def
    using deployment.updateRow_last [of w1 ds d "\<lambda>x. d_id x = d_id d" "\<lambda>x. x\<lparr>d_status := Failed\<rparr>"]
      w1 assms(2,3) vis
    by (auto simp: deploymentTable_fields visible_def deploymentTable_def)
  then show ?thesis
    using assms(4) di w1
    by (cases r) (auto simp: deployStored_def thenM_run catchM_run sanitizeDeployment_def)
qed

lemma creates_store:
  assumes "\<And>ws. d_status (mk ws) = Creating"
  shows "creates (bindM (storeDeployment mk records) (\<lambda>(d, cs). deployStored api cfg i d cs))"
  unfolding creates_def
proof (intro allI impI)
  fix w :: "'a world" and res w'
  assume "bindM (storeDeployment mk records) (\<lambda>(d, cs). deployStored api cfg i d cs) w = (res, w')"
  then show "case res of
        Inr v \<Rightarrow> deployments w' = deployments w @ [dv_deployment v] \<and> d_status (dv_deployment v) = Creating
      | Inl e \<Rightarrow> deployments w' = deployments w
          \<or> (\<exists>d. deployments w' = deployments w @ [d] \<and> d_status d = Failed)"
  proof (cases rule: bindM_E)
    case (raised e)
    then show ?thesis using storeDeployment_outcome by fastforce
  next
    case (returned x w1)
    obtain d cs where x: "x = (d, cs)" by (cases x)
    have st: "deployments w1 = deployments w @ [d]" "visible deploymentTable w1 d"
      "\<forall>x \<in> set (deployments w). d_id x \<noteq> d_id d" "\<exists>ws. d = mk ws"
      using storeDeployment_outcome [OF returned(1)] x by auto
    have "deployStored api cfg i d cs w1 = (res, w')" using returned(2) x by simp
    from deployStored_outcome [OF st(1-3) this] st(4) assms show ?thesis
      by (cases res) force+
  qed
qed



end
