(* ===== verification/Replicas.thy ===== *)
theory Replicas
  imports Lifecycle
begin

text \<open>
  The deployment service as a state machine: requests of the controller, each in the context of its
  caller, interleaved with anything the rest of the system does; and the invariant of the stored
  deployments.
\<close>

datatype deployment_request =
    ReqCreate string create_deployment_dto
  | ReqStatus string
  | ReqScale string int
  | ReqStop string
  | ReqStart string "int option"
  | ReqRestart string
  | ReqDelete string

text \<open>What the validation of the request bodies (deployments/dto/) admits.\<close>

definition atLeastOne :: "int option \<Rightarrow> bool" where
  "atLeastOne x \<longleftrightarrow> (case x of None \<Rightarrow> True | Some n \<Rightarrow> n \<ge> 1)"

fun validRequest :: "deployment_request \<Rightarrow> bool" where
  "validRequest (ReqCreate _ dto) \<longleftrightarrow> atLeastOne (cd_port dto) \<and> atLeastOne (cd_replicas dto)"
| "validRequest (ReqScale _ n) \<longleftrightarrow> n \<ge> 0"
| "validRequest (ReqStart _ n) \<longleftrightarrow> atLeastOne n"
| "validRequest _ \<longleftrightarrow> True"

fun handleRequest ::
  "'c kubernetes_api \<Rightarrow> service_config \<Rightarrow> deployment_request \<Rightarrow> ('c world, unit) io"
where
  "handleRequest api cfg (ReqCreate appId dto) = voidM (createDeployment api cfg appId dto)"
| "handleRequest api cfg (ReqStatus i) = voidM (getDeploymentStatus api i)"
| "handleRequest api cfg (ReqScale i n) = voidM (scale api i n)"
| "handleRequest api cfg (ReqStop i) = voidM (stop api i)"
| "handleRequest api cfg (ReqStart i n) = voidM (start api i n)"
| "handleRequest api cfg (ReqRestart i) = voidM (restart api i)"
| "handleRequest api cfg (ReqDelete i) = voidM (deleteDeployment api i)"

text \<open>
  Histories of the service: a valid request in some context, or a step of anything else (the
  cluster, the other services) that leaves the deployment rows alone.
\<close>

inductive deploymentSteps ::
  "'c kubernetes_api \<Rightarrow> service_config \<Rightarrow> 'c world \<Rightarrow> 'c world \<Rightarrow> bool"
  for api cfg w where
  start_state: "deploymentSteps api cfg w w"
| request: "deploymentSteps api cfg w w1 \<Longrightarrow> validRequest req \<Longrightarrow>
     runInContext ctx (handleRequest api cfg req) w1 = (res, w2) \<Longrightarrow> deploymentSteps api cfg w w2"
| elsewhere: "deploymentSteps api cfg w w1 \<Longrightarrow> deployments w2 = deployments w1 \<Longrightarrow>
     deploymentSteps api cfg w w2"

definition deploymentOk :: "deployment \<Rightarrow> bool" where
  "deploymentOk d \<longleftrightarrow>
     d_replicas d = d_desiredReplicas d \<and> 0 \<le> d_replicas d
     \<and> (case d_lastNonZeroReplicas d of None \<Rightarrow> True | Some n \<Rightarrow> 0 < n)
     \<and> (0 < d_replicas d \<longrightarrow> d_lastNonZeroReplicas d = Some (d_replicas d))
     \<and> (d_status d = Stopped \<longrightarrow> d_replicas d = 0 \<and> d_stoppedAt d \<noteq> None)
     \<and> (d_status d = Deleted \<longrightarrow> d_deletedAt d \<noteq> None \<and> d_publicHostname d = None)"

definition deploymentsOk :: "'c world \<Rightarrow> bool" where
  "deploymentsOk w \<longleftrightarrow> list_all deploymentOk (deployments w)"

definition keepsOk :: "'c world \<Rightarrow> 'c world \<Rightarrow> bool" where
  "keepsOk w w' \<longleftrightarrow> (deploymentsOk w \<longrightarrow> deploymentsOk w')"

lemma preorder_keepsOk: "preorder_rel keepsOk"
  by (auto simp: preorder_rel_def reflp_def transp_def keepsOk_def)

lemma keepsOk_frame: "keepsDeployments m \<Longrightarrow> keeps keepsOk m"
  by (simp add: keeps_def keepsOk_def deploymentsOk_def)

lemma keepsDeployments_kube: "keeps sameTables m \<Longrightarrow> keepsDeployments m"
  by (simp add: keeps_def sameTables_deployments)

lemma keepsOk_kube: "keeps sameTables m \<Longrightarrow> keeps keepsOk m"
  by (rule keepsOk_frame [OF keepsDeployments_kube])

lemma keepsOk_find:
  assumes "\<And>d. deploymentOk d \<Longrightarrow> keeps keepsOk (f d)"
  shows "keeps keepsOk (bindM (findDeploymentOrThrow i) f)"
proof (rule keepsI)
  fix w :: "'a world"
  show "keepsOk w (snd (bindM (findDeploymentOrThrow i) f w))"
  proof (cases "deploymentsOk w")
    case True
    show ?thesis
    proof (cases "findFirst deploymentTable (\<lambda>d. d_id d = i) w")
      case (Pair r w1)
      then have w1: "w1 = w" "\<And>d. r = Inr (Some d) \<Longrightarrow> d \<in> set (deployments w)" "\<exists>x. r = Inr x"
        by (auto simp: findFirst_def deploymentTable_fields find_Some_iff)
      then consider "r = Inr None" | d where "r = Inr (Some d)" "deploymentOk d"
        using True by (metis deploymentsOk_def list_all_iff not_None_eq)
      then show ?thesis
        using Pair w1(1) keepsD [OF assms]
        by cases (auto simp: findDeploymentOrThrow_def bindM_run keepsOk_def)
    qed
  qed (simp add: keepsOk_def)
qed

lemma keepsOk_setDeployment:
  assumes "\<And>x. deploymentOk x \<Longrightarrow> deploymentOk (f x)"
  shows "keeps keepsOk (setDeployment i f)"
  using assms
  by (auto simp: keeps_def keepsOk_def deploymentsOk_def setDeployment_def updateRow_def
      deploymentTable_fields list_all_iff split: option.split)

lemma keepsOk_restore: "keeps keepsOk m \<Longrightarrow> keeps keepsOk (transaction m)"
  by (auto simp: keeps_def keepsOk_def deploymentsOk_def transaction_run restoreTables_def
      split: prod.split sum.split)

lemma keepsOk_store:
  assumes "\<And>ws. deploymentOk (mk ws)"
  shows "keeps keepsOk (storeDeployment mk records)"
proof -
  have "keeps keepsOk (createRow deploymentTable mk)"
    using assms by (auto simp: keeps_def keepsOk_def deploymentsOk_def createRow_def Let_def
        deploymentTable_fields list_all_iff split: option.split)
  then show ?thesis
    unfolding storeDeployment_def
    by (intro keepsOk_restore keeps_bindM preorder_keepsOk keeps_returnM
        keepsOk_frame [OF keepsDeployments_configs])
qed

lemmas keepsOk_steps = keeps_bindM keeps_thenM keeps_catchM keeps_returnM keeps_throwM keeps_liftM
  keeps_voidM keeps_whenM keeps_if preorder_keepsOk keepsOk_find keepsOk_setDeployment
  keepsOk_frame [OF keepsDeployments_clock(1)] keepsOk_frame [OF keepsDeployments_clock(2)]
  kube_sameTables [THEN keepsOk_kube] keeps_prod

lemma keepsOk_create:
  "validRequest (ReqCreate appId dto) \<Longrightarrow> keeps keepsOk (createDeployment api cfg appId dto)"
  unfolding createDeployment_def deployStored_def Let_def
  by (intro keepsOk_steps keeps_requirePermissions keeps_findAppOrThrow keeps_lookups
      keeps_requireWorkspaceId keeps_workspaceNamespace keepsOk_store)
    (auto simp: deploymentOk_def atLeastOne_def orDefault_def split: option.splits)

lemma keepsOk_handle: "validRequest req \<Longrightarrow> keeps keepsOk (handleRequest api cfg req)"
proof (cases req)
  case (ReqCreate appId dto)
  assume "validRequest req"
  then show ?thesis
    unfolding ReqCreate handleRequest.simps
    by (intro keeps_voidM preorder_keepsOk keepsOk_create)
next
  case (ReqStatus i)
  show ?thesis
    unfolding ReqStatus handleRequest.simps getDeploymentStatus_def Let_def
    by (intro keepsOk_steps) (auto simp: deploymentOk_def split: option.splits)
next
  case (ReqScale i n)
  assume "validRequest req"
  then have n: "n \<ge> 0" by (simp add: ReqScale)
  show ?thesis
  proof (cases "n = 0")
    case True
    show ?thesis
      unfolding ReqScale handleRequest.simps scale_def scaleTo_def True if_P [OF refl]
        bindM_assoc bindM_returnM
      by (intro keepsOk_steps) (auto simp: deploymentOk_def split: option.splits)
  next
    case False
    show ?thesis
      unfolding ReqScale handleRequest.simps scale_def scaleTo_def if_not_P [OF False] bindM_returnM
      by (intro keepsOk_steps) (use n False in \<open>auto simp: deploymentOk_def split: option.splits\<close>)
  qed
next
  case (ReqStop i)
  show ?thesis
    unfolding ReqStop handleRequest.simps stop_def scaleTo_def
    by (intro keepsOk_steps) (auto simp: deploymentOk_def split: option.splits)
next
  case (ReqStart i n)
  assume "validRequest req"
  then show ?thesis
    unfolding ReqStart handleRequest.simps start_def scaleTo_def Let_def
    by (intro keepsOk_steps)
      (auto simp: deploymentOk_def atLeastOne_def orDefault_def split: option.splits)
next
  case (ReqRestart i)
  show ?thesis
    unfolding ReqRestart handleRequest.simps restart_def
    by (intro keepsOk_steps) (auto simp: deploymentOk_def split: option.splits)
next
  case (ReqDelete i)
  show ?thesis
    unfolding ReqDelete handleRequest.simps deleteDeployment_def
    by (intro keepsOk_steps) (auto simp: deploymentOk_def split: option.splits)
qed

lemma deploymentsOk_runInContext:
  assumes "keeps keepsOk m" "deploymentsOk w" "runInContext ctx m w = (res, w')"
  shows "deploymentsOk w'"
proof -
  have "deploymentsOk (w\<lparr>tenant := Some ctx\<rparr>)" using assms(2) by (simp add: deploymentsOk_def)
  with keepsD [OF assms(1), of "w\<lparr>tenant := Some ctx\<rparr>"] assms(3) show ?thesis
    by (auto simp: keepsOk_def runInContext_run deploymentsOk_def split: prod.splits)
qed

text \<open>
  C11. In every history of valid requests, interleaved with anything that does not write the
  deployment rows, the stored replica counts stay consistent: the two counts agree, the last
  non-zero count is positive and is the current count while that is positive, a stopped deployment
  has no replicas and a stop time, and a deleted one a deletion time and no public hostname.
\<close>

theorem replica_invariant:
  assumes "deploymentSteps api cfg w w'" and "deploymentsOk w"
  shows "deploymentsOk w'"
  using assms(1)
proof (induction rule: deploymentSteps.induct)
  case start_state
  show ?case by (rule assms(2))
next
  case (request w1 req ctx res w2)
  then show ?case using deploymentsOk_runInContext [OF keepsOk_handle] by blast
next
  case (elsewhere w1 w2)
  then show ?case by (simp add: deploymentsOk_def)
qed

theorem replica_invariant_witness:
  "deploymentsOk (snd (runInContext sampleContext
     (handleRequest storeApi defaultConfig (ReqStop ''d1'')) sampleWorld))"
proof (rule replica_invariant)
  show "deploymentSteps storeApi defaultConfig sampleWorld (snd (runInContext sampleContext
     (handleRequest storeApi defaultConfig (ReqStop ''d1'')) sampleWorld))"
    by (rule deploymentSteps.request [OF deploymentSteps.start_state, of "ReqStop ''d1''"])
       (simp, rule prod.collapse [symmetric])
  show "deploymentsOk sampleWorld"
    by (simp add: deploymentsOk_def sampleWorld_def deploymentOk_def sampleDeployment_def)
qed

end
