(* ===== verification/Crypto.thy ===== *)
theory Crypto
  imports Tenancy Config
begin

text \<open>
  auth/crypto.service.ts. SHA-256, AES-256-GCM and base64 are parameters: the functions of the
  platform's crypto library the service calls, on strings. The configuration of the authentication
  part (auth/auth.config.ts) is a record of its own.
\<close>

section \<open>Configuration\<close>

record auth_config =
  ac_issuer :: string
  ac_clientId :: string
  ac_clientSecret :: string
  ac_audience :: string
  ac_rootOrganizationId :: string
  ac_callbackUrl :: string
  ac_uiUrl :: string
  ac_postLogoutUrl :: string
  ac_scopes :: "string list"
  ac_allowedOrigins :: "string list"
  ac_cookieSecure :: bool
  ac_idleMinutes :: int
  ac_absoluteHours :: int
  ac_encryptionKey :: string
  ac_encryptionKeyVersion :: string
  ac_bootstrapOrganizationId :: string

text \<open>\<open>s.split(/\s+/)\<close> followed by \<open>filter(Boolean)\<close>: the words of a string.\<close>

definition wordsOf :: "string \<Rightarrow> string list" where
  "wordsOf s =
     filter (\<lambda>p. p \<noteq> []) (splitOn CHR '' '' (map (\<lambda>c. if isSpace c then CHR '' '' else c) s))"

text \<open>The settings that are text; the two numbers are those of the record given.\<close>

definition authConfig :: "environment \<Rightarrow> auth_config \<Rightarrow> auth_config" where
  "authConfig env cfg =
     cfg\<lparr> ac_issuer := envOr env ''ASGARDEO_ISSUER'' [],
          ac_clientId := envOr env ''ASGARDEO_CLIENT_ID'' [],
          ac_clientSecret := envOr env ''ASGARDEO_CLIENT_SECRET'' [],
          ac_audience := envOr env ''ASGARDEO_API_AUDIENCE'' [],
          ac_rootOrganizationId := envOr env ''ASGARDEO_ROOT_ORGANIZATION_ID'' [],
          ac_callbackUrl := envOr env ''AUTH_CALLBACK_URL'' ''http://localhost:3000/auth/callback'',
          ac_uiUrl := envOr env ''APP_UI_URL'' ''http://localhost:3000/auth/me'',
          ac_postLogoutUrl := envOr env ''AUTH_POST_LOGOUT_URL'' ''http://localhost:3000/auth/me'',
          ac_scopes := wordsOf (envOr env ''ASGARDEO_SCOPES''
            ''openid profile email apps:read deployments:read builds:read logs:read incidents:read rca:read rca:chat:read''),
          ac_allowedOrigins :=
            filter (\<lambda>v. v \<noteq> []) (map trim (splitOn CHR '','' (envOr env ''APP_UI_ORIGINS'' []))),
          ac_cookieSecure :=
            (case env ''AUTH_COOKIE_SECURE'' of
               Some v \<Rightarrow> v = ''true''
             | None \<Rightarrow> env ''NODE_ENV'' = Some ''production''),
          ac_encryptionKey := envOr env ''AUTH_SESSION_ENCRYPTION_KEY'' [],
          ac_encryptionKeyVersion := envOr env ''AUTH_SESSION_KEY_VERSION'' ''v1'',
          ac_bootstrapOrganizationId := envOr env ''AUTH_BOOTSTRAP_ORGANIZATION_ID'' [] \<rparr>"

definition defaultAuthConfig :: auth_config where
  "defaultAuthConfig =
     \<lparr> ac_issuer = [], ac_clientId = [], ac_clientSecret = [], ac_audience = [],
       ac_rootOrganizationId = ''root'', ac_callbackUrl = ''http://localhost:3000/auth/callback'',
       ac_uiUrl = ''http://localhost:3000/auth/me'', ac_postLogoutUrl = ''http://localhost:3000/auth/me'',
       ac_scopes = [''openid''], ac_allowedOrigins = [], ac_cookieSecure = False, ac_idleMinutes = 30,
       ac_absoluteHours = 8, ac_encryptionKey = ''key'', ac_encryptionKeyVersion = ''v1'',
       ac_bootstrapOrganizationId = [] \<rparr>"

section \<open>The service\<close>

text \<open>
  \<open>sha256\<close> is the digest in base64url, \<open>sha256Hex\<close> in hexadecimal. \<open>gcmSeal key iv plaintext\<close> is the authentication tag and the ciphertext, both in base64url;
  \<open>gcmOpen key iv tag ciphertext\<close> the plaintext or the exception of a failed check.
\<close>

record crypto_lib =
  sha256 :: "string \<Rightarrow> string"
  sha256Hex :: "string \<Rightarrow> string"
  base64Decode :: "string \<Rightarrow> string"
  gcmSeal :: "string \<Rightarrow> string \<Rightarrow> string \<Rightarrow> string \<times> string"
  gcmOpen :: "string \<Rightarrow> string \<Rightarrow> string \<Rightarrow> string \<Rightarrow> exn + string"

definition randomToken :: "('c world, string) io" where
  "randomToken = fresh"

definition hash :: "crypto_lib \<Rightarrow> string \<Rightarrow> string" where
  "hash lib value = sha256 lib value"

text \<open>The comparison is of all characters; its timing is not modelled.\<close>

definition equalHash :: "crypto_lib \<Rightarrow> string \<Rightarrow> string \<Rightarrow> bool" where
  "equalHash lib value expectedHash \<longleftrightarrow> hash lib value = expectedHash"

definition cryptoKey :: "crypto_lib \<Rightarrow> auth_config \<Rightarrow> exn + string" where
  "cryptoKey lib cfg =
     (let k = base64Decode lib (ac_encryptionKey cfg) in
      if length k \<noteq> 32
      then Inl (InternalServerError ''AUTH_SESSION_ENCRYPTION_KEY must be a base64-encoded 32-byte key'')
      else Inr k)"

definition encrypt :: "crypto_lib \<Rightarrow> auth_config \<Rightarrow> string \<Rightarrow> ('c world, string) io" where
  "encrypt lib cfg value =
     bindM (liftM (cryptoKey lib cfg)) (\<lambda>k.
     bindM fresh (\<lambda>iv.
       case gcmSeal lib k iv value of
         (tag, encrypted) \<Rightarrow>
           returnM (joinWith ''.'' [ac_encryptionKeyVersion cfg, iv, tag, encrypted])))"

definition decrypt :: "crypto_lib \<Rightarrow> auth_config \<Rightarrow> string \<Rightarrow> exn + string" where
  "decrypt lib cfg value =
     (let parts = splitOn CHR ''.'' value;
          part = (\<lambda>i. if i < length parts then parts ! i else [])
      in
      if part 1 = [] \<or> part 2 = [] \<or> part 3 = []
      then Inl (InternalServerError ''Encrypted session value is invalid'')
      else (case cryptoKey lib cfg of
              Inl e \<Rightarrow> Inl e
            | Inr k \<Rightarrow> gcmOpen lib k (part 1) (part 2) (part 3)))"

text \<open>\<open>value ? encrypt(value) : undefined\<close> on an optional token.\<close>

definition encryptOptional ::
  "crypto_lib \<Rightarrow> auth_config \<Rightarrow> string option \<Rightarrow> ('c world, string option) io"
where
  "encryptOptional lib cfg value =
     (case value of
        None \<Rightarrow> returnM None
      | Some v \<Rightarrow> (if v = [] then returnM None
                   else bindM (encrypt lib cfg v) (\<lambda>x. returnM (Some x))))"

definition decryptOptional :: "crypto_lib \<Rightarrow> auth_config \<Rightarrow> string option \<Rightarrow> exn + string option" where
  "decryptOptional lib cfg value =
     (case value of
        None \<Rightarrow> Inr None
      | Some v \<Rightarrow> (if v = [] then Inr None else map_sum id Some (decrypt lib cfg v)))"

section \<open>Round trip\<close>

text \<open>
  What the service relies on: opening what was sealed gives the plaintext back, tags and
  ciphertexts are base64url text, without a dot, and only the empty text has an empty ciphertext.
\<close>

definition lawfulCipher :: "crypto_lib \<Rightarrow> bool" where
  "lawfulCipher lib \<longleftrightarrow>
     (\<forall>k iv value. case gcmSeal lib k iv value of (tag, encrypted) \<Rightarrow>
        gcmOpen lib k iv tag encrypted = Inr value
        \<and> CHR ''.'' \<notin> set tag \<and> CHR ''.'' \<notin> set encrypted
        \<and> tag \<noteq> [] \<and> (value \<noteq> [] \<longrightarrow> encrypted \<noteq> []))"

lemma split_four:
  assumes "CHR ''.'' \<notin> set a" "CHR ''.'' \<notin> set b" "CHR ''.'' \<notin> set c" "CHR ''.'' \<notin> set d"
  shows "splitOn CHR ''.'' (joinWith ''.'' [a, b, c, d]) = [a, b, c, d]"
  using assms by (intro splitOn_joinWith) auto

text \<open>
  A token that was encrypted for storage decrypts to itself under the same key, in whatever
  random initialisation vector it was sealed; encryption fails only on a key that is not 32 bytes.
\<close>

theorem token_roundtrip:
  assumes "lawfulCipher lib" and "encrypt lib cfg value w = (res, w')"
    and "CHR ''.'' \<notin> set (ac_encryptionKeyVersion cfg)"
    and "CHR ''.'' \<notin> set (entropy w (drawn w))" "entropy w (drawn w) \<noteq> []" and "value \<noteq> []"
  shows "case res of
      Inr stored \<Rightarrow> decrypt lib cfg stored = Inr value
    | Inl e \<Rightarrow> length (base64Decode lib (ac_encryptionKey cfg)) \<noteq> 32"
proof (cases "cryptoKey lib cfg")
  case (Inl e)
  then show ?thesis
    using assms(2) by (auto simp: encrypt_def bindM_run cryptoKey_def Let_def split: if_splits)
next
  case (Inr k)
  obtain tag ct where seal: "gcmSeal lib k (entropy w (drawn w)) value = (tag, ct)" by fastforce
  have laws: "gcmOpen lib k (entropy w (drawn w)) tag ct = Inr value" "CHR ''.'' \<notin> set tag"
    "CHR ''.'' \<notin> set ct" "tag \<noteq> []" "ct \<noteq> []"
  proof -
    have "case gcmSeal lib k (entropy w (drawn w)) value of (tag, encrypted) \<Rightarrow>
        gcmOpen lib k (entropy w (drawn w)) tag encrypted = Inr value
        \<and> CHR ''.'' \<notin> set tag \<and> CHR ''.'' \<notin> set encrypted
        \<and> tag \<noteq> [] \<and> (value \<noteq> [] \<longrightarrow> encrypted \<noteq> [])"
      by (rule spec [OF spec [OF spec [OF assms(1) [unfolded lawfulCipher_def]]]])
    then show "gcmOpen lib k (entropy w (drawn w)) tag ct = Inr value" "CHR ''.'' \<notin> set tag"
      "CHR ''.'' \<notin> set ct" "tag \<noteq> []" "ct \<noteq> []"
      using seal assms(6) by simp_all
  qed
  have res: "res = Inr (joinWith ''.'' [ac_encryptionKeyVersion cfg, entropy w (drawn w), tag, ct])"
    using assms(2) Inr seal by (simp add: encrypt_def bindM_run fresh_run)
  have sp: "splitOn CHR ''.'' (joinWith ''.'' [ac_encryptionKeyVersion cfg, entropy w (drawn w), tag, ct])
      = [ac_encryptionKeyVersion cfg, entropy w (drawn w), tag, ct]"
    by (rule split_four) (use assms(3,4) laws in auto)
  show ?thesis
    unfolding res sum.case decrypt_def sp Let_def
    using laws assms(5) Inr by simp
qed

text \<open>A cipher that keeps the laws: every character as two letters, with a constant tag.\<close>

definition hexChar :: "char \<Rightarrow> string" where
  "hexChar c = [char_of (97 + code c div 16), char_of (97 + code c mod 16)]"

fun unhex :: "string \<Rightarrow> string" where
  "unhex (a # b # s) = char_of (16 * (code a - 97) + (code b - 97)) # unhex s"
| "unhex _ = []"

definition toyCrypto :: crypto_lib where
  "toyCrypto =
     \<lparr> sha256 = (\<lambda>s. ''h'' @ s), sha256Hex = (\<lambda>s. s), base64Decode = (\<lambda>_. replicate 32 CHR ''k''),
       gcmSeal = (\<lambda>k iv v. (''t'', concat (map hexChar v))),
       gcmOpen = (\<lambda>k iv tag ct. Inr (unhex ct)) \<rparr>"

lemma code_hexChar: "x < 16 \<Longrightarrow> code (char_of (97 + x :: nat)) = 97 + x"
  by (simp add: of_char_of)

lemma hexChar_facts: "CHR ''.'' \<notin> set (hexChar c)" "hexChar c \<noteq> []"
  "unhex (hexChar c @ s) = c # unhex s"
proof -
  have c: "code c < 256" by simp
  then have hi: "code c div 16 < 16" by linarith
  have lo: "code c mod 16 < 16" by simp
  have dot: "CHR ''.'' \<noteq> char_of (97 + x :: nat)" if "x < 16" for x
  proof
    assume "CHR ''.'' = char_of (97 + x)"
    then have "code (CHR ''.'') = 97 + x" using code_hexChar [OF that] by simp
    then show False by simp
  qed
  then show "CHR ''.'' \<notin> set (hexChar c)"
    using dot [OF hi] dot [OF lo] by (simp add: hexChar_def)
  show "hexChar c \<noteq> []" by (simp add: hexChar_def)
  have "16 * (code c div 16) + code c mod 16 = code c" by simp
  then show "unhex (hexChar c @ s) = c # unhex s"
    using code_hexChar [OF hi] code_hexChar [OF lo] by (simp add: hexChar_def)
qed

lemma toyCrypto_lawful: "lawfulCipher toyCrypto"
proof -
  have "unhex (concat (map hexChar v)) = v" for v
    by (induction v) (simp_all add: hexChar_facts)
  then show ?thesis
    using hexChar_facts(1,2) by (auto simp: lawfulCipher_def toyCrypto_def)
qed

theorem token_roundtrip_witness:
  "\<exists>stored w'. encrypt toyCrypto defaultAuthConfig ''tok'' (emptyWorld ()) = (Inr stored, w')
     \<and> decrypt toyCrypto defaultAuthConfig stored = Inr ''tok''"
proof -
  let ?w = "emptyWorld ()"
  have "code (CHR ''.'') \<noteq> code (digitChar 0)" using code_digitChar [of 0] by simp
  then have "CHR ''.'' \<noteq> digitChar 0" by metis
  then have e: "CHR ''.'' \<notin> set (entropy ?w (drawn ?w))" "entropy ?w (drawn ?w) \<noteq> []"
    by (simp_all add: emptyWorld_def showNat.simps [of 0])
  have k: "cryptoKey toyCrypto defaultAuthConfig = Inr (replicate 32 CHR ''k'')"
    by (simp add: cryptoKey_def toyCrypto_def)
  obtain stored w' where run: "encrypt toyCrypto defaultAuthConfig ''tok'' ?w = (Inr stored, w')"
    by (cases "gcmSeal toyCrypto (replicate 32 CHR ''k'') (entropy ?w (drawn ?w)) ''tok''")
      (simp add: encrypt_def k bindM_run fresh_run)
  then show ?thesis
    using token_roundtrip [OF toyCrypto_lawful run] e by (simp add: defaultAuthConfig_def)
qed

end
