(* ===== verification/Sessions.thy ===== *)
theory Sessions
  imports Crypto Isolation
begin

text \<open>auth/session.service.ts and auth/session-cleanup.ts: login attempts and sessions.\<close>

section \<open>Login attempts\<close>

definition createLoginAttempt ::
  "crypto_lib \<Rightarrow> auth_config \<Rightarrow> string \<Rightarrow> string \<Rightarrow> string \<Rightarrow> string option \<Rightarrow> ('c world, unit) io"
where
  "createLoginAttempt lib cfg state nonce codeVerifier returnTo =
     bindM (encrypt lib cfg codeVerifier) (\<lambda>sealed.
     bindM now (\<lambda>t.
       voidM (createRow attemptTable (\<lambda>_.
         \<lparr> la_stateHash = hash lib state, la_nonce = nonce, la_codeVerifierEncrypted = sealed,
           la_returnTo = returnTo, la_expiresAt = t + 10 * 60000 \<rparr>))))"

record consumed_attempt =
  co_nonce :: string
  co_codeVerifier :: string
  co_returnTo :: "string option"

definition consumeLoginAttempt ::
  "crypto_lib \<Rightarrow> auth_config \<Rightarrow> string \<Rightarrow> ('c world, consumed_attempt option) io"
where
  "consumeLoginAttempt lib cfg state =
     (let stateHash = hash lib state in
      transaction
        (bindM (findFirst attemptTable (\<lambda>a. la_stateHash a = stateHash)) (\<lambda>found.
           case found of
             None \<Rightarrow> returnM None
           | Some attempt \<Rightarrow>
         bindM now (\<lambda>t.
           if la_expiresAt attempt \<le> t
           then thenM (deleteRow attemptTable (\<lambda>a. la_stateHash a = stateHash)) (returnM None)
           else
             thenM (deleteRow attemptTable (\<lambda>a. la_stateHash a = stateHash))
             (bindM (liftM (decrypt lib cfg (la_codeVerifierEncrypted attempt))) (\<lambda>verifier.
                returnM (Some \<lparr> co_nonce = la_nonce attempt, co_codeVerifier = verifier,
                                co_returnTo = la_returnTo attempt \<rparr>)))))))"

section \<open>Sessions\<close>

record session_input =
  si_userId :: string
  si_workspaceId :: string
  si_organizationId :: string
  si_roles :: "string list"
  si_scopes :: "string list"
  si_accessToken :: "string option"
  si_refreshToken :: "string option"
  si_idToken :: "string option"
  si_accessTokenExpiresAt :: "instant option"
  si_replaceSessionIdHash :: "string option"

definition idleMs :: "auth_config \<Rightarrow> int" where
  "idleMs cfg = ac_idleMinutes cfg * 60000"

definition absoluteMs :: "auth_config \<Rightarrow> int" where
  "absoluteMs cfg = ac_absoluteHours cfg * 3600000"

definition isSession :: "string \<Rightarrow> auth_session \<Rightarrow> bool" where
  "isSession idHash s \<longleftrightarrow> s_idHash s = idHash"

text \<open>The \<open>data\<close> object, and its insertion, alone or with the removal of the session it replaces.\<close>

definition sessionRow ::
  "crypto_lib \<Rightarrow> auth_config \<Rightarrow> session_input \<Rightarrow> instant \<Rightarrow> string \<Rightarrow> string
   \<Rightarrow> string option \<Rightarrow> string option \<Rightarrow> string option \<Rightarrow> auth_session"
where
  "sessionRow lib cfg i t sessionToken csrfToken access refresh ident =
     \<lparr> s_idHash = hash lib sessionToken, s_userId = si_userId i,
       s_workspaceId = si_workspaceId i, s_organizationId = si_organizationId i,
       s_roles = si_roles i, s_scopes = si_scopes i, s_csrfToken = csrfToken,
       s_accessTokenEncrypted = access, s_refreshTokenEncrypted = refresh,
       s_idTokenEncrypted = ident,
       s_accessTokenExpiresAt = si_accessTokenExpiresAt i,
       s_idleExpiresAt = t + idleMs cfg, s_absoluteExpiresAt = t + absoluteMs cfg,
       s_lastSeenAt = t \<rparr>"

definition storeSession :: "string option \<Rightarrow> auth_session \<Rightarrow> ('c world, unit) io" where
  "storeSession replace row =
     (let insert_row = voidM (createRow sessionTable (\<lambda>_. row)) in
      case replace of
        Some old \<Rightarrow>
          (if old = [] then insert_row
           else transaction (thenM insert_row (voidM (deleteMany sessionTable (isSession old)))))
      | None \<Rightarrow> insert_row)"

definition createSession ::
  "crypto_lib \<Rightarrow> auth_config \<Rightarrow> session_input \<Rightarrow> ('c world, string \<times> string) io"
where
  "createSession lib cfg i =
     bindM randomToken (\<lambda>sessionToken.
     bindM randomToken (\<lambda>csrfToken.
     bindM now (\<lambda>t.
     bindM (encryptOptional lib cfg (si_accessToken i)) (\<lambda>access.
     bindM (encryptOptional lib cfg (si_refreshToken i)) (\<lambda>refresh.
     bindM (encryptOptional lib cfg (si_idToken i)) (\<lambda>ident.
     thenM
       (storeSession (si_replaceSessionIdHash i)
          (sessionRow lib cfg i t sessionToken csrfToken access refresh ident))
       (returnM (sessionToken, csrfToken))))))))"

record principal =
  p_userId :: string
  p_subject :: string
  p_workspaceId :: string
  p_organizationId :: string
  p_sessionIdHash :: string
  p_roles :: "string list"
  p_scopes :: "string list"
  p_csrfToken :: string

text \<open>\<open>include: { user: true, workspace: true }\<close>: the rows the foreign keys refer to.\<close>

definition userOf :: "'c world \<Rightarrow> auth_session \<Rightarrow> identity_user option" where
  "userOf w s = find (\<lambda>u. u_id u = s_userId s) (users w)"

definition workspaceOfSession :: "'c world \<Rightarrow> auth_session \<Rightarrow> workspace option" where
  "workspaceOfSession w s = find (\<lambda>x. ws_id x = s_workspaceId s) (workspaces w)"

definition toPrincipal :: "auth_session \<Rightarrow> identity_user option \<Rightarrow> principal" where
  "toPrincipal s user =
     \<lparr> p_userId = s_userId s,
       p_subject = (case user of None \<Rightarrow> [] | Some u \<Rightarrow> u_subject u),
       p_workspaceId = s_workspaceId s, p_organizationId = s_organizationId s,
       p_sessionIdHash = s_idHash s, p_roles = s_roles s, p_scopes = s_scopes s,
       p_csrfToken = s_csrfToken s \<rparr>"

definition activeWorkspace :: "workspace option \<Rightarrow> bool" where
  "activeWorkspace ws \<longleftrightarrow> (case ws of None \<Rightarrow> False | Some x \<Rightarrow> ws_status x = WorkspaceActive)"

text \<open>
  \<open>||\<close> reads the clock again for each comparison, and stops at the first that holds; the update
  reads it twice more.
\<close>

definition authenticate :: "crypto_lib \<Rightarrow> auth_config \<Rightarrow> string \<Rightarrow> ('c world, principal option) io" where
  "authenticate lib cfg sessionToken =
     (let idHash = hash lib sessionToken in
      bindM (findFirst sessionTable (isSession idHash)) (\<lambda>found.
        case found of
          None \<Rightarrow> returnM None
        | Some session \<Rightarrow>
      bindM (readM (\<lambda>w. (userOf w session, workspaceOfSession w session))) (\<lambda>(user, ws).
      bindM now (\<lambda>t1.
      bindM (if s_idleExpiresAt session \<le> t1 then returnM True
             else bindM now (\<lambda>t2. returnM (s_absoluteExpiresAt session \<le> t2
                                            \<or> \<not> activeWorkspace ws))) (\<lambda>expired.
        if expired
        then thenM (deleteRow sessionTable (isSession idHash)) (returnM None)
        else
      bindM now (\<lambda>t3.
      bindM now (\<lambda>t4.
        thenM
          (updateRow sessionTable (isSession idHash) (\<lambda>s. s\<lparr>
             s_lastSeenAt := t3,
             s_idleExpiresAt := min (t4 + idleMs cfg) (s_absoluteExpiresAt session)\<rparr>))
          (returnM (Some (toPrincipal session user)))))))))) "

definition getStored :: "string \<Rightarrow> ('c world, auth_session option) io" where
  "getStored sessionIdHash = findFirst sessionTable (isSession sessionIdHash)"

definition decryptAccessToken :: "crypto_lib \<Rightarrow> auth_config \<Rightarrow> auth_session \<Rightarrow> exn + string option" where
  "decryptAccessToken lib cfg s = decryptOptional lib cfg (s_accessTokenEncrypted s)"

definition decryptIdToken :: "crypto_lib \<Rightarrow> auth_config \<Rightarrow> auth_session \<Rightarrow> exn + string option" where
  "decryptIdToken lib cfg s = decryptOptional lib cfg (s_idTokenEncrypted s)"

definition decryptRefreshToken :: "crypto_lib \<Rightarrow> auth_config \<Rightarrow> auth_session \<Rightarrow> exn + string option" where
  "decryptRefreshToken lib cfg s = decryptOptional lib cfg (s_refreshTokenEncrypted s)"

text \<open>An \<open>undefined\<close> member leaves its column as it is.\<close>

definition orKeep :: "'a option \<Rightarrow> 'a option \<Rightarrow> 'a option" where
  "orKeep new old = (case new of None \<Rightarrow> old | Some x \<Rightarrow> Some x)"

definition updateTokens ::
  "crypto_lib \<Rightarrow> auth_config \<Rightarrow> string \<Rightarrow> string option \<Rightarrow> string option \<Rightarrow> string option
   \<Rightarrow> instant option \<Rightarrow> ('c world, unit) io"
where
  "updateTokens lib cfg idHash access refresh ident expiresAt =
     bindM (encryptOptional lib cfg access) (\<lambda>a.
     bindM (encryptOptional lib cfg refresh) (\<lambda>r.
     bindM (encryptOptional lib cfg ident) (\<lambda>i.
       voidM (updateRow sessionTable (isSession idHash) (\<lambda>s. s\<lparr>
         s_accessTokenEncrypted := orKeep a (s_accessTokenEncrypted s),
         s_refreshTokenEncrypted := orKeep r (s_refreshTokenEncrypted s),
         s_idTokenEncrypted := orKeep i (s_idTokenEncrypted s),
         s_accessTokenExpiresAt := orKeep expiresAt (s_accessTokenExpiresAt s)\<rparr>)))))"

definition destroy :: "string \<Rightarrow> ('c world, unit) io" where
  "destroy sessionIdHash = voidM (deleteMany sessionTable (isSession sessionIdHash))"

definition cleanup :: "('c world, nat) io" where
  "cleanup =
     bindM now (\<lambda>t.
       transaction
         (bindM (deleteMany attemptTable (\<lambda>a. la_expiresAt a \<le> t)) (\<lambda>n.
          bindM (deleteMany sessionTable (\<lambda>s. s_idleExpiresAt s \<le> t \<or> s_absoluteExpiresAt s \<le> t)) (\<lambda>m.
            returnM (n + m)))))"

definition cookieMaxAge :: "auth_config \<Rightarrow> int" where
  "cookieMaxAge cfg = absoluteMs cfg"

text \<open>auth/session-cleanup.ts: the scheduled job.\<close>

definition cleanupJob :: "('c world, unit) io" where
  "cleanupJob =
     bindM cleanup (\<lambda>count.
       voidM (createRow auditTable (\<lambda>_.
         \<lparr> ae_actorUserId = None, ae_workspaceId = None, ae_action = ''auth.session_cleanup'',
           ae_resourceType = None, ae_resourceId = None, ae_outcome = ''success'',
           ae_metadata = JObj [(''removedRecords'', JNum (int count))] \<rparr>)))"

section \<open>Properties\<close>

lemma attemptTable_fields: "rowsOf attemptTable = attempts" "visible attemptTable w r"
  "setRows attemptTable = (\<lambda>rs w. w\<lparr>attempts := rs\<rparr>)"
  by (simp_all add: attemptTable_def visible_def)

lemma sessionTable_fields: "rowsOf sessionTable = sessions" "visible sessionTable w r"
  "setRows sessionTable = (\<lambda>rs w. w\<lparr>sessions := rs\<rparr>)"
  "uniqueClash sessionTable = (\<lambda>r r'. s_idHash r = s_idHash r')" "tenantModel sessionTable = False"
  by (simp_all add: sessionTable_def visible_def)

lemma consume_absent:
  "\<forall>a \<in> set (attempts w). la_stateHash a \<noteq> hash lib state \<Longrightarrow>
   consumeLoginAttempt lib cfg state w = (Inr None, w)"
proof -
  assume "\<forall>a \<in> set (attempts w). la_stateHash a \<noteq> hash lib state"
  then have "find (\<lambda>a. la_stateHash a = hash lib state) (attempts w) = None"
    by (auto simp: find_None_iff)
  then show ?thesis
    by (simp add: consumeLoginAttempt_def Let_def transaction_run bindM_run findFirst_def
        attemptTable_fields)
qed

text \<open>
  C20. A login attempt is accepted at most once and never after its ten minutes: when a state is
  accepted, an unexpired attempt with its hash was stored, its nonce and return path are the ones
  handed on, and no attempt with that hash is left, so the same state is refused from then on.
\<close>

theorem login_attempt_single_use:
  assumes "consumeLoginAttempt lib cfg state w = (Inr (Some c), w')"
  shows "(\<exists>a \<in> set (attempts w). la_stateHash a = hash lib state \<and> clock w (ticks w) < la_expiresAt a
            \<and> co_nonce c = la_nonce a \<and> co_returnTo c = la_returnTo a
            \<and> decrypt lib cfg (la_codeVerifierEncrypted a) = Inr (co_codeVerifier c))
         \<and> attempts w' = filter (\<lambda>a. la_stateHash a \<noteq> hash lib state) (attempts w)
         \<and> consumeLoginAttempt lib cfg state w' = (Inr None, w')"
proof -
  have run: "(\<exists>a \<in> set (attempts w). la_stateHash a = hash lib state \<and> clock w (ticks w) < la_expiresAt a
            \<and> co_nonce c = la_nonce a \<and> co_returnTo c = la_returnTo a
            \<and> decrypt lib cfg (la_codeVerifierEncrypted a) = Inr (co_codeVerifier c))
         \<and> attempts w' = filter (\<lambda>a. la_stateHash a \<noteq> hash lib state) (attempts w)"
  proof (cases "find (\<lambda>a. la_stateHash a = hash lib state) (attempts w)")
    case None
    then show ?thesis
      using assms by (simp add: consumeLoginAttempt_def Let_def transaction_run bindM_run
          findFirst_def attemptTable_fields)
  next
    case (Some a)
    then have a: "a \<in> set (attempts w)" "la_stateHash a = hash lib state"
      by (auto simp: find_Some_iff)
    then have "list_ex (\<lambda>a. la_stateHash a = hash lib state) (attempts w)" by (auto simp: list_ex_iff)
    then show ?thesis
      using assms Some a
      by (auto simp: consumeLoginAttempt_def Let_def transaction_run bindM_run thenM_run now_run
          findFirst_def deleteRow_def attemptTable_fields split: if_splits sum.splits
          intro!: bexI [of _ a])
  qed
  then have "\<forall>a \<in> set (attempts w'). la_stateHash a \<noteq> hash lib state" by simp
  with run consume_absent show ?thesis by blast
qed

lemma updateSession_run:
  assumes "find (isSession h) (sessions w) = Some s" and "\<And>x. s_idHash (f x) = s_idHash x"
  shows "updateRow sessionTable (isSession h) f w
    = (Inr (f s), w\<lparr>sessions := map (\<lambda>x. if isSession h x then f x else x) (sessions w)\<rparr>)"
proof -
  have "isSession h s" using assms(1) by (auto simp: find_Some_iff)
  then have "\<not> list_ex (\<lambda>r. \<not> isSession h r \<and> s_idHash r = s_idHash (f s)) (sessions w)"
    using assms(2) by (simp add: list_ex_iff isSession_def)
  then show ?thesis using assms(1) by (simp add: updateRow_def sessionTable_fields)
qed

lemma authenticate_outcome:
  assumes "authenticate lib cfg token w = (Inr res, w')"
  shows "case res of
      Some p \<Rightarrow>
        (\<exists>s \<in> set (sessions w). s_idHash s = hash lib token
           \<and> clock w (ticks w) < s_idleExpiresAt s
           \<and> clock w (ticks w + 1) < s_absoluteExpiresAt s
           \<and> activeWorkspace (workspaceOfSession w s)
           \<and> p = toPrincipal s (userOf w s)
           \<and> sessions w' = map (\<lambda>x. if s_idHash x = hash lib token
                then x\<lparr>s_lastSeenAt := clock w (ticks w + 2),
                       s_idleExpiresAt :=
                         min (clock w (ticks w + 3) + idleMs cfg) (s_absoluteExpiresAt s)\<rparr>
                else x) (sessions w))
    | None \<Rightarrow> sessions w' = filter (\<lambda>s. s_idHash s \<noteq> hash lib token) (sessions w)"
proof (cases "find (isSession (hash lib token)) (sessions w)")
  case None
  then have "filter (\<lambda>s. s_idHash s \<noteq> hash lib token) (sessions w) = sessions w"
    by (auto simp: find_None_iff isSession_def filter_id_conv)
  with None assms show ?thesis
    by (simp add: authenticate_def Let_def bindM_run findFirst_def sessionTable_fields)
next
  case (Some s)
  then have s: "s \<in> set (sessions w)" "s_idHash s = hash lib token"
    by (auto simp: find_Some_iff isSession_def)
  then have ex: "list_ex (isSession (hash lib token)) (sessions w)"
    by (auto simp: list_ex_iff isSession_def)
  let ?expired = "s_idleExpiresAt s \<le> clock w (ticks w) \<or> s_absoluteExpiresAt s \<le> clock w (Suc (ticks w))
      \<or> \<not> activeWorkspace (workspaceOfSession w s)"
  show ?thesis
  proof (cases ?expired)
    case True
    then have "res = None" "sessions w' = filter (\<lambda>s. \<not> isSession (hash lib token) s) (sessions w)"
      using assms Some ex
      by (auto simp: authenticate_def Let_def bindM_run thenM_run findFirst_def sessionTable_fields
          now_run deleteRow_def split: if_splits)
    then show ?thesis by (simp add: isSession_def)
  next
    case False
    then have "res = Some (toPrincipal s (userOf w s))"
      "sessions w' = map (\<lambda>x. if isSession (hash lib token) x
          then x\<lparr>s_lastSeenAt := clock w (ticks w + 2),
                 s_idleExpiresAt := min (clock w (ticks w + 3) + idleMs cfg) (s_absoluteExpiresAt s)\<rparr>
          else x) (sessions w)"
      using assms Some
      by (auto simp: authenticate_def Let_def bindM_run thenM_run findFirst_def
          sessionTable_fields(1,2) now_run updateSession_run numeral_eq_Suc split: if_splits)
    with s False show ?thesis by (auto simp: isSession_def intro!: bexI [of _ s])
  qed
qed

text \<open>
  C13. A session token authenticates only an unexpired session of an active workspace, with both
  limits compared to the clock; the principal carries the identity, workspace, roles and scopes
  stored with the session; the idle limit that is stored then never passes the absolute one, which
  does not move. A token that is refused leaves no session behind it.
\<close>

theorem authenticate_sound:
  assumes "authenticate lib cfg token w = (Inr res, w')"
  shows "case res of
      Some p \<Rightarrow>
        (\<exists>s \<in> set (sessions w). s_idHash s = hash lib token
           \<and> clock w (ticks w) < s_idleExpiresAt s
           \<and> clock w (ticks w + 1) < s_absoluteExpiresAt s
           \<and> activeWorkspace (workspaceOfSession w s)
           \<and> p = toPrincipal s (userOf w s)
           \<and> sessions w' = map (\<lambda>x. if s_idHash x = hash lib token
                then x\<lparr>s_lastSeenAt := clock w (ticks w + 2),
                       s_idleExpiresAt :=
                         min (clock w (ticks w + 3) + idleMs cfg) (s_absoluteExpiresAt s)\<rparr>
                else x) (sessions w))
    | None \<Rightarrow> sessions w' = filter (\<lambda>s. s_idHash s \<noteq> hash lib token) (sessions w)"
  by (rule authenticate_outcome [OF assms])

subsection \<open>A new session\<close>

lemma encryptOptional_frame:
  "snd (encryptOptional lib cfg v w) = w \<or> snd (encryptOptional lib cfg v w) = w\<lparr>drawn := Suc (drawn w)\<rparr>"
  by (auto simp: encryptOptional_def encrypt_def bindM_run fresh_run
      split: option.split sum.split prod.split)

lemma encryptOptional_E:
  assumes "encryptOptional lib cfg v w = (r, w')"
  obtains n where "w' = w\<lparr>drawn := n\<rparr>"
proof -
  have "w' = w\<lparr>drawn := drawn w\<rparr> \<or> w' = w\<lparr>drawn := Suc (drawn w)\<rparr>"
    using encryptOptional_frame [of lib cfg v w] assms by simp
  then show ?thesis using that by blast
qed

lemma createSession_stores:
  assumes "createSession lib cfg i w = (Inr (token, csrf), w')"
  shows "\<exists>a r d n. storeSession (si_replaceSessionIdHash i)
           (sessionRow lib cfg i (clock w (ticks w)) token csrf a r d)
           (w\<lparr>ticks := Suc (ticks w), drawn := n\<rparr>) = (Inr (), w')"
  using assms
  by (auto simp: createSession_def randomToken_def fresh_run now_run bindM_run thenM_run
      split: prod.splits sum.splits elim!: encryptOptional_E)
    (intro exI, assumption)

text \<open>The session a new one replaces.\<close>

definition replacedBy :: "string option \<Rightarrow> auth_session \<Rightarrow> bool" where
  "replacedBy replace s \<longleftrightarrow> (case replace of None \<Rightarrow> False | Some old \<Rightarrow> old \<noteq> [] \<and> s_idHash s = old)"

lemma storeSession_stored:
  assumes "storeSession replace s w = (Inr (), w')"
  shows "(\<forall>x \<in> set (sessions w). s_idHash x \<noteq> s_idHash s)
     \<and> w' = w\<lparr>sessions := filter (\<lambda>x. \<not> replacedBy replace x) (sessions w @ [s])\<rparr>"
  using assms
  by (auto simp: storeSession_def Let_def bindM_run thenM_run voidM_run transaction_run createRow_def
      deleteMany_def sessionTable_fields isSession_def list_ex_iff replacedBy_def
      split: option.splits if_splits)

lemma find_snoc: "find p (xs @ [x]) = (case find p xs of Some y \<Rightarrow> Some y | None \<Rightarrow> if p x then Some x else None)"
  by (induction xs) auto

lemma storeSession_failed:
  assumes "storeSession replace s w = (Inl e, w')"
  shows "sessions w' = sessions w"
  using assms
  by (auto simp: storeSession_def Let_def bindM_run thenM_run voidM_run transaction_run createRow_def
      deleteMany_def sessionTable_fields restoreTables_def
      split: option.splits if_splits)

text \<open>
  C14. The pair a new session returns works: until one of its two limits is reached, its token
  authenticates to the user, workspace, roles and scopes it was created for, with the csrf token
  returned beside it; and the session it replaces is gone in the same step, so the old token no
  longer authenticates.
\<close>

theorem created_session_authenticates:
  assumes "createSession lib cfg i w = (Inr (token, csrf), w')"
    and "\<exists>x. find (\<lambda>x. ws_id x = si_workspaceId i) (workspaces w) = Some x \<and> ws_status x = WorkspaceActive"
    and "si_replaceSessionIdHash i \<noteq> Some (hash lib token)"
    and "clock w (ticks w + 1) < clock w (ticks w) + idleMs cfg"
    and "clock w (ticks w + 2) < clock w (ticks w) + absoluteMs cfg"
  shows "(\<exists>p. fst (authenticate lib cfg token w') = Inr (Some p)
           \<and> p_userId p = si_userId i \<and> p_workspaceId p = si_workspaceId i
           \<and> p_roles p = si_roles i \<and> p_scopes p = si_scopes i
           \<and> p_csrfToken p = csrf \<and> p_sessionIdHash p = hash lib token)
         \<and> (\<forall>old. hash lib old \<noteq> [] \<and> si_replaceSessionIdHash i = Some (hash lib old) \<longrightarrow>
               fst (authenticate lib cfg old w') = Inr None)"
proof -
  obtain a r d n where
    "storeSession (si_replaceSessionIdHash i)
       (sessionRow lib cfg i (clock w (ticks w)) token csrf a r d)
       (w\<lparr>ticks := Suc (ticks w), drawn := n\<rparr>) = (Inr (), w')"
    using createSession_stores [OF assms(1)] by blast
  note stored = storeSession_stored [OF this]
  let ?s = "sessionRow lib cfg i (clock w (ticks w)) token csrf a r d"
  let ?kept = "filter (\<lambda>x. \<not> replacedBy (si_replaceSessionIdHash i) x) (sessions w)"
  have w': "w' = w\<lparr>ticks := Suc (ticks w), drawn := n, sessions := ?kept @ [?s]\<rparr>"
    using stored assms(3) by (auto simp: replacedBy_def sessionRow_def split: option.splits)
  have "find (isSession (hash lib token)) ?kept = None"
    using stored by (auto simp: find_None_iff isSession_def sessionRow_def)
  then have found: "find (isSession (hash lib token)) (sessions w') = Some ?s"
    by (simp add: w' find_snoc) (simp add: isSession_def sessionRow_def)
  obtain x where x: "find (\<lambda>x. ws_id x = si_workspaceId i) (workspaces w) = Some x"
    "ws_status x = WorkspaceActive"
    using assms(2) by blast
  have "fst (authenticate lib cfg token w') = Inr (Some (toPrincipal ?s (userOf w' ?s)))"
    using found x assms(4,5)
    by (simp add: authenticate_def Let_def bindM_run thenM_run findFirst_def sessionTable_fields(1,2)
        now_run updateSession_run activeWorkspace_def workspaceOfSession_def)
      (simp add: w' sessionRow_def)
  moreover have "fst (authenticate lib cfg old w') = Inr None"
    if old: "hash lib old \<noteq> []" "si_replaceSessionIdHash i = Some (hash lib old)" for old
  proof -
    have "find (isSession (hash lib old)) (sessions w') = None"
      using old assms(3) by (auto simp: w' find_None_iff isSession_def sessionRow_def replacedBy_def)
    then show ?thesis by (simp add: authenticate_def Let_def bindM_run findFirst_def sessionTable_fields)
  qed
  ultimately show ?thesis by (auto simp: toPrincipal_def sessionRow_def)
qed

section \<open>Witnesses\<close>

definition sampleAttempt :: login_attempt where
  "sampleAttempt =
     \<lparr> la_stateHash = ''hstate'', la_nonce = ''nonce'', la_codeVerifierEncrypted = ''v1.iv.t.hi'',
       la_returnTo = None, la_expiresAt = 2000000 \<rparr>"

definition sampleSession :: auth_session where
  "sampleSession =
     \<lparr> s_idHash = ''htoken'', s_userId = ''user'', s_workspaceId = ''ws'', s_organizationId = ''org'',
       s_roles = [''Viewer''], s_scopes = [''apps:read''], s_csrfToken = ''csrf'',
       s_accessTokenEncrypted = None, s_refreshTokenEncrypted = None, s_idTokenEncrypted = None,
       s_accessTokenExpiresAt = None, s_idleExpiresAt = 2000000, s_absoluteExpiresAt = 3000000,
       s_lastSeenAt = 0 \<rparr>"

definition sessionWorld :: "unit world" where
  "sessionWorld = (emptyWorld ())\<lparr>
     workspaces := [\<lparr> ws_id = ''ws'', ws_organizationId = ''org'', ws_displayName = ''Org'',
                      ws_status = WorkspaceActive, ws_namespace = ''ws-x'' \<rparr>],
     users := [\<lparr> u_id = ''user'', u_subject = ''sub'', u_email = None, u_displayName = None \<rparr>],
     attempts := [sampleAttempt], sessions := [sampleSession] \<rparr>"

lemma sampleVerifier: "decrypt toyCrypto cfg ''v1.iv.t.hi'' = Inr ''x''"
proof -
  have "splitOn CHR ''.'' ''v1.iv.t.hi'' = [''v1'', ''iv'', ''t'', ''hi'']"
    by (simp add: splitOn.simps)
  then show ?thesis
    by (simp add: decrypt_def Let_def cryptoKey_def toyCrypto_def char_of_def bit_iff_odd)
qed

theorem login_attempt_single_use_witness:
  "\<exists>c w'. consumeLoginAttempt toyCrypto defaultAuthConfig ''state'' sessionWorld = (Inr (Some c), w')
     \<and> consumeLoginAttempt toyCrypto defaultAuthConfig ''state'' w' = (Inr None, w')"
proof -
  have h: "hash toyCrypto ''state'' = ''hstate''" by (simp add: hash_def toyCrypto_def)
  have "\<exists>c w'. consumeLoginAttempt toyCrypto defaultAuthConfig ''state'' sessionWorld = (Inr (Some c), w')"
    by (simp add: consumeLoginAttempt_def Let_def transaction_run bindM_run thenM_run now_run h
        findFirst_def deleteRow_def attemptTable_fields sessionWorld_def sampleAttempt_def
        emptyWorld_def sampleVerifier)
  then show ?thesis using login_attempt_single_use by blast
qed

theorem authenticate_sound_witness:
  "\<exists>p w'. authenticate toyCrypto defaultAuthConfig ''token'' sessionWorld = (Inr (Some p), w')
     \<and> (\<exists>s \<in> set (sessions sessionWorld). p = toPrincipal s (userOf sessionWorld s))"
proof -
  have h: "hash toyCrypto ''token'' = ''htoken''" by (simp add: hash_def toyCrypto_def)
  have "\<exists>p w'. authenticate toyCrypto defaultAuthConfig ''token'' sessionWorld = (Inr (Some p), w')"
    by (simp add: authenticate_def Let_def bindM_run thenM_run now_run h isSession_def
        findFirst_def updateRow_def sessionTable_fields sessionWorld_def sampleSession_def
        emptyWorld_def activeWorkspace_def workspaceOfSession_def)
  then obtain p w' where run:
    "authenticate toyCrypto defaultAuthConfig ''token'' sessionWorld = (Inr (Some p), w')" by blast
  show ?thesis using run authenticate_sound [OF run] by auto
qed

definition sampleInput :: session_input where
  "sampleInput =
     \<lparr> si_userId = ''user'', si_workspaceId = ''ws'', si_organizationId = ''org'',
       si_roles = [''Viewer''], si_scopes = [''apps:read''], si_accessToken = None,
       si_refreshToken = None, si_idToken = None, si_accessTokenExpiresAt = None,
       si_replaceSessionIdHash = Some ''htoken'' \<rparr>"

theorem created_session_authenticates_witness:
  "\<exists>token csrf w' p.
     createSession toyCrypto defaultAuthConfig sampleInput sessionWorld = (Inr (token, csrf), w')
     \<and> fst (authenticate toyCrypto defaultAuthConfig token w') = Inr (Some p) \<and> p_workspaceId p = ''ws''
     \<and> fst (authenticate toyCrypto defaultAuthConfig ''token'' w') = Inr None"
proof -
  let ?cs = "createSession toyCrypto defaultAuthConfig sampleInput sessionWorld"
  have parts: "sessions sessionWorld = [sampleSession]" "ticks sessionWorld = 0" "drawn sessionWorld = 0"
    "entropy sessionWorld = (\<lambda>n. ''id-'' @ showNat n)" "clock sessionWorld = (\<lambda>n. 1000000 + int n)"
    "list_ex (\<lambda>x. ws_id x = ''ws'') (workspaces sessionWorld)"
    "list_ex (\<lambda>x. u_id x = ''user'') (users sessionWorld)"
    "\<exists>x. find (\<lambda>x. ws_id x = ''ws'') (workspaces sessionWorld) = Some x \<and> ws_status x = WorkspaceActive"
    by (simp_all add: sessionWorld_def emptyWorld_def)
  have "\<exists>csrf w'. ?cs = (Inr (''id-'' @ showNat 0, csrf), w')"
    by (simp add: createSession_def randomToken_def bindM_run thenM_run fresh_run now_run
        encryptOptional_def sampleInput_def storeSession_def transaction_run voidM_run createRow_def
        deleteMany_def sessionTable_fields(1,2,4,5) sessionRow_def Let_def parts sampleSession_def
        hash_def toyCrypto_def)
      (simp add: sessionTable_def parts)
  then obtain csrf w' where run: "?cs = (Inr (''id-'' @ showNat 0, csrf), w')" by blast
  have h: "hash toyCrypto ''token'' = ''htoken''" "hash toyCrypto (''id-'' @ showNat 0) \<noteq> ''htoken''"
    by (simp_all add: hash_def toyCrypto_def)
  show ?thesis
    using run created_session_authenticates [OF run] h parts
    by (auto simp: sampleInput_def idleMs_def absoluteMs_def defaultAuthConfig_def)
qed

end
