(* ===== verification/Url.thy ===== *)
theory Url
  imports JsLib
begin

text \<open>
  The class \<open>URL\<close> of the platform, as far as the sources use it: \<open>new URL(s)\<close> for an http or
  https address, \<open>new URL(ref, base)\<close> for a reference that starts with a slash, \<open>origin\<close> and
  \<open>toString()\<close>. Both slashes separate in these schemes; tabs and line ends are removed before
  anything else. Host names are lower-cased but not otherwise processed, and a port is kept as
  written unless it is the scheme's own.
\<close>

definition isUrlSpace :: "char \<Rightarrow> bool" where
  "isUrlSpace c \<longleftrightarrow> code c \<le> 32"

definition isRemoved :: "char \<Rightarrow> bool" where
  "isRemoved c \<longleftrightarrow> code c \<in> {9, 10, 13}"

definition urlClean :: "string \<Rightarrow> string" where
  "urlClean s =
     filter (\<lambda>c. \<not> isRemoved c) (rev (dropWhile isUrlSpace (rev (dropWhile isUrlSpace s))))"

definition isSlash :: "char \<Rightarrow> bool" where
  "isSlash c \<longleftrightarrow> c = CHR ''/'' \<or> c = CHR 0x5C"

record url =
  u_scheme :: string
  u_host :: string
  u_rest :: string \<comment> \<open>path, query and fragment as written\<close>

definition endsAuthority :: "char \<Rightarrow> bool" where
  "endsAuthority c \<longleftrightarrow> isSlash c \<or> c = CHR ''?'' \<or> c = CHR ''#''"

text \<open>What follows the last \<open>@\<close>, in lower case and without the scheme's own port.\<close>

definition hostOf :: "string \<Rightarrow> string \<Rightarrow> string" where
  "hostOf scheme authority =
     (let h = toLowerCase (rev (takeWhile (\<lambda>c. c \<noteq> CHR ''@'') (rev authority)));
          port = rev (takeWhile (\<lambda>c. c \<noteq> CHR '':'') (rev h))
      in if CHR '':'' \<in> set h
            \<and> (port = [] \<or> scheme = ''http'' \<and> port = ''80'' \<or> scheme = ''https'' \<and> port = ''443'')
         then take (length h - length port - 1) h else h)"

definition parseAuthority :: "string \<Rightarrow> string \<Rightarrow> exn + url" where
  "parseAuthority scheme s =
     (let t = dropWhile isSlash s;
          host = hostOf scheme (takeWhile (\<lambda>c. \<not> endsAuthority c) t)
      in if host = [] then Inl (JsError ''Invalid URL'')
         else Inr \<lparr> u_scheme = scheme, u_host = host,
                    u_rest = dropWhile (\<lambda>c. \<not> endsAuthority c) t \<rparr>)"

definition parseUrl :: "string \<Rightarrow> exn + url" where
  "parseUrl s =
     (let t = urlClean s;
          scheme = toLowerCase (takeWhile (\<lambda>c. c \<noteq> CHR '':'') t)
      in if scheme \<in> {''http'', ''https''} \<and> CHR '':'' \<in> set t
         then parseAuthority scheme (drop 1 (dropWhile (\<lambda>c. c \<noteq> CHR '':'') t))
         else Inl (JsError ''Invalid URL''))"

definition urlOrigin :: "url \<Rightarrow> string" where
  "urlOrigin u = u_scheme u @ ''://'' @ u_host u"

text \<open>
  A reference that starts with a slash. Two slashes of either kind begin another authority; one
  begins a path on the base's own.
\<close>

definition resolveRooted :: "string \<Rightarrow> url \<Rightarrow> exn + url" where
  "resolveRooted ref base =
     (let t = urlClean ref in
      if 2 \<le> length t \<and> isSlash (t ! 0) \<and> isSlash (t ! 1)
      then parseAuthority (u_scheme base) t
      else Inr (base\<lparr>u_rest := t\<rparr>))"

section \<open>Serialization\<close>

definition hexDigit :: "nat \<Rightarrow> char" where
  "hexDigit n = (if n < 10 then char_of (48 + n) else char_of (55 + n))"

definition percentByte :: "nat \<Rightarrow> string" where
  "percentByte b = [CHR ''%'', hexDigit (b div 16), hexDigit (b mod 16)]"

text \<open>The UTF-8 bytes of a character, each as a percent escape.\<close>

definition percentEncode :: "char \<Rightarrow> string" where
  "percentEncode c =
     (if code c < 128 then percentByte (code c)
      else percentByte (192 + code c div 64) @ percentByte (128 + code c mod 64))"

definition encodeWith :: "string \<Rightarrow> string \<Rightarrow> string" where
  "encodeWith reserved s =
     concat (map (\<lambda>c. if code c < 32 \<or> 126 < code c \<or> c \<in> set reserved then percentEncode c else [c]) s)"

definition isSingleDot :: "string \<Rightarrow> bool" where
  "isSingleDot s \<longleftrightarrow> toLowerCase s \<in> {''.'', ''%2e''}"

definition isDoubleDot :: "string \<Rightarrow> bool" where
  "isDoubleDot s \<longleftrightarrow> toLowerCase s \<in> {''..'', ''.%2e'', ''%2e.'', ''%2e%2e''}"

text \<open>The segments of a path without its dot segments; the first argument holds those kept, last first.\<close>

fun dropDotSegments :: "string list \<Rightarrow> string list \<Rightarrow> string list" where
  "dropDotSegments kept [] = rev kept"
| "dropDotSegments kept (s # rest) =
     (if isDoubleDot s then
        (if rest = [] then rev ([] # drop 1 kept) else dropDotSegments (drop 1 kept) rest)
      else if isSingleDot s then
        (if rest = [] then rev ([] # kept) else dropDotSegments kept rest)
      else dropDotSegments (s # kept) rest)"

definition normalPath :: "string \<Rightarrow> string" where
  "normalPath p =
     (let q = map (\<lambda>c. if isSlash c then CHR ''/'' else c) p;
          segments = splitOn CHR ''/'' (if startsWith q ''/'' then drop 1 q else q)
      in CHR ''/'' # joinWith ''/'' (map (encodeWith '' \"<>`{}'') (dropDotSegments [] segments)))"

definition urlString :: "url \<Rightarrow> string" where
  "urlString u =
     (let path = takeWhile (\<lambda>c. c \<noteq> CHR ''?'' \<and> c \<noteq> CHR ''#'') (u_rest u);
          more = dropWhile (\<lambda>c. c \<noteq> CHR ''?'' \<and> c \<noteq> CHR ''#'') (u_rest u);
          query = takeWhile (\<lambda>c. c \<noteq> CHR ''#'') more;
          fragment = dropWhile (\<lambda>c. c \<noteq> CHR ''#'') more
      in urlOrigin u @ normalPath path
         @ (case query of [] \<Rightarrow> [] | q # qs \<Rightarrow> q # encodeWith (CHR 0x27 # '' \"<>'') qs)
         @ (case fragment of [] \<Rightarrow> [] | f # fs \<Rightarrow> f # encodeWith '' \"<>`'' fs))"

section \<open>Search parameters\<close>

text \<open>The serializer of \<open>URLSearchParams\<close>, and \<open>new URL(ref, base)\<close> with its parameters set.\<close>

definition formEncode :: "string \<Rightarrow> string" where
  "formEncode s =
     concat (map (\<lambda>c.
       if isLowerAlnum c \<or> isUpperAlpha c \<or> c \<in> set ''*-._'' then [c]
       else if c = CHR '' '' then ''+'' else percentEncode c) s)"

definition searchString :: "string entries \<Rightarrow> string" where
  "searchString params = joinWith ''&'' (map (\<lambda>(k, v). formEncode k @ ''='' @ formEncode v) params)"

definition urlWithParams :: "string \<Rightarrow> string \<Rightarrow> string entries \<Rightarrow> exn + string" where
  "urlWithParams ref base params =
     (case parseUrl base of
        Inl e \<Rightarrow> Inl e
      | Inr b \<Rightarrow>
          (case resolveRooted ref b of
             Inl e \<Rightarrow> Inl e
           | Inr u \<Rightarrow> Inr (urlString (u\<lparr>u_rest := u_rest u @ ''?'' @ searchString params\<rparr>))))"

section \<open>Facts\<close>

lemma resolveRooted_origin:
  assumes "resolveRooted ref base = Inr u"
  shows "urlOrigin u = urlOrigin base \<or> (2 \<le> length (urlClean ref) \<and> isSlash (urlClean ref ! 1))"
  using assms by (auto simp: resolveRooted_def Let_def urlOrigin_def split: if_splits)

lemma urlString_origin: "startsWith (urlString u) (urlOrigin u @ ''/'')"
  by (simp add: urlString_def Let_def normalPath_def startsWith_iff)

end
