(* ===== verification/Guards.thy ===== *)
theory Guards
  imports Sessions Url
begin

text \<open>
  The request pipeline: the routes of the controllers with the permissions they demand, the three
  global guards (auth/auth.guard.ts, csrf.guard.ts, permission.guard.ts) and the two global
  interceptors (auth/tenant-context.interceptor.ts, audit.interceptor.ts), composed in the order
  auth/auth.module.ts registers them.
\<close>

section \<open>Routes\<close>

record route =
  rt_controller :: string
  rt_handler :: string
  rt_method :: string
  rt_path :: string
  rt_public :: bool
  rt_permissions :: "string list"

definition get :: "string \<Rightarrow> string \<Rightarrow> string \<Rightarrow> string list \<Rightarrow> route" where
  "get ctl fn p perms =
     \<lparr> rt_controller = ctl, rt_handler = fn, rt_method = ''GET'', rt_path = p, rt_public = False,
       rt_permissions = perms \<rparr>"

definition post :: "string \<Rightarrow> string \<Rightarrow> string \<Rightarrow> string list \<Rightarrow> route" where
  "post ctl fn p perms = (get ctl fn p perms)\<lparr>rt_method := ''POST''\<rparr>"

definition publicGet :: "string \<Rightarrow> string \<Rightarrow> string \<Rightarrow> route" where
  "publicGet ctl fn p = (get ctl fn p [])\<lparr>rt_public := True\<rparr>"

definition appsRoutes :: "route list" where
  "appsRoutes =
     (let c = ''AppsController'' in
      [post c ''create'' ''/apps'' [''apps:create''],
       get c ''findAll'' ''/apps'' [''apps:read''],
       get c ''findOne'' ''/apps/:id'' [''apps:read'']])"

definition authRoutes :: "route list" where
  "authRoutes =
     (let c = ''AuthController'' in
      [publicGet c ''login'' ''/auth/login'',
       publicGet c ''callback'' ''/auth/callback'',
       get c ''me'' ''/auth/me'' [],
       get c ''metrics'' ''/auth/metrics'' [''members:manage''],
       post c ''logout'' ''/auth/logout'' [],
       post c ''switchOrganization'' ''/auth/switch-organization'' []])"

definition buildsRoutes :: "route list" where
  "buildsRoutes =
     (let c = ''BuildsController'' in
      [post c ''create'' ''/apps/:appId/builds'' [''builds:start''],
       get c ''findByApp'' ''/apps/:appId/builds'' [''builds:read''],
       get c ''findOne'' ''/builds/:id'' [''builds:read''],
       get c ''getStatus'' ''/builds/:id/status'' [''builds:read''],
       get c ''getLogs'' ''/builds/:id/logs'' [''logs:read'']])"

definition deploymentsRoutes :: "route list" where
  "deploymentsRoutes =
     (let c = ''DeploymentsController'' in
      [post c ''create'' ''/apps/:appId/deployments'' [''deployments:write''],
       get c ''findByApp'' ''/apps/:appId/deployments'' [''deployments:read''],
       get c ''getStatus'' ''/deployments/:id/status'' [''deployments:read''],
       get c ''getLogs'' ''/deployments/:id/logs'' [''logs:read''],
       get c ''getPods'' ''/deployments/:id/pods'' [''deployments:read''],
       get c ''getEvents'' ''/deployments/:id/events'' [''deployments:read''],
       post c ''restart'' ''/deployments/:id/restart'' [''deployments:write''],
       post c ''scale'' ''/deployments/:id/scale'' [''deployments:write''],
       post c ''stop'' ''/deployments/:id/stop'' [''deployments:write''],
       post c ''start'' ''/deployments/:id/start'' [''deployments:write''],
       (get c ''delete'' ''/deployments/:id'' [''deployments:delete''])\<lparr>rt_method := ''DELETE''\<rparr>])"

definition evidenceRoutes :: "route list" where
  "evidenceRoutes =
     (let c = ''EvidenceController'' in
      [get c ''collectLive'' ''/deployments/:id/evidence'' [''rca:read''],
       post c ''createSnapshot'' ''/deployments/:id/evidence/snapshots'' [''rca:run''],
       get c ''listSnapshots'' ''/deployments/:id/evidence/snapshots'' [''rca:read''],
       get c ''getSnapshot'' ''/evidence/snapshots/:id'' [''rca:read'']])"

definition healthRoutes :: "route list" where
  "healthRoutes =
     (let c = ''HealthController'' in
      [publicGet c ''health'' ''/healthz'',
       publicGet c ''readiness'' ''/readyz''])"

definition incidentsRoutes :: "route list" where
  "incidentsRoutes =
     (let c = ''IncidentsController'' in
      [get c ''findAll'' ''/incidents'' [''incidents:read''],
       get c ''findOne'' ''/incidents/:id'' [''incidents:read''],
       post c ''createForDeployment'' ''/deployments/:id/incidents'' [''incidents:manage''],
       post c ''resolve'' ''/incidents/:id/resolve'' [''incidents:manage'']])"

definition observabilityRoutes :: "route list" where
  "observabilityRoutes =
     (let c = ''ObservabilityController'' in
      [get c ''getConfig'' ''/observability/config'' [''deployments:read''],
       get c ''getLatestHealthSample'' ''/deployments/:id/health-samples/latest'' [''deployments:read''],
       get c ''listHealthSamples'' ''/deployments/:id/health-samples'' [''deployments:read'']])"

definition rcaRoutes :: "route list" where
  "rcaRoutes =
     (let c = ''RcaController'' in
      [post c ''startForIncident'' ''/incidents/:id/rca-runs'' [''rca:run''],
       get c ''findByIncident'' ''/incidents/:id/rca-runs'' [''rca:read''],
       post c ''startForDeployment'' ''/deployments/:id/rca-runs'' [''rca:run''],
       get c ''findOne'' ''/rca-runs/:id'' [''rca:read''],
       get c ''listChat'' ''/rca-runs/:id/chat'' [''rca:chat:read''],
       post c ''chat'' ''/rca-runs/:id/chat'' [''rca:chat:write''],
       get c ''getConfig'' ''/rca/config'' [''rca:read'']])"

definition telemetryRoutes :: "route list" where
  "telemetryRoutes =
     (let c = ''TelemetryController'' in
      [get c ''getOverview'' ''/apps/:appId/deployments/:deploymentId/telemetry/overview'' [''deployments:read''],
       get c ''getMetrics'' ''/apps/:appId/deployments/:deploymentId/telemetry/metrics'' [''deployments:read''],
       get c ''getLogs'' ''/apps/:appId/deployments/:deploymentId/telemetry/logs'' [''logs:read''],
       get c ''getTraces'' ''/apps/:appId/deployments/:deploymentId/telemetry/traces'' [''deployments:read''],
       get c ''getKubernetes'' ''/apps/:appId/deployments/:deploymentId/telemetry/kubernetes'' [''deployments:read'']])"

definition routeTable :: "route list" where
  "routeTable =
     appsRoutes @ authRoutes @ buildsRoutes @ deploymentsRoutes @ evidenceRoutes @ healthRoutes
     @ incidentsRoutes @ observabilityRoutes @ rcaRoutes @ telemetryRoutes"

text \<open>The roles of docs/authentication-and-tenancy.md.\<close>

definition viewerScopes :: "string list" where
  "viewerScopes =
     [''apps:read'', ''deployments:read'', ''builds:read'', ''logs:read'', ''incidents:read'',
      ''rca:read'', ''rca:chat:read'']"

definition developerScopes :: "string list" where
  "developerScopes =
     viewerScopes @ [''apps:create'', ''deployments:write'', ''builds:start'', ''incidents:manage'',
       ''rca:run'', ''rca:chat:write'']"

definition administratorScopes :: "string list" where
  "administratorScopes =
     developerScopes @ [''deployments:delete'', ''secrets:write'', ''members:manage'']"

section \<open>Guards\<close>

record http_request =
  rq_method :: string
  rq_path :: string
  rq_session :: "string option" \<comment> \<open>the \<open>rca_session\<close> cookie\<close>
  rq_csrfToken :: "string option"
  rq_origin :: "string option"
  rq_params :: "string entries"

definition SAFE_METHODS :: "string list" where
  "SAFE_METHODS = [''GET'', ''HEAD'', ''OPTIONS'']"

definition authenticationGuard ::
  "crypto_lib \<Rightarrow> auth_config \<Rightarrow> route \<Rightarrow> http_request \<Rightarrow> ('c world, principal option) io"
where
  "authenticationGuard lib cfg rt rq =
     (if rt_public rt then returnM None
      else if rq_session rq = None \<or> rq_session rq = Some []
      then throwM (Unauthorized ''Authentication is required'')
      else bindM (authenticate lib cfg (the (rq_session rq))) (\<lambda>found.
             case found of
               None \<Rightarrow> throwM (Unauthorized ''The session is invalid or expired'')
             | Some p \<Rightarrow> returnM (Some p)))"

definition csrfOrigins :: "auth_config \<Rightarrow> exn + string list" where
  "csrfOrigins cfg =
     (if ac_callbackUrl cfg = [] then Inr (ac_allowedOrigins cfg)
      else (case parseUrl (ac_callbackUrl cfg) of
              Inl e \<Rightarrow> Inl e
            | Inr u \<Rightarrow> Inr (ac_allowedOrigins cfg @ [urlOrigin u])))"

definition csrfGuard ::
  "crypto_lib \<Rightarrow> auth_config \<Rightarrow> route \<Rightarrow> http_request \<Rightarrow> principal option \<Rightarrow> exn + unit"
where
  "csrfGuard lib cfg rt rq who =
     (if rq_method rq \<in> set SAFE_METHODS \<or> rt_public rt then Inr ()
      else
        (let token = (case rq_csrfToken rq of None \<Rightarrow> [] | Some t \<Rightarrow> t) in
         if \<not> (case who of
                None \<Rightarrow> False
              | Some p \<Rightarrow> p_csrfToken p \<noteq> [] \<and> equalHash lib token (hash lib (p_csrfToken p)))
         then Inl (Forbidden ''The CSRF token is invalid'')
         else
           (case csrfOrigins cfg of
              Inl e \<Rightarrow> Inl e
            | Inr allowed \<Rightarrow>
                (case rq_origin rq of
                   Some origin \<Rightarrow>
                     (if origin \<noteq> [] \<and> origin \<in> set allowed then Inr ()
                      else Inl (Forbidden ''The request origin is not allowed''))
                 | None \<Rightarrow> Inl (Forbidden ''The request origin is not allowed'')))))"

definition permissionGuard :: "route \<Rightarrow> http_request \<Rightarrow> principal option \<Rightarrow> ('c world, unit) io" where
  "permissionGuard rt rq who =
     (let required = rt_permissions rt in
      if required = [] then returnM ()
      else
        (case who of
           None \<Rightarrow> throwM (JsError ''Cannot read properties of undefined'')
         | Some p \<Rightarrow>
             (if \<not> list_all (\<lambda>scope. scope \<in> set (p_scopes p)) required
              then thenM
                     (catchM
                       (voidM (createRow auditTable (\<lambda>_.
                          \<lparr> ae_actorUserId = Some (p_userId p),
                            ae_workspaceId = Some (p_workspaceId p),
                            ae_action = rq_method rq @ '' '' @ rq_path rq,
                            ae_resourceType = None, ae_resourceId = None, ae_outcome = ''forbidden'',
                            ae_metadata =
                              JObj [(''requiredPermissions'', JArr (map JStr required))] \<rparr>)))
                       (\<lambda>_. returnM ()))
                     (throwM (Forbidden ''The required permission is missing''))
              else returnM ())))"

section \<open>Interceptors\<close>

definition principalContext :: "principal \<Rightarrow> tenant_context" where
  "principalContext p =
     \<lparr> c_workspaceId = p_workspaceId p, c_userId = Some (p_userId p),
       c_organizationId = Some (p_organizationId p), c_roles = Some (p_roles p),
       c_scopes = Some (p_scopes p), c_transactionActive = False \<rparr>"

definition tenantContextInterceptor ::
  "principal option \<Rightarrow> ('c world, 'a) io \<Rightarrow> ('c world, 'a) io"
where
  "tenantContextInterceptor who next =
     (case who of None \<Rightarrow> next | Some p \<Rightarrow> runInContext (principalContext p) next)"

text \<open>\<open>error?.status ?? 500\<close>: of the errors of the model only the HTTP exceptions have the member.\<close>

fun errorStatus :: "exn \<Rightarrow> nat" where
  "errorStatus (HttpError n _) = n"
| "errorStatus _ = 500"

definition auditRow ::
  "route \<Rightarrow> http_request \<Rightarrow> principal \<Rightarrow> string \<Rightarrow> nat option \<Rightarrow> audit_event"
where
  "auditRow rt rq p outcome status =
     \<lparr> ae_actorUserId = Some (p_userId p), ae_workspaceId = Some (p_workspaceId p),
       ae_action = rq_method rq @ '' '' @ rt_path rt, ae_resourceType = Some (rt_controller rt),
       ae_resourceId =
         (case map_of (rq_params rq) ''id'' of
            Some i \<Rightarrow> Some i | None \<Rightarrow> map_of (rq_params rq) ''appId''),
       ae_outcome = outcome,
       ae_metadata =
         (case status of
            None \<Rightarrow> JUndef
          | Some n \<Rightarrow> (if n = 0 then JUndef else JObj [(''statusCode'', JNum (int n))])) \<rparr>"

definition auditInterceptor ::
  "route \<Rightarrow> http_request \<Rightarrow> principal option \<Rightarrow> ('c world, 'a) io \<Rightarrow> ('c world, 'a) io"
where
  "auditInterceptor rt rq who next =
     (if rq_method rq \<in> set SAFE_METHODS then next
      else
        (case who of
           None \<Rightarrow> next
         | Some p \<Rightarrow>
             (let record = (\<lambda>outcome status.
                    catchM (voidM (createRow auditTable (\<lambda>_. auditRow rt rq p outcome status)))
                      (\<lambda>_. returnM ()))
              in bindM (attemptM next) (\<lambda>r.
                   case r of
                     Inr value \<Rightarrow> thenM (record ''success'' None) (returnM value)
                   | Inl e \<Rightarrow> thenM (record ''failure'' (Some (errorStatus e))) (throwM e)))))"

section \<open>The pipeline\<close>

definition serve ::
  "crypto_lib \<Rightarrow> auth_config \<Rightarrow> route \<Rightarrow> http_request
   \<Rightarrow> (principal option \<Rightarrow> ('c world, 'a) io) \<Rightarrow> ('c world, 'a) io"
where
  "serve lib cfg rt rq handler =
     bindM (authenticationGuard lib cfg rt rq) (\<lambda>who.
     thenM (liftM (csrfGuard lib cfg rt rq who))
     (thenM (permissionGuard rt rq who)
       (tenantContextInterceptor who (auditInterceptor rt rq who (handler who)))))"

section \<open>Properties\<close>

subsection \<open>Audit\<close>

lemma audit_run:
  "catchM (voidM (createRow auditTable (\<lambda>_. row))) (\<lambda>_. returnM ()) w =
     (Inr (), if parentsExist auditTable w row then w\<lparr>audits := audits w @ [row]\<rparr> else w)"
  by (simp add: catchM_run voidM_run createRow_def Let_def visible_def auditTable_def list_ex_iff)

lemma auditRow_parents:
  "parentsExist auditTable w (auditRow rt rq p outcome status) \<longleftrightarrow>
     (\<exists>x \<in> set (workspaces w). ws_id x = p_workspaceId p) \<and> (\<exists>u \<in> set (users w). u_id u = p_userId p)"
  by (simp add: auditTable_def auditRow_def list_ex_iff)


subsection \<open>Mediation\<close>

text \<open>What a request must have to get past the guards of a route.\<close>

definition admitted ::
  "crypto_lib \<Rightarrow> auth_config \<Rightarrow> route \<Rightarrow> http_request \<Rightarrow> auth_session \<Rightarrow> 'c world \<Rightarrow> bool"
where
  "admitted lib cfg rt rq s w \<longleftrightarrow>
     (\<exists>token. rq_session rq = Some token \<and> s_idHash s = hash lib token)
     \<and> s \<in> set (sessions w)
     \<and> clock w (ticks w) < s_idleExpiresAt s \<and> clock w (ticks w + 1) < s_absoluteExpiresAt s
     \<and> activeWorkspace (workspaceOfSession w s)
     \<and> set (rt_permissions rt) \<subseteq> set (s_scopes s)
     \<and> (rq_method rq \<in> set SAFE_METHODS
        \<or> (\<exists>token origin allowed. rq_origin rq = Some origin \<and> csrfOrigins cfg = Inr allowed
             \<and> origin \<in> set allowed \<and> s_csrfToken s \<noteq> []
             \<and> token = (case rq_csrfToken rq of None \<Rightarrow> [] | Some t \<Rightarrow> t)
             \<and> hash lib token = hash lib (s_csrfToken s)))"

text \<open>Everything but the sessions, the audit records, the clock and the source of fresh strings.\<close>

definition sameData :: "'c world \<Rightarrow> 'c world \<Rightarrow> bool" where
  "sameData w w' \<longleftrightarrow>
     workspaces w' = workspaces w \<and> users w' = users w \<and> memberships w' = memberships w
     \<and> attempts w' = attempts w \<and> apps w' = apps w \<and> builds w' = builds w
     \<and> deployments w' = deployments w \<and> runtimeConfigs w' = runtimeConfigs w
     \<and> samples w' = samples w \<and> incidents w' = incidents w \<and> runs w' = runs w
     \<and> runEvents w' = runEvents w \<and> snapshots w' = snapshots w \<and> tenant w' = tenant w
     \<and> cluster w' = cluster w \<and> collecting w' = collecting w \<and> detecting w' = detecting w
     \<and> oidcClient w' = oidcClient w"

lemma preorder_sameData [simp]: "preorder_rel sameData"
  by (auto simp: preorder_rel_def reflp_def transp_def sameData_def)

lemma sameData_authenticate: "keeps sameData (authenticate lib cfg token)"
proof -
  have now: "keeps sameData (now :: ('c world, instant) io)"
    by (auto simp: keeps_def now_run sameData_def)
  have del: "keeps sameData (deleteRow sessionTable p :: ('c world, unit) io)" for p
    by (auto simp: keeps_def deleteRow_def sessionTable_def sameData_def)
  have upd: "keeps sameData (updateRow sessionTable p f :: ('c world, auth_session) io)" for p f
    by (auto simp: keeps_def updateRow_def sessionTable_def sameData_def split: option.split)
  show ?thesis
    unfolding authenticate_def Let_def
    by (intro keeps_bindM keeps_thenM keeps_findFirst keeps_option keeps_readM keeps_prod keeps_if
        keeps_returnM now del upd preorder_sameData)
qed

lemma authenticationGuard_cases:
  assumes "\<not> rt_public rt" and "authenticationGuard lib cfg rt rq w = (r, w')"
  shows "sameData w w' \<and>
    (case r of
       Inl e \<Rightarrow> True
     | Inr who \<Rightarrow> \<exists>token s. rq_session rq = Some token \<and> s \<in> set (sessions w) \<and> s_idHash s = hash lib token
         \<and> clock w (ticks w) < s_idleExpiresAt s \<and> clock w (ticks w + 1) < s_absoluteExpiresAt s
         \<and> activeWorkspace (workspaceOfSession w s) \<and> who = Some (toPrincipal s (userOf w s)))"
proof (cases "rq_session rq = None \<or> rq_session rq = Some []")
  case True
  then have "authenticationGuard lib cfg rt rq w = (Inl (Unauthorized ''Authentication is required''), w)"
    unfolding authenticationGuard_def using assms(1) by simp
  with assms(2) preorder_sameData show ?thesis by (auto simp: preorder_rel_def reflp_def)
next
  case False
  then obtain token where tok: "rq_session rq = Some token" "token \<noteq> []" by auto
  obtain r1 w1 where run: "authenticate lib cfg token w = (r1, w1)" by fastforce
  have same: "sameData w w1"
    using keepsD [OF sameData_authenticate, of w lib cfg token] run by simp
  have eq: "authenticationGuard lib cfg rt rq w =
      (case r1 of Inl e \<Rightarrow> (Inl e, w1)
       | Inr None \<Rightarrow> (Inl (Unauthorized ''The session is invalid or expired''), w1)
       | Inr (Some p) \<Rightarrow> (Inr (Some p), w1))"
    using tok assms(1) run
    by (cases r1) (auto simp: authenticationGuard_def bindM_run split: option.split)
  show ?thesis
  proof (cases r1)
    case (Inl e)
    with eq same assms(2) show ?thesis by auto
  next
    case (Inr found)
    show ?thesis
    proof (cases found)
      case None
      with Inr eq same assms(2) show ?thesis by auto
    next
      case (Some p)
      with Inr run have "authenticate lib cfg token w = (Inr (Some p), w1)" by simp
      from authenticate_outcome [OF this] Some Inr eq same assms(2) tok show ?thesis by auto
    qed
  qed
qed

lemma permissionGuard_run:
  "case permissionGuard rt rq (Some p) w of (r, w') \<Rightarrow>
     sameData w w' \<and> (r = Inr () \<longrightarrow> w' = w \<and> set (rt_permissions rt) \<subseteq> set (p_scopes p))"
  by (auto simp: permissionGuard_def Let_def thenM_run audit_run list_all_iff sameData_def)

lemma csrfGuard_passed:
  assumes "csrfGuard lib cfg rt rq (Some p) = Inr ()" and "\<not> rt_public rt"
  shows "rq_method rq \<in> set SAFE_METHODS
    \<or> (\<exists>token origin allowed. rq_origin rq = Some origin \<and> csrfOrigins cfg = Inr allowed
         \<and> origin \<in> set allowed \<and> p_csrfToken p \<noteq> []
         \<and> token = (case rq_csrfToken rq of None \<Rightarrow> [] | Some t \<Rightarrow> t)
         \<and> hash lib token = hash lib (p_csrfToken p))"
  using assms
  by (auto simp: csrfGuard_def Let_def equalHash_def split: if_splits sum.splits option.splits)

lemma serve_outcome:
  assumes "\<not> rt_public rt" and "serve lib cfg rt rq handler w = (res, w')"
  shows "((\<exists>e. res = Inl e) \<and> sameData w w' \<and> (\<forall>handler'. serve lib cfg rt rq handler' w = (res, w')))
    \<or> (\<exists>s w1 p. admitted lib cfg rt rq s w \<and> sameData w w1 \<and> p = toPrincipal s (userOf w s)
         \<and> p_workspaceId p = s_workspaceId s
         \<and> (res, w') = runInContext (principalContext p)
                          (auditInterceptor rt rq (Some p) (handler (Some p))) w1)"
proof -
  obtain r w1 where auth: "authenticationGuard lib cfg rt rq w = (r, w1)" by fastforce
  note who = authenticationGuard_cases [OF assms(1) auth]
  show ?thesis
  proof (cases r)
    case (Inl e)
    have refused: "serve lib cfg rt rq h w = (Inl e, w1)" for h
      by (simp add: serve_def bindM_run auth Inl)
    from refused [of handler] assms(2) have "res = Inl e" "w' = w1" by auto
    with who show ?thesis by (simp add: refused)
  next
    case (Inr found)
    with who obtain token s where s: "rq_session rq = Some token" "s \<in> set (sessions w)"
      "s_idHash s = hash lib token" "clock w (ticks w) < s_idleExpiresAt s"
      "clock w (ticks w + 1) < s_absoluteExpiresAt s" "activeWorkspace (workspaceOfSession w s)"
      "found = Some (toPrincipal s (userOf w s))" and same: "sameData w w1"
      by auto
    let ?p = "toPrincipal s (userOf w s)"
    obtain r2 w2 where perm: "permissionGuard rt rq (Some ?p) w1 = (r2, w2)" by fastforce
    have pg: "sameData w1 w2" "r2 = Inr () \<Longrightarrow> w2 = w1 \<and> set (rt_permissions rt) \<subseteq> set (p_scopes ?p)"
      using permissionGuard_run [where rt = rt and rq = rq and p = ?p and w = w1]
      by (simp_all add: perm)
    have same2: "sameData w w2"
      using same pg(1) preorder_sameData unfolding preorder_rel_def by (blast dest: transpD)
    have run: "serve lib cfg rt rq h w =
        (case csrfGuard lib cfg rt rq (Some ?p) of
           Inl e \<Rightarrow> (Inl e, w1)
         | Inr _ \<Rightarrow> (case r2 of
              Inl e \<Rightarrow> (Inl e, w2)
            | Inr _ \<Rightarrow> runInContext (principalContext ?p) (auditInterceptor rt rq (Some ?p) (h (Some ?p))) w2))"
      for h
      by (simp add: serve_def bindM_run thenM_run auth Inr s perm tenantContextInterceptor_def
          split: sum.split)
    show ?thesis
    proof (cases "csrfGuard lib cfg rt rq (Some ?p) = Inr () \<and> r2 = Inr ()")
      case True
      then have "admitted lib cfg rt rq s w"
        using csrfGuard_passed [OF conjunct1 [OF True] assms(1)] pg s
        by (auto simp: admitted_def toPrincipal_def)
      moreover have "(res, w') = runInContext (principalContext ?p)
          (auditInterceptor rt rq (Some ?p) (handler (Some ?p))) w2"
        using True assms(2) by (simp add: run)
      ultimately show ?thesis using same2 by (auto simp: toPrincipal_def)
    next
      case False
      then show ?thesis
        using assms(2) same same2
        by (cases "csrfGuard lib cfg rt rq (Some ?p)"; cases r2) (auto simp: run)
    qed
  qed
qed

text \<open>
  C3. Nothing reaches a handler of a non-public route past the guards: either the request is
  refused, the same whatever the handler would do, with no effect on the data or the cluster; or
  the request carries the token of a live session of an active workspace which holds every
  permission the route demands, and, unless the method is safe, the session's csrf token and an
  allowed origin; and then the handler runs in the context of exactly that session's workspace.
\<close>

theorem complete_mediation:
  assumes "\<not> rt_public rt" and "serve lib cfg rt rq handler w = (res, w')"
  shows "((\<exists>e. res = Inl e) \<and> sameData w w' \<and> (\<forall>handler'. serve lib cfg rt rq handler' w = (res, w')))
    \<or> (\<exists>s w1 p. admitted lib cfg rt rq s w \<and> sameData w w1 \<and> p = toPrincipal s (userOf w s)
         \<and> p_workspaceId p = s_workspaceId s
         \<and> (res, w') = runInContext (principalContext p)
                          (auditInterceptor rt rq (Some p) (handler (Some p))) w1)"
  using assms by (rule serve_outcome)

subsection \<open>Roles\<close>

lemmas route_defs =
  appsRoutes_def authRoutes_def buildsRoutes_def deploymentsRoutes_def evidenceRoutes_def
  healthRoutes_def incidentsRoutes_def observabilityRoutes_def rcaRoutes_def telemetryRoutes_def
  get_def post_def publicGet_def Let_def

lemma routes_demand:
  "list_all (\<lambda>r. rt_public r \<longrightarrow> rt_permissions r = [] \<and> rt_method r = ''GET'') routeTable"
  "list_all (\<lambda>r. rt_permissions r = [] \<longrightarrow> rt_public r \<or> rt_controller r = ''AuthController'') routeTable"
  "list_all (\<lambda>r. rt_permissions r \<noteq> [] \<and> list_all (\<lambda>p. p \<in> set viewerScopes) (rt_permissions r)
      \<longrightarrow> rt_method r = ''GET'') routeTable"
  "list_all (\<lambda>r. list_all (\<lambda>p. p \<in> set developerScopes) (rt_permissions r)
      \<longrightarrow> rt_method r \<noteq> ''DELETE'') routeTable"
  "list_all (\<lambda>r. list_all (\<lambda>p. p \<in> set administratorScopes) (rt_permissions r)) routeTable"
  by (simp_all add: routeTable_def route_defs viewerScopes_def developerScopes_def
      administratorScopes_def)


section \<open>Witnesses\<close>

definition sampleHttp :: "string \<Rightarrow> string option \<Rightarrow> http_request" where
  "sampleHttp method cookie =
     \<lparr> rq_method = method, rq_path = ''/apps'', rq_session = cookie, rq_csrfToken = None,
       rq_origin = None, rq_params = [] \<rparr>"

definition sampleRoute :: route where
  "sampleRoute = get ''AppsController'' ''findAll'' ''/apps'' [''apps:read'']"

definition samplePrincipal :: principal where
  "samplePrincipal =
     \<lparr> p_userId = ''user'', p_subject = ''sub'', p_workspaceId = ''ws'', p_organizationId = ''org'',
       p_sessionIdHash = ''htoken'', p_roles = [''Viewer''], p_scopes = [''apps:read''],
       p_csrfToken = ''csrf'' \<rparr>"

theorem complete_mediation_witness:
  "\<exists>e. fst (serve toyCrypto defaultAuthConfig sampleRoute (sampleHttp ''GET'' None)
              (\<lambda>_. returnM ()) sessionWorld) = Inl e"
proof -
  let ?s = "\<lambda>h. serve toyCrypto defaultAuthConfig sampleRoute (sampleHttp ''GET'' None) h sessionWorld"
  obtain res w' where run: "?s (\<lambda>_. returnM ()) = (res, w')" by fastforce
  have "\<not> rt_public sampleRoute" by (simp add: sampleRoute_def get_def)
  from complete_mediation [OF this run] have "\<exists>e. res = Inl e"
    by (auto simp: admitted_def sampleHttp_def)
  with run show ?thesis by simp
qed



end
