(* ===== verification/Http.thy ===== *)
theory Http
  imports Isolation
begin

text \<open>
  Calls to other services over HTTP: \<open>fetch\<close> as a parameter, a function from the request and the
  state of the outside world to a network error or a response, and the outside world's next state.
\<close>

record fetch_request =
  fq_method :: string
  fq_url :: string
  fq_headers :: "string entries"
  fq_body :: json

text \<open>The body of a response as text, and as what \<open>JSON.parse\<close> makes of it.\<close>

record fetch_response =
  fr_status :: nat
  fr_statusText :: string
  fr_text :: "exn + string"
  fr_json :: "exn + json"

definition fr_ok :: "fetch_response \<Rightarrow> bool" where
  "fr_ok r \<longleftrightarrow> 200 \<le> fr_status r \<and> fr_status r < 300"

type_synonym 'c fetch_api = "fetch_request \<Rightarrow> 'c \<Rightarrow> (string + fetch_response) \<times> 'c"

definition callFetch :: "'c fetch_api \<Rightarrow> fetch_request \<Rightarrow> ('c world, fetch_response) io" where
  "callFetch fetch rq =
     (\<lambda>w. case fetch rq (cluster w) of
        (Inl message, c) \<Rightarrow> (Inl (JsError message), w\<lparr>cluster := c\<rparr>)
      | (Inr response, c) \<Rightarrow> (Inr response, w\<lparr>cluster := c\<rparr>))"

lemma callFetch_run [io_simps]:
  "callFetch fetch rq w =
     (case fetch rq (cluster w) of
        (Inl message, c) \<Rightarrow> (Inl (JsError message), w\<lparr>cluster := c\<rparr>)
      | (Inr response, c) \<Rightarrow> (Inr response, w\<lparr>cluster := c\<rparr>))"
  by (simp add: callFetch_def)

lemma keeps_callFetch [keeps_intros]: "keeps tenantFrame (callFetch fetch rq)"
  by (auto simp: keeps_def callFetch_def tenantFrame_def split: prod.split sum.split)

text \<open>
  An outside world that answers by a function of the request and remembers every request it was
  sent, for statements about what the service sends.
\<close>

definition recordingFetch ::
  "(fetch_request \<Rightarrow> string + fetch_response) \<Rightarrow> fetch_request list fetch_api"
where
  "recordingFetch answer rq sent = (answer rq, sent @ [rq])"

end
