(* ===== verification/Identity.thy ===== *)
theory Identity
  imports Sessions Http
begin

text \<open>
  auth/oidc.service.ts and auth/workspace.service.ts: what the service learns from the identity
  provider, and the workspace, user and membership it keeps for it. The functions of openid-client
  and jose the code calls are a record of parameters; each acts on the outside world.
\<close>

section \<open>The provider\<close>

type_synonym claims = "json entries"

record token_set =
  ts_accessToken :: "string option"
  ts_refreshToken :: "string option"
  ts_idToken :: "string option"
  ts_expiresAt :: "int option" \<comment> \<open>seconds\<close>
  ts_scope :: "string option"
  ts_claims :: claims \<comment> \<open>\<open>claims()\<close>, of the validated ID token\<close>

record callback_checks =
  cc_state :: string
  cc_nonce :: string
  cc_codeVerifier :: string

text \<open>
  \<open>Issuer.discover\<close>, \<open>generators.codeChallenge\<close>, the methods of a \<open>Client\<close>, and \<open>jwtVerify\<close> with a
  remote key set. Errors are exceptions of any kind.
\<close>

record 'c oidc_provider =
  op_discover :: "string \<Rightarrow> 'c \<Rightarrow> (exn + oidc_metadata) \<times> 'c"
  op_codeChallenge :: "string \<Rightarrow> string"
  op_authorizationUrl :: "oidc_metadata \<Rightarrow> string entries \<Rightarrow> string"
  op_callback ::
    "oidc_metadata \<Rightarrow> string \<Rightarrow> json \<Rightarrow> callback_checks \<Rightarrow> 'c \<Rightarrow> (exn + token_set) \<times> 'c"
  op_refresh :: "oidc_metadata \<Rightarrow> string \<Rightarrow> 'c \<Rightarrow> (exn + token_set) \<times> 'c"
  op_endSessionUrl :: "oidc_metadata \<Rightarrow> string option \<Rightarrow> string \<Rightarrow> exn + string"
  op_revoke :: "oidc_metadata \<Rightarrow> string \<Rightarrow> string \<Rightarrow> 'c \<Rightarrow> (exn + unit) \<times> 'c"
  op_introspect :: "oidc_metadata \<Rightarrow> string \<Rightarrow> 'c \<Rightarrow> (exn + claims) \<times> 'c"
  op_jwtVerify :: "string \<Rightarrow> string \<Rightarrow> string \<Rightarrow> 'c \<Rightarrow> (exn + claims) \<times> 'c"
    \<comment> \<open>token, address of the keys, audience\<close>

definition outside :: "('c \<Rightarrow> (exn + 'a) \<times> 'c) \<Rightarrow> ('c world, 'a) io" where
  "outside f = (\<lambda>w. case f (cluster w) of (r, c) \<Rightarrow> (r, w\<lparr>cluster := c\<rparr>))"

lemma outside_run [io_simps]:
  "outside f w = (fst (f (cluster w)), w\<lparr>cluster := snd (f (cluster w))\<rparr>)"
  by (simp add: outside_def split: prod.split)

definition required :: "string \<Rightarrow> string \<Rightarrow> ('c world, string) io" where
  "required key setting =
     (if setting = [] then throwM (InternalServerError (key @ '' is not configured''))
      else returnM setting)"

fun isInternalServerError :: "exn \<Rightarrow> bool" where
  "isInternalServerError (HttpError status _) \<longleftrightarrow> status = 500"
| "isInternalServerError _ \<longleftrightarrow> False"

fun isUnauthorized :: "exn \<Rightarrow> bool" where
  "isUnauthorized (HttpError status _) \<longleftrightarrow> status = 401"
| "isUnauthorized _ \<longleftrightarrow> False"

text \<open>\<open>client()\<close>: the first promise is kept, whether it is fulfilled or rejected.\<close>

definition discoverClient :: "'c oidc_provider \<Rightarrow> auth_config \<Rightarrow> ('c world, oidc_metadata) io" where
  "discoverClient op cfg =
     catchM
       (bindM (required ''auth.issuer'' (ac_issuer cfg)) (\<lambda>address.
        bindM (outside (op_discover op address)) (\<lambda>issuer.
        thenM (required ''auth.clientId'' (ac_clientId cfg))
        (thenM (required ''auth.clientSecret'' (ac_clientSecret cfg))
        (thenM (required ''auth.callbackUrl'' (ac_callbackUrl cfg))
          (returnM issuer))))))
       (\<lambda>e. throwM (if isInternalServerError e then e else BadGateway ''Asgardeo discovery failed''))"

definition client :: "'c oidc_provider \<Rightarrow> auth_config \<Rightarrow> ('c world, oidc_metadata) io" where
  "client op cfg =
     bindM (readM oidcClient) (\<lambda>kept.
       case kept of
         Some promise \<Rightarrow> liftM promise
       | None \<Rightarrow>
           bindM (attemptM (discoverClient op cfg)) (\<lambda>promise.
             thenM (modifyM (\<lambda>w. w\<lparr>oidcClient := Some promise\<rparr>)) (liftM promise)))"

section \<open>Claims\<close>

fun stringClaim :: "json \<Rightarrow> string" where
  "stringClaim (JStr s) = s"
| "stringClaim _ = []"

definition optionalString :: "json \<Rightarrow> string option" where
  "optionalString v = (if stringClaim v = [] then None else Some (stringClaim v))"

text \<open>\<open>s.split(/[,\s]+/).filter(Boolean)\<close>.\<close>

definition commaWords :: "string \<Rightarrow> string list" where
  "commaWords s = wordsOf (map (\<lambda>c. if c = CHR '','' then CHR '' '' else c) s)"

fun stringArray :: "json \<Rightarrow> string list" where
  "stringArray (JArr xs) = List.map_filter asStr xs"
| "stringArray (JStr s) = commaWords s"
| "stringArray _ = []"

text \<open>\<open>[...new Set(xs)]\<close>: the first occurrences, in order.\<close>

definition firstOccurrences :: "'a list \<Rightarrow> 'a list" where
  "firstOccurrences xs = rev (remdups (rev xs))"

text \<open>\<open>s.match(/\/o\/([^/]+)/)?.[1]\<close>.\<close>

fun issuerOrganization :: "string \<Rightarrow> string option" where
  "issuerOrganization [] = None"
| "issuerOrganization (c # s) =
     (let organization = takeWhile (\<lambda>x. x \<noteq> CHR ''/'') (drop 2 s) in
      if startsWith (c # s) ''/o/'' \<and> organization \<noteq> [] then Some organization
      else issuerOrganization s)"

record verified_identity =
  vi_subject :: string
  vi_organizationId :: string
  vi_organizationName :: string
  vi_email :: "string option"
  vi_displayName :: "string option"
  vi_roles :: "string list"
  vi_scopes :: "string list"

text \<open>The scope of the response is a JSON value: \<open>undefined\<close> and \<open>null\<close> print as nothing.\<close>

definition identityFromClaims :: "claims \<Rightarrow> json \<Rightarrow> verified_identity" where
  "identityFromClaims cs responseScope =
     (let claim = member (JObj cs);
          organizationId = stringClaim (orElse (orElse (claim ''org_id'') (claim ''organization_id''))
            (claim ''organizationId''));
          resolvedOrganizationId =
            (if organizationId \<noteq> [] then organizationId
             else (case issuerOrganization (stringClaim (claim ''iss'')) of None \<Rightarrow> [] | Some o' \<Rightarrow> o'));
          name = stringClaim (orElse (claim ''org_name'') (claim ''organization_name''));
          scopeClaim = stringClaim (claim ''scope'');
          responded = stringOf (orElse responseScope (JStr []))
      in \<lparr> vi_subject = stringClaim (claim ''sub''),
           vi_organizationId = resolvedOrganizationId,
           vi_organizationName = (if name \<noteq> [] then name else resolvedOrganizationId),
           vi_email = optionalString (claim ''email''),
           vi_displayName =
             (case optionalString (claim ''name'') of
                Some n \<Rightarrow> Some n
              | None \<Rightarrow> optionalString (claim ''preferred_username'')),
           vi_roles = stringArray (claim ''roles''),
           vi_scopes = firstOccurrences (wordsOf (responded @ '' '' @ scopeClaim)) \<rparr>)"

section \<open>Operations of the OIDC service\<close>

record authorization_request =
  ar_url :: string
  ar_state :: string
  ar_nonce :: string
  ar_codeVerifier :: string

text \<open>\<open>config.get("auth.scopes") ?? ["openid"]\<close>: the loader always sets the list.\<close>

definition scopes :: "auth_config \<Rightarrow> string list" where
  "scopes cfg = ac_scopes cfg"

definition authorizationRequest ::
  "'c oidc_provider \<Rightarrow> auth_config \<Rightarrow> ('c world, authorization_request) io"
where
  "authorizationRequest op cfg =
     bindM (client op cfg) (\<lambda>issuer.
     bindM fresh (\<lambda>state.
     bindM fresh (\<lambda>nonce.
     bindM fresh (\<lambda>codeVerifier.
     bindM (required ''auth.callbackUrl'' (ac_callbackUrl cfg)) (\<lambda>callbackUrl.
       returnM
         \<lparr> ar_url = op_authorizationUrl op issuer
             [(''scope'', joinWith '' '' (scopes cfg)), (''redirect_uri'', callbackUrl),
              (''response_type'', ''code''), (''state'', state), (''nonce'', nonce),
              (''code_challenge'', op_codeChallenge op codeVerifier),
              (''code_challenge_method'', ''S256'')],
           ar_state = state, ar_nonce = nonce, ar_codeVerifier = codeVerifier \<rparr>)))))"

definition verifyAccessToken :: "'c oidc_provider \<Rightarrow> auth_config \<Rightarrow> string \<Rightarrow> ('c world, claims) io" where
  "verifyAccessToken op cfg token =
     bindM (client op cfg) (\<lambda>issuer.
       if \<not> truthy (om_jwksUri issuer)
       then throwM (InternalServerError ''OIDC JWKS endpoint is unavailable'')
       else
         catchM
           (bindM (if ac_audience cfg \<noteq> [] then returnM (ac_audience cfg)
                   else required ''auth.clientId'' (ac_clientId cfg)) (\<lambda>audience.
              outside (op_jwtVerify op token (the (om_jwksUri issuer)) audience)))
           (\<lambda>_. throwM (Unauthorized ''The access token is invalid'')))"

text \<open>\<open>!v\<close> is false.\<close>

fun truthyJson :: "json \<Rightarrow> bool" where
  "truthyJson JUndef = False"
| "truthyJson JNull = False"
| "truthyJson (JBool b) = b"
| "truthyJson (JNum n) = (n \<noteq> 0)"
| "truthyJson (JStr s) = (s \<noteq> [])"
| "truthyJson _ = True"

definition introspectAccessToken ::
  "'c oidc_provider \<Rightarrow> auth_config \<Rightarrow> string \<Rightarrow> ('c world, claims) io"
where
  "introspectAccessToken op cfg token =
     catchM
       (bindM (client op cfg) (\<lambda>issuer.
        bindM (outside (op_introspect op issuer token)) (\<lambda>result.
          if \<not> truthyJson (member (JObj result) ''active'')
          then throwM (Unauthorized ''The access token is inactive'')
          else returnM result)))
       (\<lambda>e. if isUnauthorized e then throwM e else throwM (Unauthorized ''The access token is invalid''))"

definition identityFromTokenSet ::
  "'c oidc_provider \<Rightarrow> auth_config \<Rightarrow> token_set \<Rightarrow> ('c world, verified_identity) io"
where
  "identityFromTokenSet op cfg ts =
     bindM
       (case ts_accessToken ts of
          Some token \<Rightarrow>
            (if CHR ''.'' \<in> set token then verifyAccessToken op cfg token else returnM [])
        | None \<Rightarrow> returnM [])
       (\<lambda>accessClaims.
          returnM (identityFromClaims (spread (ts_claims ts) accessClaims) (jsonOfOption (ts_scope ts))))"

definition completeCallback ::
  "'c oidc_provider \<Rightarrow> auth_config \<Rightarrow> json \<Rightarrow> callback_checks
   \<Rightarrow> ('c world, verified_identity \<times> token_set) io"
where
  "completeCallback op cfg params checks =
     bindM (client op cfg) (\<lambda>issuer.
     bindM
       (catchM
          (bindM (required ''auth.callbackUrl'' (ac_callbackUrl cfg)) (\<lambda>callbackUrl.
             outside (op_callback op issuer callbackUrl params checks)))
          (\<lambda>_. throwM (Unauthorized ''The OIDC callback could not be validated'')))
       (\<lambda>ts.
     bindM (identityFromTokenSet op cfg ts) (\<lambda>identity.
       returnM (identity, ts))))"

text \<open>The payload is read through these members; \<open>undefined\<close> has no \<open>includes\<close>.\<close>

definition switchClaims ::
  "'c oidc_provider \<Rightarrow> auth_config \<Rightarrow> json \<Rightarrow> ('c world, claims) io"
where
  "switchClaims op cfg payload =
     (case member payload ''access_token'' of
        JStr token \<Rightarrow>
          (if CHR ''.'' \<in> set token then verifyAccessToken op cfg token
           else introspectAccessToken op cfg token)
      | _ \<Rightarrow> throwM (JsError ''payload.access_token.includes is not a function''))"

definition switchRequest ::
  "(string \<Rightarrow> string) \<Rightarrow> auth_config \<Rightarrow> string \<Rightarrow> string \<Rightarrow> string \<Rightarrow> string \<Rightarrow> string \<Rightarrow> fetch_request"
where
  "switchRequest base64 cfg tokenEndpoint accessToken organizationId clientId clientSecret =
     \<lparr> fq_method = ''POST'', fq_url = tokenEndpoint,
       fq_headers =
         [(''authorization'', ''Basic '' @ base64 (clientId @ '':'' @ clientSecret)),
          (''content-type'', ''application/x-www-form-urlencoded'')],
       fq_body = jsonOfStrings
         [(''grant_type'', ''organization_switch''), (''token'', accessToken),
          (''switching_organization'', organizationId), (''scope'', joinWith '' '' (scopes cfg))] \<rparr>"

text \<open>\<open>a ||= b\<close>.\<close>

definition orAssign :: "string \<Rightarrow> string \<Rightarrow> string" where
  "orAssign a b = (if a = [] then b else a)"

definition oidcSwitchOrganization ::
  "'c oidc_provider \<Rightarrow> 'c fetch_api \<Rightarrow> (string \<Rightarrow> string) \<Rightarrow> auth_config \<Rightarrow> string \<Rightarrow> string \<Rightarrow> string
   \<Rightarrow> ('c world, json \<times> verified_identity) io"
where
  "oidcSwitchOrganization op fetch base64 cfg accessToken organizationId expectedSubject =
     bindM (client op cfg) (\<lambda>issuer.
       if \<not> truthy (om_tokenEndpoint issuer)
       then throwM (InternalServerError ''OIDC token endpoint is unavailable'')
       else
     bindM (required ''auth.clientId'' (ac_clientId cfg)) (\<lambda>clientId.
     bindM (required ''auth.clientSecret'' (ac_clientSecret cfg)) (\<lambda>clientSecret.
     bindM (callFetch fetch (switchRequest base64 cfg (the (om_tokenEndpoint issuer)) accessToken
         organizationId clientId clientSecret)) (\<lambda>response.
       if \<not> fr_ok response then throwM (Unauthorized ''Organization switch was rejected'')
       else
     bindM (liftM (fr_json response)) (\<lambda>payload.
     bindM (switchClaims op cfg payload) (\<lambda>cs.
       let claimed = identityFromClaims cs (member payload ''scope'');
           identity = claimed\<lparr>
             vi_subject := orAssign (vi_subject claimed) expectedSubject,
             vi_organizationId := orAssign (vi_organizationId claimed) organizationId,
             vi_organizationName := orAssign (vi_organizationName claimed) organizationId\<rparr>
       in if vi_subject identity \<noteq> expectedSubject \<or> vi_organizationId identity \<noteq> organizationId
          then throwM (Unauthorized ''The switched token identity does not match the request'')
          else returnM (payload, identity)))))))"

definition refreshTokens :: "'c oidc_provider \<Rightarrow> auth_config \<Rightarrow> string \<Rightarrow> ('c world, token_set) io" where
  "refreshTokens op cfg refreshToken =
     catchM
       (bindM (client op cfg) (\<lambda>issuer. outside (op_refresh op issuer refreshToken)))
       (\<lambda>_. throwM (Unauthorized ''The Asgardeo session could not be refreshed''))"

definition logoutUrl :: "'c oidc_provider \<Rightarrow> auth_config \<Rightarrow> string option \<Rightarrow> ('c world, string) io" where
  "logoutUrl op cfg idToken =
     bindM (client op cfg) (\<lambda>issuer.
     bindM (required ''auth.postLogoutUrl'' (ac_postLogoutUrl cfg)) (\<lambda>postLogoutUrl.
       liftM (op_endSessionUrl op issuer idToken postLogoutUrl)))"

definition revokeTokens ::
  "'c oidc_provider \<Rightarrow> auth_config \<Rightarrow> string option \<Rightarrow> string option \<Rightarrow> ('c world, unit) io"
where
  "revokeTokens op cfg accessToken refreshToken =
     bindM (client op cfg) (\<lambda>issuer.
       let requests =
         (if truthy refreshToken then [(the refreshToken, ''refresh_token'')] else [])
         @ (if truthy accessToken then [(the accessToken, ''access_token'')] else [])
       in forM requests (\<lambda>(token, hint). voidM (attemptM (outside (op_revoke op issuer token hint)))))"

section \<open>The workspace of an identity\<close>

text \<open>\<open>upsert\<close> by a unique key.\<close>

definition upsertRow ::
  "('c, 'r) table \<Rightarrow> ('r \<Rightarrow> bool) \<Rightarrow> ('c world, 'r) io \<Rightarrow> ('r \<Rightarrow> 'r) \<Rightarrow> ('c world, 'r) io"
where
  "upsertRow t p create f =
     bindM (findFirst t p) (\<lambda>found.
       case found of None \<Rightarrow> create | Some _ \<Rightarrow> updateRow t p f)"

definition namespaceFor :: "crypto_lib \<Rightarrow> string \<Rightarrow> string" where
  "namespaceFor lib workspaceId = ''rca-w-'' @ take 16 (sha256Hex lib workspaceId)"

text \<open>The workspace of the release before tenancy goes to the bootstrap organization.\<close>

definition adoptLegacyWorkspace :: "auth_config \<Rightarrow> verified_identity \<Rightarrow> ('c world, unit) io" where
  "adoptLegacyWorkspace cfg identity =
     whenM (ac_bootstrapOrganizationId cfg = vi_organizationId identity)
       (bindM (findFirst workspaceTable (\<lambda>x. ws_id x = ''legacy-workspace'')) (\<lambda>legacy.
          case legacy of
            None \<Rightarrow> returnM ()
          | Some l \<Rightarrow>
              whenM (ws_organizationId l = ''legacy-bootstrap-required'')
                (voidM (updateRow workspaceTable (\<lambda>x. ws_id x = ws_id l) (\<lambda>x. x\<lparr>
                   ws_organizationId := vi_organizationId identity,
                   ws_displayName := vi_organizationName identity\<rparr>)))))"

definition upsertWorkspace :: "crypto_lib \<Rightarrow> verified_identity \<Rightarrow> ('c world, workspace) io" where
  "upsertWorkspace lib identity =
     bindM fresh (\<lambda>newWorkspaceId.
       upsertRow workspaceTable (\<lambda>x. ws_organizationId x = vi_organizationId identity)
         (createRow workspaceTable (\<lambda>_.
            \<lparr> ws_id = newWorkspaceId, ws_organizationId = vi_organizationId identity,
              ws_displayName = vi_organizationName identity, ws_status = WorkspaceActive,
              ws_namespace = namespaceFor lib newWorkspaceId \<rparr>))
         (\<lambda>x. x\<lparr>ws_displayName := vi_organizationName identity\<rparr>))"

definition upsertUser :: "verified_identity \<Rightarrow> ('c world, identity_user) io" where
  "upsertUser identity =
     upsertRow userTable (\<lambda>u. u_subject u = vi_subject identity)
       (bindM fresh (\<lambda>i. createRow userTable (\<lambda>_.
          \<lparr> u_id = i, u_subject = vi_subject identity, u_email = vi_email identity,
            u_displayName = vi_displayName identity \<rparr>)))
       (\<lambda>u. u\<lparr>u_email := orKeep (vi_email identity) (u_email u),
              u_displayName := orKeep (vi_displayName identity) (u_displayName u)\<rparr>)"

definition upsertMembership ::
  "verified_identity \<Rightarrow> workspace \<Rightarrow> identity_user \<Rightarrow> ('c world, membership) io"
where
  "upsertMembership identity ws user =
     bindM now (\<lambda>seen.
       upsertRow membershipTable (\<lambda>m. m_workspaceId m = ws_id ws \<and> m_userId m = u_id user)
         (bindM now (\<lambda>t. createRow membershipTable (\<lambda>_.
            \<lparr> m_workspaceId = ws_id ws, m_userId = u_id user, m_roles = vi_roles identity,
              m_scopes = vi_scopes identity, m_lastSeenAt = t \<rparr>)))
         (\<lambda>m. m\<lparr>m_roles := vi_roles identity, m_scopes := vi_scopes identity, m_lastSeenAt := seen\<rparr>))"

definition resolveIdentity ::
  "crypto_lib \<Rightarrow> auth_config \<Rightarrow> verified_identity \<Rightarrow> ('c world, workspace \<times> identity_user) io"
where
  "resolveIdentity lib cfg identity =
     (if ac_rootOrganizationId cfg = []
      then throwM (InternalServerError ''ASGARDEO_ROOT_ORGANIZATION_ID must be configured'')
      else if vi_organizationId identity = ac_rootOrganizationId cfg
      then throwM (Forbidden ''Root organization users cannot use a customer workspace'')
      else if vi_organizationId identity = [] \<or> vi_subject identity = []
      then throwM (Unauthorized ''The organization-scoped identity is incomplete'')
      else
        transaction
          (thenM (adoptLegacyWorkspace cfg identity)
           (bindM (upsertWorkspace lib identity) (\<lambda>ws.
              if ws_status ws \<noteq> WorkspaceActive
              then throwM (Forbidden ''The workspace is not active'')
              else
                bindM (upsertUser identity) (\<lambda>user.
                thenM (upsertMembership identity ws user) (returnM (ws, user)))))))"

section \<open>Facts\<close>

lemma isUnauthorized_iff: "isUnauthorized e \<longleftrightarrow> (\<exists>m. e = Unauthorized m)"
  by (cases e) auto

lemma outside_frame: "outside f w = (r, w') \<Longrightarrow> \<exists>c. w' = w\<lparr>cluster := c\<rparr>"
  by (auto simp: outside_run)

text \<open>What the calls of the provider may change of the service's own state: the kept client.\<close>

definition onlyClient :: "'c world \<Rightarrow> 'c world \<Rightarrow> bool" where
  "onlyClient w w' \<longleftrightarrow>
     workspaces w' = workspaces w \<and> users w' = users w \<and> memberships w' = memberships w
     \<and> attempts w' = attempts w \<and> sessions w' = sessions w \<and> audits w' = audits w
     \<and> apps w' = apps w \<and> builds w' = builds w \<and> deployments w' = deployments w
     \<and> runtimeConfigs w' = runtimeConfigs w \<and> samples w' = samples w \<and> incidents w' = incidents w
     \<and> runs w' = runs w \<and> runEvents w' = runEvents w \<and> snapshots w' = snapshots w
     \<and> tenant w' = tenant w \<and> clock w' = clock w \<and> entropy w' = entropy w
     \<and> (oidcClient w \<noteq> None \<longrightarrow> oidcClient w' = oidcClient w)"

lemma preorder_onlyClient [simp]: "preorder_rel onlyClient"
  by (auto simp: preorder_rel_def onlyClient_def intro!: reflpI transpI)

lemma keeps_outside: "keeps onlyClient (outside f)"
  by (simp add: keeps_def outside_run onlyClient_def)

lemma keeps_required: "preorder_rel R \<Longrightarrow> keeps R (required k v)"
  by (simp add: required_def keeps_returnM keeps_throwM)

lemma onlyClient_fresh: "keeps onlyClient fresh" and onlyClient_now: "keeps onlyClient now"
  by (simp_all add: keeps_def fresh_run now_run onlyClient_def)

lemma onlyClient_callFetch: "keeps onlyClient (callFetch fetch rq)"
  by (auto simp: keeps_def callFetch_run onlyClient_def split: prod.split sum.split)

lemma keeps_discoverClient: "keeps onlyClient (discoverClient op cfg)"
  unfolding discoverClient_def
  by (intro keeps_catchM keeps_bindM keeps_thenM keeps_required keeps_outside keeps_returnM
      keeps_throwM preorder_onlyClient)

lemma keeps_client: "keeps onlyClient (client op cfg)"
proof (rule keepsI)
  fix w
  show "onlyClient w (snd (client op cfg w))"
  proof (cases "oidcClient w")
    case None
    from keepsD [OF keeps_discoverClient, of w op cfg] None show ?thesis
      by (auto simp: client_def bindM_run thenM_run attemptM_run onlyClient_def)
  qed (simp add: client_def bindM_run onlyClient_def)
qed

lemmas provider_keeps =
  keeps_client keeps_outside keeps_required onlyClient_fresh onlyClient_now onlyClient_callFetch

lemma keeps_provider:
  "keeps onlyClient (authorizationRequest op cfg)"
  "keeps onlyClient (verifyAccessToken op cfg tok)"
  "keeps onlyClient (introspectAccessToken op cfg tok)"
  "keeps onlyClient (refreshTokens op cfg tok)"
  "keeps onlyClient (logoutUrl op cfg i)"
  unfolding authorizationRequest_def verifyAccessToken_def introspectAccessToken_def
    refreshTokens_def logoutUrl_def
  by (intro keeps_catchM keeps_bindM keeps_if keeps_throwM keeps_returnM keeps_liftM provider_keeps
      preorder_onlyClient)+

lemma keeps_revokeTokens: "keeps onlyClient (revokeTokens op cfg a r)"
  unfolding revokeTokens_def Let_def
  by (intro keeps_bindM keeps_forM keeps_prod keeps_voidM keeps_attemptM provider_keeps
      preorder_onlyClient)

lemma keeps_identityFromTokenSet: "keeps onlyClient (identityFromTokenSet op cfg ts)"
  unfolding identityFromTokenSet_def
  by (intro keeps_bindM keeps_option keeps_if keeps_returnM keeps_provider preorder_onlyClient)

lemma keeps_completeCallback: "keeps onlyClient (completeCallback op cfg params checks)"
  unfolding completeCallback_def
  by (intro keeps_bindM keeps_catchM keeps_throwM keeps_returnM keeps_identityFromTokenSet
      provider_keeps preorder_onlyClient)

lemma keeps_switchClaims: "keeps onlyClient (switchClaims op cfg payload)"
  unfolding switchClaims_def
  by (cases "member payload ''access_token''") (simp_all add: keeps_throwM keeps_provider)

lemma keeps_oidcSwitchOrganization:
  "keeps onlyClient (oidcSwitchOrganization op fetch base64 cfg tok org sub)"
  unfolding oidcSwitchOrganization_def Let_def
  by (intro keeps_bindM keeps_if keeps_throwM keeps_returnM keeps_liftM keeps_switchClaims
      provider_keeps preorder_onlyClient)

lemma updateRow_Inr:
  assumes "updateRow t p f w = (Inr r, w')"
  shows "\<exists>old. find (\<lambda>r. visible t w r \<and> p r) (rowsOf t w) = Some old \<and> r = f old
    \<and> w' = setRows t (map (\<lambda>r'. if visible t w r' \<and> p r' then f r' else r') (rowsOf t w)) w"
  using assms by (auto simp: updateRow_def split: option.splits if_splits)

lemma createRow_global:
  assumes "createRow t mk w = (Inr r, w')" and "\<not> tenantModel t"
  shows "r = mk [] \<and> w' = setRows t (rowsOf t w @ [r]) w"
  using assms by (auto simp: createRow_def Let_def split: if_splits)

lemma upsertRow_E:
  assumes "upsertRow t p create f w = (Inr r, w')"
  obtains (updated) old where "find (\<lambda>r. visible t w r \<and> p r) (rowsOf t w) = Some old" "r = f old"
      "w' = setRows t (map (\<lambda>r'. if visible t w r' \<and> p r' then f r' else r') (rowsOf t w)) w"
  | (created) "find (\<lambda>r. visible t w r \<and> p r) (rowsOf t w) = None" "create w = (Inr r, w')"
  using assms updateRow_Inr [of t p f w r w']
  by (auto simp: upsertRow_def findFirst_def bindM_run split: option.splits)

lemma global_fields:
  "visible workspaceTable w x" "visible userTable w u" "visible membershipTable w m"
  "rowsOf workspaceTable = workspaces" "rowsOf userTable = users" "rowsOf membershipTable = memberships"
  "setRows workspaceTable = (\<lambda>rs w. w\<lparr>workspaces := rs\<rparr>)" "setRows userTable = (\<lambda>rs w. w\<lparr>users := rs\<rparr>)"
  "setRows membershipTable = (\<lambda>rs w. w\<lparr>memberships := rs\<rparr>)"
  "\<not> tenantModel workspaceTable" "\<not> tenantModel userTable" "\<not> tenantModel membershipTable"
  by (simp_all add: table_defs visible_def)

lemma find_mem: "find p xs = Some x \<Longrightarrow> x \<in> set xs \<and> p x"
  by (auto simp: find_Some_iff)

lemma filter_map_other:
  "(\<And>x. p x \<Longrightarrow> \<not> q x \<and> \<not> q (f x)) \<Longrightarrow> filter q (map (\<lambda>x. if p x then f x else x) xs) = filter q xs"
  by (induction xs) auto

lemma adoptLegacyWorkspace_stored:
  assumes "adoptLegacyWorkspace cfg identity w = (Inr v, w')"
  shows "(\<exists>rs. w' = w\<lparr>workspaces := rs\<rparr>)
    \<and> filter (\<lambda>x. ws_organizationId x \<noteq> vi_organizationId identity \<and> ws_id x \<noteq> ''legacy-workspace'') (workspaces w')
      = filter (\<lambda>x. ws_organizationId x \<noteq> vi_organizationId identity \<and> ws_id x \<noteq> ''legacy-workspace'') (workspaces w)
    \<and> (ac_bootstrapOrganizationId cfg \<noteq> vi_organizationId identity \<longrightarrow> w' = w)"
proof (cases "find (\<lambda>x. ws_id x = ''legacy-workspace'') (workspaces w)")
  case None
  then show ?thesis
    using assms
    by (auto simp: adoptLegacyWorkspace_def whenM_run findFirst_def bindM_run global_fields
        intro!: exI [of _ "workspaces w"] split: if_splits)
next
  case (Some l)
  then have id: "ws_id l = ''legacy-workspace''" by (auto dest: find_mem)
  show ?thesis
  proof (cases "ac_bootstrapOrganizationId cfg = vi_organizationId identity
      \<and> ws_organizationId l = ''legacy-bootstrap-required''")
    case True
    let ?set = "\<lambda>x. x\<lparr>ws_organizationId := vi_organizationId identity,
        ws_displayName := vi_organizationName identity\<rparr>"
    obtain r where "updateRow workspaceTable (\<lambda>x. ws_id x = ''legacy-workspace'') ?set w = (Inr r, w')"
      using assms Some True id
      by (auto simp: adoptLegacyWorkspace_def whenM_run findFirst_def bindM_run voidM_run global_fields
          split: prod.splits sum.splits)
    from updateRow_Inr [OF this] obtain rs where "w' = w\<lparr>workspaces := rs\<rparr>"
      "rs = map (\<lambda>x. if ws_id x = ''legacy-workspace'' then ?set x else x) (workspaces w)"
      by (auto simp: global_fields)
    then show ?thesis
      using True by (auto intro!: filter_map_other)
  next
    case False
    then have "w' = w"
      using assms Some
      by (auto simp: adoptLegacyWorkspace_def whenM_run findFirst_def bindM_run global_fields split: if_splits)
    then show ?thesis by (auto intro!: exI [of _ "workspaces w"])
  qed
qed

lemma upsertWorkspace_stored:
  assumes "upsertWorkspace lib identity w = (Inr ws, w')"
  shows "ws \<in> set (workspaces w') \<and> ws_organizationId ws = vi_organizationId identity
    \<and> (\<exists>rs. w' = w\<lparr>drawn := Suc (drawn w), workspaces := rs\<rparr>)
    \<and> filter (\<lambda>x. ws_organizationId x \<noteq> vi_organizationId identity) (workspaces w')
      = filter (\<lambda>x. ws_organizationId x \<noteq> vi_organizationId identity) (workspaces w)"
proof -
  let ?p = "\<lambda>x. ws_organizationId x = vi_organizationId identity"
  from assms obtain v where v: "v = w\<lparr>drawn := Suc (drawn w)\<rparr>"
    and up: "upsertRow workspaceTable ?p (createRow workspaceTable (\<lambda>_.
            \<lparr> ws_id = entropy w (drawn w), ws_organizationId = vi_organizationId identity,
              ws_displayName = vi_organizationName identity, ws_status = WorkspaceActive,
              ws_namespace = namespaceFor lib (entropy w (drawn w)) \<rparr>))
         (\<lambda>x. x\<lparr>ws_displayName := vi_organizationName identity\<rparr>) v = (Inr ws, w')"
    by (auto simp: upsertWorkspace_def bindM_run fresh_run)
  from up show ?thesis
  proof (cases rule: upsertRow_E)
    case (updated old)
    then have "old \<in> set (workspaces w)" "?p old" using v by (auto simp: global_fields dest: find_mem)
    then show ?thesis
      using updated v by (auto simp: global_fields intro!: filter_map_other)
  next
    case created
    then show ?thesis using v createRow_global [OF created(2)] by (auto simp: global_fields)
  qed
qed

lemma upsertUser_stored:
  assumes "upsertUser identity w = (Inr u, w')"
  shows "u \<in> set (users w') \<and> u_subject u = vi_subject identity
    \<and> (\<exists>rs n. w' = w\<lparr>drawn := n, users := rs\<rparr>)
    \<and> filter (\<lambda>x. u_subject x \<noteq> vi_subject identity) (users w')
      = filter (\<lambda>x. u_subject x \<noteq> vi_subject identity) (users w)"
  using assms [unfolded upsertUser_def]
proof (cases rule: upsertRow_E)
  case (updated old)
  then have "old \<in> set (users w)" "u_subject old = vi_subject identity"
    by (auto simp: global_fields dest: find_mem)
  moreover have "\<exists>rs n. w\<lparr>users := xs\<rparr> = w\<lparr>drawn := n, users := rs\<rparr>" for xs
    by (intro exI [of _ xs] exI [of _ "drawn w"]) simp
  ultimately show ?thesis
    using updated by (auto simp: global_fields intro!: filter_map_other)
next
  case created
  then have run: "createRow userTable (\<lambda>_.
      \<lparr> u_id = entropy w (drawn w), u_subject = vi_subject identity, u_email = vi_email identity,
        u_displayName = vi_displayName identity \<rparr>) (w\<lparr>drawn := Suc (drawn w)\<rparr>) = (Inr u, w')"
    by (simp add: bindM_run fresh_run)
  from createRow_global [OF run] show ?thesis by (auto simp: global_fields)
qed

lemma upsertMembership_stored:
  assumes "upsertMembership identity ws user w = (Inr m, w')"
  shows "m \<in> set (memberships w') \<and> m_workspaceId m = ws_id ws \<and> m_userId m = u_id user
    \<and> m_roles m = vi_roles identity \<and> m_scopes m = vi_scopes identity
    \<and> (\<exists>rs n. w' = w\<lparr>ticks := n, memberships := rs\<rparr>)
    \<and> filter (\<lambda>x. \<not> (m_workspaceId x = ws_id ws \<and> m_userId x = u_id user)) (memberships w')
      = filter (\<lambda>x. \<not> (m_workspaceId x = ws_id ws \<and> m_userId x = u_id user)) (memberships w)"
proof -
  let ?v = "w\<lparr>ticks := Suc (ticks w)\<rparr>"
  let ?p = "\<lambda>m. m_workspaceId m = ws_id ws \<and> m_userId m = u_id user"
  let ?f = "\<lambda>m. m\<lparr>m_roles := vi_roles identity, m_scopes := vi_scopes identity, m_lastSeenAt := clock w (ticks w)\<rparr>"
  have "upsertRow membershipTable ?p (bindM now (\<lambda>t. createRow membershipTable (\<lambda>_.
            \<lparr> m_workspaceId = ws_id ws, m_userId = u_id user, m_roles = vi_roles identity,
              m_scopes = vi_scopes identity, m_lastSeenAt = t \<rparr>))) ?f ?v = (Inr m, w')"
    using assms by (simp add: upsertMembership_def bindM_run now_run)
  then show ?thesis
  proof (cases rule: upsertRow_E)
    case (updated old)
    then have "old \<in> set (memberships w)" "?p old" by (auto simp: global_fields dest: find_mem)
    moreover have "\<exists>rs n. ?v\<lparr>memberships := xs\<rparr> = w\<lparr>ticks := n, memberships := rs\<rparr>" for xs
      by (intro exI [of _ xs] exI [of _ "Suc (ticks w)"]) simp
    ultimately show ?thesis
      using updated by (auto simp: global_fields intro!: filter_map_other)
  next
    case created
    then have run: "createRow membershipTable (\<lambda>_.
            \<lparr> m_workspaceId = ws_id ws, m_userId = u_id user, m_roles = vi_roles identity,
              m_scopes = vi_scopes identity, m_lastSeenAt = clock w (Suc (ticks w)) \<rparr>)
        (?v\<lparr>ticks := Suc (Suc (ticks w))\<rparr>) = (Inr m, w')"
      by (simp add: bindM_run now_run)
    from createRow_global [OF run] show ?thesis by (auto simp: global_fields)
  qed
qed

lemma resolveIdentity_E:
  assumes "resolveIdentity lib cfg identity w = (Inr (ws, u), w')"
  obtains v1 w1 w2 w3 m where
    "vi_organizationId identity \<notin> {[], ac_rootOrganizationId cfg}"
    "adoptLegacyWorkspace cfg identity w = (Inr v1, w1)"
    "upsertWorkspace lib identity w1 = (Inr ws, w2)" "ws_status ws = WorkspaceActive"
    "upsertUser identity w2 = (Inr u, w3)" "upsertMembership identity ws u w3 = (Inr m, w')"
  using assms
  by (auto simp: resolveIdentity_def transaction_run bindM_run thenM_run
      split: if_splits prod.splits sum.splits)

lemma resolveIdentity_result:
  assumes "resolveIdentity lib cfg identity w = (Inr (ws, u), w')"
  shows "vi_organizationId identity \<notin> {[], ac_rootOrganizationId cfg}
    \<and> ws \<in> set (workspaces w') \<and> ws_organizationId ws = vi_organizationId identity
    \<and> ws_status ws = WorkspaceActive \<and> u \<in> set (users w') \<and> u_subject u = vi_subject identity
    \<and> sessions w' = sessions w \<and> attempts w' = attempts w \<and> audits w' = audits w"
  using assms
proof (rule resolveIdentity_E)
  fix v1 w1 w2 w3 m
  assume org: "vi_organizationId identity \<notin> {[], ac_rootOrganizationId cfg}"
    and run: "adoptLegacyWorkspace cfg identity w = (Inr v1, w1)"
    "upsertWorkspace lib identity w1 = (Inr ws, w2)"
    and active: "ws_status ws = WorkspaceActive"
    and run': "upsertUser identity w2 = (Inr u, w3)" "upsertMembership identity ws u w3 = (Inr m, w')"
  show ?thesis
    using org active adoptLegacyWorkspace_stored [OF run(1)] upsertWorkspace_stored [OF run(2)]
      upsertUser_stored [OF run'(1)] upsertMembership_stored [OF run'(2)]
    by auto
qed

section \<open>Properties\<close>


text \<open>
  The workspace of the bootstrap organization: when that organization already has a workspace of
  its own while the workspace from before tenancy still waits for it, the adoption breaks the unique
  index on the organization, so every login of the organization fails and changes nothing.
\<close>

theorem bootstrap_conflict_blocks_login:
  assumes "ac_bootstrapOrganizationId cfg = vi_organizationId identity"
    and "vi_organizationId identity \<notin> {[], ac_rootOrganizationId cfg}"
    and "ac_rootOrganizationId cfg \<noteq> []" and "vi_subject identity \<noteq> []"
    and "find (\<lambda>x. ws_id x = ''legacy-workspace'') (workspaces w) = Some legacy"
    and "ws_organizationId legacy = ''legacy-bootstrap-required''"
    and "own \<in> set (workspaces w)" "ws_id own \<noteq> ''legacy-workspace''"
    and "ws_organizationId own = vi_organizationId identity"
  shows "resolveIdentity lib cfg identity w = (Inl (PrismaError ''P2002''), w)"
proof -
  have id: "ws_id legacy = ''legacy-workspace''" using assms(5) by (auto dest: find_mem)
  have "list_ex (\<lambda>r. ws_id r \<noteq> ''legacy-workspace''
      \<and> uniqueClash workspaceTable r (legacy\<lparr>ws_organizationId := vi_organizationId identity,
          ws_displayName := vi_organizationName identity\<rparr>)) (workspaces w)"
    using assms(7-9) by (auto simp: list_ex_iff workspaceTable_def intro!: bexI [of _ own])
  then have "adoptLegacyWorkspace cfg identity w = (Inl (PrismaError ''P2002''), w)"
    using assms(1,5,6) id
    by (simp add: adoptLegacyWorkspace_def whenM_run findFirst_def bindM_run voidM_run updateRow_def
        global_fields)
  then show ?thesis
    using assms(2-4) by (simp add: resolveIdentity_def transaction_run thenM_run restoreTables_def)
qed

text \<open>
  A failed discovery is final: after the first attempt to reach the identity provider failed,
  every later login, callback and logout fails with the same error without reaching the provider
  again, whatever the provider and the configuration have become, and every refresh is refused.
\<close>

theorem failed_discovery_is_final:
  assumes "client op cfg w = (Inl e, w1)" and "oidcClient later = oidcClient w1"
  shows "authorizationRequest op' cfg' later = (Inl e, later)
    \<and> completeCallback op' cfg' params checks later = (Inl e, later)
    \<and> logoutUrl op' cfg' idToken later = (Inl e, later)
    \<and> refreshTokens op' cfg' token later
        = (Inl (Unauthorized ''The Asgardeo session could not be refreshed''), later)"
proof -
  have "oidcClient w1 = Some (Inl e)"
    using assms(1) by (auto simp: client_def bindM_run thenM_run attemptM_run split: option.splits)
  then have "client op' cfg' later = (Inl e, later)"
    using assms(2) by (simp add: client_def bindM_run)
  then show ?thesis
    by (simp add: authorizationRequest_def completeCallback_def logoutUrl_def refreshTokens_def
        bindM_run catchM_run)
qed

text \<open>
  Switching the organization keeps the person: the identity it gives has the subject of the
  session and the organization that was asked for, its roles and scopes come from claims the
  provider vouched for in this call, and those claims name no other subject and no other
  organization. Nothing of the service's own state changes but the kept client.
\<close>

theorem switch_identity_matches:
  assumes "oidcSwitchOrganization op fetch base64 cfg tok organizationId subject w = (Inr (payload, identity), w')"
  shows "vi_subject identity = subject \<and> vi_organizationId identity = organizationId
    \<and> (\<exists>cs v v'. switchClaims op cfg payload v = (Inr cs, v')
         \<and> vi_roles identity = vi_roles (identityFromClaims cs (member payload ''scope''))
         \<and> vi_scopes identity = vi_scopes (identityFromClaims cs (member payload ''scope''))
         \<and> vi_subject (identityFromClaims cs (member payload ''scope'')) \<in> {[], subject}
         \<and> vi_organizationId (identityFromClaims cs (member payload ''scope'')) \<in> {[], organizationId})
    \<and> onlyClient w w'"
proof -
  have "onlyClient w w'"
    using keepsD [OF keeps_oidcSwitchOrganization, of w op fetch base64 cfg tok organizationId subject] assms
    by simp
  moreover obtain cs v where "switchClaims op cfg payload v = (Inr cs, w')"
    and id: "identity = (identityFromClaims cs (member payload ''scope''))\<lparr>
      vi_subject := orAssign (vi_subject (identityFromClaims cs (member payload ''scope''))) subject,
      vi_organizationId := orAssign (vi_organizationId (identityFromClaims cs (member payload ''scope''))) organizationId,
      vi_organizationName := orAssign (vi_organizationName (identityFromClaims cs (member payload ''scope''))) organizationId\<rparr>"
    and ok: "vi_subject identity = subject" "vi_organizationId identity = organizationId"
    using assms
    by (auto simp: oidcSwitchOrganization_def Let_def bindM_Inr_iff split: if_splits)
  ultimately show ?thesis
    by (intro conjI ok exI [of _ cs] exI [of _ v] exI [of _ w'])
       (use id ok in \<open>auto simp: orAssign_def split: if_splits\<close>)
qed

section \<open>Witnesses\<close>

definition sampleIdentity :: verified_identity where
  "sampleIdentity =
     \<lparr> vi_subject = ''sub'', vi_organizationId = ''org'', vi_organizationName = ''Org'',
       vi_email = None, vi_displayName = None, vi_roles = [''Viewer''], vi_scopes = [''apps:read''] \<rparr>"

text \<open>A provider that is down for discovery when the outside world is 0, and answers otherwise.\<close>

definition toyProvider :: "nat oidc_provider" where
  "toyProvider =
     \<lparr> op_discover = (\<lambda>_ c. (if c = 0 then Inl (JsError ''down'')
         else Inr \<lparr>om_tokenEndpoint = Some ''https://idp/token'', om_jwksUri = Some ''https://idp/jwks''\<rparr>, c)),
       op_codeChallenge = (\<lambda>v. v), op_authorizationUrl = (\<lambda>_ _. ''https://idp/authorize''),
       op_callback = (\<lambda>_ _ _ _ c. (Inl (JsError ''no''), c)), op_refresh = (\<lambda>_ _ c. (Inl (JsError ''no''), c)),
       op_endSessionUrl = (\<lambda>_ _ _. Inr ''https://idp/logout''), op_revoke = (\<lambda>_ _ _ c. (Inr (), c)),
       op_introspect = (\<lambda>_ _ c. (Inr [(''active'', JBool True), (''sub'', JStr ''sub'')], c)),
       op_jwtVerify = (\<lambda>_ _ _ c. (Inl (JsError ''no''), c)) \<rparr>"

definition idpConfig :: auth_config where
  "idpConfig = defaultAuthConfig\<lparr>ac_issuer := ''https://idp'', ac_clientId := ''id'',
     ac_clientSecret := ''secret'', ac_bootstrapOrganizationId := ''org''\<rparr>"


theorem bootstrap_conflict_blocks_login_witness:
  "fst (resolveIdentity toyCrypto idpConfig sampleIdentity ((emptyWorld ())\<lparr>workspaces :=
     [\<lparr> ws_id = ''legacy-workspace'', ws_organizationId = ''legacy-bootstrap-required'',
        ws_displayName = [], ws_status = WorkspaceActive, ws_namespace = ''a'' \<rparr>,
      \<lparr> ws_id = ''w1'', ws_organizationId = ''org'', ws_displayName = [],
        ws_status = WorkspaceActive, ws_namespace = ''b'' \<rparr>]\<rparr>)) = Inl (PrismaError ''P2002'')"
  by (subst bootstrap_conflict_blocks_login [where
      own = "\<lparr> ws_id = ''w1'', ws_organizationId = ''org'', ws_displayName = [],
        ws_status = WorkspaceActive, ws_namespace = ''b'' \<rparr>" and
      legacy = "\<lparr> ws_id = ''legacy-workspace'', ws_organizationId = ''legacy-bootstrap-required'',
        ws_displayName = [], ws_status = WorkspaceActive, ws_namespace = ''a'' \<rparr>"])
    (simp_all add: idpConfig_def defaultAuthConfig_def sampleIdentity_def)

theorem failed_discovery_is_final_witness:
  "\<exists>w1. client toyProvider idpConfig (emptyWorld 0) = (Inl (BadGateway ''Asgardeo discovery failed''), w1)
     \<and> fst (authorizationRequest toyProvider idpConfig (w1\<lparr>cluster := 1\<rparr>))
         = Inl (BadGateway ''Asgardeo discovery failed'')"
proof -
  have "\<exists>w1. client toyProvider idpConfig (emptyWorld 0) = (Inl (BadGateway ''Asgardeo discovery failed''), w1)"
    by (simp add: client_def discoverClient_def required_def idpConfig_def defaultAuthConfig_def
        toyProvider_def bindM_run thenM_run catchM_run attemptM_run outside_run emptyWorld_def)
  then obtain w1 where run: "client toyProvider idpConfig (emptyWorld 0)
      = (Inl (BadGateway ''Asgardeo discovery failed''), w1)" by blast
  then show ?thesis using failed_discovery_is_final [OF run, of "w1\<lparr>cluster := 1\<rparr>"] by simp
qed

theorem switch_identity_matches_witness:
  "\<exists>payload identity w'. oidcSwitchOrganization toyProvider
       (\<lambda>_ c. (Inr \<lparr> fr_status = 200, fr_statusText = ''OK'', fr_text = Inr [],
                     fr_json = Inr (JObj [(''access_token'', JStr ''opaque'')]) \<rparr>, c)) (\<lambda>s. s)
       idpConfig ''tok'' ''org'' ''sub'' (emptyWorld 1) = (Inr (payload, identity), w')
     \<and> vi_organizationId identity = ''org''"
proof -
  have "\<exists>payload identity w'. oidcSwitchOrganization toyProvider
       (\<lambda>_ c. (Inr \<lparr> fr_status = 200, fr_statusText = ''OK'', fr_text = Inr [],
                     fr_json = Inr (JObj [(''access_token'', JStr ''opaque'')]) \<rparr>, c)) (\<lambda>s. s)
       idpConfig ''tok'' ''org'' ''sub'' (emptyWorld 1) = (Inr (payload, identity), w')"
    by (simp add: oidcSwitchOrganization_def client_def discoverClient_def required_def idpConfig_def
        defaultAuthConfig_def toyProvider_def bindM_run thenM_run catchM_run attemptM_run outside_run
        emptyWorld_def callFetch_run fr_ok_def switchClaims_def introspectAccessToken_def
        truthy_def Let_def identityFromClaims_def orAssign_def)
  then obtain payload identity w' where run: "oidcSwitchOrganization toyProvider
       (\<lambda>_ c. (Inr \<lparr> fr_status = 200, fr_statusText = ''OK'', fr_text = Inr [],
                     fr_json = Inr (JObj [(''access_token'', JStr ''opaque'')]) \<rparr>, c)) (\<lambda>s. s)
       idpConfig ''tok'' ''org'' ''sub'' (emptyWorld 1) = (Inr (payload, identity), w')" by blast
  from switch_identity_matches [OF run] run show ?thesis by blast
qed

end
