(* ===== verification/AuthFlow.thy ===== *)
theory AuthFlow
  imports Identity Url
begin

text \<open>
  auth/auth.service.ts and auth/auth.controller.ts: login, logout and the switch of organization,
  with the cookies and redirects of their answers. What the services need from outside is one record.
\<close>

record 'c auth_deps =
  oidc :: "'c oidc_provider"
  web :: "'c fetch_api"
  base64 :: "string \<Rightarrow> string"
  crypto :: crypto_lib
  settings :: auth_config

section \<open>Return addresses\<close>

definition safeReturnTo :: "string option \<Rightarrow> exn + string option" where
  "safeReturnTo returnTo =
     (if \<not> truthy returnTo then Inr None
      else if \<not> startsWith (the returnTo) ''/'' \<or> startsWith (the returnTo) ''//''
      then Inl (BadRequest ''returnTo must be a relative application path'')
      else Inr returnTo)"

definition redirectUrl :: "auth_config \<Rightarrow> string option \<Rightarrow> exn + string" where
  "redirectUrl cfg returnTo =
     (let configured = ac_uiUrl cfg in
      if \<not> truthy returnTo then Inr configured
      else
        (case parseUrl configured of
           Inl e \<Rightarrow> Inl e
         | Inr base \<Rightarrow>
             (case resolveRooted (the returnTo) base of
                Inl e \<Rightarrow> Inl e
              | Inr u \<Rightarrow> Inr (urlString u))))"

section \<open>Audit\<close>

definition audit :: "string \<Rightarrow> string \<Rightarrow> string \<Rightarrow> string \<Rightarrow> ('c world, unit) io" where
  "audit actorUserId workspaceId action outcome =
     voidM (createRow auditTable (\<lambda>_.
       \<lparr> ae_actorUserId = Some actorUserId, ae_workspaceId = Some workspaceId, ae_action = action,
         ae_resourceType = None, ae_resourceId = None, ae_outcome = outcome, ae_metadata = JUndef \<rparr>))"

definition recordFailedLogin :: "('c world, unit) io" where
  "recordFailedLogin =
     catchM
       (voidM (createRow auditTable (\<lambda>_.
          \<lparr> ae_actorUserId = None, ae_workspaceId = None, ae_action = ''auth.login'',
            ae_resourceType = None, ae_resourceId = None, ae_outcome = ''failure'',
            ae_metadata = JUndef \<rparr>)))
       (\<lambda>_. returnM ())"

section \<open>Login\<close>

definition beginLogin :: "'c auth_deps \<Rightarrow> string option \<Rightarrow> ('c world, string) io" where
  "beginLogin deps returnTo =
     bindM (liftM (safeReturnTo returnTo)) (\<lambda>safe.
     bindM (authorizationRequest (oidc deps) (settings deps)) (\<lambda>request.
     thenM (createLoginAttempt (crypto deps) (settings deps) (ar_state request) (ar_nonce request)
              (ar_codeVerifier request) safe)
       (returnM (ar_url request))))"

text \<open>\<open>seconds ? new Date(seconds * 1000) : undefined\<close>.\<close>

definition expiryDate :: "int option \<Rightarrow> instant option" where
  "expiryDate seconds =
     (case seconds of None \<Rightarrow> None | Some s \<Rightarrow> (if s = 0 then None else Some (s * 1000)))"

record login_result =
  lr_sessionToken :: string
  lr_csrfToken :: string
  lr_redirectUrl :: string

definition completeLogin :: "'c auth_deps \<Rightarrow> json \<Rightarrow> ('c world, login_result) io" where
  "completeLogin deps query =
     (let state = stringClaim (member query ''state'') in
      if state = [] then throwM (BadRequest ''OIDC state is missing'')
      else
     bindM (consumeLoginAttempt (crypto deps) (settings deps) state) (\<lambda>consumed.
       case consumed of
         None \<Rightarrow> throwM (Unauthorized ''The login attempt is invalid or expired'')
       | Some attempt \<Rightarrow>
     bindM (completeCallback (oidc deps) (settings deps) query
         \<lparr> cc_state = state, cc_nonce = co_nonce attempt, cc_codeVerifier = co_codeVerifier attempt \<rparr>)
       (\<lambda>(identity, ts).
     bindM (resolveIdentity (crypto deps) (settings deps) identity) (\<lambda>(ws, user).
     bindM (createSession (crypto deps) (settings deps)
         \<lparr> si_userId = u_id user, si_workspaceId = ws_id ws,
           si_organizationId = vi_organizationId identity, si_roles = vi_roles identity,
           si_scopes = vi_scopes identity, si_accessToken = ts_accessToken ts,
           si_refreshToken = ts_refreshToken ts, si_idToken = ts_idToken ts,
           si_accessTokenExpiresAt = expiryDate (ts_expiresAt ts), si_replaceSessionIdHash = None \<rparr>)
       (\<lambda>(sessionToken, csrfToken).
     thenM (audit (u_id user) (ws_id ws) ''auth.login'' ''success'')
     (bindM (liftM (redirectUrl (settings deps) (co_returnTo attempt))) (\<lambda>address.
       returnM \<lparr> lr_sessionToken = sessionToken, lr_csrfToken = csrfToken,
                 lr_redirectUrl = address \<rparr>)))))))"

section \<open>The session's own requests\<close>

definition me :: "principal \<Rightarrow> ('c world, json) io" where
  "me p =
     bindM (findFirst userTable (\<lambda>u. u_id u = p_userId p)) (\<lambda>found.
       case found of
         None \<Rightarrow> throwM (PrismaError ''P2025'')
       | Some user \<Rightarrow>
           returnM (JObj
             [(''user'', JObj [(''id'', JStr (u_id user)), (''subject'', JStr (u_subject user)),
                (''email'', nullable JStr (u_email user)),
                (''displayName'', nullable JStr (u_displayName user))]),
              (''workspace'', JObj [(''id'', JStr (p_workspaceId p)),
                (''organizationId'', JStr (p_organizationId p))]),
              (''roles'', JArr (map JStr (p_roles p))),
              (''permissions'', JArr (map JStr (p_scopes p))),
              (''csrfToken'', JStr (p_csrfToken p))]))"

definition countRows :: "('c, 'r) table \<Rightarrow> ('r \<Rightarrow> bool) \<Rightarrow> ('c world, int) io" where
  "countRows t p = bindM (findMany t p) (\<lambda>rs. returnM (int (length rs)))"

text \<open>\<open>groupBy({ by: ["outcome"], _count: true })\<close>.\<close>

definition outcomeCounts :: "audit_event list \<Rightarrow> json entries" where
  "outcomeCounts rows =
     map (\<lambda>outcome. (outcome, JNum (int (length (filter (\<lambda>a. ae_outcome a = outcome) rows)))))
       (firstOccurrences (map ae_outcome rows))"

text \<open>
  The seven queries of \<open>Promise.all\<close>. Audit rows are kept in the order of their creation, so the
  latest one is the last.
\<close>

definition metrics :: "principal \<Rightarrow> ('c world, json) io" where
  "metrics p =
     bindM now (\<lambda>t.
     bindM now (\<lambda>t'.
     let stuckBefore = t' - 30 * 60000 in
     bindM (countRows sessionTable (\<lambda>s. s_workspaceId s = p_workspaceId p
         \<and> t < s_idleExpiresAt s \<and> t < s_absoluteExpiresAt s)) (\<lambda>activeSessions.
     bindM (countRows auditTable (\<lambda>a. ae_action a = ''auth.login'' \<and> ae_outcome a = ''failure'')) (\<lambda>failedLogins.
     bindM (countRows auditTable (\<lambda>a. ae_workspaceId a = Some (p_workspaceId p)
         \<and> ae_outcome a = ''forbidden'')) (\<lambda>forbiddenActions.
     bindM (findMany auditTable (\<lambda>a. ae_workspaceId a = Some (p_workspaceId p))) (\<lambda>auditRows.
     bindM (countRows runTable (\<lambda>r. r_status r = RcaPending)) (\<lambda>pendingRuns.
     bindM (countRows runTable (\<lambda>r. r_status r = RcaRunning
         \<and> (case r_startedAt r of None \<Rightarrow> False | Some s \<Rightarrow> s < stuckBefore))) (\<lambda>stuckRuns.
     bindM (findMany auditTable (\<lambda>a. ae_action a = ''auth.session_cleanup'')) (\<lambda>cleanups.
       returnM (JObj
         [(''activeSessions'', JNum activeSessions), (''failedLogins'', JNum failedLogins),
          (''forbiddenActions'', JNum forbiddenActions),
          (''auditOutcomes'', JObj (outcomeCounts auditRows)),
          (''pendingRcaRuns'', JNum pendingRuns), (''stuckRcaRuns'', JNum stuckRuns),
          (''lastSessionCleanup'',
             (if cleanups = [] then JNull
              else JObj [(''outcome'', JStr (ae_outcome (last cleanups))),
                         (''metadata'', ae_metadata (last cleanups))]))]))))))))))"

text \<open>Before the session is destroyed: the revocation of its tokens.\<close>

definition revocation :: "'c auth_deps \<Rightarrow> auth_session option \<Rightarrow> ('c world, unit) io" where
  "revocation deps stored =
     (case stored of
        None \<Rightarrow> returnM ()
      | Some s \<Rightarrow>
          bindM (liftM (decryptAccessToken (crypto deps) (settings deps) s)) (\<lambda>access.
          bindM (liftM (decryptRefreshToken (crypto deps) (settings deps) s)) (\<lambda>refresh.
            revokeTokens (oidc deps) (settings deps) access refresh)))"

definition logout :: "'c auth_deps \<Rightarrow> principal \<Rightarrow> ('c world, string) io" where
  "logout deps p =
     bindM (getStored (p_sessionIdHash p)) (\<lambda>stored.
     thenM (revocation deps stored)
     (thenM (destroy (p_sessionIdHash p))
     (thenM (audit (p_userId p) (p_workspaceId p) ''auth.logout'' ''success'')
     (bindM
       (case stored of
          None \<Rightarrow> returnM None
        | Some s \<Rightarrow> liftM (decryptIdToken (crypto deps) (settings deps) s))
       (\<lambda>idToken. logoutUrl (oidc deps) (settings deps) idToken)))))"

text \<open>The access token, refreshed when it has less than 30 seconds left.\<close>

definition currentAccessToken :: "'c auth_deps \<Rightarrow> auth_session \<Rightarrow> ('c world, string option) io" where
  "currentAccessToken deps stored =
     bindM (liftM (decryptAccessToken (crypto deps) (settings deps) stored)) (\<lambda>accessToken.
       case s_accessTokenExpiresAt stored of
         None \<Rightarrow> returnM accessToken
       | Some expires \<Rightarrow>
           bindM now (\<lambda>t.
             if t + 30000 < expires then returnM accessToken
             else
               bindM (liftM (decryptRefreshToken (crypto deps) (settings deps) stored)) (\<lambda>refreshToken.
                 if \<not> truthy refreshToken
                 then throwM (Unauthorized ''The Asgardeo access token has expired'')
                 else
               bindM (refreshTokens (oidc deps) (settings deps) (the refreshToken)) (\<lambda>refreshed.
               thenM (updateTokens (crypto deps) (settings deps) (s_idHash stored)
                   (ts_accessToken refreshed) (ts_refreshToken refreshed) (ts_idToken refreshed)
                   (expiryDate (ts_expiresAt refreshed)))
                 (returnM (ts_accessToken refreshed))))))"

text \<open>\<open>payload.expires_in ? new Date(Date.now() + payload.expires_in * 1000) : undefined\<close>.\<close>

definition payloadExpiry :: "json \<Rightarrow> ('c world, instant option) io" where
  "payloadExpiry payload =
     (case member payload ''expires_in'' of
        JNum n \<Rightarrow> (if n = 0 then returnM None
                   else bindM now (\<lambda>t. returnM (Some (t + n * 1000))))
      | _ \<Rightarrow> returnM None)"

definition switchOrganization ::
  "'c auth_deps \<Rightarrow> principal \<Rightarrow> string \<Rightarrow> ('c world, string \<times> string) io"
where
  "switchOrganization deps p organizationId =
     (if organizationId = [] then throwM (BadRequest ''organizationId is required'')
      else
     bindM (getStored (p_sessionIdHash p)) (\<lambda>found.
       case found of
         None \<Rightarrow> throwM (Unauthorized ''The session no longer exists'')
       | Some stored \<Rightarrow>
     bindM (currentAccessToken deps stored) (\<lambda>accessToken.
       if \<not> truthy accessToken
       then throwM (Unauthorized ''The session cannot switch organizations'')
       else
     bindM (oidcSwitchOrganization (oidc deps) (web deps) (base64 deps) (settings deps)
         (the accessToken) organizationId (p_subject p)) (\<lambda>(payload, identity).
     bindM (resolveIdentity (crypto deps) (settings deps) identity) (\<lambda>(ws, user).
     bindM (payloadExpiry payload) (\<lambda>expires.
     bindM (createSession (crypto deps) (settings deps)
         \<lparr> si_userId = u_id user, si_workspaceId = ws_id ws, si_organizationId = organizationId,
           si_roles = vi_roles identity, si_scopes = vi_scopes identity,
           si_accessToken = asStr (member payload ''access_token''),
           si_refreshToken = asStr (member payload ''refresh_token''),
           si_idToken = asStr (member payload ''id_token''),
           si_accessTokenExpiresAt = expires,
           si_replaceSessionIdHash = Some (p_sessionIdHash p) \<rparr>) (\<lambda>next.
     thenM (audit (u_id user) (ws_id ws) ''auth.organization_switch'' ''success'')
       (returnM next))))))))"

section \<open>Cookies and the controller\<close>

record cookie_options =
  ck_httpOnly :: bool
  ck_secure :: bool
  ck_sameSite :: string
  ck_path :: string
  ck_maxAge :: "int option"

definition cookieOptions :: "auth_config \<Rightarrow> cookie_options" where
  "cookieOptions cfg =
     \<lparr> ck_httpOnly = True, ck_secure = ac_cookieSecure cfg, ck_sameSite = ''lax'', ck_path = ''/'',
       ck_maxAge = Some (cookieMaxAge cfg) \<rparr>"

definition clearCookieOptions :: "auth_config \<Rightarrow> cookie_options" where
  "clearCookieOptions cfg = (cookieOptions cfg)\<lparr>ck_maxAge := None\<rparr>"

text \<open>
  What a handler does with the response: the status and address of a redirect, a cookie set or
  cleared (its value is then missing), and the body.
\<close>

record reply =
  rp_redirect :: "(nat \<times> string) option"
  rp_cookie :: "(string \<times> string option \<times> cookie_options) option"
  rp_body :: json

definition bodyReply :: "json \<Rightarrow> reply" where
  "bodyReply v = \<lparr> rp_redirect = None, rp_cookie = None, rp_body = v \<rparr>"

definition loginHandler :: "'c auth_deps \<Rightarrow> string option \<Rightarrow> ('c world, reply) io" where
  "loginHandler deps returnTo =
     bindM (beginLogin deps returnTo) (\<lambda>address.
       returnM \<lparr> rp_redirect = Some (302, address), rp_cookie = None, rp_body = JUndef \<rparr>)"

definition callbackHandler :: "'c auth_deps \<Rightarrow> json \<Rightarrow> ('c world, reply) io" where
  "callbackHandler deps query =
     bindM (catchM (completeLogin deps query) (\<lambda>e. thenM recordFailedLogin (throwM e))) (\<lambda>result.
       returnM
         \<lparr> rp_redirect = Some (302, lr_redirectUrl result),
           rp_cookie = Some (''rca_session'', Some (lr_sessionToken result), cookieOptions (settings deps)),
           rp_body = JUndef \<rparr>)"

definition meHandler :: "principal \<Rightarrow> ('c world, reply) io" where
  "meHandler p = bindM (me p) (\<lambda>v. returnM (bodyReply v))"

definition metricsHandler :: "principal \<Rightarrow> ('c world, reply) io" where
  "metricsHandler p = bindM (metrics p) (\<lambda>v. returnM (bodyReply v))"

definition logoutHandler :: "'c auth_deps \<Rightarrow> principal \<Rightarrow> ('c world, reply) io" where
  "logoutHandler deps p =
     bindM (logout deps p) (\<lambda>address.
       returnM
         \<lparr> rp_redirect = Some (303, address),
           rp_cookie = Some (''rca_session'', None, clearCookieOptions (settings deps)),
           rp_body = JUndef \<rparr>)"

definition switchOrganizationHandler :: "'c auth_deps \<Rightarrow> principal \<Rightarrow> string \<Rightarrow> ('c world, reply) io" where
  "switchOrganizationHandler deps p organizationId =
     bindM (switchOrganization deps p organizationId) (\<lambda>(sessionToken, csrfToken).
       returnM
         \<lparr> rp_redirect = None,
           rp_cookie = Some (''rca_session'', Some sessionToken, cookieOptions (settings deps)),
           rp_body = JObj [(''organizationId'', JStr organizationId), (''csrfToken'', JStr csrfToken)] \<rparr>)"

section \<open>Facts\<close>

lemma urlClean_plain: "list_all (\<lambda>c. \<not> isUrlSpace c) s \<Longrightarrow> urlClean s = s"
proof -
  assume *: "list_all (\<lambda>c. \<not> isUrlSpace c) s"
  then have "dropWhile isUrlSpace s = s" "dropWhile isUrlSpace (rev s) = rev s"
    by (auto simp: list_all_iff dropWhile_eq_self_iff hd_rev)
  moreover have "\<not> isRemoved c" if "c \<in> set s" for c
    using * that by (auto simp: list_all_iff isUrlSpace_def isRemoved_def)
  ultimately show ?thesis by (simp add: urlClean_def filter_id_conv)
qed

lemma rooted_stays:
  assumes "startsWith r ''/''" "\<not> startsWith r ''//''"
    and "\<forall>c \<in> set r. \<not> isRemoved c \<and> c \<noteq> CHR 0x5C"
  shows "resolveRooted r base = Inr (base\<lparr>u_rest := urlClean r\<rparr>)"
proof -
  obtain t where r: "r = CHR ''/'' # t" using assms(1) by (cases r) (auto simp: startsWith_iff)
  let ?u = "rev (dropWhile isUrlSpace (rev r))"
  have "urlClean r = filter (\<lambda>c. \<not> isRemoved c) ?u"
    by (simp add: urlClean_def r isUrlSpace_def)
  also have "\<dots> = ?u"
  proof -
    have "set ?u \<subseteq> set r" by (metis set_dropWhileD set_rev subsetI)
    then show ?thesis using assms(3) by (simp add: filter_id_conv subset_iff)
  qed
  finally have clean: "urlClean r = ?u" .
  have "r = ?u @ rev (takeWhile isUrlSpace (rev r))"
    by (simp flip: rev_append)
  then obtain v where v: "r = urlClean r @ v" using clean by metis
  have "\<not> (2 \<le> length (urlClean r) \<and> isSlash (urlClean r ! 1))"
  proof
    assume *: "2 \<le> length (urlClean r) \<and> isSlash (urlClean r ! 1)"
    then have "urlClean r ! 1 = r ! 1" by (subst (2) v) (simp add: nth_append)
    moreover have "2 \<le> length r" using * arg_cong [OF v, of length] by simp
    ultimately obtain c t' where "r = CHR ''/'' # c # t'" "isSlash c"
      using * r by (cases t) auto
    then show False using assms(2,3) by (auto simp: isSlash_def startsWith_iff)
  qed
  then show ?thesis by (auto simp: resolveRooted_def Let_def)
qed

text \<open>Host names of lower case letters, digits and dots.\<close>

definition plainHost :: "string \<Rightarrow> bool" where
  "plainHost h \<longleftrightarrow> h \<noteq> [] \<and> list_all (\<lambda>c. isLowerAlnum c \<or> c = CHR ''.'') h"

lemma plainHost_chars:
  assumes "plainHost h" "c \<in> set h"
  shows "\<not> isUrlSpace c" "\<not> endsAuthority c" "\<not> isSlash c" "c \<noteq> CHR '':''" "c \<noteq> CHR ''@''" "lowerChar c = c"
  using assms
  by (auto simp: plainHost_def list_all_iff isLowerAlnum_def isLowerAlpha_def isDigit_def isUrlSpace_def
      endsAuthority_def isSlash_def lowerChar_def isUpperAlpha_def)

lemma backslash_leaves:
  assumes "plainHost h"
  shows "resolveRooted (CHR ''/'' # CHR 0x5C # h) base
    = Inr \<lparr> u_scheme = u_scheme base, u_host = h, u_rest = [] \<rparr>"
proof -
  let ?r = "CHR ''/'' # CHR 0x5C # h"
  note chars = plainHost_chars [OF assms]
  have clean: "urlClean ?r = ?r"
    by (rule urlClean_plain) (use chars in \<open>auto simp: list_all_iff isUrlSpace_def\<close>)
  have slashes: "isSlash CHR ''/''" "isSlash CHR 0x5C" by (simp_all add: isSlash_def)
  have drop: "dropWhile isSlash h = h"
    using chars(3) by (cases h) auto
  have take: "takeWhile (\<lambda>c. \<not> endsAuthority c) h = h" "dropWhile (\<lambda>c. \<not> endsAuthority c) h = []"
    using chars(2) by (auto simp: takeWhile_eq_all_conv dropWhile_eq_Nil_conv)
  have "takeWhile (\<lambda>c. c \<noteq> CHR ''@'') (rev h) = rev h"
    using chars(5) by (auto simp: takeWhile_eq_all_conv)
  then have at: "rev (takeWhile (\<lambda>c. c \<noteq> CHR ''@'') (rev h)) = h" by (simp only: rev_rev_ident)
  have lower: "toLowerCase h = h"
    using chars(6) by (simp add: toLowerCase_def map_idI)
  have "CHR '':'' \<notin> set h" using chars(4) by blast
  then have host: "hostOf (u_scheme base) h = h" unfolding hostOf_def at lower Let_def by simp
  have "h \<noteq> []" using assms by (simp add: plainHost_def)
  then show ?thesis
    by (simp add: resolveRooted_def clean Let_def parseAuthority_def slashes drop take host
        del: takeWhile_eq_all_conv dropWhile_eq_Nil_conv)
qed

lemma urlString_root: "urlString \<lparr> u_scheme = sc, u_host = h, u_rest = [] \<rparr> = sc @ ''://'' @ h @ ''/''"
  by (simp add: urlString_def urlOrigin_def normalPath_def Let_def splitOn.simps joinWith.simps
      encodeWith_def isDoubleDot_def isSingleDot_def toLowerCase_def)

section \<open>Properties\<close>

text \<open>
  C19. Where a login may send the browser: an accepted return address of visible characters without a
  backslash stays on the origin of the configured interface; but a slash and a backslash pass the
  check too and lead to any host the caller of the login names.
\<close>

theorem login_redirect_origin:
  assumes "parseUrl (ac_uiUrl cfg) = Inr base"
  shows "(\<forall>r safe. safeReturnTo (Some r) = Inr safe \<and> r \<noteq> []
      \<and> (\<forall>c \<in> set r. \<not> isRemoved c \<and> c \<noteq> CHR 0x5C) \<longrightarrow>
        (\<exists>address. redirectUrl cfg safe = Inr address \<and> startsWith address (urlOrigin base @ ''/'')))
    \<and> (\<forall>h. plainHost h \<longrightarrow>
        safeReturnTo (Some (''/'' @ [CHR 0x5C] @ h)) = Inr (Some (''/'' @ [CHR 0x5C] @ h))
        \<and> redirectUrl cfg (Some (''/'' @ [CHR 0x5C] @ h)) = Inr (u_scheme base @ ''://'' @ h @ ''/''))"
proof (intro conjI allI impI)
  fix r safe
  assume r: "safeReturnTo (Some r) = Inr safe \<and> r \<noteq> [] \<and> (\<forall>c \<in> set r. \<not> isRemoved c \<and> c \<noteq> CHR 0x5C)"
  then have ok: "startsWith r ''/''" "\<not> startsWith r ''//''" "safe = Some r"
    by (auto simp: safeReturnTo_def truthy_def split: if_splits)
  have "redirectUrl cfg safe = Inr (urlString (base\<lparr>u_rest := urlClean r\<rparr>))"
    using assms r ok rooted_stays [OF ok(1,2)] by (simp add: redirectUrl_def truthy_def)
  moreover have "urlOrigin (base\<lparr>u_rest := urlClean r\<rparr>) = urlOrigin base" by (simp add: urlOrigin_def)
  ultimately show "\<exists>address. redirectUrl cfg safe = Inr address \<and> startsWith address (urlOrigin base @ ''/'')"
    using urlString_origin [of "base\<lparr>u_rest := urlClean r\<rparr>"] by simp
next
  fix h assume h: "plainHost h"
  show "safeReturnTo (Some (''/'' @ [CHR 0x5C] @ h)) = Inr (Some (''/'' @ [CHR 0x5C] @ h))"
    by (simp add: safeReturnTo_def truthy_def startsWith_iff)
  show "redirectUrl cfg (Some (''/'' @ [CHR 0x5C] @ h)) = Inr (u_scheme base @ ''://'' @ h @ ''/'')"
    using assms backslash_leaves [OF h] by (simp add: redirectUrl_def truthy_def urlString_root)
qed

lemma createSession_single:
  assumes "createSession lib cfg i w = (Inr (token, csrf), w')"
  shows "\<exists>s t n. w' = w\<lparr>ticks := t, drawn := n,
        sessions := filter (\<lambda>x. \<not> replacedBy (si_replaceSessionIdHash i) x) (sessions w @ [s])\<rparr>
     \<and> s_idHash s = hash lib token \<and> s_csrfToken s = csrf \<and> s_userId s = si_userId i
     \<and> s_workspaceId s = si_workspaceId i \<and> s_organizationId s = si_organizationId i
     \<and> s_roles s = si_roles i \<and> s_scopes s = si_scopes i
     \<and> (\<forall>x \<in> set (sessions w). s_idHash x \<noteq> s_idHash s)"
proof -
  from createSession_stores [OF assms] obtain a r d n where
    "storeSession (si_replaceSessionIdHash i) (sessionRow lib cfg i (clock w (ticks w)) token csrf a r d)
      (w\<lparr>ticks := Suc (ticks w), drawn := n\<rparr>) = (Inr (), w')" by blast
  from storeSession_stored [OF this] show ?thesis
    by (intro exI [of _ "sessionRow lib cfg i (clock w (ticks w)) token csrf a r d"]
        exI [of _ "Suc (ticks w)"] exI [of _ n]) (simp add: sessionRow_def)
qed

lemma audit_stored:
  "audit u ws action outcome w = (Inr v, w') \<Longrightarrow> \<exists>a. w' = w\<lparr>audits := audits w @ [a]\<rparr>
     \<and> ae_actorUserId a = Some u \<and> ae_workspaceId a = Some ws \<and> ae_action a = action \<and> ae_outcome a = outcome"
  by (auto simp: audit_def voidM_run createRow_def Let_def auditTable_def split: if_splits)

lemma consumeLoginAttempt_frame:
  assumes "consumeLoginAttempt lib cfg state w = (Inr (Some c), w')"
  shows "sessions w' = sessions w \<and> audits w' = audits w
    \<and> (\<exists>a \<in> set (attempts w). la_stateHash a = hash lib state \<and> co_nonce c = la_nonce a)
    \<and> attempts w' = filter (\<lambda>a. la_stateHash a \<noteq> hash lib state) (attempts w)"
  using assms
  by (auto simp: consumeLoginAttempt_def Let_def transaction_run bindM_run thenM_run now_run
      findFirst_def deleteRow_def attemptTable_fields find_Some_iff split: if_splits sum.splits option.splits)

text \<open>
  C15. A completed login opens exactly one session, and it belongs to the identity the provider
  confirmed: its organization is the one of its active workspace and not the root organization, its
  user has the subject of the identity, its token and CSRF token are the ones handed out. The login
  attempt it answers is used up and the login is on record.
\<close>

theorem login_opens_own_session:
  assumes "completeLogin deps query w = (Inr r, w')"
  shows "\<exists>s ws u identity ts v v' checks.
      sessions w' = sessions w @ [s]
    \<and> s_idHash s = hash (crypto deps) (lr_sessionToken r) \<and> s_csrfToken s = lr_csrfToken r
    \<and> completeCallback (oidc deps) (settings deps) query checks v = (Inr (identity, ts), v')
    \<and> ws \<in> set (workspaces w') \<and> ws_id ws = s_workspaceId s \<and> ws_status ws = WorkspaceActive
    \<and> ws_organizationId ws = s_organizationId s \<and> s_organizationId s = vi_organizationId identity
    \<and> s_organizationId s \<noteq> ac_rootOrganizationId (settings deps)
    \<and> u \<in> set (users w') \<and> u_id u = s_userId s \<and> u_subject u = vi_subject identity
    \<and> s_roles s = vi_roles identity \<and> s_scopes s = vi_scopes identity
    \<and> (\<exists>a \<in> set (attempts w). la_stateHash a = hash (crypto deps) (cc_state checks)
          \<and> cc_nonce checks = la_nonce a)
    \<and> attempts w' = filter (\<lambda>a. la_stateHash a \<noteq> hash (crypto deps) (cc_state checks)) (attempts w)
    \<and> (\<exists>a. audits w' = audits w @ [a] \<and> ae_action a = ''auth.login'' \<and> ae_outcome a = ''success''
          \<and> ae_actorUserId a = Some (s_userId s) \<and> ae_workspaceId a = Some (s_workspaceId s))"
proof -
  let ?state = "stringClaim (member query ''state'')"
  from assms obtain c w1 identity ts w2 ws u w3 token csrf w4 x where
    1: "consumeLoginAttempt (crypto deps) (settings deps) ?state w = (Inr (Some c), w1)" and
    2: "completeCallback (oidc deps) (settings deps) query
         \<lparr> cc_state = ?state, cc_nonce = co_nonce c, cc_codeVerifier = co_codeVerifier c \<rparr> w1
         = (Inr (identity, ts), w2)" and
    3: "resolveIdentity (crypto deps) (settings deps) identity w2 = (Inr (ws, u), w3)" and
    4: "createSession (crypto deps) (settings deps)
         \<lparr> si_userId = u_id u, si_workspaceId = ws_id ws,
           si_organizationId = vi_organizationId identity, si_roles = vi_roles identity,
           si_scopes = vi_scopes identity, si_accessToken = ts_accessToken ts,
           si_refreshToken = ts_refreshToken ts, si_idToken = ts_idToken ts,
           si_accessTokenExpiresAt = expiryDate (ts_expiresAt ts), si_replaceSessionIdHash = None \<rparr> w3
         = (Inr (token, csrf), w4)" and
    5: "audit (u_id u) (ws_id ws) ''auth.login'' ''success'' w4 = (Inr x, w')" and
    r: "lr_sessionToken r = token" "lr_csrfToken r = csrf"
    by (auto simp: completeLogin_def Let_def bindM_Inr_iff thenM_Inr_iff split: if_splits option.splits prod.splits)
  have own: "onlyClient w1 w2" using keepsD [OF keeps_completeCallback, of w1 "oidc deps" "settings deps" query
      "\<lparr> cc_state = ?state, cc_nonce = co_nonce c, cc_codeVerifier = co_codeVerifier c \<rparr>"] 2 by simp
  from createSession_single [OF 4] obtain s t n where
    s: "w4 = w3\<lparr>ticks := t, drawn := n, sessions := sessions w3 @ [s]\<rparr>"
    "s_idHash s = hash (crypto deps) token" "s_csrfToken s = csrf" "s_userId s = u_id u"
    "s_workspaceId s = ws_id ws" "s_organizationId s = vi_organizationId identity"
    "s_roles s = vi_roles identity" "s_scopes s = vi_scopes identity"
    by (auto simp: replacedBy_def)
  from audit_stored [OF 5] obtain e where e: "w' = w4\<lparr>audits := audits w4 @ [e]\<rparr>"
    "ae_actorUserId e = Some (u_id u)" "ae_workspaceId e = Some (ws_id ws)"
    "ae_action e = ''auth.login''" "ae_outcome e = ''success''" by blast
  note stored = consumeLoginAttempt_frame [OF 1] resolveIdentity_result [OF 3]
  have same: "sessions w2 = sessions w1" "attempts w2 = attempts w1" "audits w2 = audits w1"
    using own by (simp_all add: onlyClient_def)
  have "sessions w' = sessions w @ [s]" "audits w' = audits w @ [e]" "attempts w' = attempts w1"
    "workspaces w' = workspaces w3" "users w' = users w3"
    using stored s(1) e(1) same by simp_all
  then show ?thesis
    by (intro exI [of _ s] exI [of _ ws] exI [of _ u] exI [of _ identity] exI [of _ ts]
        exI [of _ w1] exI [of _ w2]
        exI [of _ "\<lparr> cc_state = ?state, cc_nonce = co_nonce c, cc_codeVerifier = co_codeVerifier c \<rparr>"])
       (use 2 s(2-) e(2-) r stored in simp)
qed

lemma liftM_Inr: "liftM r w = (Inr x, w') \<longleftrightarrow> r = Inr x \<and> w' = w"
  by auto

lemma destroy_run:
  "destroy h w = (Inr (), w\<lparr>sessions := filter (\<lambda>s. s_idHash s \<noteq> h) (sessions w)\<rparr>)"
  by (simp add: destroy_def voidM_run deleteMany_def sessionTable_fields isSession_def)

lemma destroy_then:
  "thenM (destroy h) m w = m (w\<lparr>sessions := filter (\<lambda>s. s_idHash s \<noteq> h) (sessions w)\<rparr>)"
  by (simp add: thenM_run destroy_run)

lemma getStored_run: "getStored h w = (Inr (find (isSession h) (sessions w)), w)"
  by (simp add: getStored_def findFirst_def sessionTable_fields)

lemma keeps_revocation: "keeps onlyClient (revocation deps stored)"
  unfolding revocation_def
  by (intro keeps_option keeps_bindM keeps_liftM keeps_returnM keeps_revokeTokens preorder_onlyClient)

lemma logout_run:
  "logout deps p w =
     (case revocation deps (find (isSession (p_sessionIdHash p)) (sessions w)) w of
        (Inl e, w') \<Rightarrow> (Inl e, w')
      | (Inr _, w') \<Rightarrow>
          thenM (audit (p_userId p) (p_workspaceId p) ''auth.logout'' ''success'')
            (bindM
              (case find (isSession (p_sessionIdHash p)) (sessions w) of
                 None \<Rightarrow> returnM None
               | Some s \<Rightarrow> liftM (decryptIdToken (crypto deps) (settings deps) s))
              (\<lambda>idToken. logoutUrl (oidc deps) (settings deps) idToken))
            (w'\<lparr>sessions := filter (\<lambda>s. s_idHash s \<noteq> p_sessionIdHash p) (sessions w')\<rparr>))"
  by (simp add: logout_def bindM_run [of "getStored _"] getStored_run thenM_run [of "revocation _ _"]
      destroy_then split: prod.split sum.split)

text \<open>
  C18. A logout that returns has removed the session and only it. But it talks to the identity
  provider first: while the provider's client is unavailable, the logout of a stored session fails
  and the session stays valid.
\<close>

theorem logout_ends_session:
  assumes "logout deps p w = (res, w')"
  shows "(\<forall>address. res = Inr address \<longrightarrow>
            sessions w' = filter (\<lambda>s. s_idHash s \<noteq> p_sessionIdHash p) (sessions w))
    \<and> (\<forall>e. oidcClient w = Some (Inl e) \<and> (\<exists>s \<in> set (sessions w). s_idHash s = p_sessionIdHash p) \<longrightarrow>
            (\<exists>e'. res = Inl e') \<and> sessions w' = sessions w)"
proof -
  obtain q v where rev: "revocation deps (find (isSession (p_sessionIdHash p)) (sessions w)) w = (q, v)"
    by fastforce
  have "onlyClient w v" using keepsD [OF keeps_revocation, of w deps] rev by (metis snd_conv)
  then have same: "sessions v = sessions w" by (simp add: onlyClient_def)
  have url: "sessions v2 = sessions v1" if "logoutUrl op cfg i v1 = (r, v2)" for op cfg i v1 r and v2 :: "'a world"
    using keepsD [OF keeps_provider(5), of v1 op cfg i] that by (simp add: onlyClient_def)
  have "sessions w' = filter (\<lambda>s. s_idHash s \<noteq> p_sessionIdHash p) (sessions w)" if "res = Inr address" for address
    using assms that rev same
    by (auto simp: logout_run thenM_Inr_iff bindM_Inr_iff split: sum.splits dest!: audit_stored url split: option.splits)
  moreover have "(\<exists>e'. res = Inl e') \<and> sessions w' = sessions w"
    if *: "oidcClient w = Some (Inl e)" "\<exists>s \<in> set (sessions w). s_idHash s = p_sessionIdHash p" for e
  proof -
    have "find (isSession (p_sessionIdHash p)) (sessions w) \<noteq> None"
      using *(2) by (auto simp: find_None_iff isSession_def)
    then obtain s where s: "find (isSession (p_sessionIdHash p)) (sessions w) = Some s" by blast
    have "client op cfg w = (Inl e, w)" for op cfg
      using *(1) by (simp add: client_def bindM_run)
    then have "\<exists>e'. q = Inl e'"
      using rev s by (auto simp: revocation_def bindM_run revokeTokens_def split: sum.splits)
    then show ?thesis using assms rev same by (auto simp: logout_run)
  qed
  ultimately show ?thesis by blast
qed

lemma voidM_Inr_iff: "voidM m w = (Inr v, w') \<longleftrightarrow> (\<exists>x. m w = (Inr x, w'))"
  by (auto simp: voidM_run split: prod.splits sum.splits)

lemma encryptOptional_sessions:
  "encryptOptional lib cfg x w = (r, w') \<Longrightarrow> sessions w' = sessions w"
  by (auto elim: encryptOptional_E)

lemma updateTokens_sessions:
  assumes "updateTokens lib cfg h access refresh ident ex w = (Inr (), w')"
  shows "\<exists>f. (\<forall>s. s_idHash (f s) = s_idHash s)
    \<and> sessions w' = map (\<lambda>s. if isSession h s then f s else s) (sessions w)"
proof -
  from assms obtain a w1 r w2 i w3 x where
    enc: "encryptOptional lib cfg access w = (Inr a, w1)" "encryptOptional lib cfg refresh w1 = (Inr r, w2)"
    "encryptOptional lib cfg ident w2 = (Inr i, w3)" and
    up: "updateRow sessionTable (isSession h) (\<lambda>s. s\<lparr>
         s_accessTokenEncrypted := orKeep a (s_accessTokenEncrypted s),
         s_refreshTokenEncrypted := orKeep r (s_refreshTokenEncrypted s),
         s_idTokenEncrypted := orKeep i (s_idTokenEncrypted s),
         s_accessTokenExpiresAt := orKeep ex (s_accessTokenExpiresAt s)\<rparr>) w3 = (Inr x, w')"
    by (auto simp: updateTokens_def bindM_Inr_iff voidM_Inr_iff)
  have "sessions w3 = sessions w" using enc by (simp add: encryptOptional_sessions)
  then show ?thesis
    using updateRow_Inr [OF up]
    by (intro exI [of _ "\<lambda>s. s\<lparr>
         s_accessTokenEncrypted := orKeep a (s_accessTokenEncrypted s),
         s_refreshTokenEncrypted := orKeep r (s_refreshTokenEncrypted s),
         s_idTokenEncrypted := orKeep i (s_idTokenEncrypted s),
         s_accessTokenExpiresAt := orKeep ex (s_accessTokenExpiresAt s)\<rparr>"])
       (auto simp: sessionTable_fields)
qed

lemma currentAccessToken_frame:
  assumes "currentAccessToken deps stored w = (Inr t, w')"
  shows "map s_idHash (sessions w') = map s_idHash (sessions w)
    \<and> filter (\<lambda>s. s_idHash s \<noteq> s_idHash stored) (sessions w') = filter (\<lambda>s. s_idHash s \<noteq> s_idHash stored) (sessions w)"
proof -
  have id: "?thesis" if "sessions w' = sessions w" using that by simp
  show ?thesis
  proof (cases "s_accessTokenExpiresAt stored")
    case None
    then show ?thesis using assms id by (auto simp: currentAccessToken_def bindM_Inr_iff)
  next
    case (Some expires)
    then consider (valid) "sessions w' = sessions w"
      | (refreshed) r ts v v' a f i ex where
        "refreshTokens (oidc deps) (settings deps) r v = (Inr ts, v')" "sessions v = sessions w"
        "updateTokens (crypto deps) (settings deps) (s_idHash stored) a f i ex v' = (Inr (), w')"
      using assms
      by (auto simp: currentAccessToken_def bindM_Inr_iff thenM_Inr_iff now_run split: if_splits)
    then show ?thesis
    proof cases
      case valid
      then show ?thesis by (rule id)
    next
      case refreshed
      have 1: "sessions v' = sessions w"
        using keepsD [OF keeps_provider(4), of v "oidc deps" "settings deps" r] refreshed(1,2)
        by (simp add: onlyClient_def)
      from updateTokens_sessions [OF refreshed(3)] obtain f where
        f: "\<And>s. s_idHash (f s) = s_idHash s"
        "sessions w' = map (\<lambda>s. if isSession (s_idHash stored) s then f s else s) (sessions w)"
        using 1 by auto
      show ?thesis
        unfolding f(2) using f(1) by (auto simp: isSession_def intro!: filter_map_other)
    qed
  qed
qed

lemma switchOrganization_E:
  assumes "switchOrganization deps p organizationId w = (Inr (token, csrf), w')"
  obtains stored at w1 payload identity w2 ws u w3 ex w4 v w5 x where
    "find (isSession (p_sessionIdHash p)) (sessions w) = Some stored" and
    "currentAccessToken deps stored w = (Inr at, w1)" and
    "oidcSwitchOrganization (oidc deps) (web deps) (base64 deps) (settings deps) (the at)
          organizationId (p_subject p) w1 = (Inr (payload, identity), w2)" and
    "resolveIdentity (crypto deps) (settings deps) identity w2 = (Inr (ws, u), w3)" and
    "payloadExpiry payload w3 = (Inr ex, w4)" and
    "createSession (crypto deps) (settings deps)
         \<lparr> si_userId = u_id u, si_workspaceId = ws_id ws, si_organizationId = organizationId,
           si_roles = vi_roles identity, si_scopes = vi_scopes identity,
           si_accessToken = asStr (member payload ''access_token''),
           si_refreshToken = asStr (member payload ''refresh_token''),
           si_idToken = asStr (member payload ''id_token''),
           si_accessTokenExpiresAt = ex,
           si_replaceSessionIdHash = Some (p_sessionIdHash p) \<rparr> w4 = (Inr (token, csrf), w5)" and
    "audit (u_id u) (ws_id ws) ''auth.organization_switch'' ''success'' w5 = (Inr x, w')"
  using assms
  by (auto simp: switchOrganization_def bindM_Inr_iff thenM_Inr_iff getStored_run
        split: if_splits option.splits prod.splits)

text \<open>
  C16. Switching the organization exchanges the session: afterwards the old one is gone and exactly one
  new one is there, for the same subject, in the active workspace of the organization that was asked
  for, with a token and a CSRF token that the call returns; the sessions of others are untouched.
\<close>

theorem switch_replaces_session:
  assumes "switchOrganization deps p organizationId w = (Inr (token, csrf), w')"
    and "p_sessionIdHash p \<noteq> []"
  shows "\<exists>s ws u. sessions w' = filter (\<lambda>x. s_idHash x \<noteq> p_sessionIdHash p) (sessions w) @ [s]
    \<and> s_idHash s = hash (crypto deps) token \<and> s_idHash s \<noteq> p_sessionIdHash p \<and> s_csrfToken s = csrf
    \<and> s_organizationId s = organizationId
    \<and> ws \<in> set (workspaces w') \<and> ws_id ws = s_workspaceId s
    \<and> ws_organizationId ws = organizationId \<and> ws_status ws = WorkspaceActive
    \<and> u \<in> set (users w') \<and> u_id u = s_userId s \<and> u_subject u = p_subject p"
proof -
  from assms(1) obtain stored at w1 payload identity w2 ws u w3 ex w4 v w5 x where
    0: "find (isSession (p_sessionIdHash p)) (sessions w) = Some stored" and
    1: "currentAccessToken deps stored w = (Inr at, w1)" and
    2: "oidcSwitchOrganization (oidc deps) (web deps) (base64 deps) (settings deps) (the at)
          organizationId (p_subject p) w1 = (Inr (payload, identity), w2)" and
    3: "resolveIdentity (crypto deps) (settings deps) identity w2 = (Inr (ws, u), w3)" and
    4: "payloadExpiry payload w3 = (Inr ex, w4)" and
    5: "createSession (crypto deps) (settings deps)
         \<lparr> si_userId = u_id u, si_workspaceId = ws_id ws, si_organizationId = organizationId,
           si_roles = vi_roles identity, si_scopes = vi_scopes identity,
           si_accessToken = asStr (member payload ''access_token''),
           si_refreshToken = asStr (member payload ''refresh_token''),
           si_idToken = asStr (member payload ''id_token''),
           si_accessTokenExpiresAt = ex,
           si_replaceSessionIdHash = Some (p_sessionIdHash p) \<rparr> w4 = (Inr (token, csrf), w5)" and
    6: "audit (u_id u) (ws_id ws) ''auth.organization_switch'' ''success'' w5 = (Inr x, w')"
    by (rule switchOrganization_E)
  have h: "s_idHash stored = p_sessionIdHash p" "stored \<in> set (sessions w)"
    using 0 find_mem [OF 0] by (auto simp: isSession_def)
  have ids: "vi_subject identity = p_subject p" "vi_organizationId identity = organizationId"
    using 2 by (auto simp: oidcSwitchOrganization_def Let_def bindM_Inr_iff split: if_splits)
  have "onlyClient w1 w2"
    using keepsD [OF keeps_oidcSwitchOrganization, of w1 "oidc deps" "web deps" "base64 deps"
        "settings deps" "the at" organizationId "p_subject p"] 2 by simp
  then have s2: "sessions w2 = sessions w1" by (simp add: onlyClient_def)
  note r = resolveIdentity_result [OF 3]
  have w4: "sessions w4 = sessions w3" "workspaces w4 = workspaces w3" "users w4 = users w3"
    using 4 by (auto simp: payloadExpiry_def bindM_run now_run split: json.splits if_splits)
  from createSession_single [OF 5] obtain s t n where
    s: "w5 = w4\<lparr>ticks := t, drawn := n,
        sessions := filter (\<lambda>x. \<not> replacedBy (Some (p_sessionIdHash p)) x) (sessions w4 @ [s])\<rparr>"
    "s_idHash s = hash (crypto deps) token" "s_csrfToken s = csrf" "s_userId s = u_id u"
    "s_workspaceId s = ws_id ws" "s_organizationId s = organizationId"
    "\<forall>x \<in> set (sessions w4). s_idHash x \<noteq> s_idHash s"
    by auto
  have hashes: "map s_idHash (sessions w4) = map s_idHash (sessions w)"
    "filter (\<lambda>x. s_idHash x \<noteq> p_sessionIdHash p) (sessions w4)
      = filter (\<lambda>x. s_idHash x \<noteq> p_sessionIdHash p) (sessions w)"
    using currentAccessToken_frame [OF 1] h(1) w4(1) r s2 by simp_all
  have "s_idHash stored \<in> s_idHash ` set (sessions w4)"
    using h(2) arg_cong [OF hashes(1), of set] by auto
  then have fresh: "s_idHash s \<noteq> p_sessionIdHash p" using s(7) h(1) by auto
  have w5: "sessions w5 = filter (\<lambda>x. s_idHash x \<noteq> p_sessionIdHash p) (sessions w) @ [s]"
    using s(1) assms(2) fresh hashes(2) by (simp add: replacedBy_def)
  from audit_stored [OF 6] obtain e where "w' = w5\<lparr>audits := audits w5 @ [e]\<rparr>" by blast
  then have "sessions w' = sessions w5" "workspaces w' = workspaces w3" "users w' = users w3"
    using s(1) w4 by simp_all
  then show ?thesis
    by (intro exI [of _ s] exI [of _ ws] exI [of _ u]) (use w5 s(2-6) fresh r ids in simp)
qed

section \<open>Witnesses\<close>

definition loginProvider :: "unit oidc_provider" where
  "loginProvider =
     \<lparr> op_discover = (\<lambda>_ c. (Inr \<lparr>om_tokenEndpoint = Some ''https://idp/token'', om_jwksUri = None\<rparr>, c)),
       op_codeChallenge = (\<lambda>v. v), op_authorizationUrl = (\<lambda>_ _. ''https://idp/authorize''),
       op_callback = (\<lambda>_ _ _ _ c. (Inr \<lparr> ts_accessToken = None, ts_refreshToken = None,
          ts_idToken = None, ts_expiresAt = None, ts_scope = None,
          ts_claims = [(''sub'', JStr ''sub''), (''org_id'', JStr ''org'')] \<rparr>, c)),
       op_refresh = (\<lambda>_ _ c. (Inl (JsError ''no''), c)),
       op_endSessionUrl = (\<lambda>_ _ _. Inr ''https://idp/logout''), op_revoke = (\<lambda>_ _ _ c. (Inr (), c)),
       op_introspect = (\<lambda>_ _ c. (Inr [(''active'', JBool True)], c)),
       op_jwtVerify = (\<lambda>_ _ _ c. (Inl (JsError ''no''), c)) \<rparr>"

definition loginDeps :: "unit auth_deps" where
  "loginDeps =
     \<lparr> oidc = loginProvider,
       web = (\<lambda>_ c. (Inr \<lparr> fr_status = 200, fr_statusText = ''OK'', fr_text = Inr [],
          fr_json = Inr (JObj [(''access_token'', JStr ''opaque'')]) \<rparr>, c)),
       base64 = (\<lambda>s. s), crypto = toyCrypto,
       settings = defaultAuthConfig\<lparr>ac_issuer := ''https://idp'', ac_clientId := ''id'',
         ac_clientSecret := ''secret''\<rparr> \<rparr>"

definition sessionPrincipal :: principal where
  "sessionPrincipal =
     \<lparr> p_userId = ''user'', p_subject = ''sub'', p_workspaceId = ''ws'', p_organizationId = ''org'',
       p_sessionIdHash = ''htoken'', p_roles = [], p_scopes = [], p_csrfToken = ''csrf'' \<rparr>"

lemma loginDeps_fields:
  "oidc loginDeps = loginProvider" "crypto loginDeps = toyCrypto" "base64 loginDeps s = s"
  "settings loginDeps = defaultAuthConfig\<lparr>ac_issuer := ''https://idp'', ac_clientId := ''id'',
     ac_clientSecret := ''secret''\<rparr>"
  by (simp_all add: loginDeps_def)

theorem login_redirect_origin_witness:
  "redirectUrl defaultAuthConfig (Some (''/'' @ [CHR 0x5C] @ ''evil.example'')) = Inr ''http://evil.example/''"
proof -
  have "\<exists>base. parseUrl (ac_uiUrl defaultAuthConfig) = Inr base \<and> u_scheme base = ''http''"
    by (simp add: defaultAuthConfig_def parseUrl_def urlClean_def isUrlSpace_def isRemoved_def Let_def
        toLowerCase_def lowerChar_def isUpperAlpha_def parseAuthority_def hostOf_def isSlash_def
        endsAuthority_def)
  then obtain base where b: "parseUrl (ac_uiUrl defaultAuthConfig) = Inr base" "u_scheme base = ''http''"
    by blast
  have "plainHost ''evil.example''"
    by (simp add: plainHost_def isLowerAlnum_def isLowerAlpha_def isDigit_def)
  with login_redirect_origin [OF b(1)] b(2) show ?thesis by simp
qed

theorem login_opens_own_session_witness:
  "\<exists>r s w'. completeLogin loginDeps (JObj [(''state'', JStr ''state'')]) sessionWorld = (Inr r, w')
     \<and> sessions w' = sessions sessionWorld @ [s]"
proof -
  have h: "hash toyCrypto s = ''h'' @ s" for s by (simp add: hash_def toyCrypto_def)
  have "\<exists>r w'. completeLogin loginDeps (JObj [(''state'', JStr ''state'')]) sessionWorld = (Inr r, w')"
    by (simp add: completeLogin_def Let_def consumeLoginAttempt_def transaction_run bindM_run thenM_run
        now_run h findFirst_def deleteRow_def attemptTable_fields sessionWorld_def sampleAttempt_def
        emptyWorld_def sampleVerifier loginDeps_fields loginProvider_def completeCallback_def
        client_def discoverClient_def required_def defaultAuthConfig_def catchM_run attemptM_run outside_run
        identityFromTokenSet_def identityFromClaims_def spread_def resolveIdentity_def
        adoptLegacyWorkspace_def whenM_run upsertWorkspace_def upsertUser_def upsertMembership_def
        upsertRow_def fresh_run createRow_def updateRow_def table_defs visible_def
        createSession_def randomToken_def encryptOptional_def storeSession_def sessionRow_def voidM_run
        sampleSession_def audit_def redirectUrl_def truthy_def)
  then show ?thesis using login_opens_own_session by blast
qed

theorem logout_ends_session_witness:
  "(\<exists>address w'. logout loginDeps sessionPrincipal sessionWorld = (Inr address, w') \<and> sessions w' = [])
   \<and> (\<exists>e w'. logout loginDeps sessionPrincipal (sessionWorld\<lparr>oidcClient := Some (Inl (BadGateway ''down''))\<rparr>)
          = (Inl e, w') \<and> sessions w' = sessions sessionWorld)"
proof
  have "\<exists>address w'. logout loginDeps sessionPrincipal sessionWorld = (Inr address, w')"
    by (simp add: logout_def getStored_run bindM_run thenM_run revocation_def decryptAccessToken_def
        decryptRefreshToken_def decryptIdToken_def decryptOptional_def sessionWorld_def
        sampleSession_def sessionPrincipal_def isSession_def revokeTokens_def client_def
        discoverClient_def required_def loginDeps_fields loginProvider_def outside_run catchM_run
        attemptM_run defaultAuthConfig_def emptyWorld_def truthy_def destroy_run audit_def voidM_run
        createRow_def table_defs visible_def logoutUrl_def Let_def)
  then obtain address w' where "logout loginDeps sessionPrincipal sessionWorld = (Inr address, w')" by blast
  with logout_ends_session [OF this]
  show "\<exists>address w'. logout loginDeps sessionPrincipal sessionWorld = (Inr address, w') \<and> sessions w' = []"
    by (auto simp: sessionWorld_def sampleSession_def sessionPrincipal_def)
  obtain res v where run: "logout loginDeps sessionPrincipal
      (sessionWorld\<lparr>oidcClient := Some (Inl (BadGateway ''down''))\<rparr>) = (res, v)" by fastforce
  from logout_ends_session [OF run] run
  show "\<exists>e w'. logout loginDeps sessionPrincipal (sessionWorld\<lparr>oidcClient := Some (Inl (BadGateway ''down''))\<rparr>)
          = (Inl e, w') \<and> sessions w' = sessions sessionWorld"
    by (auto simp: sessionWorld_def sampleSession_def sessionPrincipal_def)
qed

theorem switch_replaces_session_witness:
  "\<exists>token csrf s w'. switchOrganization loginDeps sessionPrincipal ''org''
       (sessionWorld\<lparr>sessions := [sampleSession\<lparr>s_accessTokenEncrypted := Some ''v1.iv.t.hi''\<rparr>]\<rparr>)
       = (Inr (token, csrf), w') \<and> sessions w' = [s] \<and> s_csrfToken s = csrf"
proof -
  let ?w = "sessionWorld\<lparr>sessions := [sampleSession\<lparr>s_accessTokenEncrypted := Some ''v1.iv.t.hi''\<rparr>]\<rparr>"
  have h: "hash toyCrypto s = ''h'' @ s" for s by (simp add: hash_def toyCrypto_def)
  have sealed: "encrypt toyCrypto cfg v w = (Inr (joinWith ''.'' [ac_encryptionKeyVersion cfg,
      entropy w (drawn w), ''t'', concat (map hexChar v)]), w\<lparr>drawn := Suc (drawn w)\<rparr>)"
    for cfg v and w :: "unit world"
    by (simp add: encrypt_def cryptoKey_def toyCrypto_def bindM_run fresh_run)
  have "\<exists>token csrf w'. switchOrganization loginDeps sessionPrincipal ''org'' ?w = (Inr (token, csrf), w')"
    by (simp add: sealed switchOrganization_def getStored_run bindM_run thenM_run currentAccessToken_def
        decryptAccessToken_def decryptOptional_def sessionWorld_def sampleSession_def sessionPrincipal_def
        isSession_def sampleVerifier truthy_def loginDeps_fields oidcSwitchOrganization_def client_def
        discoverClient_def required_def loginProvider_def outside_run catchM_run attemptM_run
        defaultAuthConfig_def emptyWorld_def callFetch_run loginDeps_def fr_ok_def switchClaims_def
        introspectAccessToken_def identityFromClaims_def orAssign_def Let_def resolveIdentity_def
        transaction_run adoptLegacyWorkspace_def whenM_run upsertWorkspace_def upsertUser_def
        upsertMembership_def upsertRow_def fresh_run now_run findFirst_def createRow_def updateRow_def
        deleteMany_def table_defs visible_def payloadExpiry_def createSession_def randomToken_def
        encryptOptional_def storeSession_def sessionRow_def voidM_run h audit_def)
  then obtain token csrf w' where run:
    "switchOrganization loginDeps sessionPrincipal ''org'' ?w = (Inr (token, csrf), w')" by blast
  have "p_sessionIdHash sessionPrincipal \<noteq> []" by (simp add: sessionPrincipal_def)
  from switch_replaces_session [OF run this] run show ?thesis
    by (auto simp: sessionWorld_def sampleSession_def sessionPrincipal_def)
qed

end
