(* ===== verification/Rca.thy ===== *)
theory Rca
  imports Apps Http
begin

text \<open>
  rca/rca.service.ts and auth/internal-token.service.ts: starting root-cause-analysis runs and
  talking to the agent that carries them out. The agent is behind \<open>fetch\<close>; signing a token (the
  jose library) is a parameter on the secret and the claims. The trigger of the agent is not
  awaited in the source; here it runs after the run is stored, and like there its failure is only
  logged.
\<close>

section \<open>Internal tokens\<close>

type_synonym jwt_signer = "string \<Rightarrow> json \<Rightarrow> string"

text \<open>\<open>Buffer.byteLength\<close>: the length in UTF-8.\<close>

definition byteLength :: "string \<Rightarrow> nat" where
  "byteLength s = sum_list (map (\<lambda>c. if code c < 128 then 1 else 2) s)"

record token_claims =
  tc_workspaceId :: string
  tc_runId :: "string option"
  tc_incidentId :: "string option"

definition tokenPayload ::
  "string \<Rightarrow> token_claims \<Rightarrow> int \<Rightarrow> int \<Rightarrow> string \<Rightarrow> json"
where
  "tokenPayload audience claims issuedAt expires jti =
     JObj [(''workspaceId'', JStr (tc_workspaceId claims)),
           (''runId'', jsonOfOption (tc_runId claims)),
           (''incidentId'', jsonOfOption (tc_incidentId claims)),
           (''iss'', JStr ''deployment-manager''),
           (''aud'', JStr audience),
           (''iat'', JNum issuedAt),
           (''exp'', JNum expires),
           (''jti'', JStr jti)]"

definition signInternalToken ::
  "jwt_signer \<Rightarrow> service_config \<Rightarrow> string \<Rightarrow> token_claims \<Rightarrow> ('c world, string) io"
where
  "signInternalToken signer cfg audience claims =
     (let secret = internalServiceJwtSecret cfg in
      if byteLength secret < 32
      then throwM (InternalServerError ''INTERNAL_SERVICE_JWT_SECRET must contain at least 32 bytes'')
      else bindM now (\<lambda>t1. bindM now (\<lambda>t2. bindM fresh (\<lambda>jti.
             returnM (signer secret
               (tokenPayload audience claims (t1 div 1000) (t2 div 1000 + 120) jti))))))"

section \<open>The agent\<close>

definition runClaims :: "string \<Rightarrow> string \<Rightarrow> string \<Rightarrow> token_claims" where
  "runClaims workspaceId runId incidentId =
     \<lparr> tc_workspaceId = workspaceId, tc_runId = Some runId, tc_incidentId = Some incidentId \<rparr>"

definition triggerAgentRun ::
  "'c fetch_api \<Rightarrow> jwt_signer \<Rightarrow> service_config \<Rightarrow> string \<Rightarrow> string \<Rightarrow> string \<Rightarrow> ('c world, unit) io"
where
  "triggerAgentRun fetch signer cfg workspaceId runId incidentId =
     (if \<not> rcaAgentEnabled cfg \<or> rcaAgentTriggerMode cfg \<noteq> ''async'' then returnM ()
      else
        (let baseUrl = rcaAgentServiceUrl cfg in
         if baseUrl = [] then returnM ()
         else
           bindM (signInternalToken signer cfg ''rca-agent'' (runClaims workspaceId runId incidentId)) (\<lambda>token.
           bindM (callFetch fetch
             \<lparr> fq_method = ''POST'', fq_url = baseUrl @ ''/rca-agent/runs'',
               fq_headers = [(''authorization'', ''Bearer '' @ token),
                             (''content-type'', ''application/json'')],
               fq_body = JObj [(''workspaceId'', JStr workspaceId), (''runId'', JStr runId),
                               (''incidentId'', JStr incidentId)] \<rparr>) (\<lambda>response.
             if \<not> fr_ok response
             then
               (let body = (case fr_text response of Inl _ \<Rightarrow> [] | Inr t \<Rightarrow> t) in
                throwM (JsError (''RCA agent returned '' @ showNat (fr_status response) @ '' ''
                  @ fr_statusText response @ '': '' @ body)))
             else returnM ()))))"

definition callAgent ::
  "'c fetch_api \<Rightarrow> jwt_signer \<Rightarrow> service_config \<Rightarrow> string \<Rightarrow> string \<Rightarrow> string \<Rightarrow> string
   \<Rightarrow> string \<Rightarrow> string entries \<Rightarrow> json \<Rightarrow> ('c world, json) io"
where
  "callAgent fetch signer cfg workspaceId runId incidentId p method headers body =
     (let baseUrl = rcaAgentServiceUrl cfg in
      if baseUrl = [] then throwM (JsError ''RCA agent service URL is not configured'')
      else
        bindM (signInternalToken signer cfg ''rca-agent'' (runClaims workspaceId runId incidentId)) (\<lambda>token.
        bindM (callFetch fetch
          \<lparr> fq_method = method, fq_url = baseUrl @ p,
            fq_headers = setEntry ''authorization'' (''Bearer '' @ token) headers,
            fq_body = body \<rparr>) (\<lambda>response.
          if \<not> fr_ok response
          then throwM (JsError (''RCA agent returned '' @ showNat (fr_status response)))
          else liftM (fr_json response))))"

section \<open>Runs\<close>

definition createRun :: "string \<Rightarrow> string \<Rightarrow> source \<Rightarrow> ('c world, rca_run) io" where
  "createRun incidentId deploymentId src =
     bindM fresh (\<lambda>i. bindM now (\<lambda>t.
       createRow runTable (\<lambda>ws.
         \<lparr> r_id = i, r_workspaceId = ws, r_incidentId = incidentId, r_deploymentId = deploymentId,
           r_status = RcaPending, r_source = src, r_startedAt = None, r_createdAt = t \<rparr>)))"

definition createRunEvent :: "rca_run \<Rightarrow> ('c world, rca_run_event) io" where
  "createRunEvent created =
     bindM fresh (\<lambda>i.
       createRow runEventTable (\<lambda>ws.
         \<lparr> e_id = i, e_workspaceId = ws, e_rcaRunId = r_id created, e_type = ''run.created'',
           e_data = JObj [(''source'', JStr (sourceName (r_source created)))] \<rparr>))"

text \<open>\<open>.catch\<close> on the trigger: the error is logged.\<close>

definition triggered ::
  "'c fetch_api \<Rightarrow> jwt_signer \<Rightarrow> service_config \<Rightarrow> rca_run \<Rightarrow> ('c world, unit) io"
where
  "triggered fetch signer cfg r =
     catchM (triggerAgentRun fetch signer cfg (r_workspaceId r) (r_id r) (r_incidentId r))
       (\<lambda>_. returnM ())"

definition startForIncident ::
  "'c fetch_api \<Rightarrow> jwt_signer \<Rightarrow> service_config \<Rightarrow> string \<Rightarrow> source \<Rightarrow> ('c world, rca_run) io"
where
  "startForIncident fetch signer cfg incidentId src =
     bindM (withTenantTransaction
       (bindM (findFirst incidentTable (\<lambda>i. i_id i = incidentId)) (\<lambda>found.
          case found of
            None \<Rightarrow> throwM (NotFound (''Incident '' @ incidentId @ '' was not found''))
          | Some incident \<Rightarrow>
        bindM (createRun (i_id incident) (i_deploymentId incident) src) (\<lambda>created.
        thenM (createRunEvent created) (returnM created))))) (\<lambda>r.
     thenM (triggered fetch signer cfg r) (returnM r))"

definition manualRcaIncident :: "deployment \<Rightarrow> ('c world, incident) io" where
  "manualRcaIncident d =
     bindM fresh (\<lambda>i. bindM now (\<lambda>t.
       createRow incidentTable (\<lambda>ws.
         \<lparr> i_id = i, i_workspaceId = ws, i_appId = d_appId d, i_deploymentId = d_id d,
           i_status = IncidentOpen, i_severity = Warning, i_source = Manual, i_ruleKey = None,
           i_title = ''Manual RCA requested for '' @ d_kubernetesDeployment d,
           i_summary = Some ''Manual RCA run was requested without a pre-existing incident.'',
           i_metadata = JObj [(''deploymentName'', JStr (d_kubernetesDeployment d)),
                              (''createdBy'', JStr ''manual-rca-api'')],
           i_latestHealthSampleId = None, i_openedAt = t, i_resolvedAt = None \<rparr>)))"

definition startForDeployment ::
  "'c fetch_api \<Rightarrow> jwt_signer \<Rightarrow> service_config \<Rightarrow> string \<Rightarrow> ('c world, rca_run) io"
where
  "startForDeployment fetch signer cfg deploymentId =
     bindM (withTenantTransaction
       (bindM (findFirst deploymentTable (\<lambda>d. d_id d = deploymentId)) (\<lambda>found.
          case found of
            None \<Rightarrow> throwM (NotFound (''Deployment '' @ deploymentId @ '' was not found''))
          | Some d \<Rightarrow>
        bindM (manualRcaIncident d) (\<lambda>incident.
        bindM (createRun (i_id incident) (d_id d) Manual) (\<lambda>created.
        thenM (createRunEvent created) (returnM created)))))) (\<lambda>r.
     thenM (triggered fetch signer cfg r) (returnM r))"

definition ensureIncidentExists :: "string \<Rightarrow> ('c world, unit) io" where
  "ensureIncidentExists incidentId =
     bindM (findFirst incidentTable (\<lambda>i. i_id i = incidentId)) (\<lambda>found.
       if found = None then throwM (NotFound (''Incident '' @ incidentId @ '' was not found''))
       else returnM ())"

definition findRunsByIncident :: "string \<Rightarrow> ('c world, rca_run list) io" where
  "findRunsByIncident incidentId =
     thenM (ensureIncidentExists incidentId)
       (bindM (findMany runTable (\<lambda>r. r_incidentId r = incidentId)) (\<lambda>rs.
          returnM (newestFirst r_createdAt rs)))"

definition findRunOrThrow :: "string \<Rightarrow> ('c world, rca_run) io" where
  "findRunOrThrow i =
     bindM (findFirst runTable (\<lambda>r. r_id r = i)) (\<lambda>found.
       case found of
         None \<Rightarrow> throwM (NotFound (''RCA run '' @ i @ '' was not found''))
       | Some r \<Rightarrow> returnM r)"

definition getRcaConfig :: "service_config \<Rightarrow> json" where
  "getRcaConfig cfg =
     JObj [(''incidentDetectionEnabled'', JBool (incidentDetectionEnabled cfg)),
           (''incidentDetectionIntervalSeconds'', JNum (incidentDetectionIntervalSeconds cfg)),
           (''autoRcaEnabled'', JBool (autoRcaEnabled cfg)),
           (''rcaEvidenceLookbackMinutes'', JNum (rcaEvidenceLookbackMinutes cfg)),
           (''rcaEvidenceLookaheadMinutes'', JNum (rcaEvidenceLookaheadMinutes cfg)),
           (''rcaMcpServerUrl'', JStr (rcaMcpServerUrl cfg)),
           (''rcaAgentServiceUrl'', JStr (rcaAgentServiceUrl cfg)),
           (''rcaAgentEnabled'', JBool (rcaAgentEnabled cfg)),
           (''rcaAgentTriggerMode'', JStr (rcaAgentTriggerMode cfg)),
           (''placeholderEngine'', JBool False),
           (''evidenceContextPersistence'', JStr ''none'')]"

definition listChat ::
  "'c fetch_api \<Rightarrow> jwt_signer \<Rightarrow> service_config \<Rightarrow> string \<Rightarrow> ('c world, json) io"
where
  "listChat fetch signer cfg runId =
     bindM (findRunOrThrow runId) (\<lambda>r.
       callAgent fetch signer cfg (r_workspaceId r) (r_id r) (r_incidentId r)
         (''/rca-agent/runs/'' @ r_id r @ ''/chat'') ''GET'' [] JUndef)"

definition chat ::
  "'c fetch_api \<Rightarrow> jwt_signer \<Rightarrow> service_config \<Rightarrow> string \<Rightarrow> string \<Rightarrow> ('c world, json) io"
where
  "chat fetch signer cfg runId message =
     bindM (findRunOrThrow runId) (\<lambda>r.
       callAgent fetch signer cfg (r_workspaceId r) (r_id r) (r_incidentId r)
         (''/rca-agent/runs/'' @ r_id r @ ''/chat'') ''POST''
         [(''content-type'', ''application/json'')] (JObj [(''message'', JStr message)]))"

section \<open>Frames\<close>

lemma sameTables_fields:
  assumes "sameTables w w'"
  shows "runs w' = runs w" "runEvents w' = runEvents w" "incidents w' = incidents w"
    "databaseWorkspace w' = databaseWorkspace w"
proof -
  obtain c t d where "w' = w\<lparr>cluster := c, ticks := t, drawn := d\<rparr>"
    using assms unfolding sameTables_def by blast
  then show "runs w' = runs w" "runEvents w' = runEvents w" "incidents w' = incidents w"
    "databaseWorkspace w' = databaseWorkspace w" by simp_all
qed

lemma sameTables_callFetch [keeps_intros]: "keeps sameTables (callFetch fetch rq)"
  by (auto simp: keeps_def callFetch_def sameTables_def split: prod.split sum.split)

lemma sameTables_fresh [keeps_intros]: "keeps sameTables fresh"
  by (auto simp: keeps_def fresh_run sameTables_def)

lemma sameTables_signInternalToken [keeps_intros]:
  "keeps sameTables (signInternalToken signer cfg audience claims)"
  unfolding signInternalToken_def Let_def by (intro keeps_intros sameTables_now)

lemma sameTables_triggered: "keeps sameTables (triggered fetch signer cfg r)"
  unfolding triggered_def triggerAgentRun_def Let_def by (intro keeps_intros)

lemma sameTables_callAgent [keeps_intros]:
  "keeps sameTables (callAgent fetch signer cfg ws runId inc p method headers body)"
  unfolding callAgent_def Let_def by (intro keeps_intros)

lemma keeps_findRunOrThrow [keeps_intros]: "preorder_rel R \<Longrightarrow> keeps R (findRunOrThrow i)"
  unfolding findRunOrThrow_def
  by (intro keeps_bindM keeps_findFirst keeps_option keeps_throwM keeps_returnM)

lemma sameTables_chat: "keeps sameTables (listChat fetch signer cfg i)"
  "keeps sameTables (chat fetch signer cfg i message)"
  unfolding listChat_def chat_def by (intro keeps_intros)+

lemma keeps_createRun [keeps_intros]: "keeps tenantFrame (createRun inc dep src)"
  unfolding createRun_def by (intro keeps_intros)

lemma keeps_createRunEvent [keeps_intros]: "keeps tenantFrame (createRunEvent r)"
  unfolding createRunEvent_def by (intro keeps_intros)

lemma keeps_startForIncident [keeps_intros]:
  "keeps tenantFrame (startForIncident fetch signer cfg i src)"
  unfolding startForIncident_def
  by (intro keeps_intros keeps_sameTables_tenantFrame [OF sameTables_triggered])

lemma keeps_startForDeployment [keeps_intros]:
  "keeps tenantFrame (startForDeployment fetch signer cfg i)"
  unfolding startForDeployment_def manualRcaIncident_def
  by (intro keeps_intros keeps_sameTables_tenantFrame [OF sameTables_triggered])

section \<open>Properties\<close>

lemma createRun_stored:
  assumes "createRun inc dep src w = (Inr r, w')"
  shows "w' = w\<lparr>drawn := Suc (drawn w), ticks := Suc (ticks w), runs := runs w @ [r]\<rparr>
    \<and> databaseWorkspace w = Some (r_workspaceId r) \<and> r_status r = RcaPending
    \<and> r_incidentId r = inc \<and> r_deploymentId r = dep \<and> r_source r = src"
  using assms
  by (auto simp: createRun_def bindM_run fresh_run now_run createRow_def Let_def runTable_def visible_def
      split: option.splits if_splits)

lemma createRunEvent_stored:
  assumes "createRunEvent r w = (Inr e, w')"
  shows "w' = w\<lparr>drawn := Suc (drawn w), runEvents := runEvents w @ [e]\<rparr>
    \<and> databaseWorkspace w = Some (e_workspaceId e) \<and> e_rcaRunId e = r_id r \<and> e_type e = ''run.created''"
  using assms
  by (auto simp: createRunEvent_def bindM_run fresh_run createRow_def Let_def runEventTable_def visible_def
      split: option.splits if_splits)

lemma manualRcaIncident_stored:
  assumes "manualRcaIncident d w = (Inr i, w')"
  shows "w' = w\<lparr>drawn := Suc (drawn w), ticks := Suc (ticks w), incidents := incidents w @ [i]\<rparr>
    \<and> databaseWorkspace w = Some (i_workspaceId i) \<and> i_deploymentId i = d_id d
    \<and> i_appId i = d_appId d \<and> i_status i = IncidentOpen \<and> i_ruleKey i = None"
  using assms
  by (auto simp: manualRcaIncident_def bindM_run fresh_run now_run createRow_def Let_def
      incidentTable_def visible_def split: option.splits if_splits)

text \<open>What is left of a transaction in the tenant's context, and of the trigger after it.\<close>

lemma started_cases:
  assumes "bindM (withTenantTransaction m) (\<lambda>r. thenM (triggered fetch signer cfg r) (returnM r)) w = (res, w')"
  obtains (refused) e where "res = Inl e" "runs w' = runs w" "runEvents w' = runEvents w"
      "incidents w' = incidents w"
  | (started) r v ctx where "res = Inr r" "m (w\<lparr>tenant := Some ctx\<rparr>) = (Inr r, v)"
      "databaseWorkspace (w\<lparr>tenant := Some ctx\<rparr>) = databaseWorkspace w"
      "runs w' = runs v" "runEvents w' = runEvents v" "incidents w' = incidents v"
proof (cases "databaseWorkspace w")
  case None
  then show ?thesis
    using assms
    by (intro refused [of "Unauthorized ''A workspace context is required''"])
       (auto simp: bindM_run withTenantTransaction_run)
next
  case (Some ws)
  then have ws: "ws \<noteq> []" by (auto simp: databaseWorkspace_def split: option.splits if_splits)
  let ?ctx = "(the (tenant w))\<lparr>c_workspaceId := ws, c_transactionActive := True\<rparr>"
  obtain x v where run: "m (w\<lparr>tenant := Some ?ctx\<rparr>) = (x, v)" by fastforce
  show ?thesis
  proof (cases x)
    case (Inl e)
    then show ?thesis
      using assms run Some
      by (intro refused [of e])
         (auto simp: bindM_run withTenantTransaction_run transaction_run runInContext_run restoreTables_def)
  next
    case (Inr r)
    obtain y u where tr: "triggered fetch signer cfg r (v\<lparr>tenant := tenant w\<rparr>) = (y, u)" by fastforce
    then have "y = Inr ()"
      by (auto simp: triggered_def catchM_run split: prod.splits sum.splits)
    moreover have "sameTables (v\<lparr>tenant := tenant w\<rparr>) u"
      using keepsD [OF sameTables_triggered] tr by (metis snd_conv)
    then have "runs u = runs v" "runEvents u = runEvents v" "incidents u = incidents v"
      by (simp_all add: sameTables_fields)
    moreover have "databaseWorkspace (w\<lparr>tenant := Some ?ctx\<rparr>) = databaseWorkspace w"
      using Some ws by (simp add: databaseWorkspace_def)
    ultimately show ?thesis
      using assms run Inr Some tr
      by (intro started [of r ?ctx v])
        (auto simp: bindM_run thenM_run withTenantTransaction_run transaction_run runInContext_run)
  qed
qed

text \<open>
  Starting an analysis of an incident records it once or not at all, whatever becomes of the
  agent: when it succeeds there is one new pending run of that incident and its deployment, in the
  caller's workspace, with its creation event; when it fails there is neither.
\<close>

theorem incident_run_recorded:
  assumes "startForIncident fetch signer cfg incidentId src w = (res, w')"
  shows "case res of
      Inl e \<Rightarrow> runs w' = runs w \<and> runEvents w' = runEvents w
    | Inr r \<Rightarrow>
        (\<exists>ev. runs w' = runs w @ [r] \<and> runEvents w' = runEvents w @ [ev]
           \<and> e_rcaRunId ev = r_id r \<and> e_workspaceId ev = r_workspaceId r)
        \<and> r_status r = RcaPending \<and> r_source r = src \<and> r_incidentId r = incidentId
        \<and> databaseWorkspace w = Some (r_workspaceId r)
        \<and> (\<exists>i \<in> set (incidents w). i_id i = incidentId \<and> i_workspaceId i = r_workspaceId r
             \<and> i_deploymentId i = r_deploymentId r)"
  using assms unfolding startForIncident_def
proof (cases rule: started_cases)
  case (refused e)
  then show ?thesis by simp
next
  case (started r v ctx)
  from started(2) obtain i where i: "i \<in> set (incidents w)" "i_id i = incidentId"
    "databaseWorkspace w = Some (i_workspaceId i)"
    and rest: "bindM (createRun (i_id i) (i_deploymentId i) src)
        (\<lambda>created. thenM (createRunEvent created) (returnM created)) (w\<lparr>tenant := Some ctx\<rparr>) = (Inr r, v)"
  proof -
    from started(2) obtain i where f: "findFirst incidentTable (\<lambda>i. i_id i = incidentId)
        (w\<lparr>tenant := Some ctx\<rparr>) = (Inr (Some i), w\<lparr>tenant := Some ctx\<rparr>)"
      and rest: "bindM (createRun (i_id i) (i_deploymentId i) src)
        (\<lambda>created. thenM (createRunEvent created) (returnM created)) (w\<lparr>tenant := Some ctx\<rparr>) = (Inr r, v)"
      by (auto elim!: findFirst_E split: option.splits)
    have "i \<in> set (incidents w)" "i_id i = incidentId" "databaseWorkspace w = Some (i_workspaceId i)"
      using incident.findFirst_found [OF f] started(3) by (simp_all add: incidentTable_def)
    with rest that show thesis by blast
  qed
  from rest obtain u ev where run: "createRun (i_id i) (i_deploymentId i) src (w\<lparr>tenant := Some ctx\<rparr>) = (Inr r, u)"
    and event: "createRunEvent r u = (Inr ev, v)"
    by (auto simp: bindM_Inr_iff thenM_Inr_iff)
  from createRun_stored [OF run] createRunEvent_stored [OF event] i started
  show ?thesis by auto
qed

text \<open>
  C25. Asking for an analysis of a deployment is one step: the incident it opens, the run and the
  run's event are stored together in the caller's workspace and refer to each other, or none of
  them is.
\<close>

theorem deployment_run_atomic:
  assumes "startForDeployment fetch signer cfg deploymentId w = (res, w')"
  shows "case res of
      Inl e \<Rightarrow> incidents w' = incidents w \<and> runs w' = runs w \<and> runEvents w' = runEvents w
    | Inr r \<Rightarrow>
        (\<exists>i ev. incidents w' = incidents w @ [i] \<and> runs w' = runs w @ [r]
           \<and> runEvents w' = runEvents w @ [ev] \<and> r_incidentId r = i_id i \<and> e_rcaRunId ev = r_id r
           \<and> i_deploymentId i = deploymentId \<and> r_deploymentId r = deploymentId
           \<and> i_status i = IncidentOpen \<and> r_status r = RcaPending
           \<and> databaseWorkspace w = Some (i_workspaceId i)
           \<and> r_workspaceId r = i_workspaceId i \<and> e_workspaceId ev = i_workspaceId i)"
  using assms unfolding startForDeployment_def
proof (cases rule: started_cases)
  case (refused e)
  then show ?thesis by simp
next
  case (started r v ctx)
  from started(2) obtain d where d: "d_id d = deploymentId"
    and rest: "bindM (manualRcaIncident d) (\<lambda>incident. bindM (createRun (i_id incident) (d_id d) Manual)
        (\<lambda>created. thenM (createRunEvent created) (returnM created))) (w\<lparr>tenant := Some ctx\<rparr>) = (Inr r, v)"
  proof -
    from started(2) obtain d where f: "findFirst deploymentTable (\<lambda>d. d_id d = deploymentId)
        (w\<lparr>tenant := Some ctx\<rparr>) = (Inr (Some d), w\<lparr>tenant := Some ctx\<rparr>)"
      and rest: "bindM (manualRcaIncident d) (\<lambda>incident. bindM (createRun (i_id incident) (d_id d) Manual)
        (\<lambda>created. thenM (createRunEvent created) (returnM created))) (w\<lparr>tenant := Some ctx\<rparr>) = (Inr r, v)"
      by (auto elim!: findFirst_E split: option.splits)
    with deployment.findFirst_found(3) [OF f] that show thesis by blast
  qed
  from rest obtain i u u' ev where "manualRcaIncident d (w\<lparr>tenant := Some ctx\<rparr>) = (Inr i, u)"
    and "createRun (i_id i) (d_id d) Manual u = (Inr r, u')" and "createRunEvent r u' = (Inr ev, v)"
    by (auto simp: bindM_Inr_iff thenM_Inr_iff)
  from manualRcaIncident_stored [OF this(1)] createRun_stored [OF this(2)]
    createRunEvent_stored [OF this(3)] d started
  show ?thesis by auto
qed

lemma callAgent_sends:
  assumes "callAgent (recordingFetch answer) signer cfg ws runId inc p method headers body w = (res, w')"
  shows "cluster w' = cluster w
    \<or> 32 \<le> byteLength (internalServiceJwtSecret cfg)
      \<and> cluster w' = cluster w @
          [\<lparr> fq_method = method, fq_url = rcaAgentServiceUrl cfg @ p,
             fq_headers = setEntry ''authorization'' (''Bearer '' @
               signer (internalServiceJwtSecret cfg)
                 (tokenPayload ''rca-agent'' (runClaims ws runId inc) (clock w (ticks w) div 1000)
                    (clock w (Suc (ticks w)) div 1000 + 120) (entropy w (drawn w)))) headers,
             fq_body = body \<rparr>]"
  using assms
  by (auto simp: callAgent_def signInternalToken_def Let_def bindM_run now_run fresh_run callFetch_run
      recordingFetch_def split: if_splits sum.splits)

text \<open>What a request to the agent must carry.\<close>

definition scopedRequest ::
  "jwt_signer \<Rightarrow> service_config \<Rightarrow> string \<Rightarrow> instant \<Rightarrow> rca_run \<Rightarrow> fetch_request \<Rightarrow> bool"
where
  "scopedRequest signer cfg ws t r rq \<longleftrightarrow>
     r_workspaceId r = ws
     \<and> fq_url rq = rcaAgentServiceUrl cfg @ ''/rca-agent/runs/'' @ r_id r @ ''/chat''
     \<and> 32 \<le> byteLength (internalServiceJwtSecret cfg)
     \<and> (\<exists>iat jti. map_of (fq_headers rq) ''authorization'' =
          Some (''Bearer '' @ signer (internalServiceJwtSecret cfg)
            (tokenPayload ''rca-agent'' (runClaims ws (r_id r) (r_incidentId r)) iat (t div 1000 + 120) jti)))"

text \<open>
  C26. The chat with the agent is scoped to the caller: the service sends at most one request, only
  for a run of the caller's own workspace, to that run's address, with a token signed for that
  workspace, run and incident by a secret of at least 32 bytes and good for two minutes; any other
  run id sends nothing.
\<close>

theorem chat_is_scoped:
  assumes "chat (recordingFetch answer) signer cfg runId message w = (res, w')"
  shows "cluster w' = cluster w
    \<or> (\<exists>rq r ws. cluster w' = cluster w @ [rq] \<and> r \<in> set (runs w) \<and> r_id r = runId
         \<and> databaseWorkspace w = Some ws \<and> scopedRequest signer cfg ws (clock w (Suc (ticks w))) r rq
         \<and> fq_body rq = JObj [(''message'', JStr message)])"
proof (cases "find (\<lambda>r. visible runTable w r \<and> r_id r = runId) (runs w)")
  case None
  then show ?thesis
    using assms by (simp add: chat_def findRunOrThrow_def bindM_run findFirst_def runTable_def)
next
  case (Some r)
  then have r: "r \<in> set (runs w)" "r_id r = runId" "databaseWorkspace w = Some (r_workspaceId r)"
    by (auto simp: find_Some_iff run.visible_iff) (simp_all add: runTable_def)
  have "chat (recordingFetch answer) signer cfg runId message w =
      callAgent (recordingFetch answer) signer cfg (r_workspaceId r) (r_id r) (r_incidentId r)
        (''/rca-agent/runs/'' @ r_id r @ ''/chat'') ''POST''
        [(''content-type'', ''application/json'')] (JObj [(''message'', JStr message)]) w"
    using Some by (simp add: chat_def findRunOrThrow_def bindM_run findFirst_def runTable_def)
  from callAgent_sends [OF this [symmetric, unfolded assms]] r show ?thesis
    unfolding scopedRequest_def by (fastforce simp: map_of_setEntry)
qed

section \<open>Witnesses\<close>

definition sampleIncident :: incident where
  "sampleIncident =
     \<lparr> i_id = ''i1'', i_workspaceId = ''w1'', i_appId = ''a1'', i_deploymentId = ''d1'',
       i_status = IncidentOpen, i_severity = Warning, i_source = Manual, i_ruleKey = None,
       i_title = ''t'', i_summary = None, i_metadata = JUndef, i_latestHealthSampleId = None,
       i_openedAt = 0, i_resolvedAt = None \<rparr>"

definition sampleRun :: rca_run where
  "sampleRun =
     \<lparr> r_id = ''r1'', r_workspaceId = ''w1'', r_incidentId = ''i1'', r_deploymentId = ''d1'',
       r_status = RcaPending, r_source = Manual, r_startedAt = None, r_createdAt = 0 \<rparr>"

definition rcaWorld :: "fetch_request list world" where
  "rcaWorld = (emptyWorld [])\<lparr> deployments := [sampleDeployment], incidents := [sampleIncident],
     runs := [sampleRun], tenant := Some sampleContext \<rparr>"

lemma rcaWorld_facts:
  "databaseWorkspace rcaWorld = Some ''w1''" "incidents rcaWorld = [sampleIncident]"
  "runs rcaWorld = [sampleRun]" "runEvents rcaWorld = []" "cluster rcaWorld = []"
  by (simp_all add: rcaWorld_def databaseWorkspace_def sampleContext_def emptyWorld_def)

theorem incident_run_recorded_witness:
  "\<exists>res w'. startForIncident (recordingFetch (\<lambda>_. Inl ''down'')) (\<lambda>_ _. ''sig'') defaultConfig ''i2'' Manual
       rcaWorld = (res, w') \<and> (\<exists>e. res = Inl e) \<and> runs w' = [sampleRun]"
proof -
  obtain res w' where run: "startForIncident (recordingFetch (\<lambda>_. Inl ''down'')) (\<lambda>_ _. ''sig'')
      defaultConfig ''i2'' Manual rcaWorld = (res, w')" by fastforce
  from incident_run_recorded [OF run] show ?thesis
    using run by (auto simp: rcaWorld_facts sampleIncident_def split: sum.splits)
qed

theorem deployment_run_atomic_witness:
  "\<exists>res w'. startForDeployment (recordingFetch (\<lambda>_. Inl ''down'')) (\<lambda>_ _. ''sig'') defaultConfig ''d1''
       rcaWorld = (res, w')
     \<and> (length (incidents w') = 1 \<longleftrightarrow> (\<exists>e. res = Inl e)) \<and> length (incidents w') = length (runs w')"
proof -
  obtain res w' where run: "startForDeployment (recordingFetch (\<lambda>_. Inl ''down'')) (\<lambda>_ _. ''sig'')
      defaultConfig ''d1'' rcaWorld = (res, w')" by fastforce
  from deployment_run_atomic [OF run] show ?thesis
    using run by (cases res) (auto simp: rcaWorld_facts)
qed

theorem chat_is_scoped_witness:
  "\<exists>res w'. chat (recordingFetch (\<lambda>_. Inl ''down'')) (\<lambda>_ _. ''sig'') defaultConfig ''r2'' ''hello'' rcaWorld
       = (res, w') \<and> cluster w' = []"
proof -
  obtain res w' where run: "chat (recordingFetch (\<lambda>_. Inl ''down'')) (\<lambda>_ _. ''sig'') defaultConfig ''r2''
      ''hello'' rcaWorld = (res, w')" by fastforce
  from chat_is_scoped [OF run] show ?thesis
    using run by (auto simp: rcaWorld_facts sampleRun_def)
qed

end
