(* ===== verification/Incidents.thy ===== *)
theory Incidents
  imports Rca Observability "HOL-Library.List_Lexorder" "HOL-Library.Char_ord"
begin

text \<open>
  incidents/incidents.service.ts: incidents opened by hand, and the detection tick that opens them
  from the health samples and starts an analysis of each. The timer is modelled in Server; the
  log lines are not.
\<close>

section \<open>Signals\<close>

record incident_signal =
  sg_ruleKey :: string
  sg_severity :: severity
  sg_title :: string
  sg_summary :: string

definition buildSignals :: "health_sample \<Rightarrow> health_sample option \<Rightarrow> incident_signal list" where
  "buildSignals latest previous =
     (if h_desiredReplicas latest > 0 \<and> h_readyReplicas latest < h_desiredReplicas latest
      then [\<lparr> sg_ruleKey = ''ready-replicas-below-desired'', sg_severity = Critical,
              sg_title = ''Deployment has unavailable replicas'',
              sg_summary = ''Ready replicas '' @ showInt (h_readyReplicas latest) @ ''/''
                @ showInt (h_desiredReplicas latest) @ ''.'' \<rparr>]
      else [])
     @ (if h_warningEventCount latest > 0
        then [\<lparr> sg_ruleKey = ''kubernetes-warning-events'', sg_severity = Warning,
                sg_title = ''Deployment has Kubernetes warning events'',
                sg_summary = showInt (h_warningEventCount latest)
                  @ '' warning event(s) were observed in the latest health sample.'' \<rparr>]
        else [])
     @ (case previous of
          None \<Rightarrow> []
        | Some prev \<Rightarrow>
            (if h_restartCount latest > h_restartCount prev
             then [\<lparr> sg_ruleKey = ''container-restarts-increased'', sg_severity = Warning,
                     sg_title = ''Container restart count increased'',
                     sg_summary = ''Container restarts increased from ''
                       @ showInt (h_restartCount prev) @ '' to '' @ showInt (h_restartCount latest)
                       @ ''.'' \<rparr>]
             else []))
     @ (if h_status latest = ''failed'' \<or> h_status latest = ''warning''
        then [\<lparr> sg_ruleKey = ''health-status-'' @ h_status latest,
                sg_severity = (if h_status latest = ''failed'' then Critical else Warning),
                sg_title = ''Deployment health status is '' @ h_status latest,
                sg_summary = ''Latest health sample status is '' @ h_status latest @ ''.'' \<rparr>]
        else [])"

definition buildIncidentMetadata :: "health_sample \<Rightarrow> deployment \<Rightarrow> incident_signal \<Rightarrow> json" where
  "buildIncidentMetadata s d sg =
     JObj [(''ruleKey'', JStr (sg_ruleKey sg)),
           (''deploymentName'', JStr (d_kubernetesDeployment d)),
           (''healthSampleId'', JStr (h_id s)),
           (''sampleStatus'', JStr (h_status s)),
           (''desiredReplicas'', JNum (h_desiredReplicas s)),
           (''readyReplicas'', JNum (h_readyReplicas s)),
           (''availableReplicas'', JNum (h_availableReplicas s)),
           (''podCount'', JNum (h_podCount s)),
           (''warningEventCount'', JNum (h_warningEventCount s)),
           (''restartCount'', JNum (h_restartCount s)),
           (''collectedAt'', JDate (h_collectedAt s))]"

section \<open>Detection\<close>

definition setIncident :: "string \<Rightarrow> (incident \<Rightarrow> incident) \<Rightarrow> ('c world, incident) io" where
  "setIncident i f = updateRow incidentTable (\<lambda>x. i_id x = i) f"

definition openAutomaticIncident ::
  "'c fetch_api \<Rightarrow> jwt_signer \<Rightarrow> service_config \<Rightarrow> health_sample \<Rightarrow> deployment \<Rightarrow> incident_signal
   \<Rightarrow> ('c world, unit) io"
where
  "openAutomaticIncident fetch signer cfg s d sg =
     bindM (findFirst incidentTable (\<lambda>i.
         i_deploymentId i = h_deploymentId s \<and> i_status i = IncidentOpen
         \<and> i_ruleKey i = Some (sg_ruleKey sg))) (\<lambda>existing.
       case existing of
         Some e \<Rightarrow>
           voidM (setIncident (i_id e) (\<lambda>i. i\<lparr>
             i_severity := sg_severity sg, i_summary := Some (sg_summary sg),
             i_latestHealthSampleId := Some (h_id s), i_metadata := buildIncidentMetadata s d sg\<rparr>))
       | None \<Rightarrow>
     bindM fresh (\<lambda>i. bindM now (\<lambda>t.
     bindM (createRow incidentTable (\<lambda>ws.
         \<lparr> i_id = i, i_workspaceId = ws, i_appId = d_appId d, i_deploymentId = h_deploymentId s,
           i_status = IncidentOpen, i_severity = sg_severity sg, i_source = Automatic,
           i_ruleKey = Some (sg_ruleKey sg), i_title = sg_title sg,
           i_summary = Some (sg_summary sg), i_metadata = buildIncidentMetadata s d sg,
           i_latestHealthSampleId = Some (h_id s), i_openedAt = t, i_resolvedAt = None \<rparr>)) (\<lambda>incident.
       whenM (autoRcaEnabled cfg)
         (voidM (startForIncident fetch signer cfg (i_id incident) Automatic))))))"

text \<open>
  \<open>include: { deployment: true }\<close> reads the deployment each sample refers to; the client rejects a
  sample whose deployment it cannot see.
\<close>

definition deploymentOfSample :: "health_sample \<Rightarrow> ('c world, deployment) io" where
  "deploymentOfSample s =
     bindM (findFirst deploymentTable (\<lambda>d. d_id d = h_deploymentId s)) (\<lambda>found.
       case found of
         None \<Rightarrow> throwM (PrismaError ''Inconsistent query result'')
       | Some d \<Rightarrow> returnM d)"

definition detectDeploymentIncidents ::
  "'c fetch_api \<Rightarrow> jwt_signer \<Rightarrow> service_config \<Rightarrow> string \<Rightarrow> ('c world, unit) io"
where
  "detectDeploymentIncidents fetch signer cfg deploymentId =
     bindM (findMany sampleTable (\<lambda>s. h_deploymentId s = deploymentId)) (\<lambda>rows.
       case take 2 (newestFirst h_collectedAt rows) of
         [] \<Rightarrow> returnM ()
       | latest # rest \<Rightarrow>
           bindM (deploymentOfSample latest) (\<lambda>d.
             voidM (allM (openAutomaticIncident fetch signer cfg latest d)
               (buildSignals latest (case rest of [] \<Rightarrow> None | p # _ \<Rightarrow> Some p)))))"

definition getDeploymentIdsWithRecentSamples :: "('c world, string list) io" where
  "getDeploymentIdsWithRecentSamples =
     bindM (minutesAgo 10) (\<lambda>since.
     bindM (findMany sampleTable (\<lambda>s. since \<le> h_collectedAt s)) (\<lambda>rows.
       returnM (sort (remdups (map h_deploymentId rows)))))"

definition detectWorkspace ::
  "'c fetch_api \<Rightarrow> jwt_signer \<Rightarrow> service_config \<Rightarrow> ('c world, unit) io"
where
  "detectWorkspace fetch signer cfg =
     bindM getDeploymentIdsWithRecentSamples (\<lambda>ids.
       voidM (allM (\<lambda>i.
         catchM (detectDeploymentIncidents fetch signer cfg i) (\<lambda>_. returnM ())) ids))"

text \<open>\<open>finally\<close> puts the flag down on every way out.\<close>

definition detectIncidents ::
  "'c fetch_api \<Rightarrow> jwt_signer \<Rightarrow> service_config \<Rightarrow> ('c world, unit) io"
where
  "detectIncidents fetch signer cfg =
     bindM (readM detecting) (\<lambda>busy.
       if busy then returnM ()
       else
         thenM (modifyM (\<lambda>w. w\<lparr>detecting := True\<rparr>))
         (bindM (attemptM
            (bindM (findMany workspaceTable (\<lambda>ws. ws_status ws = WorkspaceActive)) (\<lambda>wss.
               forM wss (\<lambda>ws.
                 runInContext (workspaceContext (ws_id ws)) (detectWorkspace fetch signer cfg))))) (\<lambda>r.
          thenM (modifyM (\<lambda>w. w\<lparr>detecting := False\<rparr>)) (liftM r))))"

section \<open>By hand\<close>

record create_incident_dto =
  ci_title :: "string option"
  ci_severity :: "severity option"
  ci_summary :: "string option"

definition findDeploymentForIncident :: "string \<Rightarrow> ('c world, deployment) io" where
  "findDeploymentForIncident deploymentId =
     bindM (findFirst deploymentTable (\<lambda>d. d_id d = deploymentId)) (\<lambda>found.
       case found of
         None \<Rightarrow> throwM (NotFound (''Deployment '' @ deploymentId @ '' was not found''))
       | Some d \<Rightarrow> returnM d)"

definition createManualIncident :: "string \<Rightarrow> create_incident_dto \<Rightarrow> ('c world, incident) io" where
  "createManualIncident deploymentId dto =
     bindM (findDeploymentForIncident deploymentId) (\<lambda>d.
     bindM fresh (\<lambda>i. bindM now (\<lambda>t.
       createRow incidentTable (\<lambda>ws.
         \<lparr> i_id = i, i_workspaceId = ws, i_appId = d_appId d, i_deploymentId = d_id d,
           i_status = IncidentOpen, i_severity = orDefault (ci_severity dto) Warning,
           i_source = Manual, i_ruleKey = None,
           i_title = orDefault (ci_title dto) (''Manual incident for '' @ d_kubernetesDeployment d),
           i_summary = ci_summary dto,
           i_metadata = JObj [(''deploymentName'', JStr (d_kubernetesDeployment d)),
                              (''createdBy'', JStr ''manual-api'')],
           i_latestHealthSampleId = None, i_openedAt = t, i_resolvedAt = None \<rparr>))))"

definition findAllIncidents :: "incident_status option \<Rightarrow> ('c world, incident list) io" where
  "findAllIncidents status =
     bindM (findMany incidentTable (\<lambda>i. case status of None \<Rightarrow> True | Some s \<Rightarrow> i_status i = s)) (\<lambda>rs.
       returnM (newestFirst i_openedAt rs))"

definition findIncidentOrThrow :: "string \<Rightarrow> ('c world, incident) io" where
  "findIncidentOrThrow i =
     bindM (findFirst incidentTable (\<lambda>x. i_id x = i)) (\<lambda>found.
       case found of
         None \<Rightarrow> throwM (NotFound (''Incident '' @ i @ '' was not found''))
       | Some x \<Rightarrow> returnM x)"

definition resolveIncident :: "string \<Rightarrow> ('c world, incident) io" where
  "resolveIncident i =
     thenM (findIncidentOrThrow i)
       (bindM now (\<lambda>t.
          setIncident i (\<lambda>x. x\<lparr>i_status := IncidentResolved, i_resolvedAt := Some t\<rparr>)))"

section \<open>Isolation\<close>

lemma keeps_openAutomaticIncident [keeps_intros]:
  "keeps tenantFrame (openAutomaticIncident fetch signer cfg s d sg)"
  unfolding openAutomaticIncident_def setIncident_def
  by (intro keeps_intros) (simp add: incidentTable_def)

lemma keeps_detectDeploymentIncidents [keeps_intros]:
  "keeps tenantFrame (detectDeploymentIncidents fetch signer cfg i)"
  unfolding detectDeploymentIncidents_def deploymentOfSample_def
  by (intro keeps_intros) (auto split: list.split intro!: keeps_intros)

lemma keeps_detectWorkspace [keeps_intros]: "keeps tenantFrame (detectWorkspace fetch signer cfg)"
  unfolding detectWorkspace_def getDeploymentIdsWithRecentSamples_def by (intro keeps_intros)

lemma keeps_incident_operations [keeps_intros]:
  "keeps tenantFrame (createManualIncident i dto)" "keeps tenantFrame (findAllIncidents st)"
  "keeps tenantFrame (findIncidentOrThrow i)" "keeps tenantFrame (resolveIncident i)"
  unfolding createManualIncident_def findDeploymentForIncident_def findAllIncidents_def
    findIncidentOrThrow_def resolveIncident_def setIncident_def
  by (intro keeps_intros; simp add: incidentTable_def)+

section \<open>At most one open incident per rule\<close>

definition hasRule :: "incident \<Rightarrow> bool" where
  "hasRule i \<longleftrightarrow> i_status i = IncidentOpen \<and> i_ruleKey i \<noteq> None"

definition ruleOf :: "incident \<Rightarrow> string \<times> string \<times> string option" where
  "ruleOf i = (i_workspaceId i, i_deploymentId i, i_ruleKey i)"

definition oneOpenPerRule :: "'c world \<Rightarrow> bool" where
  "oneOpenPerRule w \<longleftrightarrow> distinct (map ruleOf (filter hasRule (incidents w)))"

definition keepsRules :: "'c world \<Rightarrow> 'c world \<Rightarrow> bool" where
  "keepsRules w w' \<longleftrightarrow> (oneOpenPerRule w \<longrightarrow> oneOpenPerRule w')"

lemma preorder_keepsRules [simp]: "preorder_rel keepsRules"
  by (auto simp: preorder_rel_def reflp_def transp_def keepsRules_def)

lemma keepsRules_same: "incidents w' = incidents w \<Longrightarrow> keepsRules w w'"
  by (simp add: keepsRules_def oneOpenPerRule_def)

lemma keepsRules_setIncident:
  assumes "\<And>x. ruleOf (f x) = ruleOf x \<and> (hasRule (f x) \<longrightarrow> hasRule x)"
  shows "keeps keepsRules (setIncident i f)"
proof (rule keepsI)
  fix w :: "'c world"
  have filter: "filter hasRule (map g xs) = map g (filter (\<lambda>x. hasRule (g x)) (filter hasRule xs))"
    if "\<And>x. hasRule (g x) \<longrightarrow> hasRule x" for g xs
    using that by (induction xs) auto
  have "keepsRules w (w\<lparr>incidents := map g (incidents w)\<rparr>)"
    if "\<And>x. ruleOf (g x) = ruleOf x \<and> (hasRule (g x) \<longrightarrow> hasRule x)" for g
    using that distinct_map_filter [of ruleOf "filter hasRule (incidents w)" "\<lambda>x. hasRule (g x)"]
    by (simp add: keepsRules_def oneOpenPerRule_def filter o_def del: filter_filter)
  with assms show "keepsRules w (snd (setIncident i f w))"
    by (auto simp: setIncident_def updateRow_def incidentTable_def keepsRules_same split: option.split)
qed

text \<open>A new incident whose rule, if it has one, is not open in the workspace.\<close>

lemma keepsRules_createIncident:
  assumes "\<And>ws. databaseWorkspace w = Some ws \<Longrightarrow> hasRule (mk ws) \<Longrightarrow>
      \<forall>i \<in> set (incidents w). hasRule i \<longrightarrow> ruleOf i \<noteq> ruleOf (mk ws)"
  shows "keepsRules w (snd (createRow incidentTable mk w))"
proof (cases "createRow incidentTable mk w")
  case (Pair r w')
  show ?thesis
  proof (cases r)
    case (Inl e)
    then show ?thesis using Pair incident.createRow_failed [of mk w e w'] by (simp add: keepsRules_same)
  next
    case (Inr x)
    then obtain ws where "databaseWorkspace w = Some ws" "x = mk ws"
      "w' = w\<lparr>incidents := incidents w @ [x]\<rparr>"
      using Pair by (auto simp: createRow_def Let_def incidentTable_def split: option.splits if_splits)
    then show ?thesis
      using assms [of ws] Pair by (auto simp: keepsRules_def oneOpenPerRule_def)
  qed
qed

lemma keepsRules_outside:
  "keeps keepsRules now" "keeps keepsRules fresh" "keeps keepsRules (callFetch fetch rq)"
  "keeps keepsRules (createRow runTable mk)" "keeps keepsRules (createRow runEventTable mk')"
  by (auto simp: keeps_def now_run fresh_run callFetch_run createRow_def Let_def runTable_def
      runEventTable_def intro!: keepsRules_same split: option.split prod.split sum.split)

lemma keepsRules_transaction: "keeps keepsRules m \<Longrightarrow> keeps keepsRules (withTenantTransaction m)"
  by (rule keeps_withTenantTransaction_by)
    (auto simp: keepsRules_def oneOpenPerRule_def restoreTables_def)

lemma keepsRules_startForIncident: "keeps keepsRules (startForIncident fetch signer cfg i src)"
  unfolding startForIncident_def createRun_def createRunEvent_def triggered_def triggerAgentRun_def
    signInternalToken_def Let_def
  by (intro keeps_bindM keeps_thenM keeps_catchM keeps_findFirst keeps_option keeps_throwM
      keeps_returnM keeps_if keepsRules_outside keepsRules_transaction preorder_keepsRules)

lemma keepsRules_openAutomaticIncident:
  "keeps keepsRules (openAutomaticIncident fetch signer cfg s d sg)"
proof (rule keepsI)
  fix w
  let ?open = "\<lambda>i. i_deploymentId i = h_deploymentId s \<and> i_status i = IncidentOpen
      \<and> i_ruleKey i = Some (sg_ruleKey sg)"
  show "keepsRules w (snd (openAutomaticIncident fetch signer cfg s d sg w))"
  proof (cases "find (\<lambda>i. visible incidentTable w i \<and> ?open i) (rowsOf incidentTable w)")
    case (Some e)
    let ?refresh = "setIncident (i_id e) (\<lambda>i. i\<lparr>i_severity := sg_severity sg,
        i_summary := Some (sg_summary sg), i_latestHealthSampleId := Some (h_id s),
        i_metadata := buildIncidentMetadata s d sg\<rparr>)"
    have eq: "openAutomaticIncident fetch signer cfg s d sg w = voidM ?refresh w"
      using Some by (simp add: openAutomaticIncident_def bindM_run findFirst_def)
    show ?thesis
      unfolding eq
      by (rule keepsD [where R = keepsRules], intro keeps_voidM keepsRules_setIncident preorder_keepsRules)
         (simp add: ruleOf_def hasRule_def)
  next
    case None
    then have free: "\<forall>i \<in> set (incidents w). databaseWorkspace w = Some (i_workspaceId i) \<longrightarrow> \<not> ?open i"
      by (auto simp: find_None_iff incident.visible_iff) (simp add: incidentTable_def)
    let ?w = "w\<lparr>drawn := Suc (drawn w), ticks := Suc (ticks w)\<rparr>"
    let ?mk = "\<lambda>ws. \<lparr> i_id = entropy w (drawn w), i_workspaceId = ws, i_appId = d_appId d,
        i_deploymentId = h_deploymentId s, i_status = IncidentOpen, i_severity = sg_severity sg,
        i_source = Automatic, i_ruleKey = Some (sg_ruleKey sg), i_title = sg_title sg,
        i_summary = Some (sg_summary sg), i_metadata = buildIncidentMetadata s d sg,
        i_latestHealthSampleId = Some (h_id s), i_openedAt = clock w (ticks w), i_resolvedAt = None \<rparr>"
    let ?start = "\<lambda>incident. whenM (autoRcaEnabled cfg)
        (voidM (startForIncident fetch signer cfg (i_id incident) Automatic))"
    have eq: "openAutomaticIncident fetch signer cfg s d sg w = bindM (createRow incidentTable ?mk) ?start ?w"
      using None
      by (simp add: openAutomaticIncident_def bindM_run findFirst_def fresh_run now_run)
    have "keepsRules ?w (snd (createRow incidentTable ?mk ?w))"
      using free by (intro keepsRules_createIncident) (auto simp: ruleOf_def hasRule_def)
    moreover have "keepsRules v (snd (?start x v))" for x v
      by (rule keepsD [where R = keepsRules],
          intro keeps_whenM keeps_voidM keepsRules_startForIncident preorder_keepsRules)
    ultimately have "keepsRules ?w (snd (bindM (createRow incidentTable ?mk) ?start ?w))"
      by (cases "createRow incidentTable ?mk ?w"; cases "fst (createRow incidentTable ?mk ?w)")
         (auto simp: bindM_run keepsRules_def)
    then show ?thesis by (simp add: eq keepsRules_def oneOpenPerRule_def)
  qed
qed

lemma keepsRules_reads:
  "keeps keepsRules (findMany t p)" "keeps keepsRules (findFirst t p)"
  by (simp_all add: keeps_findMany keeps_findFirst)

lemma keepsRules_detectDeployment:
  "keeps keepsRules (detectDeploymentIncidents fetch signer cfg i)"
proof -
  have "keeps keepsRules (voidM (allM (openAutomaticIncident fetch signer cfg s d) sgs))" for s d sgs
    by (intro keeps_voidM keeps_allM keepsRules_openAutomaticIncident preorder_keepsRules)
  then have "keeps keepsRules (bindM (deploymentOfSample s) (\<lambda>d.
      voidM (allM (openAutomaticIncident fetch signer cfg s d) (sgs s))))" for s sgs
    unfolding deploymentOfSample_def
    by (intro keeps_bindM keeps_option keeps_throwM keeps_returnM keepsRules_reads preorder_keepsRules)
  then show ?thesis
    unfolding detectDeploymentIncidents_def
    by (intro keeps_bindM keepsRules_reads preorder_keepsRules)
       (auto simp: keeps_returnM split: list.split)
qed

lemma keepsRules_runInContext: "keeps keepsRules m \<Longrightarrow> keeps keepsRules (runInContext c m)"
proof (rule keepsI)
  fix w assume m: "keeps keepsRules m"
  from keepsD [OF m, of "w\<lparr>tenant := Some c\<rparr>"] show "keepsRules w (snd (runInContext c m w))"
    by (auto simp: runInContext_run keepsRules_def oneOpenPerRule_def split: prod.split)
qed

lemma keepsRules_detectWorkspace: "keeps keepsRules (detectWorkspace fetch signer cfg)"
  unfolding detectWorkspace_def getDeploymentIdsWithRecentSamples_def minutesAgo_def
  by (intro keeps_bindM keeps_voidM keeps_allM keeps_catchM keeps_returnM keepsRules_reads
      keepsRules_outside keepsRules_detectDeployment preorder_keepsRules)

lemma total_detectWorkspace [total_intros]: "total (detectWorkspace fetch signer cfg)"
  unfolding detectWorkspace_def getDeploymentIdsWithRecentSamples_def minutesAgo_def
  by (intro total_intros)

lemma keepsRules_manual:
  "keeps keepsRules (createManualIncident i dto)" "keeps keepsRules (resolveIncident i)"
  "keeps keepsRules (startForDeployment fetch signer cfg i)"
proof -
  have create: "keeps keepsRules (createRow incidentTable mk)" if "\<And>ws. \<not> hasRule (mk ws)" for mk
    using that by (intro keepsI keepsRules_createIncident) simp
  show "keeps keepsRules (createManualIncident i dto)"
    unfolding createManualIncident_def findDeploymentForIncident_def
    by (intro keeps_bindM keeps_option keeps_throwM keeps_returnM keepsRules_reads keepsRules_outside
        create preorder_keepsRules) (simp add: hasRule_def)
  show "keeps keepsRules (resolveIncident i)"
    unfolding resolveIncident_def findIncidentOrThrow_def
    by (intro keeps_bindM keeps_thenM keeps_option keeps_throwM keeps_returnM keepsRules_reads
        keepsRules_outside keepsRules_setIncident preorder_keepsRules)
       (simp add: hasRule_def ruleOf_def)
  show "keeps keepsRules (startForDeployment fetch signer cfg i)"
    unfolding startForDeployment_def createRun_def createRunEvent_def triggered_def
      triggerAgentRun_def signInternalToken_def manualRcaIncident_def Let_def
    by (intro keeps_bindM keeps_thenM keeps_catchM keeps_findFirst keeps_option keeps_throwM
        keeps_returnM keeps_if keepsRules_outside keepsRules_transaction create preorder_keepsRules)
       (simp add: hasRule_def)
qed

text \<open>
  The history of the incidents: the detection tick, the three requests that write incidents, and
  anything else that leaves the incident rows alone.
\<close>

datatype incident_step =
    Tick
  | OpenByHand string create_incident_dto
  | Resolve string
  | AnalyseDeployment string

fun incidentStep ::
  "'c fetch_api \<Rightarrow> jwt_signer \<Rightarrow> service_config \<Rightarrow> incident_step \<Rightarrow> ('c world, unit) io"
where
  "incidentStep fetch signer cfg Tick = detectIncidents fetch signer cfg"
| "incidentStep fetch signer cfg (OpenByHand i dto) = voidM (createManualIncident i dto)"
| "incidentStep fetch signer cfg (Resolve i) = voidM (resolveIncident i)"
| "incidentStep fetch signer cfg (AnalyseDeployment i) = voidM (startForDeployment fetch signer cfg i)"

inductive incidentHistory ::
  "'c fetch_api \<Rightarrow> jwt_signer \<Rightarrow> service_config \<Rightarrow> 'c world \<Rightarrow> 'c world \<Rightarrow> bool"
  for fetch signer cfg
where
  start_history: "incidentHistory fetch signer cfg w w"
| own_step: "incidentHistory fetch signer cfg w v
     \<Longrightarrow> incidentHistory fetch signer cfg w (snd (incidentStep fetch signer cfg st v))"
| other_step: "incidentHistory fetch signer cfg w v \<Longrightarrow> incidents v' = incidents v
     \<Longrightarrow> incidentHistory fetch signer cfg w v'"

lemma keepsRules_detect: "keeps keepsRules (detectIncidents fetch signer cfg)"
proof -
  have flag: "keeps keepsRules (modifyM (\<lambda>w. w\<lparr>detecting := b\<rparr>))" for b
    by (simp add: keeps_def keepsRules_same)
  show ?thesis
    unfolding detectIncidents_def
    by (intro keeps_bindM keeps_thenM keeps_readM keeps_if keeps_returnM keeps_liftM keeps_attemptM
        keeps_forM keepsRules_reads keepsRules_runInContext keepsRules_detectWorkspace flag
        preorder_keepsRules)
qed

text \<open>
  In every history of detection ticks and requests, interleaved with anything that does not
  write incidents, a deployment has at most one open incident for each detection rule: a problem
  that persists updates its incident, and a new one is opened only after the last was resolved.
\<close>

theorem one_open_incident_per_rule:
  assumes "incidentHistory fetch signer cfg w w'" and "oneOpenPerRule w"
  shows "oneOpenPerRule w'"
  using assms
proof (induction rule: incidentHistory.induct)
  case (own_step w v st)
  have "keeps keepsRules (incidentStep fetch signer cfg st)"
    by (cases st) (simp_all add: keepsRules_detect keepsRules_manual keeps_voidM)
  from keepsD [OF this, of v] own_step show ?case by (simp add: keepsRules_def)
next
  case (other_step w v v')
  then show ?case by (simp add: oneOpenPerRule_def)
qed


lemma buildSignals_rules:
  "map sg_ruleKey (buildSignals s prev) =
     (if h_desiredReplicas s > 0 \<and> h_readyReplicas s < h_desiredReplicas s
      then [''ready-replicas-below-desired''] else [])
     @ (if h_warningEventCount s > 0 then [''kubernetes-warning-events''] else [])
     @ (case prev of None \<Rightarrow> []
        | Some p \<Rightarrow> if h_restartCount s > h_restartCount p
            then [''container-restarts-increased''] else [])
     @ (if h_status s = ''failed'' \<or> h_status s = ''warning''
        then [''health-status-'' @ h_status s] else [])"
  by (cases prev) (simp_all add: buildSignals_def)

text \<open>
  Detection agrees with the health verdict: the signals of a sample carry pairwise different
  rules; a sample collected as \<open>running\<close> or \<open>stopped\<close> without warnings and without new restarts
  raises at most the signal of missing replicas; and a verdict of \<open>failed\<close> or \<open>warning\<close> always
  raises an incident of its own rule, critical for the former.
\<close>

theorem signals_follow_verdict:
  "distinct (map sg_ruleKey (buildSignals s prev))
   \<and> (h_status s = deriveSampleStatus st (h_desiredReplicas s) (h_readyReplicas s) (h_warningEventCount s)
      \<and> st \<notin> {Failed, Deleted} \<and> h_warningEventCount s = 0
      \<and> (\<forall>p. prev = Some p \<longrightarrow> h_restartCount s \<le> h_restartCount p) \<longrightarrow>
        (buildSignals s prev = [] \<longleftrightarrow>
           \<not> (h_desiredReplicas s > 0 \<and> h_readyReplicas s < h_desiredReplicas s)))
   \<and> (h_status s = ''failed'' \<longrightarrow> (\<exists>g \<in> set (buildSignals s prev).
        sg_ruleKey g = ''health-status-failed'' \<and> sg_severity g = Critical))
   \<and> (h_status s = ''warning'' \<longrightarrow> (\<exists>g \<in> set (buildSignals s prev).
        sg_ruleKey g = ''health-status-warning'' \<and> sg_severity g = Warning))"
proof (intro conjI impI)
  show "distinct (map sg_ruleKey (buildSignals s prev))"
    unfolding buildSignals_rules by (simp split: option.split)
next
  assume *: "h_status s = deriveSampleStatus st (h_desiredReplicas s) (h_readyReplicas s) (h_warningEventCount s)
      \<and> st \<notin> {Failed, Deleted} \<and> h_warningEventCount s = 0
      \<and> (\<forall>p. prev = Some p \<longrightarrow> h_restartCount s \<le> h_restartCount p)"
  then have "h_status s \<noteq> ''failed''" "h_status s \<noteq> ''warning''"
    by (cases st; simp add: deriveSampleStatus_def)+
  with * show "buildSignals s prev = []
      \<longleftrightarrow> \<not> (h_desiredReplicas s > 0 \<and> h_readyReplicas s < h_desiredReplicas s)"
    by (cases prev) (simp_all add: buildSignals_def)
qed (simp_all add: buildSignals_def)

section \<open>Witnesses\<close>

definition failingSample :: health_sample where
  "failingSample =
     \<lparr> h_id = ''h1'', h_workspaceId = ''w1'', h_deploymentId = ''d1'', h_status = ''failed'',
       h_desiredReplicas = 3, h_readyReplicas = 0, h_availableReplicas = 0, h_podCount = 3,
       h_warningEventCount = 0, h_restartCount = 0, h_data = JUndef, h_collectedAt = 0 \<rparr>"

definition failingWorld :: "fetch_request list world" where
  "failingWorld = rcaWorld\<lparr>samples := [failingSample]\<rparr>"

theorem one_open_incident_per_rule_witness:
  "oneOpenPerRule (snd (incidentStep (recordingFetch (\<lambda>_. Inl ''down'')) (\<lambda>_ _. ''sig'') defaultConfig
     Tick (snd (incidentStep (recordingFetch (\<lambda>_. Inl ''down'')) (\<lambda>_ _. ''sig'') defaultConfig
     Tick failingWorld))))"
  by (rule one_open_incident_per_rule [OF own_step [OF own_step [OF start_history]]])
     (simp add: oneOpenPerRule_def failingWorld_def rcaWorld_facts sampleIncident_def hasRule_def)

theorem signals_follow_verdict_witness:
  "\<exists>g \<in> set (buildSignals failingSample None). sg_ruleKey g = ''health-status-failed''
     \<and> sg_severity g = Critical"
  using signals_follow_verdict [of failingSample None Failed] by (simp add: failingSample_def)

end
