(* ===== verification/Evidence.thy ===== *)
theory Evidence
  imports Deployments Observability
begin

text \<open>
  evidence/evidence.service.ts and evidence/evidence.controller.ts: the bundle of live and stored
  facts about a deployment that an analysis starts from, and its snapshots. \<open>Date.parse\<close>, whose
  result outside the ISO format depends on the engine, is a parameter. A date in a response is the
  JSON value \<open>JDate\<close>, with or without \<open>toISOString\<close>. The \<open>updatedAt\<close> columns are left out.
\<close>

section \<open>The window\<close>

record evidence_window_options =
  wo_triggeredAt :: "instant option"
  wo_windowStart :: "instant option"
  wo_windowEnd :: "instant option"
  wo_lookbackMinutes :: "int option"
  wo_lookaheadMinutes :: "int option"
  wo_reason :: "string option"

record evidence_window =
  ew_triggeredAt :: instant
  ew_start :: instant
  ew_end :: instant
  ew_lookbackMinutes :: int
  ew_lookaheadMinutes :: int
  ew_reason :: string

definition buildEvidenceWindow :: "evidence_window_options \<Rightarrow> instant \<Rightarrow> evidence_window" where
  "buildEvidenceWindow opts collectedAt =
     (let lookbackMinutes = orDefault (wo_lookbackMinutes opts) 10;
          lookaheadMinutes = orDefault (wo_lookaheadMinutes opts) 2;
          triggeredAt = orDefault (wo_triggeredAt opts) collectedAt;
          start = orDefault (wo_windowStart opts) (triggeredAt - lookbackMinutes * 60 * 1000);
          requestedEnd = orDefault (wo_windowEnd opts) (triggeredAt + lookaheadMinutes * 60 * 1000)
      in \<lparr> ew_triggeredAt = triggeredAt, ew_start = start,
           ew_end = (if requestedEnd > collectedAt then collectedAt else requestedEnd),
           ew_lookbackMinutes = lookbackMinutes, ew_lookaheadMinutes = lookaheadMinutes,
           ew_reason = orDefault (wo_reason opts) ''manual-or-current-evidence'' \<rparr>)"

text \<open>A date beyond 8.64e15 milliseconds is invalid: the query of the samples rejects it.\<close>

definition validDate :: "instant \<Rightarrow> bool" where
  "validDate t \<longleftrightarrow> \<bar>t\<bar> \<le> 8640000000000000"

definition validWindow :: "evidence_window_options \<Rightarrow> instant \<Rightarrow> bool" where
  "validWindow opts collectedAt \<longleftrightarrow>
     (let w = buildEvidenceWindow opts collectedAt in
      validDate (ew_start w)
      \<and> validDate (orDefault (wo_windowEnd opts) (ew_triggeredAt w + ew_lookaheadMinutes w * 60 * 1000)))"

text \<open>\<open>Math.ceil(ms / 1000)\<close>, at least 1.\<close>

definition secondsBetween :: "instant \<Rightarrow> instant \<Rightarrow> int" where
  "secondsBetween a b = max 1 (- ((a - b) div 1000))"

definition isWithinWindow :: "instant \<Rightarrow> evidence_window \<Rightarrow> bool" where
  "isWithinWindow t w \<longleftrightarrow> ew_start w \<le> t \<and> t \<le> ew_end w"

section \<open>Filters\<close>

type_synonym date_parser = "string \<Rightarrow> instant option"

fun parseDateValue :: "date_parser \<Rightarrow> json \<Rightarrow> instant option" where
  "parseDateValue parse (JDate t) = Some t"
| "parseDateValue parse (JStr s) = parse s"
| "parseDateValue parse _ = None"

text \<open>\<open>a ?? b\<close> on optional dates.\<close>

definition orDate :: "instant option \<Rightarrow> instant option \<Rightarrow> instant option" where
  "orDate a b = (case a of None \<Rightarrow> b | Some t \<Rightarrow> Some t)"

definition eventDate :: "date_parser \<Rightarrow> json \<Rightarrow> instant option" where
  "eventDate parse event =
     orDate (parseDateValue parse (member event ''eventTime''))
       (orDate (parseDateValue parse (member event ''lastTimestamp''))
         (parseDateValue parse (member event ''firstTimestamp'')))"

definition inWindowOrUndated :: "evidence_window \<Rightarrow> instant option \<Rightarrow> bool" where
  "inWindowOrUndated w t \<longleftrightarrow> (case t of None \<Rightarrow> True | Some x \<Rightarrow> isWithinWindow x w)"

fun filterEventsByWindow :: "date_parser \<Rightarrow> json \<Rightarrow> evidence_window \<Rightarrow> json" where
  "filterEventsByWindow parse (JArr events) w =
     JArr (filter (\<lambda>event. isRecord event \<and> inWindowOrUndated w (eventDate parse event)) events)"
| "filterEventsByWindow parse v w = v"

text \<open>\<open>line.split(/\s+/, 1)[0]\<close>.\<close>

definition firstWord :: "string \<Rightarrow> string" where
  "firstWord line = takeWhile (\<lambda>c. \<not> isSpace c) line"

definition filterTimestampedLogLines :: "date_parser \<Rightarrow> string \<Rightarrow> evidence_window \<Rightarrow> string" where
  "filterTimestampedLogLines parse logs w =
     joinWith [CHR 0x0A]
       (filter (\<lambda>line. inWindowOrUndated w (parseDateValue parse (JStr (firstWord line))))
          (splitOn CHR 0x0A logs))"

definition filterPodLog :: "date_parser \<Rightarrow> evidence_window \<Rightarrow> json \<Rightarrow> json" where
  "filterPodLog parse w podLog =
     (case member podLog ''logs'' of
        JStr logs \<Rightarrow> withMember podLog ''logs'' (JStr (filterTimestampedLogLines parse logs w))
      | _ \<Rightarrow> podLog)"

fun filterLogsByWindow :: "date_parser \<Rightarrow> json \<Rightarrow> evidence_window \<Rightarrow> json" where
  "filterLogsByWindow parse (JArr podLogs) w = JArr (map (filterPodLog parse w) podLogs)"
| "filterLogsByWindow parse v w = v"

section \<open>Status and summary\<close>

definition isCollectionError :: "json \<Rightarrow> bool" where
  "isCollectionError v \<longleftrightarrow> (case member v ''error'' of JStr _ \<Rightarrow> True | _ \<Rightarrow> False)"

definition deriveEvidenceStatus :: "string \<Rightarrow> json \<Rightarrow> string" where
  "deriveEvidenceStatus deploymentStatus liveStatus =
     (if isCollectionError liveStatus then deploymentStatus
      else
        (case (member liveStatus ''readyReplicas'', member liveStatus ''desiredReplicas'') of
           (JNum ready, JNum desired) \<Rightarrow>
             (if isRecord liveStatus \<and> desired > 0 \<and> ready \<ge> desired then ''running''
              else deploymentStatus)
         | _ \<Rightarrow> deploymentStatus))"

definition buildEvidenceSummary :: "string \<Rightarrow> json \<Rightarrow> json \<Rightarrow> json \<Rightarrow> string" where
  "buildEvidenceSummary status liveStatus pods events =
     (if isCollectionError liveStatus
      then ''Evidence collected with status lookup error: '' @ stringOf (member liveStatus ''error'')
      else
        (let podCount = length (asItems pods);
             warningEvents = length (filter (\<lambda>e. isRecord e \<and> member e ''type'' = JStr ''Warning'')
               (asItems events))
         in ''Deployment evidence collected with status '' @ status @ '', '' @ showNat podCount
            @ '' pod(s), and '' @ showNat warningEvents @ '' warning event(s).''))"

definition sanitizeRuntimeConfig :: "runtime_config \<Rightarrow> runtime_config" where
  "sanitizeRuntimeConfig rc =
     (if rc_type rc \<noteq> ConfigSecret then rc
      else rc\<lparr>rc_data := redactSecretRuntimeConfig (rc_data rc)\<rparr>)"

section \<open>Collecting\<close>

definition collectOrError :: "('c world, json) io \<Rightarrow> ('c world, json) io" where
  "collectOrError collect =
     catchM collect (\<lambda>e. returnM (JObj [(''error'', JStr (errorMessage e))]))"

record evidence_deployment =
  ed_deployment :: deployment
  ed_app :: app
  ed_build :: "build option"
  ed_runtimeConfigs :: "runtime_config list"

text \<open>
  \<open>include: { app, build, runtimeConfigs }\<close>. The app of a visible deployment is visible; the client
  rejects a deployment without one.
\<close>

definition findDeploymentForEvidence :: "string \<Rightarrow> ('c world, evidence_deployment) io" where
  "findDeploymentForEvidence depId =
     bindM (findFirst deploymentTable (\<lambda>d. d_id d = depId)) (\<lambda>found.
       case found of
         None \<Rightarrow> throwM (NotFound (''Deployment '' @ depId @ '' was not found''))
       | Some d \<Rightarrow>
     bindM (findFirst appTable (\<lambda>a. a_id a = d_appId d)) (\<lambda>app.
     bindM (case d_buildId d of
              None \<Rightarrow> returnM None
            | Some i \<Rightarrow> findFirst buildTable (\<lambda>b. b_id b = i)) (\<lambda>bld.
     bindM (runtimeConfigsOf d) (\<lambda>configs.
       case app of
         None \<Rightarrow> throwM (PrismaError ''Inconsistent query result'')
       | Some a \<Rightarrow>
           returnM \<lparr> ed_deployment = d, ed_app = a, ed_build = bld, ed_runtimeConfigs = configs \<rparr>))))"

record evidence =
  ev_deploymentId :: string
  ev_status :: string
  ev_summary :: string
  ev_collectedAt :: instant
  ev_window :: evidence_window
  ev_deployment :: evidence_deployment
  ev_runtimeConfigs :: "runtime_config list"
  ev_kubernetesStatus :: json
  ev_pods :: json
  ev_events :: json
  ev_logs :: json
  ev_healthSamples :: "health_sample list"

definition podLogsJson :: "(string \<times> json) list \<Rightarrow> json" where
  "podLogsJson logs = JArr (map (\<lambda>(n, l). JObj [(''podName'', JStr n), (''logs'', l)]) logs)"

text \<open>The four live reads of \<open>Promise.all\<close>, none of which can fail.\<close>

record live_state =
  lv_status :: json
  lv_pods :: json
  lv_events :: json
  lv_logs :: json

definition readLiveState ::
  "'c kubernetes_api \<Rightarrow> deployment \<Rightarrow> int \<Rightarrow> ('c world, live_state) io"
where
  "readLiveState api d sinceSeconds =
     (let labels = buildManagedLabels (d_workspaceId d) (d_appId d) (d_id d) in
      bindM (collectOrError (bindM (kubeDeploymentStatus api (d_namespace d) (d_kubernetesDeployment d))
        (\<lambda>s. returnM (liveStatusJson s)))) (\<lambda>status.
      bindM (collectOrError (bindM (listDeploymentPods api (d_namespace d) labels)
        (\<lambda>ps. returnM (JArr ps)))) (\<lambda>pods.
      bindM (collectOrError (bindM (listDeploymentEvents api (d_namespace d) (d_kubernetesDeployment d) labels)
        (\<lambda>es. returnM (JArr es)))) (\<lambda>events.
      bindM (collectOrError (bindM (getDeploymentEvidenceLogs api (d_namespace d) labels 500 (Some sinceSeconds))
        (\<lambda>ls. returnM (podLogsJson ls)))) (\<lambda>logs.
        returnM \<lparr> lv_status = status, lv_pods = pods, lv_events = events, lv_logs = logs \<rparr>)))))"

definition buildBundle ::
  "date_parser \<Rightarrow> evidence_deployment \<Rightarrow> evidence_window \<Rightarrow> instant \<Rightarrow> live_state \<Rightarrow> health_sample list
   \<Rightarrow> evidence"
where
  "buildBundle parse found window collectedAt live recent =
     (let d = ed_deployment found;
          events = filterEventsByWindow parse (lv_events live) window;
          logs = filterLogsByWindow parse (lv_logs live) window;
          evidenceStatus = deriveEvidenceStatus (statusName (d_status d)) (lv_status live)
      in \<lparr> ev_deploymentId = d_id d, ev_status = evidenceStatus,
           ev_summary = buildEvidenceSummary evidenceStatus (lv_status live) (lv_pods live) events,
           ev_collectedAt = collectedAt, ev_window = window, ev_deployment = found,
           ev_runtimeConfigs = map sanitizeRuntimeConfig (ed_runtimeConfigs found),
           ev_kubernetesStatus = lv_status live, ev_pods = lv_pods live, ev_events = events, ev_logs = logs,
           ev_healthSamples = recent \<rparr>)"

definition collectLive ::
  "'c kubernetes_api \<Rightarrow> date_parser \<Rightarrow> string \<Rightarrow> evidence_window_options \<Rightarrow> ('c world, evidence) io"
where
  "collectLive api parse depId opts =
     bindM (findDeploymentForEvidence depId) (\<lambda>found.
     bindM now (\<lambda>collectedAt.
     let window = buildEvidenceWindow opts collectedAt in
     bindM (readLiveState api (ed_deployment found) (secondsBetween (ew_start window) collectedAt)) (\<lambda>live.
     thenM (whenM (\<not> validWindow opts collectedAt) (throwM (PrismaError ''Invalid value for a date'')))
     (bindM (findMany sampleTable (\<lambda>h. h_deploymentId h = d_id (ed_deployment found)
         \<and> ew_start window \<le> h_collectedAt h \<and> h_collectedAt h \<le> ew_end window)) (\<lambda>rows.
       returnM (buildBundle parse found window collectedAt live
         (take 120 (newestFirst h_collectedAt rows))))))))"

section \<open>The bundle as JSON\<close>

fun sourceTypeName :: "app_source \<Rightarrow> string" where
  "sourceTypeName SourceImage = ''image''"
| "sourceTypeName SourceGit = ''git''"

fun buildStatusName :: "build_status \<Rightarrow> string" where
  "buildStatusName BuildPending = ''pending''"
| "buildStatusName BuildRunning = ''running''"
| "buildStatusName BuildSucceeded = ''succeeded''"
| "buildStatusName BuildFailed = ''failed''"
| "buildStatusName BuildSkipped = ''skipped''"

fun strategyName :: "build_strategy \<Rightarrow> string" where
  "strategyName Dockerfile = ''dockerfile''"
| "strategyName Buildpack = ''buildpack''"

fun configTypeName :: "config_type \<Rightarrow> string" where
  "configTypeName ConfigEnv = ''env''"
| "configTypeName ConfigSecret = ''secret''"
| "configTypeName ConfigFile = ''file''"

definition appEvidence :: "app \<Rightarrow> json" where
  "appEvidence a =
     JObj [(''id'', JStr (a_id a)), (''name'', JStr (a_name a)),
           (''displayName'', JStr (a_displayName a)),
           (''sourceType'', JStr (sourceTypeName (a_sourceType a))),
           (''defaultPort'', nullable JNum (a_defaultPort a)), (''repoUrl'', nullable JStr (a_repoUrl a)),
           (''branch'', nullable JStr (a_branch a)), (''buildContext'', nullable JStr (a_buildContext a))]"

definition deploymentEvidence :: "deployment \<Rightarrow> json" where
  "deploymentEvidence d =
     JObj [(''id'', JStr (d_id d)), (''namespace'', JStr (d_namespace d)), (''image'', JStr (d_image d)),
           (''replicas'', JNum (d_replicas d)), (''desiredReplicas'', JNum (d_desiredReplicas d)),
           (''lastNonZeroReplicas'', nullable JNum (d_lastNonZeroReplicas d)), (''port'', JNum (d_port d)),
           (''status'', JStr (statusName (d_status d))),
           (''kubernetesDeployment'', JStr (d_kubernetesDeployment d)),
           (''kubernetesService'', JStr (d_kubernetesService d)),
           (''stoppedAt'', nullable JDate (d_stoppedAt d)),
           (''lastRestartedAt'', nullable JDate (d_lastRestartedAt d)),
           (''deletedAt'', nullable JDate (d_deletedAt d)), (''createdAt'', JDate (d_createdAt d))]"

definition buildEvidence :: "build \<Rightarrow> json" where
  "buildEvidence b =
     JObj [(''id'', JStr (b_id b)), (''status'', JStr (buildStatusName (b_status b))),
           (''strategy'', JStr (strategyName (b_strategy b))), (''image'', nullable JStr (b_image b)),
           (''repoUrl'', JStr (b_repoUrl b)), (''branch'', JStr (b_branch b)),
           (''buildContext'', JStr (b_buildContext b)),
           (''dockerfilePath'', nullable JStr (b_dockerfilePath b)),
           (''kubernetesJob'', nullable JStr (b_kubernetesJob b)),
           (''errorMessage'', nullable JStr (b_errorMessage b)), (''createdAt'', JDate (b_createdAt b))]"

definition configEvidence :: "runtime_config \<Rightarrow> json" where
  "configEvidence rc =
     JObj [(''deploymentId'', JStr (rc_deploymentId rc)), (''workspaceId'', JStr (rc_workspaceId rc)),
           (''type'', JStr (configTypeName (rc_type rc))), (''data'', rc_data rc)]"

definition sampleJson :: "health_sample \<Rightarrow> json" where
  "sampleJson h =
     JObj [(''id'', JStr (h_id h)), (''workspaceId'', JStr (h_workspaceId h)),
           (''deploymentId'', JStr (h_deploymentId h)), (''status'', JStr (h_status h)),
           (''desiredReplicas'', JNum (h_desiredReplicas h)), (''readyReplicas'', JNum (h_readyReplicas h)),
           (''availableReplicas'', JNum (h_availableReplicas h)), (''podCount'', JNum (h_podCount h)),
           (''warningEventCount'', JNum (h_warningEventCount h)),
           (''restartCount'', JNum (h_restartCount h)), (''data'', h_data h),
           (''collectedAt'', JDate (h_collectedAt h))]"

definition evidenceJson :: "evidence \<Rightarrow> json" where
  "evidenceJson e =
     (let w = ev_window e; found = ev_deployment e in
      JObj
        [(''deploymentId'', JStr (ev_deploymentId e)), (''status'', JStr (ev_status e)),
         (''summary'', JStr (ev_summary e)), (''collectedAt'', JDate (ev_collectedAt e)),
         (''incidentWindow'', JObj
            [(''triggeredAt'', JDate (ew_triggeredAt w)), (''start'', JDate (ew_start w)),
             (''end'', JDate (ew_end w)), (''lookbackMinutes'', JNum (ew_lookbackMinutes w)),
             (''lookaheadMinutes'', JNum (ew_lookaheadMinutes w)), (''reason'', JStr (ew_reason w))]),
         (''app'', appEvidence (ed_app found)),
         (''deployment'', deploymentEvidence (ed_deployment found)),
         (''build'', nullable buildEvidence (ed_build found)),
         (''runtimeConfigs'', JArr (map configEvidence (ev_runtimeConfigs e))),
         (''kubernetes'', JObj
            [(''status'', ev_kubernetesStatus e), (''pods'', ev_pods e), (''events'', ev_events e),
             (''logs'', ev_logs e)]),
         (''healthSamples'', JArr (map sampleJson (ev_healthSamples e)))])"

text \<open>
  \<open>JSON.parse(JSON.stringify(v))\<close>: members that are \<open>undefined\<close> go, and elements that are become
  \<open>null\<close>.
\<close>

fun toPrismaJson :: "json \<Rightarrow> json" where
  "toPrismaJson (JObj kvs) =
     JObj (map (\<lambda>(k, v). (k, toPrismaJson v)) (filter (\<lambda>(k, v). v \<noteq> JUndef) kvs))"
| "toPrismaJson (JArr xs) = JArr (map (\<lambda>x. if x = JUndef then JNull else toPrismaJson x) xs)"
| "toPrismaJson v = v"

section \<open>Snapshots\<close>

definition createSnapshot ::
  "'c kubernetes_api \<Rightarrow> date_parser \<Rightarrow> string \<Rightarrow> evidence_window_options
   \<Rightarrow> ('c world, evidence_snapshot) io"
where
  "createSnapshot api parse depId opts =
     bindM (collectLive api parse depId opts) (\<lambda>e.
     bindM fresh (\<lambda>i. bindM now (\<lambda>t.
       createRow snapshotTable (\<lambda>ws.
         \<lparr> es_id = i, es_workspaceId = ws, es_deploymentId = depId, es_status = ev_status e,
           es_summary = Some (ev_summary e), es_data = toPrismaJson (evidenceJson e),
           es_createdAt = t \<rparr>))))"

definition ensureEvidenceDeployment :: "string \<Rightarrow> ('c world, unit) io" where
  "ensureEvidenceDeployment depId =
     bindM (findFirst deploymentTable (\<lambda>d. d_id d = depId)) (\<lambda>found.
       whenM (found = None) (throwM (NotFound (''Deployment '' @ depId @ '' was not found''))))"

definition snapshotSummary :: "evidence_snapshot \<Rightarrow> json" where
  "snapshotSummary s =
     JObj [(''id'', JStr (es_id s)), (''deploymentId'', JStr (es_deploymentId s)),
           (''status'', JStr (es_status s)), (''summary'', nullable JStr (es_summary s)),
           (''createdAt'', JDate (es_createdAt s))]"

definition listSnapshots :: "string \<Rightarrow> ('c world, json list) io" where
  "listSnapshots depId =
     thenM (ensureEvidenceDeployment depId)
     (bindM (findMany snapshotTable (\<lambda>s. es_deploymentId s = depId)) (\<lambda>rs.
        returnM (map snapshotSummary (newestFirst es_createdAt rs))))"

definition getSnapshot :: "string \<Rightarrow> ('c world, evidence_snapshot) io" where
  "getSnapshot i =
     bindM (findFirst snapshotTable (\<lambda>s. es_id s = i)) (\<lambda>found.
       case found of
         None \<Rightarrow> throwM (NotFound (''Evidence snapshot '' @ i @ '' was not found''))
       | Some s \<Rightarrow> returnM s)"

section \<open>The controller\<close>

text \<open>\<open>Number(value)\<close> where it is an integer is the parameter of \<open>parseOptionalPositiveInt\<close>.\<close>

definition parseOptionalDate :: "date_parser \<Rightarrow> string option \<Rightarrow> instant option" where
  "parseOptionalDate parse v = (if \<not> truthy v then None else parse (the v))"

definition parseOptionalPositiveInt :: "(string \<Rightarrow> int option) \<Rightarrow> string option \<Rightarrow> int option" where
  "parseOptionalPositiveInt number v =
     (if \<not> truthy v then None
      else (case number (the v) of
              None \<Rightarrow> None
            | Some parsed \<Rightarrow> (if parsed \<le> 0 then None else Some parsed)))"

definition buildEvidenceWindowOptions ::
  "date_parser \<Rightarrow> (string \<Rightarrow> int option) \<Rightarrow> string option \<Rightarrow> string option \<Rightarrow> string option
   \<Rightarrow> evidence_window_options"
where
  "buildEvidenceWindowOptions parse number triggeredAt lookbackMinutes lookaheadMinutes =
     \<lparr> wo_triggeredAt = parseOptionalDate parse triggeredAt, wo_windowStart = None, wo_windowEnd = None,
       wo_lookbackMinutes = parseOptionalPositiveInt number lookbackMinutes,
       wo_lookaheadMinutes = parseOptionalPositiveInt number lookaheadMinutes, wo_reason = None \<rparr>"

section \<open>Isolation\<close>

lemma sameTables_collectOrError: "keeps sameTables m \<Longrightarrow> keeps sameTables (collectOrError m)"
  unfolding collectOrError_def by (intro kube_steps)

lemma keeps_findDeploymentForEvidence [keeps_intros]:
  "preorder_rel R \<Longrightarrow> keeps R (findDeploymentForEvidence i)"
  unfolding findDeploymentForEvidence_def runtimeConfigsOf_def
  by (intro keeps_bindM keeps_findFirst keeps_findMany keeps_option keeps_throwM keeps_returnM)

lemma sameTables_readLiveState: "keeps sameTables (readLiveState api d n)"
  unfolding readLiveState_def Let_def
  by (intro keeps_bindM keeps_returnM sameTables_collectOrError kube_sameTables preorder_sameTables)

lemma sameTables_collectLive: "keeps sameTables (collectLive api parse i opts)"
  unfolding collectLive_def Let_def
  by (intro keeps_bindM keeps_thenM keeps_whenM keeps_throwM keeps_returnM keeps_findMany
      keeps_findDeploymentForEvidence sameTables_now sameTables_readLiveState preorder_sameTables)

lemma keeps_evidence [keeps_intros]:
  "keeps tenantFrame (collectLive api parse i opts)"
  "keeps tenantFrame (createSnapshot api parse i opts)"
  "keeps tenantFrame (listSnapshots i)" "keeps tenantFrame (getSnapshot i)"
proof -
  show collect: "keeps tenantFrame (collectLive api parse i opts)"
    by (rule keeps_sameTables_tenantFrame [OF sameTables_collectLive])
  show "keeps tenantFrame (createSnapshot api parse i opts)"
    unfolding createSnapshot_def by (intro keeps_intros collect)
  show "keeps tenantFrame (listSnapshots i)" "keeps tenantFrame (getSnapshot i)"
    unfolding listSnapshots_def ensureEvidenceDeployment_def getSnapshot_def by (intro keeps_intros)+
qed

section \<open>Properties\<close>

lemma total_readLiveState: "total (readLiveState api d n)"
  unfolding readLiveState_def collectOrError_def Let_def by (intro total_intros)

lemma findDeploymentForEvidence_run:
  assumes "findDeploymentForEvidence i w = (Inr found, w')"
  shows "w' = w \<and> d_id (ed_deployment found) = i \<and> ed_deployment found \<in> set (deployments w)
    \<and> databaseWorkspace w = Some (d_workspaceId (ed_deployment found))
    \<and> ed_runtimeConfigs found = filter (\<lambda>rc. visible runtimeConfigTable w rc \<and> rc_deploymentId rc = i)
        (runtimeConfigs w)"
proof -
  obtain x where x: "findFirst deploymentTable (\<lambda>d. d_id d = i) w = (Inr x, w)"
    by (simp add: findFirst_def)
  from assms x obtain d where d: "x = Some d"
    by (cases x) (simp_all add: findDeploymentForEvidence_def bindM_run)
  obtain b where "(case d_buildId d of None \<Rightarrow> returnM None
      | Some i \<Rightarrow> findFirst buildTable (\<lambda>b. b_id b = i)) w = (Inr b, w)"
    by (cases "d_buildId d") (simp_all add: findFirst_def)
  with assms x d have "ed_deployment found = d" "w' = w"
      "ed_runtimeConfigs found = filter (\<lambda>rc. visible runtimeConfigTable w rc \<and> rc_deploymentId rc = d_id d)
        (rowsOf runtimeConfigTable w)"
    by (simp_all add: findDeploymentForEvidence_def bindM_run findFirst_def [of appTable]
        runtimeConfigsOf_def findMany_def split: option.splits)
      (auto split: option.splits)
  with deployment.findFirst_found [OF x [unfolded d]] show ?thesis
    by (simp add: deploymentTable_def runtimeConfigTable_def)
qed

lemma collectLive_Inr:
  assumes "collectLive api parse i opts w = (Inr e, w')"
  obtains found live where "findDeploymentForEvidence i w = (Inr found, w)"
    "readLiveState api (ed_deployment found) (secondsBetween (ew_start (buildEvidenceWindow opts
       (clock w (ticks w)))) (clock w (ticks w))) (w\<lparr>ticks := Suc (ticks w)\<rparr>) = (Inr live, w')"
    "e = buildBundle parse found (buildEvidenceWindow opts (clock w (ticks w))) (clock w (ticks w)) live
       (take 120 (newestFirst h_collectedAt
         (filter (\<lambda>h. visible sampleTable w' h \<and> h_deploymentId h = i
            \<and> ew_start (buildEvidenceWindow opts (clock w (ticks w))) \<le> h_collectedAt h
            \<and> h_collectedAt h \<le> ew_end (buildEvidenceWindow opts (clock w (ticks w))))
           (rowsOf sampleTable w'))))"
proof -
  from assms obtain found where f: "findDeploymentForEvidence i w = (Inr found, w)"
    by (auto simp: collectLive_def bindM_Inr_iff dest: findDeploymentForEvidence_run)
  then have i: "d_id (ed_deployment found) = i" by (simp add: findDeploymentForEvidence_run)
  obtain live v where live: "readLiveState api (ed_deployment found)
      (secondsBetween (ew_start (buildEvidenceWindow opts (clock w (ticks w)))) (clock w (ticks w)))
      (w\<lparr>ticks := Suc (ticks w)\<rparr>) = (Inr live, v)"
    using totalD [OF total_readLiveState] by blast
  with assms f i have "v = w'"
    by (auto simp: collectLive_def Let_def bindM_run thenM_run now_run whenM_run findMany_def split: if_splits)
  with live show ?thesis
    by (intro that [OF f, of live])
       (use assms f i in \<open>auto simp: collectLive_def Let_def bindM_run thenM_run now_run whenM_run
          findMany_def split: if_splits\<close>)
qed


lemma set_newestFirst: "set (newestFirst key rs) = set rs"
  by (simp add: newestFirst_def)

lemma filterEvents_items:
  "event \<in> set (asItems (filterEventsByWindow parse v w)) \<Longrightarrow> eventDate parse event = Some t
   \<Longrightarrow> ew_start w \<le> t \<and> t \<le> ew_end w"
  by (cases v) (auto simp: inWindowOrUndated_def isWithinWindow_def)

text \<open>
  The evidence stays in its window: the window never reaches beyond the moment of collection, the
  logs are read from far enough back to cover its start, every health sample lies within it and belongs
  to the deployment, and so does every event that carries a date.
\<close>

theorem evidence_window_sound:
  assumes "collectLive api parse i opts w = (Inr e, w')"
  shows "ew_end (ev_window e) \<le> ev_collectedAt e
    \<and> ev_collectedAt e - 1000 * secondsBetween (ew_start (ev_window e)) (ev_collectedAt e) \<le> ew_start (ev_window e)
    \<and> (\<forall>h \<in> set (ev_healthSamples e). h_deploymentId h = i \<and> isWithinWindow (h_collectedAt h) (ev_window e))
    \<and> length (ev_healthSamples e) \<le> 120
    \<and> (\<forall>event \<in> set (asItems (ev_events e)). \<forall>t.
          eventDate parse event = Some t \<longrightarrow> isWithinWindow t (ev_window e))"
proof -
  let ?window = "buildEvidenceWindow opts (clock w (ticks w))"
  from assms obtain found live where e: "e = buildBundle parse found ?window (clock w (ticks w)) live
       (take 120 (newestFirst h_collectedAt
         (filter (\<lambda>h. visible sampleTable w' h \<and> h_deploymentId h = i
            \<and> ew_start ?window \<le> h_collectedAt h \<and> h_collectedAt h \<le> ew_end ?window)
           (rowsOf sampleTable w'))))"
    by (rule collectLive_Inr) blast
  have "b - 1000 * secondsBetween a b \<le> a" for a b :: int
  proof -
    have "1000 * ((a - b) div 1000) \<le> a - b" by simp
    moreover have "- ((a - b) div 1000) \<le> secondsBetween a b" by (simp add: secondsBetween_def)
    ultimately show ?thesis by linarith
  qed
  moreover have "ew_end ?window \<le> clock w (ticks w)" by (simp add: buildEvidenceWindow_def Let_def)
  ultimately show ?thesis
    using filterEvents_items [of _ parse "lv_events live" ?window]
    by (auto simp: e buildBundle_def Let_def isWithinWindow_def set_newestFirst
        dest: in_set_takeD)
qed

text \<open>
  Evidence and snapshots carry no secret value: what they show of a secret setting, in the current
  or the older form, is the list of its variables and the list of its files; other settings are shown as
  they are.
\<close>

theorem evidence_hides_secrets:
  assumes "collectLive api parse i opts w = (Inr e, w')"
  shows "\<forall>shown \<in> set (ev_runtimeConfigs e). \<exists>stored \<in> set (runtimeConfigs w).
      rc_deploymentId stored = i \<and> rc_type shown = rc_type stored
      \<and> (rc_type stored \<noteq> ConfigSecret \<longrightarrow> shown = stored)
      \<and> (rc_type stored = ConfigSecret \<longrightarrow> (\<exists>ks ps.
           rc_data shown = JObj [(''envKeys'', JArr (map JStr ks)), (''filePaths'', JArr (map JStr ps))]
           \<and> (\<forall>env files. rc_data stored = JObj [(''env'', jsonOfStrings env), (''files'', jsonOfStrings files)] \<longrightarrow>
                ks = keys env \<and> ps = keys files)))"
proof -
  obtain found live recent window t where f: "findDeploymentForEvidence i w = (Inr found, w)"
    and e: "e = buildBundle parse found window t live recent"
    using assms by (rule collectLive_Inr) blast
  have stored: "rc \<in> set (runtimeConfigs w) \<and> rc_deploymentId rc = i"
    if "rc \<in> set (ed_runtimeConfigs found)" for rc
    using findDeploymentForEvidence_run [OF f] that by auto
  have redacted: "\<exists>ks ps. redactSecretRuntimeConfig data
      = JObj [(''envKeys'', JArr (map JStr ks)), (''filePaths'', JArr (map JStr ps))]
      \<and> (\<forall>env files. data = JObj [(''env'', jsonOfStrings env), (''files'', jsonOfStrings files)] \<longrightarrow>
           ks = keys env \<and> ps = keys files)" for data
  proof -
    let ?n = "\<lambda>k obj. if isRecord data then (case member data k of JArr xs \<Rightarrow> map stringOf xs
        | _ \<Rightarrow> if isRecord (member data obj) then objectKeys (member data obj) else []) else []"
    have "map fst (map (\<lambda>(k, v). (k, JStr v)) kvs) = keys kvs" for kvs :: "string entries"
      by (simp add: o_def case_prod_beta)
    then have "?n ''envKeys'' ''env'' = keys env \<and> ?n ''filePaths'' ''files'' = keys files"
      if "data = JObj [(''env'', jsonOfStrings env), (''files'', jsonOfStrings files)]" for env files
      using that by (simp add: jsonOfStrings_def)
    moreover have "redactSecretRuntimeConfig data = JObj [(''envKeys'', JArr (map JStr (?n ''envKeys'' ''env''))),
        (''filePaths'', JArr (map JStr (?n ''filePaths'' ''files'')))]"
      by (simp add: redactSecretRuntimeConfig_def Let_def)
    ultimately show ?thesis by blast
  qed
  show ?thesis
  proof
    fix shown assume "shown \<in> set (ev_runtimeConfigs e)"
    then obtain rc where rc: "rc \<in> set (ed_runtimeConfigs found)" "shown = sanitizeRuntimeConfig rc"
      by (auto simp: e buildBundle_def Let_def)
    show "\<exists>stored \<in> set (runtimeConfigs w). rc_deploymentId stored = i \<and> rc_type shown = rc_type stored
      \<and> (rc_type stored \<noteq> ConfigSecret \<longrightarrow> shown = stored)
      \<and> (rc_type stored = ConfigSecret \<longrightarrow> (\<exists>ks ps.
           rc_data shown = JObj [(''envKeys'', JArr (map JStr ks)), (''filePaths'', JArr (map JStr ps))]
           \<and> (\<forall>env files. rc_data stored = JObj [(''env'', jsonOfStrings env), (''files'', jsonOfStrings files)] \<longrightarrow>
                ks = keys env \<and> ps = keys files)))"
      using stored [OF rc(1)] rc(2) redacted [of "rc_data rc"]
      by (intro bexI [of _ rc]) (simp_all add: sanitizeRuntimeConfig_def)
  qed
qed

section \<open>Witnesses\<close>

definition evidenceWorld :: "unit world" where
  "evidenceWorld = (emptyWorld ())\<lparr>
     apps := [\<lparr> a_id = ''a1'', a_workspaceId = ''w1'', a_name = ''web'', a_displayName = ''Web'',
                a_sourceType = SourceImage, a_image = None, a_defaultPort = None, a_repoUrl = None,
                a_branch = None, a_buildContext = None, a_dockerfilePath = None, a_createdAt = 0 \<rparr>],
     deployments := [sampleDeployment],
     runtimeConfigs := [\<lparr> rc_workspaceId = ''w1'', rc_deploymentId = ''d1'', rc_type = ConfigSecret,
        rc_data = JObj [(''env'', JObj [(''KEY'', JStr ''value'')])] \<rparr>],
     tenant := Some sampleContext \<rparr>"

definition noOptions :: evidence_window_options where
  "noOptions =
     \<lparr> wo_triggeredAt = None, wo_windowStart = None, wo_windowEnd = None, wo_lookbackMinutes = None,
       wo_lookaheadMinutes = None, wo_reason = None \<rparr>"

definition downApi :: "unit kubernetes_api" where
  "downApi _ c = (Inl \<lparr> responseStatusCode = None, statusCode = None, kubeMessage = ''down'' \<rparr>, c)"

lemma evidenceWorld_found:
  "\<exists>found. findDeploymentForEvidence ''d1'' evidenceWorld = (Inr found, evidenceWorld)
     \<and> ed_deployment found = sampleDeployment"
  "validWindow noOptions (clock evidenceWorld (ticks evidenceWorld))"
  by (simp_all add: findDeploymentForEvidence_def bindM_run findFirst_def findMany_def runtimeConfigsOf_def
      evidenceWorld_def emptyWorld_def visible_def deploymentTable_def appTable_def runtimeConfigTable_def
      databaseWorkspace_def sampleContext_def sampleDeployment_def validWindow_def buildEvidenceWindow_def
      noOptions_def validDate_def Let_def)


lemma evidenceWorld_collects:
  "\<exists>e w'. collectLive downApi (\<lambda>_. None) ''d1'' noOptions evidenceWorld = (Inr e, w')"
proof -
  obtain found where f: "findDeploymentForEvidence ''d1'' evidenceWorld = (Inr found, evidenceWorld)"
    using evidenceWorld_found(1) by blast
  obtain live v where "readLiveState downApi (ed_deployment found) (secondsBetween (ew_start
      (buildEvidenceWindow noOptions (clock evidenceWorld (ticks evidenceWorld)))) (clock evidenceWorld (ticks evidenceWorld)))
      (evidenceWorld\<lparr>ticks := Suc (ticks evidenceWorld)\<rparr>) = (Inr live, v)"
    using totalD [OF total_readLiveState] by blast
  with f evidenceWorld_found(2) show ?thesis
    by (simp add: collectLive_def bindM_run thenM_run now_run whenM_run findMany_def Let_def)
qed

theorem evidence_window_sound_witness:
  "\<exists>e w'. collectLive downApi (\<lambda>_. None) ''d1'' noOptions evidenceWorld = (Inr e, w')
     \<and> ew_end (ev_window e) \<le> ev_collectedAt e"
  using evidenceWorld_collects evidence_window_sound by blast

theorem evidence_hides_secrets_witness:
  "\<exists>e w'. collectLive downApi (\<lambda>_. None) ''d1'' noOptions evidenceWorld = (Inr e, w')
     \<and> (\<forall>rc \<in> set (ev_runtimeConfigs e). rc_type rc = ConfigSecret \<longrightarrow>
          (\<exists>ks. member (rc_data rc) ''envKeys'' = JArr (map JStr ks)))"
proof -
  obtain e w' where run: "collectLive downApi (\<lambda>_. None) ''d1'' noOptions evidenceWorld = (Inr e, w')"
    using evidenceWorld_collects by blast
  from evidence_hides_secrets [OF run] have "\<exists>ks. member (rc_data rc) ''envKeys'' = JArr (map JStr ks)"
    if "rc \<in> set (ev_runtimeConfigs e)" "rc_type rc = ConfigSecret" for rc
    using that by fastforce
  with run show ?thesis by blast
qed

end
