(* ===== verification/Redaction.thy ===== *)
theory Redaction
  imports JsLib
begin

text \<open>
  The redaction of log lines in telemetry/clients/loki-telemetry.client.ts (\<open>SECRET_PATTERNS\<close>,
  \<open>redact\<close>): the two regular expressions as matchers, the global replacement, and its completeness.
\<close>

section \<open>The patterns and their replacement\<close>

text \<open>
  \<open>s.replace(pattern, "$1[REDACTED]")\<close> with a global pattern: \<open>m\<close> gives, for a match at the start of a
  string, the length of the first group and of the whole match.
\<close>

definition redactedMark :: string where
  "redactedMark = ''[REDACTED]''"

function replaceMatches :: "(string \<Rightarrow> (nat \<times> nat) option) \<Rightarrow> string \<Rightarrow> string" where
  "replaceMatches m [] = []"
| "replaceMatches m (c # s) =
     (case m (c # s) of
        None \<Rightarrow> c # replaceMatches m s
      | Some (keep, past) \<Rightarrow>
          take keep (c # s) @ redactedMark @ replaceMatches m (drop (max 1 past) (c # s)))"
  by pat_completeness auto
termination by (relation "measure (\<lambda>(m, s). length s)") auto

text \<open>\<open>/((?:password|secret|token|api[_-]?key)=)\S+/gi\<close>.\<close>

definition secretKeys :: "string list" where
  "secretKeys = [''password='', ''secret='', ''token='', ''api_key='', ''api-key='', ''apikey='']"

definition firstWordLength :: "string \<Rightarrow> nat" where
  "firstWordLength s = length (takeWhile (\<lambda>c. \<not> isSpace c) s)"

definition matchAssignment :: "string \<Rightarrow> (nat \<times> nat) option" where
  "matchAssignment s =
     (case find (\<lambda>k. startsWith (toLowerCase s) k) secretKeys of
        None \<Rightarrow> None
      | Some k \<Rightarrow>
          (let n = firstWordLength (drop (length k) s) in
           if n = 0 then None else Some (length k, length k + n)))"

text \<open>\<open>/(authorization:\s*bearer\s+)[A-Za-z0-9._~+\/-]+=*/gi\<close>.\<close>

definition isTokenChar :: "char \<Rightarrow> bool" where
  "isTokenChar c \<longleftrightarrow> isLowerAlnum c \<or> isUpperAlpha c \<or> c \<in> set ''._~+/-''"

definition spaceLength :: "string \<Rightarrow> nat" where
  "spaceLength s = length (takeWhile isSpace s)"

definition matchBearer :: "string \<Rightarrow> (nat \<times> nat) option" where
  "matchBearer s =
     (let a = 14 + spaceLength (drop 14 s);
          b = a + 6 + spaceLength (drop (a + 6) s);
          n = length (takeWhile isTokenChar (drop b s));
          e = length (takeWhile (\<lambda>c. c = CHR ''='') (drop (b + n) s))
      in if startsWith (toLowerCase s) ''authorization:'' \<and> startsWith (toLowerCase (drop a s)) ''bearer''
            \<and> spaceLength (drop (a + 6) s) \<noteq> 0 \<and> n \<noteq> 0
         then Some (b, b + n + e) else None)"

definition redact :: "string \<Rightarrow> string" where
  "redact line = replaceMatches matchBearer (replaceMatches matchAssignment line)"

section \<open>Matches\<close>

lemma replaceMatches_None: "m (c # s) = None \<Longrightarrow> replaceMatches m (c # s) = c # replaceMatches m s"
  by simp

lemma replaceMatches_Some:
  "m (c # s) = Some (keep, past) \<Longrightarrow>
   replaceMatches m (c # s) = take keep (c # s) @ redactedMark @ replaceMatches m (drop (max 1 past) (c # s))"
  by simp

declare replaceMatches.simps(2) [simp del]

lemma map_eq_takeD: "startsWith (toLowerCase s) k \<Longrightarrow> toLowerCase (take (length k) s) = k"
  by (auto simp: startsWith_iff toLowerCase_def take_map [symmetric])

lemma lower_bracket: "CHR ''['' \<in> set s \<Longrightarrow> CHR ''['' \<in> set (toLowerCase s)"
  by (force simp: toLowerCase_def lowerChar_bits image_iff)

text \<open>What the replacement leaves before the first bracket was there before.\<close>

lemma replaced_prefix:
  assumes "replaceMatches m s = p @ r" "CHR ''['' \<notin> set p"
  shows "(\<exists>r'. s = p @ r' \<and> r = replaceMatches m r')
    \<or> (\<exists>p' u keep past j. s = p' @ u \<and> m u = Some (keep, past) \<and> 0 < j \<and> j \<le> keep \<and> u \<noteq> [] \<and> p = p' @ take j u)"
  using assms
proof (induction m s arbitrary: p rule: replaceMatches.induct)
  case (1 m)
  then show ?case by simp
next
  case (2 m c s)
  show ?case
  proof (cases p)
    case Nil
    with "2.prems" show ?thesis by auto
  next
    case (Cons x q)
    show ?thesis
    proof (cases "m (c # s)")
      case None
      with "2.prems" Cons have q: "replaceMatches m s = q @ r" "CHR ''['' \<notin> set q" "x = c"
        by (auto simp: replaceMatches_None)
      from "2.IH"(1) [OF None q(1,2)] show ?thesis
      proof (elim disjE exE conjE)
        fix r' assume "s = q @ r'" "r = replaceMatches m r'"
        with Cons q(3) show ?thesis by auto
      next
        fix p' u keep past j
        assume "s = p' @ u" "m u = Some (keep, past)" "0 < j" "j \<le> keep" "u \<noteq> []" "q = p' @ take j u"
        with Cons q(3) show ?thesis
          by (intro disjI2 exI [of _ "c # p'"] exI [of _ u] exI [of _ keep] exI [of _ past] exI [of _ j]) simp
      qed
    next
      case (Some kp)
      obtain keep past where m: "m (c # s) = Some (keep, past)" using Some by (cases kp) auto
      let ?k = "take keep (c # s)"
      have eq: "?k @ redactedMark @ replaceMatches m (drop (max 1 past) (c # s)) = p @ r"
        using "2.prems"(1) m by (simp add: replaceMatches_Some)
      have "length p \<le> length ?k"
      proof (rule ccontr)
        assume long: "\<not> length p \<le> length ?k"
        then have "p ! length ?k = (p @ r) ! length ?k"
          by (simp only: not_le nth_append if_True)
        also have "\<dots> = CHR ''[''"
          by (simp only: eq [symmetric] nth_append_length_plus [where n = 0, simplified add_0_right])
            (simp add: redactedMark_def)
        finally show False using long "2.prems"(2) by (metis not_le nth_mem)
      qed
      then have "p = take (length p) (?k @ redactedMark @ replaceMatches m (drop (max 1 past) (c # s)))"
        by (simp only: eq) simp
      with \<open>length p \<le> length ?k\<close> have "p = take (length p) (c # s)" and "length p \<le> keep" by auto
      with m Cons show ?thesis
        by (intro disjI2 exI [of _ "[]"] exI [of _ "c # s"] exI [of _ keep] exI [of _ past]
            exI [of _ "length p"]) auto
    qed
  qed
qed

lemma replaced_prefix_kept:
  assumes "replaceMatches m s = p @ r" "CHR ''['' \<notin> set p"
  obtains r' where "s = p @ r'"
  using replaced_prefix [OF assms]
proof (elim disjE exE conjE)
  fix p' u keep past j
  assume "s = p' @ u" "p = p' @ take j u"
  then have "s = p @ drop j u" by simp
  then show thesis by (rule that)
qed (rule that)

section \<open>Assignments\<close>

lemma toLowerCase_append [simp]:
  "toLowerCase (s @ t) = toLowerCase s @ toLowerCase t" "toLowerCase [] = []"
  by (simp_all add: toLowerCase_def)

lemma toLowerCase_Cons: "toLowerCase (c # t) = lowerChar c # toLowerCase t"
  by (simp add: toLowerCase_def)

lemma keys_shape:
  assumes "k \<in> set secretKeys"
  shows "CHR ''['' \<notin> set k" "\<exists>b. k = b @ ''='' \<and> CHR ''='' \<notin> set b"
  using assms by (auto simp: secretKeys_def append_eq_Cons_conv Cons_eq_append_conv)

lemma startsWith_prefix: "startsWith s p \<longleftrightarrow> prefix p s"
  by (auto simp: startsWith_iff prefix_def)

lemma keys_apart:
  "\<forall>k \<in> set secretKeys. \<forall>k' \<in> set secretKeys. (prefix k k' \<longrightarrow> k = k') \<and> (suffix k k' \<longrightarrow> k = k')"
  by (simp add: secretKeys_def suffix_Cons)

lemma keys_prefix_free:
  assumes "k \<in> set secretKeys" "k' \<in> set secretKeys" "startsWith s k" "startsWith s k'"
  shows "k = k'"
  using assms(3,4) keys_apart assms(1,2) unfolding startsWith_prefix by (metis prefix_same_cases)

lemma keys_suffix_free:
  assumes "p @ k' \<in> set secretKeys" "k' \<in> set secretKeys"
  shows "p = []"
proof -
  have "suffix k' (p @ k')" by (simp add: suffix_def)
  with keys_apart assms have "k' = p @ k'" by blast
  then show ?thesis by simp
qed

lemma matchAssignment_iff:
  "matchAssignment s = Some (keep, past) \<longleftrightarrow>
     (\<exists>k \<in> set secretKeys. startsWith (toLowerCase s) k \<and> firstWordLength (drop (length k) s) \<noteq> 0
        \<and> keep = length k \<and> past = length k + firstWordLength (drop (length k) s))"
proof (cases "find (\<lambda>k. startsWith (toLowerCase s) k) secretKeys")
  case None
  then have "matchAssignment s = None" by (simp add: matchAssignment_def)
  with None show ?thesis by (auto simp: find_None_iff)
next
  case (Some k)
  then have k: "k \<in> set secretKeys" "startsWith (toLowerCase s) k" by (auto simp: find_Some_iff)
  then have only: "k' = k" if "k' \<in> set secretKeys" "startsWith (toLowerCase s) k'" for k'
    using that by (blast intro: keys_prefix_free)
  let ?n = "firstWordLength (drop (length k) s)"
  have "matchAssignment s = (if ?n = 0 then None else Some (length k, length k + ?n))"
    using Some by (simp add: matchAssignment_def)
  then have "matchAssignment s = Some (keep, past) \<longleftrightarrow> ?n \<noteq> 0 \<and> keep = length k \<and> past = length k + ?n"
    by auto
  with k only show ?thesis by blast
qed

lemma matchAssignment_None:
  "matchAssignment s = None \<Longrightarrow> k \<in> set secretKeys \<Longrightarrow> startsWith (toLowerCase s) k \<Longrightarrow>
   firstWordLength (drop (length k) s) = 0"
  using matchAssignment_iff [of s] by auto

text \<open>No value is left: nothing follows an assignment but white space, or the mark and white space.\<close>

definition blank :: "string \<Rightarrow> bool" where
  "blank s \<longleftrightarrow> s = [] \<or> isSpace (hd s)"

lemma firstWordLength_0: "firstWordLength s = 0 \<longleftrightarrow> blank s"
  by (cases s) (auto simp: firstWordLength_def blank_def)

definition assignmentsRedacted :: "string \<Rightarrow> bool" where
  "assignmentsRedacted s \<longleftrightarrow>
     (\<forall>t k. suffix t s \<and> k \<in> set secretKeys \<and> startsWith (toLowerCase t) k \<longrightarrow>
        blank (drop (length k) t) \<or> (\<exists>z. drop (length k) t = redactedMark @ z \<and> blank z))"

lemma space_not_key: "isSpace c \<Longrightarrow> k \<in> set secretKeys \<Longrightarrow> \<not> startsWith (toLowerCase (c # s)) k"
  by (auto simp: secretKeys_def toLowerCase_def isSpace_def lowerChar_def isUpperAlpha_def)

lemma matchAssignment_space: "isSpace c \<Longrightarrow> matchAssignment (c # s) = None"
  using matchAssignment_iff [of "c # s"] space_not_key by (cases "matchAssignment (c # s)") auto

lemma blank_replaceMatches:
  assumes "blank s" "\<And>c s. isSpace c \<Longrightarrow> m (c # s) = None"
  shows "blank (replaceMatches m s)"
  using assms by (cases s) (auto simp: blank_def replaceMatches_None)

text \<open>No key begins within the mark.\<close>

lemma mark_not_key:
  "suffix u redactedMark \<Longrightarrow> u \<noteq> [] \<Longrightarrow> k \<in> set secretKeys \<Longrightarrow> \<not> startsWith (toLowerCase (u @ s)) k"
  by (auto simp: redactedMark_def suffix_Cons secretKeys_def toLowerCase_def lowerChar_bits)

lemma suffix_append_cases:
  assumes "suffix t (a @ b)"
  obtains (right) "suffix t b" | (left) u where "suffix u a" "u \<noteq> []" "t = u @ b"
proof -
  from assms obtain p where "a @ b = p @ t" by (auto simp: suffix_def)
  then consider u where "a = p @ u" "u @ b = t" | u where "p = a @ u" "b = u @ t"
    by (auto simp: append_eq_append_conv2)
  then show thesis
  proof cases
    case 1
    show thesis
    proof (cases u)
      case Nil
      with 1 show thesis by (auto intro: right)
    next
      case (Cons x y)
      with 1 show thesis by (intro left [of u]) (auto simp: suffix_def)
    qed
  next
    case 2
    then show thesis by (intro right) (auto simp: suffix_def)
  qed
qed

lemma assignmentsRedacted_suffix: "assignmentsRedacted s \<Longrightarrow> suffix t s \<Longrightarrow> assignmentsRedacted t"
  unfolding assignmentsRedacted_def using suffix_order.trans by blast

lemma assignmentsRedacted_append:
  assumes "assignmentsRedacted s"
    and "\<And>u k. suffix u a \<Longrightarrow> u \<noteq> [] \<Longrightarrow> k \<in> set secretKeys \<Longrightarrow> startsWith (toLowerCase (u @ s)) k \<Longrightarrow>
      blank (drop (length k) (u @ s)) \<or> (\<exists>z. drop (length k) (u @ s) = redactedMark @ z \<and> blank z)"
  shows "assignmentsRedacted (a @ s)"
  using assms unfolding assignmentsRedacted_def by (blast elim: suffix_append_cases)

lemma assignmentsRedacted_mark: "assignmentsRedacted s \<Longrightarrow> assignmentsRedacted (redactedMark @ s)"
  by (rule assignmentsRedacted_append) (use mark_not_key in blast)+

text \<open>A key of the output is a key of the input, at the same place.\<close>

lemma key_in_output:
  assumes "k \<in> set secretKeys" "startsWith (toLowerCase (replaceMatches m s)) k"
  obtains p r where "replaceMatches m s = p @ r" "toLowerCase p = k" "CHR ''['' \<notin> set p" "length p = length k"
    "\<exists>q. p = q @ ''=''"
proof -
  let ?p = "take (length k) (replaceMatches m s)"
  have lower: "toLowerCase ?p = k" using assms(2) by (rule map_eq_takeD)
  then have len: "length ?p = length k" by (metis length_toLowerCase)
  obtain b where b: "k = b @ ''=''" using keys_shape(2) [OF assms(1)] by blast
  have "?p \<noteq> []" using b len by auto
  then have p: "?p = butlast ?p @ [last ?p]" by simp
  then have "toLowerCase (butlast ?p @ [last ?p]) = b @ ''=''" using lower b by simp
  then have "lowerChar (last ?p) = CHR ''=''" by (simp add: toLowerCase_def)
  then have "code (lowerChar (last ?p)) = 61" by simp
  then have "code (last ?p) = code (CHR ''='')" by (auto simp: code_lowerChar isUpperAlpha_def split: if_splits)
  then have "last ?p = CHR ''=''" by (rule of_char_eq_iff [THEN iffD1])
  with p have "?p = butlast ?p @ ''=''" by simp
  moreover have "CHR ''['' \<notin> set ?p" using lower keys_shape(1) [OF assms(1)] lower_bracket by metis
  ultimately show thesis
    using that [of ?p "drop (length k) (replaceMatches m s)"] lower len by auto
qed

text \<open>Inside a match of an assignment no other key begins.\<close>

lemma key_not_in_key:
  assumes "k0 \<in> set secretKeys" "toLowerCase a = k0" "suffix u a" "u \<noteq> []" "k \<in> set secretKeys"
    "startsWith (toLowerCase (u @ redactedMark @ s)) k"
  shows "u = a \<and> k = k0"
proof -
  obtain p where p: "a = p @ u" using assms(3) by (auto simp: suffix_def)
  define rest where "rest = toLowerCase (redactedMark @ s)"
  have "startsWith (toLowerCase u @ rest) k" using assms(6) by (simp add: rest_def)
  then obtain y where "toLowerCase u @ rest = k @ y" by (auto simp: startsWith_iff)
  then consider x where "toLowerCase u = k @ x" | x where "k = toLowerCase u @ x" "x \<noteq> []" "rest = x @ y"
    by (auto simp: append_eq_append_conv2) (metis append_Nil2)
  then show ?thesis
  proof cases
    case 1
    obtain b where b: "k = b @ ''=''" using keys_shape(2) [OF assms(5)] by blast
    obtain b0 where b0: "k0 = b0 @ ''=''" "CHR ''='' \<notin> set b0" using keys_shape(2) [OF assms(1)] by blast
    have k0: "k0 = toLowerCase p @ k @ x" using assms(2) p 1 by simp
    then have "b0 @ ''='' = (toLowerCase p @ b) @ CHR ''='' # x" using b b0 by simp
    then have "x = []" using b0(2) by (cases x rule: rev_cases) auto
    then have "toLowerCase p @ k = k0" using k0 by simp
    then have "toLowerCase p = []" using keys_suffix_free [of "toLowerCase p" k] assms(1,5) by simp
    then have "p = []" by (simp add: toLowerCase_def)
    then show ?thesis using p k0 \<open>x = []\<close> by simp
  next
    case 2
    then have "hd x = CHR ''[''"
      by (cases x) (auto simp: rest_def redactedMark_def toLowerCase_def lowerChar_bits)
    then have "CHR ''['' \<in> set k" using 2 by (metis UnCI hd_in_set set_append)
    with keys_shape(1) [OF assms(5)] show ?thesis by blast
  qed
qed

lemma assignments_pass: "assignmentsRedacted (replaceMatches matchAssignment s)"
proof (induction "length s" arbitrary: s rule: less_induct)
  case less
  note blankOut = blank_replaceMatches [of _ matchAssignment, OF _ matchAssignment_space]
  show ?case
  proof (cases s)
    case Nil
    then show ?thesis by (auto simp: assignmentsRedacted_def secretKeys_def toLowerCase_def)
  next
    case (Cons c s')
    show ?thesis
    proof (cases "matchAssignment s")
      case None
      have IH: "assignmentsRedacted (replaceMatches matchAssignment s')" using less Cons by simp
      have out: "replaceMatches matchAssignment s = c # replaceMatches matchAssignment s'"
        using None Cons by (simp add: replaceMatches_None)
      have "assignmentsRedacted ([c] @ replaceMatches matchAssignment s')"
      proof (rule assignmentsRedacted_append [OF IH])
        fix u k assume "suffix u [c]" "u \<noteq> []" and k: "k \<in> set secretKeys"
          and "startsWith (toLowerCase (u @ replaceMatches matchAssignment s')) k"
        then have u: "u = [c]" and "startsWith (toLowerCase (replaceMatches matchAssignment s)) k"
          by (auto simp: out suffix_Cons)
        from key_in_output [OF k this(2)] obtain p r where pr: "replaceMatches matchAssignment s = p @ r"
          "toLowerCase p = k" "CHR ''['' \<notin> set p" "length p = length k" "\<exists>q. p = q @ ''=''" by metis
        from replaced_prefix [OF pr(1,3)]
        show "blank (drop (length k) (u @ replaceMatches matchAssignment s'))
          \<or> (\<exists>z. drop (length k) (u @ replaceMatches matchAssignment s') = redactedMark @ z \<and> blank z)"
        proof (elim disjE exE conjE)
          fix r' assume r': "s = p @ r'" "r = replaceMatches matchAssignment r'"
          then have "startsWith (toLowerCase s) k" "drop (length k) s = r'" using pr(2,4) by auto
          with matchAssignment_None [OF None k] have "blank r'" by (simp add: firstWordLength_0)
          then have "blank r" using r'(2) blankOut by simp
          moreover have "drop (length k) (replaceMatches matchAssignment s) = r"
            by (simp add: pr(1) pr(4) [symmetric])
          then have "drop (length k) (u @ replaceMatches matchAssignment s') = r"
            by (simp add: u out)
          ultimately show ?thesis by simp
        next
          fix p' v keep past j
          assume v: "s = p' @ v" "matchAssignment v = Some (keep, past)" "0 < j" "j \<le> keep" "v \<noteq> []"
            "p = p' @ take j v"
          obtain k0 where k0: "k0 \<in> set secretKeys" "startsWith (toLowerCase v) k0" "keep = length k0"
            using v(2) matchAssignment_iff by blast
          have low: "toLowerCase (take keep v) = k0" using map_eq_takeD k0(2,3) by blast
          obtain b where b: "k0 = b @ ''=''" "CHR ''='' \<notin> set b" using keys_shape(2) k0(1) by blast
          have "last p = last (take j v)" using v(3,5,6) by (simp add: last_append)
          then have "last (take j v) = CHR ''=''" using pr(5) by auto
          then have "CHR ''='' \<in> set (take j v)" using v(3,5) by (metis last_in_set take_eq_Nil neq0_conv)
          then have "lowerChar (CHR ''='') \<in> set (toLowerCase (take j v))" by (simp add: toLowerCase_def)
          then have "CHR ''='' \<in> set (toLowerCase (take j v))" by (simp add: lowerChar_bits)
          also have "toLowerCase (take j v) = take j (b @ ''='')"
            using low b v(4) by (metis min.absorb1 take_map take_take toLowerCase_def)
          finally have "\<not> j \<le> length b" using b(2) by (auto dest: in_set_takeD)
          then have "j = keep" using v(4) k0(3) b(1) by simp
          then have "k = toLowerCase p' @ k0" using v(6) pr(2) low by simp
          then have "toLowerCase p' = []" using keys_suffix_free k k0(1) by simp
          then have "v = s" using v(1) by (simp add: toLowerCase_def)
          with v(2) None show ?thesis by simp
        qed
      qed
      then show ?thesis by (simp add: out)
    next
      case (Some kp)
      then obtain keep past where m: "matchAssignment s = Some (keep, past)" by (cases kp) auto
      then obtain k0 where k0: "k0 \<in> set secretKeys" "startsWith (toLowerCase s) k0" "keep = length k0"
        "past = keep + firstWordLength (drop keep s)" "firstWordLength (drop keep s) \<noteq> 0"
        using matchAssignment_iff by auto
      let ?rest = "replaceMatches matchAssignment (drop past s)"
      have "past \<noteq> 0" using k0(4,5) by simp
      then have out: "replaceMatches matchAssignment s = take keep s @ redactedMark @ ?rest"
        using m Cons by (cases past) (simp_all add: replaceMatches_Some)
      have low: "toLowerCase (take keep s) = k0" using map_eq_takeD k0(2,3) by blast
      have "drop past s = dropWhile (\<lambda>c. \<not> isSpace c) (drop keep s)"
        unfolding k0(4) firstWordLength_def dropWhile_eq_drop [of _ "drop keep s"] by (simp add: add.commute)
      then have "blank (drop past s)"
        using hd_dropWhile [of "\<lambda>c. \<not> isSpace c" "drop keep s"] by (auto simp: blank_def)
      then have bl: "blank ?rest" by (rule blankOut)
      have IH: "assignmentsRedacted ?rest" using less Cons \<open>past \<noteq> 0\<close> by simp
      have "assignmentsRedacted (take keep s @ redactedMark @ ?rest)"
      proof (rule assignmentsRedacted_append [OF assignmentsRedacted_mark [OF IH]])
        fix u k assume u: "suffix u (take keep s)" "u \<noteq> []" "k \<in> set secretKeys"
          "startsWith (toLowerCase (u @ redactedMark @ ?rest)) k"
        from key_not_in_key [OF k0(1) low u] have "u = take keep s" "k = k0" by simp_all
        then have "drop (length k) (u @ redactedMark @ ?rest) = redactedMark @ ?rest"
          using low by (metis append_eq_conv_conj length_toLowerCase)
        with bl show "blank (drop (length k) (u @ redactedMark @ ?rest))
          \<or> (\<exists>z. drop (length k) (u @ redactedMark @ ?rest) = redactedMark @ z \<and> blank z)" by blast
      qed
      then show ?thesis by (simp add: out)
    qed
  qed
qed

section \<open>Bearer tokens\<close>

text \<open>The first group of the pattern, taken apart.\<close>

definition bearerPrefix :: "string \<Rightarrow> bool" where
  "bearerPrefix s \<longleftrightarrow>
     (\<exists>p sp q sp'. s = p @ sp @ q @ sp' \<and> toLowerCase p = ''authorization:'' \<and> (\<forall>c \<in> set sp. isSpace c)
        \<and> toLowerCase q = ''bearer'' \<and> sp' \<noteq> [] \<and> (\<forall>c \<in> set sp'. isSpace c))"

lemma spaceLength_append:
  "(\<forall>c \<in> set sp. isSpace c) \<Longrightarrow> s = [] \<or> \<not> isSpace (hd s) \<Longrightarrow> spaceLength (sp @ s) = length sp"
proof -
  assume "\<forall>c \<in> set sp. isSpace c" "s = [] \<or> \<not> isSpace (hd s)"
  then have "takeWhile isSpace (sp @ s) = sp"
    by (cases s) (simp_all add: takeWhile_append2 takeWhile_eq_all_conv)
  then show ?thesis by (simp add: spaceLength_def)
qed

lemma tokenChar_not_space: "isTokenChar x \<Longrightarrow> \<not> isSpace x"
  by (auto simp: isTokenChar_def isSpace_def isLowerAlnum_def isLowerAlpha_def isDigit_def isUpperAlpha_def)

lemma bearer_start: "toLowerCase q = ''bearer'' \<Longrightarrow> q \<noteq> [] \<and> \<not> isSpace (hd q) \<and> length q = 6"
proof -
  assume q: "toLowerCase q = ''bearer''"
  then obtain c t where ct: "q = c # t" "lowerChar c = CHR ''b''" by (cases q) (auto simp: toLowerCase_def)
  have "length q = length ''bearer''" using q by (metis length_toLowerCase)
  moreover have "code (lowerChar c) = 98" using ct(2) by simp
  then have "\<not> isSpace c" by (auto simp: code_lowerChar isSpace_def isUpperAlpha_def split: if_splits)
  ultimately show ?thesis using ct(1) by simp
qed

lemma matchBearer_append:
  assumes "bearerPrefix b" "isTokenChar x"
  shows "\<exists>past. matchBearer (b @ x # r) = Some (length b, past) \<and> length b < past"
proof -
  obtain p sp q sp' where b: "b = p @ sp @ q @ sp'" "toLowerCase p = ''authorization:''"
    "\<forall>c \<in> set sp. isSpace c" "toLowerCase q = ''bearer''" "sp' \<noteq> []" "\<forall>c \<in> set sp'. isSpace c"
    using assms(1) unfolding bearerPrefix_def by blast
  have p: "length p = 14" using arg_cong [OF b(2), of length] by (simp add: length_toLowerCase)
  have q: "q \<noteq> []" "\<not> isSpace (hd q)" "length q = 6" using bearer_start [OF b(4)] by auto
  have 1: "spaceLength (sp @ q @ sp' @ x # r) = length sp"
    using q b(3) by (intro spaceLength_append) auto
  have 2: "spaceLength (sp' @ x # r) = length sp'"
    using b(6) tokenChar_not_space [OF assms(2)] by (intro spaceLength_append) auto
  define s where "s = b @ x # r"
  have d: "drop 14 s = sp @ q @ sp' @ x # r" "drop (14 + length sp) s = q @ sp' @ x # r"
    "drop (14 + length sp + 6) s = sp' @ x # r"
    "drop (14 + length sp + 6 + length sp') s = x # r"
    by (simp_all add: s_def b(1) p q(3))
  have st: "startsWith (toLowerCase s) ''authorization:''" "startsWith (toLowerCase (q @ sp' @ x # r)) ''bearer''"
    by (simp_all add: s_def b(1,2,4))
  have len: "length b = 14 + length sp + 6 + length sp'" by (simp add: b(1) p q(3))
  show ?thesis
    using st b(5) assms(2) unfolding matchBearer_def Let_def s_def [symmetric] d(1) 1 d(2,3) 2 d(4) len by simp
qed

lemma matchBearer_Some:
  assumes "matchBearer s = Some (keep, past)"
  obtains x r where "s = take keep s @ x # r" "bearerPrefix (take keep s)" "isTokenChar x" "keep < past"
proof -
  define a where "a = 14 + spaceLength (drop 14 s)"
  define b where "b = a + 6 + spaceLength (drop (a + 6) s)"
  have m: "startsWith (toLowerCase s) ''authorization:''" "startsWith (toLowerCase (drop a s)) ''bearer''"
    "spaceLength (drop (a + 6) s) \<noteq> 0" "takeWhile isTokenChar (drop b s) \<noteq> []" "keep = b" "keep < past"
    using assms by (auto simp: matchBearer_def Let_def a_def [symmetric] b_def [symmetric] split: if_splits)
  obtain x r where x: "drop b s = x # r" "isTokenChar x"
    using m(4) by (cases "drop b s") (auto split: if_splits)
  let ?p = "take 14 s" and ?sp = "takeWhile isSpace (drop 14 s)" and ?q = "take 6 (drop a s)"
    and ?sp' = "takeWhile isSpace (drop (a + 6) s)"
  have "?sp = take (spaceLength (drop 14 s)) (drop 14 s)"
    "?sp' = take (spaceLength (drop (a + 6) s)) (drop (a + 6) s)"
    by (simp_all add: spaceLength_def takeWhile_eq_take [symmetric])
  then have "take b s = take a s @ ?q @ ?sp'"
    unfolding b_def take_add [of "a + 6"] take_add [of a 6] by simp
  also have "take a s = ?p @ ?sp"
    using \<open>?sp = _\<close> unfolding a_def take_add [of 14] by simp
  finally have "take b s = ?p @ ?sp @ ?q @ ?sp'" by simp
  moreover have "toLowerCase ?p = ''authorization:''" "toLowerCase ?q = ''bearer''"
    using map_eq_takeD [OF m(1)] map_eq_takeD [OF m(2)] by (simp_all add: eval_nat_numeral)
  moreover have "?sp' \<noteq> []" using m(3) by (simp add: spaceLength_def)
  ultimately have "bearerPrefix (take b s)"
    unfolding bearerPrefix_def by (intro exI conjI) (assumption | auto dest: set_takeWhileD)+
  moreover have "s = take b s @ x # r" using x(1) by (metis append_take_drop_id)
  ultimately show thesis using that m(5,6) x(2) by blast
qed

lemma bearerPrefix_chars:
  assumes "bearerPrefix b"
  shows "CHR ''='' \<notin> set b" "CHR ''['' \<notin> set b"
proof -
  obtain p sp q sp' where b: "b = p @ sp @ q @ sp'" "toLowerCase p = ''authorization:''"
    "\<forall>c \<in> set sp. isSpace c" "toLowerCase q = ''bearer''" "\<forall>c \<in> set sp'. isSpace c"
    using assms(1) unfolding bearerPrefix_def by blast
  have absent: "c \<notin> set s" if "lowerChar c \<notin> set (toLowerCase s)" for c and s :: string
    using that by (auto simp: toLowerCase_def)
  have "CHR ''='' \<notin> set p" "CHR ''='' \<notin> set q" "CHR ''['' \<notin> set p" "CHR ''['' \<notin> set q"
    by (rule absent, simp add: b(2,4) lowerChar_bits)+
  moreover have "\<not> isSpace (CHR ''='')" "\<not> isSpace (CHR ''['')" by (simp_all add: isSpace_def)
  ultimately show "CHR ''='' \<notin> set b" "CHR ''['' \<notin> set b" using b(1,3,5) by auto
qed

lemma matchBearer_skips:
  "isSpace c \<Longrightarrow> matchBearer (c # s) = None" "matchBearer [] = None"
  "suffix u redactedMark \<Longrightarrow> u \<noteq> [] \<Longrightarrow> matchBearer (u @ s) = None"
proof -
  have "\<not> startsWith (toLowerCase (c # s)) ''authorization:''" if "isSpace c"
    using that by (auto simp: toLowerCase_def isSpace_def lowerChar_def isUpperAlpha_def)
  then show "isSpace c \<Longrightarrow> matchBearer (c # s) = None" by (simp add: matchBearer_def Let_def)
  show "matchBearer [] = None" by (simp add: matchBearer_def Let_def)
  show "suffix u redactedMark \<Longrightarrow> u \<noteq> [] \<Longrightarrow> matchBearer (u @ s) = None"
    by (auto simp: redactedMark_def suffix_Cons matchBearer_def Let_def toLowerCase_def lowerChar_bits)
qed

text \<open>The mark, and a blank, pass unchanged.\<close>

lemma replaceMatches_mark: "replaceMatches matchBearer (redactedMark @ s) = redactedMark @ replaceMatches matchBearer s"
proof -
  have "suffix u redactedMark \<Longrightarrow> replaceMatches matchBearer (u @ s) = u @ replaceMatches matchBearer s" for u
  proof (induction u)
    case (Cons c u)
    have "suffix u redactedMark" using Cons.prems by (rule suffix_ConsD)
    with Cons.IH Cons.prems show ?case
      using replaceMatches_None [of matchBearer c "u @ s"] matchBearer_skips(3) [of "c # u"] by simp
  qed simp
  then show ?thesis by simp
qed

lemma key_needs_equals:
  assumes "k \<in> set secretKeys" "startsWith (toLowerCase (u @ redactedMark @ s)) k"
  shows "CHR ''='' \<in> set u"
proof (rule ccontr)
  assume absent: "CHR ''='' \<notin> set u"
  obtain b where b: "k = b @ ''=''" using keys_shape(2) [OF assms(1)] by blast
  define p where "p = take (length k) (u @ redactedMark @ s)"
  have low: "toLowerCase p = k" unfolding p_def using assms(2) by (rule map_eq_takeD)
  have "CHR ''['' \<notin> set p" using low keys_shape(1) [OF assms(1)] lower_bracket by metis
  then have "length k \<le> length u"
    by (auto simp: p_def redactedMark_def take_Cons' not_le split: if_splits)
  then have p: "p = take (length k) u" by (simp add: p_def)
  have "CHR ''='' \<in> lowerChar ` set p"
    using low b by (metis in_set_conv_decomp list.set_map toLowerCase_def)
  then obtain c where c: "c \<in> set p" "lowerChar c = CHR ''=''" by (metis imageE)
  then have "code (lowerChar c) = 61" by simp
  then have "code c = code (CHR ''='')" by (auto simp: code_lowerChar isUpperAlpha_def split: if_splits)
  then have "c = CHR ''=''" by (rule of_char_eq_iff [THEN iffD1])
  with c(1) p absent show False by (auto dest: in_set_takeD)
qed

lemma bearer_pass_keeps_assignments:
  "assignmentsRedacted s \<Longrightarrow> assignmentsRedacted (replaceMatches matchBearer s)"
proof (induction "length s" arbitrary: s rule: less_induct)
  case less
  note blankOut = blank_replaceMatches [of _ matchBearer, OF _ matchBearer_skips(1)]
  show ?case
  proof (cases s)
    case Nil
    then show ?thesis using less.prems by simp
  next
    case (Cons c s')
    show ?thesis
    proof (cases "matchBearer s")
      case None
      have "assignmentsRedacted s'"
        using less.prems by (rule assignmentsRedacted_suffix) (simp add: Cons suffix_ConsI)
      then have IH: "assignmentsRedacted (replaceMatches matchBearer s')" using less.hyps Cons by simp
      have out: "replaceMatches matchBearer s = c # replaceMatches matchBearer s'"
        using None Cons by (simp add: replaceMatches_None)
      have "assignmentsRedacted ([c] @ replaceMatches matchBearer s')"
      proof (rule assignmentsRedacted_append [OF IH])
        fix u k assume "suffix u [c]" "u \<noteq> []" and k: "k \<in> set secretKeys"
          and "startsWith (toLowerCase (u @ replaceMatches matchBearer s')) k"
        then have u: "u = [c]" and "startsWith (toLowerCase (replaceMatches matchBearer s)) k"
          by (auto simp: out suffix_Cons)
        from key_in_output [OF k this(2)] obtain p r where pr: "replaceMatches matchBearer s = p @ r"
          "toLowerCase p = k" "CHR ''['' \<notin> set p" "length p = length k" "\<exists>q. p = q @ ''=''" by metis
        have "drop (length k) (replaceMatches matchBearer s) = r"
          by (simp add: pr(1) pr(4) [symmetric])
        then have r: "drop (length k) (u @ replaceMatches matchBearer s') = r" by (simp add: u out)
        from replaced_prefix [OF pr(1,3)]
        show "blank (drop (length k) (u @ replaceMatches matchBearer s'))
          \<or> (\<exists>z. drop (length k) (u @ replaceMatches matchBearer s') = redactedMark @ z \<and> blank z)"
          unfolding r
        proof (elim disjE exE conjE)
          fix r' assume r': "s = p @ r'" "r = replaceMatches matchBearer r'"
          then have "startsWith (toLowerCase s) k" "drop (length k) s = r'" using pr(2,4) by auto
          with less.prems k have "blank r' \<or> (\<exists>z. r' = redactedMark @ z \<and> blank z)"
            unfolding assignmentsRedacted_def by blast
          then show "blank r \<or> (\<exists>z. r = redactedMark @ z \<and> blank z)"
          proof
            assume "blank r'"
            then have "blank r" unfolding r'(2) by (rule blankOut)
            then show ?thesis ..
          next
            assume "\<exists>z. r' = redactedMark @ z \<and> blank z"
            then obtain z where "r' = redactedMark @ z" "blank z" by blast
            then have "r = redactedMark @ replaceMatches matchBearer z"
              "blank (replaceMatches matchBearer z)"
              using r'(2) blankOut by (simp_all add: replaceMatches_mark)
            then show ?thesis by blast
          qed
        next
          fix p' v keep past j
          assume v: "matchBearer v = Some (keep, past)" "0 < j" "j \<le> keep" "v \<noteq> []" "p = p' @ take j v"
          have "last p = last (take j v)" using v by (simp add: last_append)
          then have "CHR ''='' = last (take j v)" using pr(5) by auto
          also have "\<dots> \<in> set (take j v)" using v(2,4) by (intro last_in_set) simp
          also have "\<dots> \<subseteq> set (take keep v)" using v(3) by (rule set_take_subset_set_take)
          finally show "blank r \<or> (\<exists>z. r = redactedMark @ z \<and> blank z)"
            using matchBearer_Some [OF v(1)] bearerPrefix_chars(1) by metis
        qed
      qed
      then show ?thesis by (simp add: out)
    next
      case (Some kp)
      then obtain keep past where m: "matchBearer s = Some (keep, past)" by (cases kp) auto
      obtain x r where x: "s = take keep s @ x # r" "bearerPrefix (take keep s)" "keep < past"
        using matchBearer_Some [OF m] by metis
      let ?rest = "replaceMatches matchBearer (drop past s)"
      have "past \<noteq> 0" using x(3) by simp
      then have out: "replaceMatches matchBearer s = take keep s @ redactedMark @ ?rest"
        using m Cons by (cases past) (simp_all add: replaceMatches_Some)
      have "assignmentsRedacted (drop past s)"
        using less.prems by (rule assignmentsRedacted_suffix) (simp add: suffix_drop)
      then have IH: "assignmentsRedacted ?rest" using less.hyps Cons \<open>past \<noteq> 0\<close> by simp
      have "assignmentsRedacted (take keep s @ redactedMark @ ?rest)"
      proof (rule assignmentsRedacted_append [OF assignmentsRedacted_mark [OF IH]])
        fix u k assume u: "suffix u (take keep s)" "u \<noteq> []" "k \<in> set secretKeys"
          "startsWith (toLowerCase (u @ redactedMark @ ?rest)) k"
        have "set u \<subseteq> set (take keep s)" using u(1) by (rule set_mono_suffix)
        then have "CHR ''='' \<notin> set u" using bearerPrefix_chars(1) [OF x(2)] by blast
        then show "blank (drop (length k) (u @ redactedMark @ ?rest))
          \<or> (\<exists>z. drop (length k) (u @ redactedMark @ ?rest) = redactedMark @ z \<and> blank z)"
          using key_needs_equals [OF u(3,4)] by simp
      qed
      then show ?thesis by (simp add: out)
    qed
  qed
qed

lemma before_mark:
  assumes "u @ redactedMark @ r = p @ v" "CHR ''['' \<notin> set p"
  shows "\<exists>y. u = p @ y"
proof -
  from assms(1) consider x where "u = p @ x" | x where "p = u @ x" "redactedMark @ r = x @ v"
    by (auto simp: append_eq_append_conv2)
  then show ?thesis
    by cases (use assms(2) in \<open>auto simp: redactedMark_def Cons_eq_append_conv\<close>)
qed

text \<open>No token begins inside the prefix of another.\<close>

lemma bearerPrefix_unique:
  assumes "bearerPrefix (w @ b' @ x # y)" "bearerPrefix b'" "isTokenChar x"
  shows False
proof -
  obtain p sp q sp' where b: "w @ b' @ x # y = p @ sp @ q @ sp'" "toLowerCase p = ''authorization:''"
    "\<forall>c \<in> set sp. isSpace c" "toLowerCase q = ''bearer''" "\<forall>c \<in> set sp'. isSpace c"
    using assms(1) unfolding bearerPrefix_def by blast
  obtain p1 sp1 q1 sp1' where b': "b' = p1 @ sp1 @ q1 @ sp1'" "toLowerCase p1 = ''authorization:''"
    "\<forall>c \<in> set sp1. isSpace c" "toLowerCase q1 = ''bearer''" "\<forall>c \<in> set sp1'. isSpace c"
    using assms(2) unfolding bearerPrefix_def by blast
  have colon: "CHR '':'' \<notin> set (toLowerCase s)" if "\<forall>c \<in> set s. isSpace c" for s
    using that by (force simp: toLowerCase_def lowerChar_def isSpace_def isUpperAlpha_def)
  define r1 where "r1 = toLowerCase (sp @ q @ sp')"
  define r2 where "r2 = toLowerCase (sp1 @ q1 @ sp1' @ x # y)"
  have absent: "CHR '':'' \<notin> set r1" using colon b(3,5) by (simp add: r1_def b(4))
  have eq: "toLowerCase w @ ''authorization:'' @ r2 = ''authorization:'' @ r1"
    using arg_cong [OF b(1), of toLowerCase] unfolding r1_def r2_def by (simp add: b'(1,2) b(2))
  then have "(toLowerCase w @ ''authorization'') @ CHR '':'' # r2 = ''authorization'' @ CHR '':'' # r1"
    by simp
  then have "toLowerCase w @ ''authorization'' = ''authorization''"
    using absent by (subst (asm) eq_commute, subst (asm) append_Cons_eq_iff) auto
  then have w: "w = []" by (simp add: toLowerCase_def)
  have "length p = 14" "length p1 = 14"
    using arg_cong [OF b(2), of length] arg_cong [OF b'(2), of length] by (simp_all add: length_toLowerCase)
  then have rest: "sp1 @ q1 @ sp1' @ x # y = sp @ q @ sp'"
    using b(1) b'(1) w by (auto simp: append_eq_append_conv)
  have q: "q \<noteq> [] \<and> \<not> isSpace (hd q) \<and> length q = 6" "q1 \<noteq> [] \<and> \<not> isSpace (hd q1) \<and> length q1 = 6"
    using bearer_start b(4) b'(4) by blast+
  have "spaceLength (sp1 @ q1 @ sp1' @ x # y) = length sp1" "spaceLength (sp @ q @ sp') = length sp"
    using q b(3) b'(3) by (auto intro!: spaceLength_append)
  with rest have "length sp1 = length sp" by simp
  with rest have "q1 @ sp1' @ x # y = q @ sp'" by simp
  with q have "sp1' @ x # y = sp'" by simp
  with b(5) have "isSpace x" by auto
  with tokenChar_not_space [OF assms(3)] show False by blast
qed

lemma no_bearer_left: "suffix t (replaceMatches matchBearer s) \<Longrightarrow> matchBearer t = None"
proof (induction "length s" arbitrary: s t rule: less_induct)
  case less
  show ?case
  proof (cases s)
    case Nil
    then show ?thesis using less.prems by (simp add: matchBearer_skips(2))
  next
    case (Cons c s')
    show ?thesis
    proof (cases "matchBearer s")
      case None
      then have out: "replaceMatches matchBearer s = c # replaceMatches matchBearer s'"
        by (simp add: replaceMatches_None Cons)
      show ?thesis
      proof (rule ccontr)
        assume "matchBearer t \<noteq> None"
        then obtain keep past where m: "matchBearer t = Some (keep, past)" by (cases "matchBearer t") auto
        obtain x r where x: "t = take keep t @ x # r" "bearerPrefix (take keep t)" "isTokenChar x"
          using matchBearer_Some [OF m] by metis
        have "\<not> suffix t (replaceMatches matchBearer s')" using less.hyps [of s' t] m Cons by auto
        with less.prems have t: "replaceMatches matchBearer s = (take keep t @ [x]) @ r"
          using x(1) by (simp add: out suffix_Cons)
        have "CHR ''['' \<notin> set (take keep t @ [x])"
          using bearerPrefix_chars(2) [OF x(2)] x(3)
          by (auto simp: isTokenChar_def isLowerAlnum_def isLowerAlpha_def isDigit_def isUpperAlpha_def)
        from replaced_prefix_kept [OF t this] obtain r' where "s = take keep t @ x # r'" by auto
        with matchBearer_append [OF x(2,3), of r'] None show False by auto
      qed
    next
      case (Some kp)
      then obtain keep past where m: "matchBearer s = Some (keep, past)" by (cases kp) auto
      obtain x r where x: "s = take keep s @ x # r" "bearerPrefix (take keep s)" "keep < past"
        using matchBearer_Some [OF m] by metis
      let ?rest = "replaceMatches matchBearer (drop past s)"
      have "past \<noteq> 0" using x(3) by simp
      then have "replaceMatches matchBearer s = take keep s @ redactedMark @ ?rest"
        using m Cons by (cases past) (simp_all add: replaceMatches_Some)
      with less.prems have "suffix t (take keep s @ redactedMark @ ?rest)" by simp
      then show ?thesis
      proof (cases rule: suffix_append_cases)
        case right
        have "length (drop past s) < length s" using Cons \<open>past \<noteq> 0\<close> by simp
        from right show ?thesis
        proof (cases rule: suffix_append_cases)
          case (left u)
          then show ?thesis by (simp add: matchBearer_skips(3))
        qed (rule less.hyps [OF \<open>length (drop past s) < length s\<close>])
      next
        case (left u)
        show ?thesis
        proof (rule ccontr)
          assume "matchBearer t \<noteq> None"
          then obtain k e where m': "matchBearer t = Some (k, e)" by (cases "matchBearer t") auto
          obtain z v where z: "t = take k t @ z # v" "bearerPrefix (take k t)" "isTokenChar z"
            using matchBearer_Some [OF m'] by metis
          have "CHR ''['' \<notin> set (take k t @ [z])"
            using bearerPrefix_chars(2) [OF z(2)] z(3)
            by (auto simp: isTokenChar_def isLowerAlnum_def isLowerAlpha_def isDigit_def isUpperAlpha_def)
          moreover have "u @ redactedMark @ ?rest = (take k t @ [z]) @ v"
            using left(3) z(1) by (metis append.assoc append_Cons append_Nil)
          ultimately obtain y where "u = (take k t @ [z]) @ y" by (metis before_mark)
          then obtain w where "take keep s = w @ take k t @ z # y" using left(1) by (auto simp: suffix_def)
          with x(2) z(2,3) show False by (metis bearerPrefix_unique)
        qed
      qed
    qed
  qed
qed

section \<open>The redacted line\<close>

lemma replaceMatches_id: "(\<And>t. suffix t s \<Longrightarrow> m t = None) \<Longrightarrow> replaceMatches m s = s"
  by (induction s) (simp_all add: replaceMatches_None suffix_ConsI)

lemma length_redactedMark: "length redactedMark = 10"
  by (simp add: redactedMark_def)

lemma mark_at:
  assumes "t = take keep t @ redactedMark @ r" "keep \<le> length t"
  shows "drop keep (take (keep + 10) t) = redactedMark"
proof -
  have "drop keep t = redactedMark @ r"
    using assms by (metis append_eq_conv_conj length_take min.absorb2)
  then show ?thesis by (simp add: drop_take length_redactedMark)
qed

lemma spaces_of_mark: "blank z \<Longrightarrow> firstWordLength (redactedMark @ z) = 10"
  by (cases z) (simp_all add: firstWordLength_def redactedMark_def isSpace_def blank_def)

lemma assignments_redacted_match:
  assumes "assignmentsRedacted s" "suffix t s" "matchAssignment t = Some (keep, past)"
  shows "past = keep + 10 \<and> t = take keep t @ redactedMark @ drop past t"
proof -
  obtain k where k: "k \<in> set secretKeys" "startsWith (toLowerCase t) k"
    "firstWordLength (drop (length k) t) \<noteq> 0" "keep = length k"
    "past = length k + firstWordLength (drop (length k) t)"
    using assms(3) unfolding matchAssignment_iff by blast
  have "\<not> blank (drop (length k) t)" using k(3) by (simp add: firstWordLength_0)
  then obtain z where z: "drop (length k) t = redactedMark @ z" "blank z"
    using assms(1,2) k(1,2) unfolding assignmentsRedacted_def by blast
  then have "past = keep + 10" using k(4,5) by (simp add: spaces_of_mark)
  moreover have "drop past t = z"
    using z(1) \<open>past = keep + 10\<close> k(4)
    by (metis add.commute append_eq_conv_conj drop_drop length_redactedMark)
  ultimately show ?thesis using z(1) k(4) by (metis append_take_drop_id)
qed

lemma assignments_stable: "assignmentsRedacted s \<Longrightarrow> replaceMatches matchAssignment s = s"
proof (induction "length s" arbitrary: s rule: less_induct)
  case less
  show ?case
  proof (cases s)
    case (Cons c s')
    show ?thesis
    proof (cases "matchAssignment s")
      case None
      have "replaceMatches matchAssignment s' = s'"
        using less Cons by (simp add: assignmentsRedacted_suffix suffix_ConsI)
      with None Cons show ?thesis by (simp add: replaceMatches_None)
    next
      case (Some kp)
      then obtain keep past where m: "matchAssignment s = Some (keep, past)" by (cases kp) auto
      from assignments_redacted_match [OF less.prems suffix_order.refl m]
      have past: "past = keep + 10" "s = take keep s @ redactedMark @ drop past s" by blast+
      have "length (drop past s) < length s" using Cons past(1) by simp
      moreover have "assignmentsRedacted (drop past s)"
        using less.prems suffix_drop by (rule assignmentsRedacted_suffix)
      ultimately have "replaceMatches matchAssignment (drop past s) = drop past s" by (rule less.hyps)
      then have "replaceMatches matchAssignment s = take keep s @ redactedMark @ drop past s"
        using m Cons past(1) by (simp add: replaceMatches_Some)
      with past(2) show ?thesis by simp
    qed
  qed simp
qed

lemma redacted_facts:
  "assignmentsRedacted (redact line)" "suffix t (redact line) \<Longrightarrow> matchBearer t = None"
  unfolding redact_def
  by (intro bearer_pass_keeps_assignments assignments_pass) (rule no_bearer_left)

lemma redact_idempotent: "redact (redact line) = redact line"
proof -
  have "replaceMatches matchAssignment (redact line) = redact line"
    by (intro assignments_stable redacted_facts)
  moreover have "replaceMatches matchBearer (redact line) = redact line"
    by (intro replaceMatches_id redacted_facts)
  ultimately show ?thesis by (simp add: redact_def [of "redact line"])
qed

text \<open>
  C29. The redaction of a log line is complete: wherever one looks in a redacted line, no bearer token
  is found any more, and every assignment to a password, secret, token or API key that is found has the
  mark as its whole value. Redacting a redacted line changes nothing.
\<close>

theorem redact_complete:
  "(\<forall>t. suffix t (redact line) \<longrightarrow> matchBearer t = None
      \<and> (\<forall>keep past. matchAssignment t = Some (keep, past) \<longrightarrow>
           drop keep (take past t) = ''[REDACTED]''))
   \<and> redact (redact line) = redact line"
proof -
  have "drop keep (take past t) = ''[REDACTED]''"
    if "suffix t (redact line)" "matchAssignment t = Some (keep, past)" for t keep past
  proof -
    have past: "past = keep + 10" "t = take keep t @ redactedMark @ drop past t"
      using assignments_redacted_match [OF redacted_facts(1) that] by blast+
    have "length k \<le> length t" if "startsWith (toLowerCase t) k" for k
      using that by (metis length_append length_toLowerCase le_add1 startsWith_iff)
    with that(2) have "keep \<le> length t" unfolding matchAssignment_iff by blast
    with past(2) have "drop keep (take (keep + 10) t) = redactedMark" by (rule mark_at)
    with past(1) show ?thesis by (simp add: redactedMark_def)
  qed
  then show ?thesis using redacted_facts(2) redact_idempotent by blast
qed

lemma redact_example: "redact ''token=x y'' = ''token=[REDACTED] y''"
  by (simp add: redact_def replaceMatches.simps(2) matchAssignment_def secretKeys_def firstWordLength_def
      matchBearer_def spaceLength_def isSpace_def toLowerCase_def lowerChar_bits redactedMark_def Let_def)

theorem redact_complete_witness:
  "suffix ''token=[REDACTED] y'' (redact ''token=x y'')
   \<and> matchAssignment ''token=[REDACTED] y'' = Some (6, 16)
   \<and> drop 6 (take 16 ''token=[REDACTED] y'') = ''[REDACTED]''"
proof -
  have s: "suffix ''token=[REDACTED] y'' (redact ''token=x y'')"
    unfolding redact_example by simp
  have m: "matchAssignment ''token=[REDACTED] y'' = Some (6, 16)"
    by (simp add: matchAssignment_def secretKeys_def firstWordLength_def isSpace_def toLowerCase_def lowerChar_bits)
  from redact_complete [of "''token=x y''"] s m
  have "drop 6 (take 16 ''token=[REDACTED] y'') = ''[REDACTED]''" by blast
  with s m show ?thesis by blast
qed

end
