(* ===== verification/Telemetry.thy ===== *)
theory Telemetry
  imports Evidence Http Url Redaction
begin

text \<open>
  telemetry/telemetry.service.ts and telemetry/clients/*.ts: the metrics, logs and traces of one
  deployment from Prometheus, Loki and Tempo, and their overview. Time limits of the requests are not
  modelled. \<open>Number(v)\<close> is a parameter, rounded to an integer where the code computes with it and as a
  JSON value where it stores it; \<open>None\<close> when it is not finite.
\<close>

record number_lib =
  toInteger :: "json \<Rightarrow> int option"
  toFinite :: "json \<Rightarrow> json option"

section \<open>Answers of the sources\<close>

text \<open>The first failure of a \<open>map\<close> is thrown.\<close>

fun mapE :: "('a \<Rightarrow> exn + 'b) \<Rightarrow> 'a list \<Rightarrow> exn + 'b list" where
  "mapE f [] = Inr []"
| "mapE f (x # xs) =
     (case f x of Inl e \<Rightarrow> Inl e | Inr y \<Rightarrow> (case mapE f xs of Inl e \<Rightarrow> Inl e | Inr ys \<Rightarrow> Inr (y # ys)))"

definition arrayOf :: "json \<Rightarrow> exn + json list" where
  "arrayOf v = (case v of JArr xs \<Rightarrow> Inr xs | _ \<Rightarrow> Inl (JsError ''map is not a function''))"

text \<open>\<open>v.k\<close>, which raises on \<open>undefined\<close> and \<open>null\<close>.\<close>

definition readMember :: "json \<Rightarrow> string \<Rightarrow> exn + json" where
  "readMember v k =
     (if v = JUndef \<or> v = JNull then Inl (JsError (''Cannot read properties of '' @ stringOf v))
      else Inr (member v k))"

text \<open>\<open>new Date(ms).toISOString()\<close>.\<close>

definition isoDate :: "int option \<Rightarrow> exn + instant" where
  "isoDate ms =
     (case ms of
        Some t \<Rightarrow> (if validDate t then Inr t else Inl (JsError ''Invalid time value''))
      | None \<Rightarrow> Inl (JsError ''Invalid time value''))"

text \<open>The body of a good answer; the text of a bad one is in the error.\<close>

definition readAnswer :: "string \<Rightarrow> fetch_response \<Rightarrow> exn + json" where
  "readAnswer name response =
     (case fr_text response of
        Inl e \<Rightarrow> Inl e
      | Inr body \<Rightarrow>
          (if \<not> fr_ok response
           then Inl (JsError (name @ '' returned '' @ showNat (fr_status response) @ '': '' @ body))
           else fr_json response))"

definition baseUrl :: "string \<Rightarrow> string \<Rightarrow> exn + string" where
  "baseUrl variable value =
     (if value = [] then Inl (JsError (variable @ '' is not configured'')) else Inr value)"

definition getRequest :: "string \<Rightarrow> fetch_request" where
  "getRequest address = \<lparr> fq_method = ''GET'', fq_url = address, fq_headers = [], fq_body = JUndef \<rparr>"

text \<open>\<open>Math.floor(ms / 1000)\<close> as text.\<close>

definition epochSeconds :: "instant \<Rightarrow> string" where
  "epochSeconds t = showInt (t div 1000)"

definition addressFor :: "string \<Rightarrow> string \<Rightarrow> string \<Rightarrow> string entries \<Rightarrow> exn + string" where
  "addressFor variable value ref params =
     (case baseUrl variable value of Inl e \<Rightarrow> Inl e | Inr base \<Rightarrow> urlWithParams ref base params)"

text \<open>One request and its answer.\<close>

definition askSource ::
  "'c fetch_api \<Rightarrow> string \<Rightarrow> exn + string \<Rightarrow> ('c world, json) io"
where
  "askSource fetch name address =
     bindM (liftM address) (\<lambda>a.
     bindM (callFetch fetch (getRequest a)) (\<lambda>response.
       liftM (readAnswer name response)))"

section \<open>Loki\<close>

datatype log_level = LogError | LogWarning | LogInfo

fun levelName :: "log_level \<Rightarrow> string" where
  "levelName LogError = ''error''"
| "levelName LogWarning = ''warning''"
| "levelName LogInfo = ''info''"

definition classify :: "string \<Rightarrow> log_level" where
  "classify line =
     (let lower = toLowerCase line in
      if includesStr lower ''error'' \<or> includesStr lower ''exception'' \<or> includesStr lower ''failed''
         \<or> includesStr lower ''panic''
      then LogError
      else if includesStr lower ''warn'' then LogWarning
      else LogInfo)"

text \<open>\<open>JSON.stringify\<close> of a string.\<close>

definition hexLower :: "nat \<Rightarrow> char" where
  "hexLower n = (if n < 10 then char_of (48 + n) else char_of (87 + n))"

definition escapeChar :: "char \<Rightarrow> string" where
  "escapeChar c =
     (if c = CHR 0x22 then [CHR 0x5C, CHR 0x22]
      else if c = CHR 0x5C then [CHR 0x5C, CHR 0x5C]
      else if code c = 8 then [CHR 0x5C, CHR ''b'']
      else if code c = 9 then [CHR 0x5C, CHR ''t'']
      else if code c = 10 then [CHR 0x5C, CHR ''n'']
      else if code c = 12 then [CHR 0x5C, CHR ''f'']
      else if code c = 13 then [CHR 0x5C, CHR ''r'']
      else if code c < 32
      then [CHR 0x5C, CHR ''u'', CHR ''0'', CHR ''0'', hexLower (code c div 16), hexLower (code c mod 16)]
      else [c])"

definition quote :: "string \<Rightarrow> string" where
  "quote value = CHR 0x22 # concat (map escapeChar value) @ [CHR 0x22]"

definition lokiQuery :: "string \<Rightarrow> string \<Rightarrow> string" where
  "lokiQuery namespace depName =
     ''{service_namespace='' @ quote namespace @ ''} |~ '' @ quote depName"

record log_row =
  lg_timestamp :: instant
  lg_podName :: json
  lg_line :: string
  lg_level :: log_level
  lg_labels :: json

definition podNameOf :: "json \<Rightarrow> string \<Rightarrow> json" where
  "podNameOf labels fallback =
     orElse (orElse (orElse (member labels ''k8s_pod_name'') (member labels ''pod''))
       (member labels ''service_name'')) (JStr fallback)"

text \<open>The nanoseconds of a row in milliseconds, truncated.\<close>

definition nanosToMs :: "int \<Rightarrow> int" where
  "nanosToMs n = (if 0 \<le> n then n div 1000000 else - (- n div 1000000))"

fun logRow :: "number_lib \<Rightarrow> json \<Rightarrow> string \<Rightarrow> json \<Rightarrow> exn + log_row" where
  "logRow num stream fallback (JArr (nanoseconds # JStr line # _)) =
     (let redacted = redact line in
      case isoDate (map_option nanosToMs (toInteger num nanoseconds)) of
        Inl e \<Rightarrow> Inl e
      | Inr timestamp \<Rightarrow>
          (case readMember stream ''k8s_pod_name'' of
             Inl e \<Rightarrow> Inl e
           | Inr _ \<Rightarrow>
               Inr \<lparr> lg_timestamp = timestamp, lg_podName = podNameOf stream fallback, lg_line = redacted,
                     lg_level = classify redacted, lg_labels = stream \<rparr>))"
| "logRow num stream fallback _ = Inl (JsError ''current.replace is not a function'')"

definition streamRows :: "number_lib \<Rightarrow> string \<Rightarrow> json \<Rightarrow> exn + log_row list" where
  "streamRows num fallback stream =
     (case readMember stream ''values'' of
        Inl e \<Rightarrow> Inl e
      | Inr v \<Rightarrow>
          (case arrayOf v of
             Inl e \<Rightarrow> Inl e
           | Inr values \<Rightarrow> mapE (logRow num (member stream ''stream'') fallback) values))"

text \<open>The time stamps have one format, in which the order of the texts is the order of the times.\<close>

definition selectRows :: "log_level option \<Rightarrow> int \<Rightarrow> log_row list \<Rightarrow> log_row list" where
  "selectRows level limit rows =
     (let kept = sort_key lg_timestamp
            (filter (\<lambda>r. case level of None \<Rightarrow> True | Some l \<Rightarrow> lg_level r = l) rows)
      in if limit = 0 then kept else drop (length kept - nat limit) kept)"

definition lokiAddress :: "service_config \<Rightarrow> deployment \<Rightarrow> instant \<Rightarrow> instant \<Rightarrow> int \<Rightarrow> exn + string" where
  "lokiAddress cfg d since until limit =
     addressFor ''LOKI_URL'' (lokiUrl cfg) ''/loki/api/v1/query_range''
       [(''query'', lokiQuery (d_namespace d) (d_kubernetesDeployment d)),
        (''start'', showInt (since * 1000000)), (''end'', showInt (until * 1000000)),
        (''limit'', showInt limit), (''direction'', ''backward'')]"

definition lokiResults :: "json \<Rightarrow> exn + json list" where
  "lokiResults parsed =
     (case readMember parsed ''data'' of
        Inl e \<Rightarrow> Inl e
      | Inr data \<Rightarrow> arrayOf (orElse (member data ''result'') (JArr [])))"

definition queryDeploymentLogs ::
  "'c fetch_api \<Rightarrow> number_lib \<Rightarrow> service_config \<Rightarrow> deployment \<Rightarrow> instant \<Rightarrow> instant
   \<Rightarrow> int \<Rightarrow> log_level option \<Rightarrow> ('c world, log_row list) io"
where
  "queryDeploymentLogs fetch num cfg d since until limit level =
     bindM (askSource fetch ''Loki'' (lokiAddress cfg d since until limit)) (\<lambda>parsed.
     bindM (liftM (lokiResults parsed)) (\<lambda>results.
     bindM (liftM (mapE (streamRows num (d_kubernetesDeployment d)) results)) (\<lambda>rows.
       returnM (selectRows level limit (concat rows)))))"

section \<open>Prometheus\<close>

definition podSelector :: "string \<Rightarrow> string \<Rightarrow> string" where
  "podSelector namespace podRegex = ''namespace='' @ quote namespace @ '',pod=~'' @ quote podRegex"

definition buildQueries :: "deployment \<Rightarrow> string entries" where
  "buildQueries d =
     (let pods = podSelector (d_namespace d) (d_kubernetesDeployment d @ ''-.*'');
          own = ''deployment_id='' @ quote (d_id d);
          containers = '',container!='' @ quote ''POD'' @ '',container!='' @ quote [] @ ''}''
      in [(''cpu_usage_seconds_rate'',
             ''sum(rate(container_cpu_usage_seconds_total{'' @ pods @ containers @ ''[5m]))''),
          (''memory_working_set_bytes'',
             ''sum(container_memory_working_set_bytes{'' @ pods @ containers @ '')''),
          (''container_restarts_total'',
             ''sum(kube_pod_container_status_restarts_total{'' @ pods @ ''})''),
          (''http_5xx_rate'',
             ''sum(rate(http_server_request_duration_seconds_count{'' @ own @ '',http_response_status_code=~''
             @ quote ''5..'' @ ''}[5m])) or sum(rate(http_server_requests_total{'' @ own @ '',status=~''
             @ quote ''5..'' @ ''}[5m]))''),
          (''http_duration_p95_seconds'',
             ''histogram_quantile(0.95, sum(rate(http_server_request_duration_seconds_bucket{'' @ own
             @ ''}[5m])) by (le))'')])"

record metric_series =
  ms_name :: string
  ms_labels :: json
  ms_values :: "(instant \<times> json) list"

fun isFalsy :: "json \<Rightarrow> bool" where
  "isFalsy JUndef = True"
| "isFalsy JNull = True"
| "isFalsy (JBool b) = (\<not> b)"
| "isFalsy (JNum n) = (n = 0)"
| "isFalsy (JStr s) = (s = [])"
| "isFalsy _ = False"

text \<open>A point with its value, when that is finite; a bad time stamp raises.\<close>

definition metricPoint :: "number_lib \<Rightarrow> json \<Rightarrow> exn + (instant \<times> json option)" where
  "metricPoint num v =
     (case v of
        JArr xs \<Rightarrow>
          (let timestamp = (case xs of [] \<Rightarrow> JUndef | t # _ \<Rightarrow> t);
               value = (case xs of _ # x # _ \<Rightarrow> x | _ \<Rightarrow> JUndef)
           in case isoDate (map_option (\<lambda>t. t * 1000) (toInteger num timestamp)) of
                Inl e \<Rightarrow> Inl e
              | Inr t \<Rightarrow> Inr (t, toFinite num value))
      | _ \<Rightarrow> Inl (JsError ''object is not iterable''))"

definition finitePoints :: "(instant \<times> json option) list \<Rightarrow> (instant \<times> json) list" where
  "finitePoints ps = map (\<lambda>(t, v). (t, the v)) (filter (\<lambda>(t, v). v \<noteq> None) ps)"

definition seriesOf :: "number_lib \<Rightarrow> string \<Rightarrow> json \<Rightarrow> exn + metric_series" where
  "seriesOf num name parsed =
     (case readMember parsed ''data'' of
        Inl e \<Rightarrow> Inl e
      | Inr data \<Rightarrow>
          (let result = (case member data ''result'' of JArr (r # _) \<Rightarrow> r | JStr (c # _) \<Rightarrow> JStr [c] | _ \<Rightarrow> JUndef) in
           if isFalsy result then Inr \<lparr> ms_name = name, ms_labels = JObj [], ms_values = [] \<rparr>
           else
             (case arrayOf (member result ''values'') of
                Inl e \<Rightarrow> Inl e
              | Inr values \<Rightarrow>
                  (case mapE (metricPoint num) values of
                     Inl e \<Rightarrow> Inl e
                   | Inr points \<Rightarrow>
                       Inr \<lparr> ms_name = name, ms_labels = orElse (member result ''metric'') (JObj []),
                             ms_values = finitePoints points \<rparr>))))"

definition queryRange ::
  "'c fetch_api \<Rightarrow> number_lib \<Rightarrow> service_config \<Rightarrow> instant \<Rightarrow> instant \<Rightarrow> int \<Rightarrow> string \<times> string
   \<Rightarrow> ('c world, metric_series) io"
where
  "queryRange fetch num cfg since until stepSeconds q =
     bindM (askSource fetch ''Prometheus''
        (addressFor ''PROMETHEUS_URL'' (prometheusUrl cfg) ''/api/v1/query_range''
           [(''query'', snd q), (''start'', epochSeconds since), (''end'', epochSeconds until),
            (''step'', showInt stepSeconds)])) (\<lambda>parsed.
       liftM (seriesOf num (fst q) parsed))"

definition queryDeploymentMetrics ::
  "'c fetch_api \<Rightarrow> number_lib \<Rightarrow> service_config \<Rightarrow> deployment \<Rightarrow> instant \<Rightarrow> instant \<Rightarrow> int
   \<Rightarrow> ('c world, metric_series list) io"
where
  "queryDeploymentMetrics fetch num cfg d since until stepSeconds =
     allM (queryRange fetch num cfg since until stepSeconds) (buildQueries d)"

section \<open>Tempo\<close>

record trace_summary =
  tr_traceId :: json
  tr_rootService :: json
  tr_rootOperation :: json
  tr_durationMs :: json
  tr_status :: json
  tr_attributes :: json

definition traceOf :: "json \<Rightarrow> exn + trace_summary" where
  "traceOf v =
     (case readMember v ''traceID'' of
        Inl e \<Rightarrow> Inl e
      | Inr i \<Rightarrow>
          Inr \<lparr> tr_traceId = orElse (orElse i (member v ''traceId'')) (JStr []),
                tr_rootService = member v ''rootServiceName'', tr_rootOperation = member v ''rootTraceName'',
                tr_durationMs = member v ''durationMs'', tr_status = member v ''status'',
                tr_attributes = orElse (member v ''attributes'') (JObj []) \<rparr>)"

definition tracesOf :: "json \<Rightarrow> exn + trace_summary list" where
  "tracesOf parsed =
     (case readMember parsed ''traces'' of
        Inl e \<Rightarrow> Inl e
      | Inr v \<Rightarrow> (case arrayOf (orElse v (JArr [])) of Inl e \<Rightarrow> Inl e | Inr ts \<Rightarrow> mapE traceOf ts))"

definition queryDeploymentTraces ::
  "'c fetch_api \<Rightarrow> service_config \<Rightarrow> string \<Rightarrow> string \<Rightarrow> instant \<Rightarrow> instant \<Rightarrow> int
   \<Rightarrow> ('c world, trace_summary list) io"
where
  "queryDeploymentTraces fetch cfg appName depId since until limit =
     bindM (askSource fetch ''Tempo''
        (addressFor ''TEMPO_URL'' (tempoUrl cfg) ''/api/search''
           [(''tags'', ''service.name='' @ appName @ '' deployment.id='' @ depId),
            (''start'', epochSeconds since), (''end'', epochSeconds until), (''limit'', showInt limit)]))
       (\<lambda>parsed. liftM (tracesOf parsed))"

section \<open>The service\<close>

datatype source_status = SourceAvailable | SourceEmpty | SourceError

fun sourceStatusName :: "source_status \<Rightarrow> string" where
  "sourceStatusName SourceAvailable = ''available''"
| "sourceStatusName SourceEmpty = ''empty''"
| "sourceStatusName SourceError = ''error''"

record 'a source_result =
  sr_status :: source_status
  sr_data :: "'a option"
  sr_error :: "string option"

text \<open>The first argument tells whether a value is an array without elements.\<close>

definition collectSource :: "('a \<Rightarrow> bool) \<Rightarrow> ('c world, 'a) io \<Rightarrow> ('c world, 'a source_result) io" where
  "collectSource isEmpty collect =
     catchM
       (bindM collect (\<lambda>data.
          returnM \<lparr> sr_status = (if isEmpty data then SourceEmpty else SourceAvailable),
                    sr_data = Some data, sr_error = None \<rparr>))
       (\<lambda>e. returnM \<lparr> sr_status = SourceError, sr_data = None, sr_error = Some (errorMessage e) \<rparr>)"

record telemetry_window =
  tw_start :: instant
  tw_end :: instant
  tw_sinceMinutes :: int

definition windowFor :: "int \<Rightarrow> ('c world, telemetry_window) io" where
  "windowFor sinceMinutes =
     bindM now (\<lambda>t.
       returnM \<lparr> tw_start = t - sinceMinutes * 60 * 1000, tw_end = t, tw_sinceMinutes = sinceMinutes \<rparr>)"

definition configuredStatus :: "string \<Rightarrow> source_status" where
  "configuredStatus value = (if value \<noteq> [] then SourceAvailable else SourceError)"

definition sourceError :: "string \<Rightarrow> string option \<Rightarrow> (string \<times> string) list" where
  "sourceError source message = (case message of Some (c # s) \<Rightarrow> [(source, c # s)] | _ \<Rightarrow> [])"

text \<open>\<open>include: { app }\<close>, as for the evidence.\<close>

definition findDeploymentForTelemetry :: "string \<Rightarrow> string \<Rightarrow> ('c world, deployment \<times> app) io" where
  "findDeploymentForTelemetry appId depId =
     bindM (findFirst deploymentTable (\<lambda>d. d_id d = depId)) (\<lambda>found.
     bindM (case found of
              None \<Rightarrow> returnM None
            | Some d \<Rightarrow>
                bindM (findFirst appTable (\<lambda>a. a_id a = d_appId d)) (\<lambda>app.
                  case app of
                    None \<Rightarrow> throwM (PrismaError ''Inconsistent query result'')
                  | Some a \<Rightarrow> returnM (Some (d, a)))) (\<lambda>row.
       case row of
         None \<Rightarrow> throwM (NotFound (''Deployment '' @ depId @ '' was not found for app '' @ appId))
       | Some (d, a) \<Rightarrow>
           (if d_appId d \<noteq> appId
            then throwM (NotFound (''Deployment '' @ depId @ '' was not found for app '' @ appId))
            else returnM (d, a))))"

text \<open>\<open>DeploymentForTelemetry.labels\<close>.\<close>

definition telemetryLabels :: "deployment \<Rightarrow> string entries" where
  "telemetryLabels d = buildManagedLabels (d_workspaceId d) (d_appId d) (d_id d)"

record base_response =
  br_workspaceId :: string
  br_appId :: string
  br_deploymentId :: string
  br_window :: telemetry_window

definition baseResponse :: "deployment \<Rightarrow> telemetry_window \<Rightarrow> ('c world, base_response) io" where
  "baseResponse d window =
     bindM requireWorkspaceId (\<lambda>ws.
       returnM \<lparr> br_workspaceId = ws, br_appId = d_appId d, br_deploymentId = d_id d, br_window = window \<rparr>)"

text \<open>The answers about one source: its status, its rows and its error.\<close>

record 'a source_response =
  sp_base :: base_response
  sp_sourceStatus :: source_status
  sp_rows :: "'a list"
  sp_errors :: "(string \<times> string) list"

definition sourceResponse ::
  "string \<Rightarrow> deployment \<Rightarrow> telemetry_window \<Rightarrow> 'a list source_result \<Rightarrow> ('c world, 'a source_response) io"
where
  "sourceResponse source d window result =
     bindM (baseResponse d window) (\<lambda>base.
       returnM \<lparr> sp_base = base, sp_sourceStatus = sr_status result, sp_rows = orDefault (sr_data result) [],
                 sp_errors = sourceError source (sr_error result) \<rparr>)"

definition getMetrics ::
  "'c fetch_api \<Rightarrow> number_lib \<Rightarrow> service_config \<Rightarrow> string \<Rightarrow> string \<Rightarrow> int option \<Rightarrow> int option
   \<Rightarrow> ('c world, metric_series source_response) io"
where
  "getMetrics fetch num cfg appId depId sinceMinutes stepSeconds =
     bindM (findDeploymentForTelemetry appId depId) (\<lambda>(d, a).
     bindM (windowFor (orDefault sinceMinutes 60)) (\<lambda>window.
     bindM (collectSource (\<lambda>rows. rows = [])
        (queryDeploymentMetrics fetch num cfg d (tw_start window) (tw_end window)
           (orDefault stepSeconds 30))) (\<lambda>result.
       sourceResponse ''prometheus'' d window result)))"

definition getLogs ::
  "'c fetch_api \<Rightarrow> number_lib \<Rightarrow> service_config \<Rightarrow> string \<Rightarrow> string \<Rightarrow> int option \<Rightarrow> int option
   \<Rightarrow> log_level option \<Rightarrow> ('c world, log_row source_response) io"
where
  "getLogs fetch num cfg appId depId sinceMinutes limit level =
     bindM (findDeploymentForTelemetry appId depId) (\<lambda>(d, a).
     bindM (windowFor (orDefault sinceMinutes 30)) (\<lambda>window.
     bindM (collectSource (\<lambda>rows. rows = [])
        (queryDeploymentLogs fetch num cfg d (tw_start window) (tw_end window)
           (orDefault limit 200) level)) (\<lambda>result.
       sourceResponse ''loki'' d window result)))"

definition getTraces ::
  "'c fetch_api \<Rightarrow> service_config \<Rightarrow> string \<Rightarrow> string \<Rightarrow> int option \<Rightarrow> int option
   \<Rightarrow> ('c world, trace_summary source_response) io"
where
  "getTraces fetch cfg appId depId sinceMinutes limit =
     bindM (findDeploymentForTelemetry appId depId) (\<lambda>(d, a).
     bindM (windowFor (orDefault sinceMinutes 30)) (\<lambda>window.
     bindM (collectSource (\<lambda>rows. rows = [])
        (queryDeploymentTraces fetch cfg (a_name a) (d_id d) (tw_start window) (tw_end window)
           (orDefault limit 100))) (\<lambda>result.
       sourceResponse ''tempo'' d window result)))"

section \<open>Kubernetes and the overview\<close>

definition recentSamples :: "string \<Rightarrow> instant \<Rightarrow> ('c world, health_sample list) io" where
  "recentSamples depId since =
     bindM (findMany sampleTable (\<lambda>h. h_deploymentId h = depId \<and> since \<le> h_collectedAt h)) (\<lambda>rs.
       returnM (take 120 (newestFirst h_collectedAt rs)))"

record kubernetes_response =
  kr_base :: base_response
  kr_kubernetes :: source_status
  kr_healthStatus :: source_status
  kr_status :: "live_status source_result"
  kr_pods :: "json list source_result"
  kr_events :: "json list source_result"
  kr_healthSamples :: "health_sample list"
  kr_errors :: "(string \<times> string) list"

definition getKubernetes ::
  "'c kubernetes_api \<Rightarrow> string \<Rightarrow> string \<Rightarrow> int option \<Rightarrow> ('c world, kubernetes_response) io"
where
  "getKubernetes api appId depId sinceMinutes =
     bindM (findDeploymentForTelemetry appId depId) (\<lambda>(d, a).
     let labels = telemetryLabels d in
     bindM (windowFor (orDefault sinceMinutes 60)) (\<lambda>window.
     bindM (collectSource (\<lambda>_. False)
        (kubeDeploymentStatus api (d_namespace d) (d_kubernetesDeployment d))) (\<lambda>status.
     bindM (collectSource (\<lambda>rows. rows = []) (listDeploymentPods api (d_namespace d) labels)) (\<lambda>pods.
     bindM (collectSource (\<lambda>rows. rows = [])
        (listDeploymentEvents api (d_namespace d) (d_kubernetesDeployment d) labels)) (\<lambda>events.
     bindM (recentSamples (d_id d) (tw_start window)) (\<lambda>healthSamples.
     bindM (baseResponse d window) (\<lambda>base.
       returnM
         \<lparr> kr_base = base,
           kr_kubernetes = (if SourceError \<in> {sr_status status, sr_status pods, sr_status events}
                            then SourceError else SourceAvailable),
           kr_healthStatus = (if healthSamples \<noteq> [] then SourceAvailable else SourceEmpty),
           kr_status = status, kr_pods = pods, kr_events = events, kr_healthSamples = healthSamples,
           kr_errors = sourceError ''kubernetes.status'' (sr_error status)
             @ sourceError ''kubernetes.pods'' (sr_error pods)
             @ sourceError ''kubernetes.events'' (sr_error events) \<rparr>)))))))"

definition appSummary :: "app \<Rightarrow> json" where
  "appSummary a =
     JObj [(''id'', JStr (a_id a)), (''name'', JStr (a_name a)), (''displayName'', JStr (a_displayName a))]"

definition deploymentSummary :: "deployment \<Rightarrow> json" where
  "deploymentSummary d =
     JObj [(''id'', JStr (d_id d)), (''namespace'', JStr (d_namespace d)), (''image'', JStr (d_image d)),
           (''replicas'', JNum (d_replicas d)), (''desiredReplicas'', JNum (d_desiredReplicas d)),
           (''port'', JNum (d_port d)), (''status'', JStr (statusName (d_status d))),
           (''kubernetesDeployment'', JStr (d_kubernetesDeployment d)),
           (''kubernetesService'', JStr (d_kubernetesService d)),
           (''publicHostname'', nullable JStr (d_publicHostname d)),
           (''publicUrl'', if truthy (d_publicHostname d)
                           then JStr (''https://'' @ the (d_publicHostname d)) else JNull),
           (''createdAt'', JDate (d_createdAt d))]"

record overview =
  ov_base :: base_response
  ov_app :: json
  ov_deployment :: json
  ov_labels :: "string entries"
  ov_status :: "live_status source_result"
  ov_latestHealthSample :: "health_sample option"
  ov_healthSampleCount :: int
  ov_warningEventCount :: int
  ov_restartCount :: int
  ov_sourceStatus :: "(string \<times> source_status) list"

definition deletedStatus :: "deployment \<Rightarrow> live_status" where
  "deletedStatus d =
     \<lparr> ls_desiredReplicas = d_desiredReplicas d, ls_readyReplicas = 0, ls_availableReplicas = 0,
       ls_updatedReplicas = 0, ls_unavailableReplicas = 0, ls_conditions = JArr [] \<rparr>"

definition getOverview ::
  "'c kubernetes_api \<Rightarrow> service_config \<Rightarrow> string \<Rightarrow> string \<Rightarrow> ('c world, overview) io"
where
  "getOverview api cfg appId depId =
     bindM (findDeploymentForTelemetry appId depId) (\<lambda>(d, a).
     let labels = telemetryLabels d in
     bindM (collectSource (\<lambda>_. False)
        (if d_status d = Deleted then returnM (deletedStatus d)
         else kubeDeploymentStatus api (d_namespace d) (d_kubernetesDeployment d))) (\<lambda>status.
     bindM (findMany sampleTable (\<lambda>h. h_deploymentId h = d_id d)) (\<lambda>all.
     bindM (minutesAgo 60) (\<lambda>since.
     bindM (recentSamples (d_id d) since) (\<lambda>recent.
     bindM (windowFor 60) (\<lambda>window.
     bindM (baseResponse d window) (\<lambda>base.
       let latest = (case newestFirst h_collectedAt all of [] \<Rightarrow> None | h # _ \<Rightarrow> Some h) in
       returnM
         \<lparr> ov_base = base, ov_app = appSummary a, ov_deployment = deploymentSummary d, ov_labels = labels,
           ov_status = status, ov_latestHealthSample = latest,
           ov_healthSampleCount = int (length recent),
           ov_warningEventCount = foldl (\<lambda>total h. total + h_warningEventCount h) 0 recent,
           ov_restartCount = (case latest of None \<Rightarrow> 0 | Some h \<Rightarrow> h_restartCount h),
           ov_sourceStatus =
             [(''kubernetes'', sr_status status),
              (''healthSamples'', if latest = None then SourceEmpty else SourceAvailable),
              (''prometheus'', configuredStatus (prometheusUrl cfg)),
              (''loki'', configuredStatus (lokiUrl cfg)), (''tempo'', configuredStatus (tempoUrl cfg))] \<rparr>)))))))"

section \<open>The queries of the controller\<close>

text \<open>
  The validated query parameters. \<open>number\<close> is \<open>Number(text)\<close> where that is an integer. The texts of
  the messages of the validation are not modelled.
\<close>

definition toOptionalNumber :: "(string \<Rightarrow> int option) \<Rightarrow> string option \<Rightarrow> int option option" where
  "toOptionalNumber number v = (case v of None \<Rightarrow> None | Some s \<Rightarrow> (if s = [] then None else Some (number s)))"

definition intParam :: "(string \<Rightarrow> int option) \<Rightarrow> int \<Rightarrow> int \<Rightarrow> string option \<Rightarrow> exn + int option" where
  "intParam number lo hi v =
     (case toOptionalNumber number v of
        None \<Rightarrow> Inr None
      | Some None \<Rightarrow> Inl (BadRequest ''must be an integer number'')
      | Some (Some n) \<Rightarrow>
          (if lo \<le> n \<and> n \<le> hi then Inr (Some n) else Inl (BadRequest ''is out of range'')))"

definition windowParam :: "(string \<Rightarrow> int option) \<Rightarrow> string option \<Rightarrow> exn + int option" where
  "windowParam number v = intParam number 1 360 v"

definition levelParam :: "string option \<Rightarrow> exn + log_level option" where
  "levelParam v =
     (case v of
        None \<Rightarrow> Inr None
      | Some s \<Rightarrow>
          (case find (\<lambda>l. levelName l = s) [LogError, LogWarning, LogInfo] of
             None \<Rightarrow> Inl (BadRequest ''level is not one of the levels'')
           | Some l \<Rightarrow> Inr (Some l)))"

definition getMetricsHandler ::
  "'c fetch_api \<Rightarrow> number_lib \<Rightarrow> service_config \<Rightarrow> (string \<Rightarrow> int option) \<Rightarrow> string \<Rightarrow> string
   \<Rightarrow> string option \<Rightarrow> string option \<Rightarrow> ('c world, metric_series source_response) io"
where
  "getMetricsHandler fetch num cfg number appId depId sinceMinutes stepSeconds =
     bindM (liftM (windowParam number sinceMinutes)) (\<lambda>since.
     bindM (liftM (intParam number 15 300 stepSeconds)) (\<lambda>step.
       getMetrics fetch num cfg appId depId since step))"

definition getLogsHandler ::
  "'c fetch_api \<Rightarrow> number_lib \<Rightarrow> service_config \<Rightarrow> (string \<Rightarrow> int option) \<Rightarrow> string \<Rightarrow> string
   \<Rightarrow> string option \<Rightarrow> string option \<Rightarrow> string option \<Rightarrow> ('c world, log_row source_response) io"
where
  "getLogsHandler fetch num cfg number appId depId sinceMinutes limit level =
     bindM (liftM (windowParam number sinceMinutes)) (\<lambda>since.
     bindM (liftM (intParam number 1 500 limit)) (\<lambda>n.
     bindM (liftM (levelParam level)) (\<lambda>l.
       getLogs fetch num cfg appId depId since n l)))"

definition getTracesHandler ::
  "'c fetch_api \<Rightarrow> service_config \<Rightarrow> (string \<Rightarrow> int option) \<Rightarrow> string \<Rightarrow> string
   \<Rightarrow> string option \<Rightarrow> string option \<Rightarrow> ('c world, trace_summary source_response) io"
where
  "getTracesHandler fetch cfg number appId depId sinceMinutes limit =
     bindM (liftM (windowParam number sinceMinutes)) (\<lambda>since.
     bindM (liftM (intParam number 1 200 limit)) (\<lambda>n.
       getTraces fetch cfg appId depId since n))"

definition getKubernetesHandler ::
  "'c kubernetes_api \<Rightarrow> (string \<Rightarrow> int option) \<Rightarrow> string \<Rightarrow> string \<Rightarrow> string option
   \<Rightarrow> ('c world, kubernetes_response) io"
where
  "getKubernetesHandler api number appId depId sinceMinutes =
     bindM (liftM (windowParam number sinceMinutes)) (\<lambda>since. getKubernetes api appId depId since)"

section \<open>Isolation\<close>

lemma keeps_askSource [keeps_intros]: "keeps tenantFrame (askSource fetch name a)"
  unfolding askSource_def by (intro keeps_intros)

lemma keeps_collectSource [keeps_intros]:
  "preorder_rel R \<Longrightarrow> keeps R m \<Longrightarrow> keeps R (collectSource e m)"
  unfolding collectSource_def by (intro keeps_catchM keeps_bindM keeps_returnM)

lemma keeps_findDeploymentForTelemetry [keeps_intros]:
  "preorder_rel R \<Longrightarrow> keeps R (findDeploymentForTelemetry i j)"
  unfolding findDeploymentForTelemetry_def
  by (intro keeps_bindM keeps_findFirst keeps_option keeps_prod keeps_if keeps_throwM keeps_returnM)

lemma keeps_windowFor [keeps_intros]: "keeps tenantFrame (windowFor n)"
  unfolding windowFor_def by (intro keeps_intros)

lemma keeps_telemetryQueries [keeps_intros]:
  "keeps tenantFrame (queryDeploymentLogs fetch num cfg d s u n l)"
  "keeps tenantFrame (queryDeploymentMetrics fetch num cfg d s u n)"
  "keeps tenantFrame (queryDeploymentTraces fetch cfg an di s u n)"
  unfolding queryDeploymentLogs_def queryDeploymentMetrics_def queryDeploymentTraces_def queryRange_def
  by (intro keeps_intros)+

section \<open>Quoting\<close>

text \<open>The reader of a quoted string: its text and what follows it.\<close>

definition hexValue :: "char \<Rightarrow> nat" where
  "hexValue c = (if code c < 58 then code c - 48 else code c - 87)"

definition escaped :: "char \<Rightarrow> char" where
  "escaped k =
     (if k = CHR ''b'' then char_of (8 :: nat) else if k = CHR ''t'' then char_of (9 :: nat)
      else if k = CHR ''n'' then char_of (10 :: nat) else if k = CHR ''f'' then char_of (12 :: nat)
      else if k = CHR ''r'' then char_of (13 :: nat) else k)"

fun unquoteRest :: "string \<Rightarrow> (string \<times> string) option" where
  "unquoteRest [] = None"
| "unquoteRest (c # s) =
     (if c = CHR 0x22 then Some ([], s)
      else if c \<noteq> CHR 0x5C then map_option (\<lambda>(a, r). (c # a, r)) (unquoteRest s)
      else
        (case s of
           [] \<Rightarrow> None
         | k # t \<Rightarrow>
             (if k = CHR ''u''
              then
                (case t of
                   _ # _ # h # l # r \<Rightarrow>
                     map_option (\<lambda>(a, q). (char_of (16 * hexValue h + hexValue l) # a, q)) (unquoteRest r)
                 | _ \<Rightarrow> None)
              else map_option (\<lambda>(a, r). (escaped k # a, r)) (unquoteRest t))))"

lemma hexValue_hexLower: "n < 16 \<Longrightarrow> hexValue (hexLower n) = n"
  by (simp add: hexValue_def hexLower_def of_char_of)

lemma char_of_code_eq: "code c = n \<Longrightarrow> char_of n = c"
  by auto

lemma unquote_escapeChar:
  "unquoteRest (escapeChar c @ s) = map_option (\<lambda>(a, r). (c # a, r)) (unquoteRest s)"
proof -
  have hex: "16 * hexValue (hexLower (code c div 16)) + hexValue (hexLower (code c mod 16)) = code c"
    if "code c < 32" using that by (simp add: hexValue_hexLower)
  consider "c = CHR 0x22" | "c = CHR 0x5C" | "code c \<in> {8, 9, 10, 12, 13}"
    | "code c < 32" "code c \<notin> {8, 9, 10, 12, 13}" | "c \<noteq> CHR 0x22" "c \<noteq> CHR 0x5C" "\<not> code c < 32"
    by blast
  then show ?thesis
  proof cases
    case 4
    then have "c \<noteq> CHR 0x22" "c \<noteq> CHR 0x5C" by auto
    with 4 show ?thesis by (simp add: escapeChar_def hex)
  next
    case 5
    then have "code c \<noteq> 8" "code c \<noteq> 9" "code c \<noteq> 10" "code c \<noteq> 12" "code c \<noteq> 13" by auto
    with 5 show ?thesis by (simp add: escapeChar_def)
  next
    case 3
    then have "c \<noteq> CHR 0x22" "c \<noteq> CHR 0x5C" by auto
    with 3 show ?thesis by (auto simp: escapeChar_def escaped_def char_of_code_eq)
  qed (simp_all add: escapeChar_def escaped_def)
qed

lemma unquote_quote: "unquoteRest (tl (quote v) @ s) = Some (v, s)"
proof -
  have "unquoteRest (concat (map escapeChar v) @ CHR 0x22 # s) = Some (v, s)" for s
    by (induction v) (simp_all add: unquote_escapeChar)
  then show ?thesis by (simp add: quote_def)
qed

lemma quote_append_inject: "quote a @ x = quote b @ y \<longleftrightarrow> a = b \<and> x = y"
proof
  assume "quote a @ x = quote b @ y"
  then have "tl (quote a) @ x = tl (quote b) @ y" by (simp add: quote_def)
  then have "Some (a, x) = Some (b, y)" by (metis unquote_quote)
  then show "a = b \<and> x = y" by simp
qed simp

lemma quote_inject: "quote a = quote b \<longleftrightarrow> a = b"
  using quote_append_inject [of a "[]" b "[]"] by simp


section \<open>Answers\<close>

lemma mapE_Inr: "mapE f xs = Inr ys \<Longrightarrow> y \<in> set ys \<Longrightarrow> \<exists>x \<in> set xs. f x = Inr y"
  by (induction xs arbitrary: ys) (auto split: sum.splits)

lemma logRow_redacted: "logRow num stream fallback v = Inr r \<Longrightarrow> redact (lg_line r) = lg_line r \<and> lg_level r = classify (lg_line r)"
  by (induction num stream fallback v rule: logRow.induct)
    (auto simp: Let_def redact_idempotent split: sum.splits)

lemma streamRows_redacted:
  assumes "mapE (streamRows num fallback) results = Inr rows" "r \<in> set (concat rows)"
  shows "redact (lg_line r) = lg_line r \<and> lg_level r = classify (lg_line r)"
proof -
  from assms(2) obtain rs where rs: "rs \<in> set rows" "r \<in> set rs" by auto
  then obtain stream where "streamRows num fallback stream = Inr rs" using mapE_Inr [OF assms(1)] by blast
  then show ?thesis using mapE_Inr rs(2) logRow_redacted
    by (fastforce simp: streamRows_def split: sum.splits)
qed

lemma selectRows_bounded:
  assumes "0 < limit"
  shows "int (length (selectRows level limit rows)) \<le> limit" "sorted (map lg_timestamp (selectRows level limit rows))"
    "set (selectRows level limit rows) \<subseteq> {r \<in> set rows. level = None \<or> level = Some (lg_level r)}"
proof -
  let ?kept = "sort_key lg_timestamp (filter (\<lambda>r. case level of None \<Rightarrow> True | Some l \<Rightarrow> lg_level r = l) rows)"
  have eq: "selectRows level limit rows = drop (length ?kept - nat limit) ?kept"
    using assms by (simp add: selectRows_def Let_def)
  show "int (length (selectRows level limit rows)) \<le> limit" unfolding eq using assms by simp
  have "sorted (map lg_timestamp ?kept)" by simp
  then show "sorted (map lg_timestamp (selectRows level limit rows))"
    unfolding eq drop_map [symmetric] by (rule sorted_wrt_drop)
  have "set ?kept \<subseteq> {r \<in> set rows. level = None \<or> level = Some (lg_level r)}"
    by (cases level) auto
  then show "set (selectRows level limit rows) \<subseteq> {r \<in> set rows. level = None \<or> level = Some (lg_level r)}"
    unfolding eq by (meson set_drop_subset subset_trans)
qed

lemma collectSource_run:
  "collectSource e m w =
     (case m w of
        (Inl ex, w') \<Rightarrow> (Inr \<lparr> sr_status = SourceError, sr_data = None, sr_error = Some (errorMessage ex) \<rparr>, w')
      | (Inr x, w') \<Rightarrow>
          (Inr \<lparr> sr_status = (if e x then SourceEmpty else SourceAvailable), sr_data = Some x, sr_error = None \<rparr>, w'))"
  by (simp add: collectSource_def catchM_run bindM_run split: prod.split sum.split)

lemma find_SomeD: "find p xs = Some x \<Longrightarrow> p x \<and> x \<in> set xs"
  by (auto simp: find_Some_iff)

lemma findDeploymentForTelemetry_run:
  assumes "findDeploymentForTelemetry appId depId w = (Inr (d, a), w')"
  shows "w' = w \<and> d_id d = depId \<and> d_appId d = appId \<and> a_id a = appId
    \<and> databaseWorkspace w = Some (d_workspaceId d) \<and> d \<in> set (deployments w)
    \<and> databaseWorkspace w = Some (a_workspaceId a)"
proof -
  have "find (\<lambda>d. visible deploymentTable w d \<and> d_id d = depId) (rowsOf deploymentTable w) = Some d"
    "find (\<lambda>a. visible appTable w a \<and> a_id a = d_appId d) (rowsOf appTable w) = Some a"
    "w' = w" "d_appId d = appId"
    using assms by (auto simp: findDeploymentForTelemetry_def bindM_run findFirst_def split: option.splits if_splits)
  from this(1,2) [THEN find_SomeD] this(3,4) show ?thesis
    by (simp add: visible_def deploymentTable_def appTable_def)
qed

text \<open>With a workspace the answers about a source are complete.\<close>

lemma sourceResponse_run:
  assumes "databaseWorkspace w = Some ws"
  shows "sourceResponse source d window result w =
    (Inr \<lparr> sp_base = \<lparr> br_workspaceId = ws, br_appId = d_appId d, br_deploymentId = d_id d, br_window = window \<rparr>,
           sp_sourceStatus = sr_status result, sp_rows = orDefault (sr_data result) [],
           sp_errors = sourceError source (sr_error result) \<rparr>, w)"
  using assms
  by (auto simp: sourceResponse_def baseResponse_def bindM_run requireWorkspaceId_def databaseWorkspace_def
      split: option.splits if_splits)

section \<open>Telemetry only reads\<close>

lemma sameTables_fetch: "keeps sameTables (callFetch fetch rq)"
  by (auto simp: keeps_def callFetch_def sameTables_def split: prod.split sum.split)

lemma sameTables_askSource: "keeps sameTables (askSource fetch name a)"
  unfolding askSource_def by (intro keeps_bindM keeps_liftM sameTables_fetch preorder_sameTables)

lemma sameTables_queries:
  "keeps sameTables (queryDeploymentLogs fetch num cfg d s u n l)"
  "keeps sameTables (queryDeploymentMetrics fetch num cfg d s u n)"
  "keeps sameTables (queryDeploymentTraces fetch cfg an di s u n)"
  unfolding queryDeploymentLogs_def queryDeploymentMetrics_def queryDeploymentTraces_def queryRange_def
  by (intro keeps_bindM keeps_liftM keeps_returnM keeps_allM sameTables_askSource preorder_sameTables)+

lemma sameTables_workspace: "sameTables w w' \<Longrightarrow> databaseWorkspace w' = databaseWorkspace w"
  by (metis (no_types, lifting) databaseWorkspace_def sameTables_def world.select_convs(16) world.surjective
      world.update_convs(17) world.update_convs(22) world.update_convs(24))

text \<open>What every answer about a source says, and leaves behind.\<close>

definition soundAnswer :: "'c world \<Rightarrow> deployment \<Rightarrow> 'a source_response \<Rightarrow> 'c world \<Rightarrow> bool" where
  "soundAnswer w d r w' \<longleftrightarrow>
     sameTables w w'
     \<and> databaseWorkspace w = Some (br_workspaceId (sp_base r))
     \<and> br_appId (sp_base r) = d_appId d \<and> br_deploymentId (sp_base r) = d_id d
     \<and> (if sp_sourceStatus r = SourceError then sp_rows r = [] else sp_errors r = [])"

lemma sameTables_trans: "sameTables a b \<Longrightarrow> sameTables b c \<Longrightarrow> sameTables a c"
  using preorder_sameTables unfolding preorder_rel_def transp_def by blast

lemma source_answers:
  assumes "databaseWorkspace w = Some ws" "keeps sameTables q" "sameTables w0 w"
  shows "\<exists>r w'. bindM (collectSource e q) (\<lambda>res. sourceResponse s d window res) w = (Inr r, w')
    \<and> soundAnswer w0 d r w'"
proof -
  obtain x w1 where q: "q w = (x, w1)" by (cases "q w") auto
  have "sameTables w w1" using keepsD [OF assms(2), of w] q by simp
  then have db: "databaseWorkspace w1 = Some ws" using assms(1) by (simp add: sameTables_workspace)
  have same: "sameTables w0 w1" using assms(3) \<open>sameTables w w1\<close> by (rule sameTables_trans)
  show ?thesis
    using q db same sameTables_workspace [OF same]
    by (cases x) (auto simp: bindM_run collectSource_run sourceResponse_run [OF db] soundAnswer_def sourceError_def)
qed

lemma window_answers:
  assumes "databaseWorkspace w = Some ws" "\<And>window. keeps sameTables (q window)"
  shows "\<exists>r w'. bindM (windowFor n) (\<lambda>window. bindM (collectSource e (q window)) (sourceResponse s d window)) w
    = (Inr r, w') \<and> soundAnswer w d r w'"
proof -
  let ?w = "w\<lparr>ticks := Suc (ticks w)\<rparr>"
  have "databaseWorkspace ?w = Some ws" using assms(1) by (simp add: databaseWorkspace_def)
  moreover have "sameTables w ?w" by (simp add: sameTables_def)
  ultimately show ?thesis
    using source_answers [OF _ assms(2), of ?w ws w] by (simp add: bindM_run windowFor_def now_run)
qed

text \<open>A program that answers, and only reads, wherever there is a workspace.\<close>

definition answers :: "('c world, 'a) io \<Rightarrow> bool" where
  "answers m \<longleftrightarrow>
     (\<forall>w. databaseWorkspace w \<noteq> None \<longrightarrow> (\<exists>y w'. m w = (Inr y, w') \<and> sameTables w w'))"

named_theorems answers_intros \<open>programs that answer\<close>

lemma answers_total: "total m \<Longrightarrow> keeps sameTables m \<Longrightarrow> answers m"
  by (metis answers_def keepsD snd_conv totalD)

lemma answers_bindM [answers_intros]:
  assumes "answers m" "\<And>x. answers (f x)"
  shows "answers (bindM m f)"
  unfolding answers_def
proof (intro allI impI)
  fix w :: "'a world" assume ws: "databaseWorkspace w \<noteq> None"
  obtain x w1 where 1: "m w = (Inr x, w1)" "sameTables w w1"
    using assms(1) ws unfolding answers_def by blast
  with ws have "databaseWorkspace w1 \<noteq> None" by (simp add: sameTables_workspace)
  then obtain y w2 where 2: "f x w1 = (Inr y, w2)" "sameTables w1 w2"
    using assms(2) unfolding answers_def by blast
  have "sameTables w w2" using 1(2) 2(2) by (rule sameTables_trans)
  with 1(1) 2(1) show "\<exists>y w'. bindM m f w = (Inr y, w') \<and> sameTables w w'" by (auto simp: bindM_run)
qed

lemma sameTables_refl: "sameTables w w"
  by (simp add: sameTables_def)

lemma answers_base [answers_intros]:
  "answers (returnM x)" "answers (findMany t p)" "answers (baseResponse d window)" "answers (windowFor n)"
  "answers (minutesAgo n)"
  by (auto simp: answers_def findMany_def baseResponse_def requireWorkspaceId_def bindM_run databaseWorkspace_def
      windowFor_def minutesAgo_def now_run sameTables_refl sameTables_def split: option.splits if_splits)

lemma answers_collectSource [answers_intros]: "keeps sameTables m \<Longrightarrow> answers (collectSource e m)"
  by (rule answers_total) (auto simp: total_def collectSource_run intro: keeps_collectSource split: prod.split sum.split)

lemma find_then:
  assumes "findDeploymentForTelemetry appId depId w = (Inr (d, a), w)" "\<And>d a. answers (f d a)"
  shows "\<exists>r w'. bindM (findDeploymentForTelemetry appId depId) (\<lambda>(d, a). f d a) w = (Inr r, w') \<and> sameTables w w'"
  using assms findDeploymentForTelemetry_run [OF assms(1)] unfolding answers_def by (simp add: bindM_run)


section \<open>Bounds\<close>

lemma intParam_Inr:
  "intParam number lo hi v = Inr x \<Longrightarrow> (x = None \<and> (v = None \<or> v = Some [])) \<or>
     (\<exists>s n. v = Some s \<and> number s = Some n \<and> x = Some n \<and> lo \<le> n \<and> n \<le> hi)"
  by (auto simp: intParam_def toOptionalNumber_def split: option.splits if_splits)

lemma levelParam_Inr: "levelParam v = Inr l \<Longrightarrow> v = map_option levelName l"
  by (auto simp: levelParam_def split: option.splits if_splits)

lemma sourceResponse_Inr:
  "sourceResponse s d window result w = (Inr r, w') \<Longrightarrow>
   br_window (sp_base r) = window \<and> sp_rows r = orDefault (sr_data result) []"
  by (auto simp: sourceResponse_def baseResponse_def bindM_run split: prod.splits sum.splits)

lemma getLogs_Inr:
  assumes "getLogs fetch num cfg appId depId since limit level w = (Inr r, w')"
  shows "\<exists>t. br_window (sp_base r) = \<lparr> tw_start = t - orDefault since 30 * 60 * 1000, tw_end = t,
           tw_sinceMinutes = orDefault since 30 \<rparr>"
    "sp_rows r = [] \<or> (\<exists>results rows fallback. mapE (streamRows num fallback) results = Inr rows
        \<and> sp_rows r = selectRows level (orDefault limit 200) (concat rows))"
proof -
  from assms obtain d a w1 where "findDeploymentForTelemetry appId depId w = (Inr (d, a), w1)"
    and rest: "bindM (windowFor (orDefault since 30)) (\<lambda>window.
        bindM (collectSource (\<lambda>rows. rows = []) (queryDeploymentLogs fetch num cfg d (tw_start window) (tw_end window)
          (orDefault limit 200) level)) (sourceResponse ''loki'' d window)) w1 = (Inr r, w')"
    unfolding getLogs_def by (auto simp: bindM_Inr_iff [of "findDeploymentForTelemetry appId depId"])
  define window where "window = \<lparr> tw_start = clock w1 (ticks w1) - orDefault since 30 * 60 * 1000,
      tw_end = clock w1 (ticks w1), tw_sinceMinutes = orDefault since 30 \<rparr>"
  let ?q = "queryDeploymentLogs fetch num cfg d (tw_start window) (tw_end window) (orDefault limit 200) level"
  obtain x w2 where q: "?q (w1\<lparr>ticks := Suc (ticks w1)\<rparr>) = (x, w2)" by (cases "?q (w1\<lparr>ticks := Suc (ticks w1)\<rparr>)")
  from rest have run: "bindM (collectSource (\<lambda>rows. rows = []) ?q) (sourceResponse ''loki'' d window)
      (w1\<lparr>ticks := Suc (ticks w1)\<rparr>) = (Inr r, w')"
    by (simp add: windowFor_def bindM_run now_run window_def)
  obtain result where cs: "collectSource (\<lambda>rows. rows = []) ?q (w1\<lparr>ticks := Suc (ticks w1)\<rparr>) = (Inr result, w2)"
    by (cases x) (simp_all add: collectSource_run q)
  with run have "sourceResponse ''loki'' d window result w2 = (Inr r, w')" by (simp add: bindM_run)
  from sourceResponse_Inr [OF this] cs
  have r: "br_window (sp_base r) = window" "sp_rows r = orDefault (sr_data result) []"
    "collectSource (\<lambda>rows. rows = []) ?q (w1\<lparr>ticks := Suc (ticks w1)\<rparr>) = (Inr result, w2)"
    by simp_all
  show "\<exists>t. br_window (sp_base r) = \<lparr> tw_start = t - orDefault since 30 * 60 * 1000, tw_end = t,
      tw_sinceMinutes = orDefault since 30 \<rparr>"
    using r(1) by (auto simp: window_def)
  show "sp_rows r = [] \<or> (\<exists>results rows fallback. mapE (streamRows num fallback) results = Inr rows
      \<and> sp_rows r = selectRows level (orDefault limit 200) (concat rows))"
  proof (cases x)
    case (Inl e)
    then show ?thesis using r(2,3) q by (auto simp: collectSource_run)
  next
    case (Inr selected)
    then have "sp_rows r = selected" using r(2,3) q by (auto simp: collectSource_run)
    moreover from q Inr obtain results rows where "mapE (streamRows num (d_kubernetesDeployment d)) results = Inr rows"
      "selected = selectRows level (orDefault limit 200) (concat rows)"
      by (auto simp: queryDeploymentLogs_def bindM_Inr_iff)
    ultimately show ?thesis by blast
  qed
qed

text \<open>
  C31. What the log view answers is bounded by what its query parameters are validated to: at most the
  limit asked for, never more than 500 rows, ordered by time, of the asked level only, over a window of
  one minute to six hours that ends now; and every row is redacted.
\<close>

theorem logs_answer_bounded:
  assumes "getLogsHandler fetch num cfg number appId depId sinceMinutes limit level w = (Inr r, w')"
  shows "length (sp_rows r) \<le> 500 \<and> sorted (map lg_timestamp (sp_rows r))
    \<and> (\<forall>s n. limit = Some s \<and> s \<noteq> [] \<and> number s = Some n \<longrightarrow> int (length (sp_rows r)) \<le> n)
    \<and> (\<forall>row \<in> set (sp_rows r). redact (lg_line row) = lg_line row
          \<and> (level = None \<or> level = Some (levelName (classify (lg_line row)))))
    \<and> tw_start (br_window (sp_base r)) + 60 * 1000 \<le> tw_end (br_window (sp_base r))
    \<and> tw_end (br_window (sp_base r)) \<le> tw_start (br_window (sp_base r)) + 360 * 60 * 1000"
proof -
  from assms obtain since n l where p: "windowParam number sinceMinutes = Inr since"
      "intParam number 1 500 limit = Inr n" "levelParam level = Inr l"
    and run: "getLogs fetch num cfg appId depId since n l w = (Inr r, w')"
    by (auto simp: getLogsHandler_def bindM_Inr_iff)
  have since: "1 \<le> orDefault since 30" "orDefault since 30 \<le> 360"
    using intParam_Inr [OF p(1) [unfolded windowParam_def]] by auto
  have n: "0 < orDefault n 200" "orDefault n 200 \<le> 500" using intParam_Inr [OF p(2)] by auto
  have given: "n = Some k" if "limit = Some s" "s \<noteq> []" "number s = Some k" for s k
    using intParam_Inr [OF p(2)] that by auto
  have l: "level = map_option levelName l" using p(3) by (rule levelParam_Inr)
  consider "sp_rows r = []" | results rows fallback where "mapE (streamRows num fallback) results = Inr rows"
    "sp_rows r = selectRows l (orDefault n 200) (concat rows)"
    using getLogs_Inr(2) [OF run] by blast
  then have "int (length (sp_rows r)) \<le> orDefault n 200 \<and> sorted (map lg_timestamp (sp_rows r))
    \<and> (\<forall>row \<in> set (sp_rows r). redact (lg_line row) = lg_line row
          \<and> (level = None \<or> level = Some (levelName (classify (lg_line row)))))"
  proof cases
    case 2
    note b = selectRows_bounded [OF n(1), of l "concat rows", folded 2(2)]
    have "redact (lg_line row) = lg_line row \<and> (level = None \<or> level = Some (levelName (classify (lg_line row))))"
      if "row \<in> set (sp_rows r)" for row
    proof -
      have "row \<in> set (concat rows)" "l = None \<or> l = Some (lg_level row)" using b(3) that by auto
      with streamRows_redacted [OF 2(1) this(1)] l show ?thesis by auto
    qed
    with b(1,2) show ?thesis by blast
  qed (use n(1) in simp)
  with n(2) given getLogs_Inr(1) [OF run] since show ?thesis by fastforce
qed

section \<open>Witnesses\<close>

definition logAnswer :: json where
  "logAnswer =
     JObj [(''data'', JObj [(''result'', JArr [JObj [(''stream'', JObj [(''pod'', JStr ''p1'')]),
       (''values'', JArr [JArr [JStr ''7'', JStr ''token=x y'']])]])])]"

definition logFetch :: "unit fetch_api" where
  "logFetch _ c = (Inr \<lparr> fr_status = 200, fr_statusText = ''OK'', fr_text = Inr [], fr_json = Inr logAnswer \<rparr>, c)"

definition sampleNumbers :: number_lib where
  "sampleNumbers = \<lparr> toInteger = (\<lambda>_. Some 7), toFinite = (\<lambda>v. Some v) \<rparr>"

lemma evidenceWorld_telemetry:
  "\<exists>d a. findDeploymentForTelemetry ''a1'' ''d1'' evidenceWorld = (Inr (d, a), evidenceWorld)"
  by (simp add: findDeploymentForTelemetry_def bindM_run findFirst_def
      evidenceWorld_def emptyWorld_def visible_def deploymentTable_def appTable_def
      databaseWorkspace_def sampleContext_def sampleDeployment_def)

lemma loki_parsed: "\<exists>a. addressFor v ''http://loki'' ''/loki/api/v1/query_range'' ps = Inr a"
  by (simp add: addressFor_def baseUrl_def urlWithParams_def parseUrl_def parseAuthority_def resolveRooted_def
      urlClean_def isUrlSpace_def isRemoved_def isSlash_def endsAuthority_def hostOf_def toLowerCase_def
      lowerChar_bits Let_def)

lemma getLogsHandler_sample:
  "\<exists>r w'. getLogsHandler logFetch sampleNumbers (defaultConfig\<lparr>lokiUrl := ''http://loki''\<rparr>) (\<lambda>_. None)
      ''a1'' ''d1'' None None None evidenceWorld = (Inr r, w')
    \<and> map lg_line (sp_rows r) = [redact ''token=x y'']"
proof -
  obtain d a where found: "findDeploymentForTelemetry ''a1'' ''d1'' evidenceWorld = (Inr (d, a), evidenceWorld)"
    using evidenceWorld_telemetry by blast
  let ?w = "evidenceWorld\<lparr>ticks := Suc (ticks evidenceWorld)\<rparr>"
  let ?cfg = "defaultConfig\<lparr>lokiUrl := ''http://loki''\<rparr>"
  have rows: "\<exists>rows. queryDeploymentLogs logFetch sampleNumbers ?cfg d s u 200 None ?w = (Inr rows, ?w)
      \<and> map lg_line rows = [redact ''token=x y'']" for s u
  proof -
    obtain addr where "lokiAddress ?cfg d s u 200 = Inr addr" using loki_parsed by (auto simp: lokiAddress_def)
    then show ?thesis
      by (simp add: queryDeploymentLogs_def askSource_def bindM_run callFetch_run logFetch_def readAnswer_def fr_ok_def
          lokiResults_def readMember_def logAnswer_def arrayOf_def streamRows_def isoDate_def sampleNumbers_def
          nanosToMs_def validDate_def selectRows_def evidenceWorld_def emptyWorld_def Let_def)
  qed
  have ws: "databaseWorkspace ?w = Some ''w1''"
    by (simp add: databaseWorkspace_def evidenceWorld_def sampleContext_def)
  obtain rows where q: "queryDeploymentLogs logFetch sampleNumbers ?cfg d
      (clock evidenceWorld (ticks evidenceWorld) - 1800000) (clock evidenceWorld (ticks evidenceWorld)) 200 None ?w
      = (Inr rows, ?w)" "map lg_line rows = [redact ''token=x y'']"
    using rows [of "clock evidenceWorld (ticks evidenceWorld) - 1800000" "clock evidenceWorld (ticks evidenceWorld)"]
    by (elim exE conjE) (rule that)
  show ?thesis
    using q by (simp add: getLogsHandler_def windowParam_def intParam_def toOptionalNumber_def levelParam_def
        getLogs_def bindM_run found windowFor_def now_run collectSource_run sourceResponse_run [OF ws])
qed

theorem logs_answer_bounded_witness:
  "\<exists>r w'. getLogsHandler logFetch sampleNumbers (defaultConfig\<lparr>lokiUrl := ''http://loki''\<rparr>) (\<lambda>_. None)
      ''a1'' ''d1'' None None None evidenceWorld = (Inr r, w')
    \<and> length (sp_rows r) = 1 \<and> (\<forall>row \<in> set (sp_rows r). redact (lg_line row) = lg_line row)"
proof -
  obtain r w' where run: "getLogsHandler logFetch sampleNumbers (defaultConfig\<lparr>lokiUrl := ''http://loki''\<rparr>) (\<lambda>_. None)
      ''a1'' ''d1'' None None None evidenceWorld = (Inr r, w')" "map lg_line (sp_rows r) = [redact ''token=x y'']"
    using getLogsHandler_sample by (elim exE conjE) (rule that)
  have "length (sp_rows r) = 1" using arg_cong [OF run(2), of length] by simp
  with run logs_answer_bounded [OF run(1)] show ?thesis by blast
qed

end
