(* ===== verification/Api.thy ===== *)
theory Api
  imports Guards AuthFlow Incidents Telemetry
begin

text \<open>
  The controllers (*.controller.ts): the call every route's method makes, as one function per
  controller from a request with validated arguments to the service, and the pipeline of Guards in
  front of them. What a call answers is a value of \<open>api_answer\<close>, one constructor per type.
\<close>

section \<open>Answers and services\<close>

datatype api_answer =
    AppAnswer app
  | AppsAnswer "app list"
  | BuildAnswer build
  | BuildsAnswer "build list"
  | BuildStatusAnswer build_status_view
  | LogsAnswer "(string \<times> json) list"
  | DeploymentAnswer deployment
  | DeploymentViewAnswer deployment_view
  | DeploymentViewsAnswer "deployment_view list"
  | DeploymentStatusAnswer deployment_status_view
  | JsonAnswer json
  | JsonsAnswer "json list"
  | EvidenceAnswer evidence
  | SnapshotAnswer evidence_snapshot
  | IncidentAnswer incident
  | IncidentsAnswer "incident list"
  | RunAnswer rca_run
  | RunsAnswer "rca_run list"
  | SampleAnswer "health_sample option"
  | SamplesAnswer "health_sample list"
  | OverviewAnswer overview
  | MetricsAnswer "metric_series source_response"
  | LogRowsAnswer "log_row source_response"
  | TracesAnswer "trace_summary source_response"
  | KubernetesAnswer kubernetes_response
  | ReplyAnswer reply

text \<open>What the services are given: the clients of the outside world, the settings and the parsers.\<close>

record 'c services =
  sv_kubernetes :: "'c kubernetes_api"
  sv_fetch :: "'c fetch_api"
  sv_signer :: jwt_signer
  sv_config :: service_config
  sv_auth :: "'c auth_deps"
  sv_parseDate :: date_parser
  sv_integer :: "string \<Rightarrow> int option"
  sv_numbers :: number_lib
  sv_databaseUp :: bool

definition answerM :: "('a \<Rightarrow> 'b) \<Rightarrow> ('w, 'a) io \<Rightarrow> ('w, 'b) io" where
  "answerM f m = bindM m (\<lambda>x. returnM (f x))"

section \<open>Controllers\<close>

datatype apps_request =
    AppsCreate create_app_dto
  | AppsFindAll
  | AppsFindOne string

fun appsController :: "apps_request \<Rightarrow> ('c world, api_answer) io" where
  "appsController (AppsCreate dto) = answerM AppAnswer (createApp dto)"
| "appsController AppsFindAll = answerM AppsAnswer findAllApps"
| "appsController (AppsFindOne i) = answerM AppAnswer (findAppOrThrow i)"

text \<open>A build may be started without a body.\<close>

datatype builds_request =
    BuildsCreate string "create_build_dto option"
  | BuildsFindByApp string
  | BuildsFindOne string
  | BuildsGetStatus string
  | BuildsGetLogs string

definition emptyBuildDto :: create_build_dto where
  "emptyBuildDto =
     \<lparr> cb_strategy = None, cb_branch = None, cb_buildContext = None, cb_dockerfilePath = None \<rparr>"

fun buildsController :: "'c services \<Rightarrow> builds_request \<Rightarrow> ('c world, api_answer) io" where
  "buildsController sv (BuildsCreate appId dto) =
     answerM BuildAnswer
       (createBuild (sv_kubernetes sv) (sv_config sv) appId (orDefault dto emptyBuildDto))"
| "buildsController sv (BuildsFindByApp appId) = answerM BuildsAnswer (findBuildsByApp appId)"
| "buildsController sv (BuildsFindOne i) = answerM BuildAnswer (findBuildOrThrow i)"
| "buildsController sv (BuildsGetStatus i) =
     answerM BuildStatusAnswer (getBuildStatus (sv_kubernetes sv) i)"
| "buildsController sv (BuildsGetLogs i) = answerM LogsAnswer (getBuildLogs (sv_kubernetes sv) i)"

datatype deployments_request =
    DeploymentsCreate string create_deployment_dto
  | DeploymentsFindByApp string
  | DeploymentsGetStatus string
  | DeploymentsGetLogs string
  | DeploymentsGetPods string
  | DeploymentsGetEvents string
  | DeploymentsRestart string
  | DeploymentsScale string int
  | DeploymentsStop string
  | DeploymentsStart string "int option"
  | DeploymentsDelete string

fun deploymentsController :: "'c services \<Rightarrow> deployments_request \<Rightarrow> ('c world, api_answer) io" where
  "deploymentsController sv (DeploymentsCreate appId dto) =
     answerM DeploymentViewAnswer (createDeployment (sv_kubernetes sv) (sv_config sv) appId dto)"
| "deploymentsController sv (DeploymentsFindByApp appId) =
     answerM DeploymentViewsAnswer (findDeploymentsByApp appId)"
| "deploymentsController sv (DeploymentsGetStatus i) =
     answerM DeploymentStatusAnswer (getDeploymentStatus (sv_kubernetes sv) i)"
| "deploymentsController sv (DeploymentsGetLogs i) =
     answerM LogsAnswer (getDeploymentLogs (sv_kubernetes sv) i)"
| "deploymentsController sv (DeploymentsGetPods i) = answerM JsonsAnswer (getPods (sv_kubernetes sv) i)"
| "deploymentsController sv (DeploymentsGetEvents i) = answerM JsonsAnswer (getEvents (sv_kubernetes sv) i)"
| "deploymentsController sv (DeploymentsRestart i) = answerM DeploymentAnswer (restart (sv_kubernetes sv) i)"
| "deploymentsController sv (DeploymentsScale i n) =
     answerM DeploymentAnswer (scale (sv_kubernetes sv) i n)"
| "deploymentsController sv (DeploymentsStop i) = answerM DeploymentAnswer (stop (sv_kubernetes sv) i)"
| "deploymentsController sv (DeploymentsStart i n) =
     answerM DeploymentAnswer (start (sv_kubernetes sv) i n)"
| "deploymentsController sv (DeploymentsDelete i) =
     answerM DeploymentViewAnswer (deleteDeployment (sv_kubernetes sv) i)"

datatype evidence_request =
    EvidenceCollectLive string "string option" "string option" "string option"
  | EvidenceCreateSnapshot string "string option" "string option" "string option"
  | EvidenceListSnapshots string
  | EvidenceGetSnapshot string

fun evidenceController :: "'c services \<Rightarrow> evidence_request \<Rightarrow> ('c world, api_answer) io" where
  "evidenceController sv (EvidenceCollectLive i triggeredAt lookback lookahead) =
     answerM EvidenceAnswer
       (collectLive (sv_kubernetes sv) (sv_parseDate sv) i
         (buildEvidenceWindowOptions (sv_parseDate sv) (sv_integer sv) triggeredAt lookback lookahead))"
| "evidenceController sv (EvidenceCreateSnapshot i triggeredAt lookback lookahead) =
     answerM SnapshotAnswer
       (createSnapshot (sv_kubernetes sv) (sv_parseDate sv) i
         (buildEvidenceWindowOptions (sv_parseDate sv) (sv_integer sv) triggeredAt lookback lookahead))"
| "evidenceController sv (EvidenceListSnapshots i) = answerM JsonsAnswer (listSnapshots i)"
| "evidenceController sv (EvidenceGetSnapshot i) = answerM SnapshotAnswer (getSnapshot i)"

datatype incidents_request =
    IncidentsFindAll "incident_status option"
  | IncidentsFindOne string
  | IncidentsCreateForDeployment string create_incident_dto
  | IncidentsResolve string

fun incidentsController :: "incidents_request \<Rightarrow> ('c world, api_answer) io" where
  "incidentsController (IncidentsFindAll status) = answerM IncidentsAnswer (findAllIncidents status)"
| "incidentsController (IncidentsFindOne i) = answerM IncidentAnswer (findIncidentOrThrow i)"
| "incidentsController (IncidentsCreateForDeployment i dto) =
     answerM IncidentAnswer (createManualIncident i dto)"
| "incidentsController (IncidentsResolve i) = answerM IncidentAnswer (resolveIncident i)"

text \<open>Unlike the controller of the evidence, this one reads an empty text as a number, which is zero.\<close>

definition samplesSinceMinutes :: "(string \<Rightarrow> int option) \<Rightarrow> string option \<Rightarrow> int option" where
  "samplesSinceMinutes number v =
     (case v of
        None \<Rightarrow> None
      | Some s \<Rightarrow>
          (case number s of None \<Rightarrow> None | Some parsed \<Rightarrow> (if parsed \<le> 0 then None else Some parsed)))"

datatype observability_request =
    ObservabilityGetConfig
  | ObservabilityGetLatestHealthSample string
  | ObservabilityListHealthSamples string "string option"

fun observabilityController :: "'c services \<Rightarrow> observability_request \<Rightarrow> ('c world, api_answer) io" where
  "observabilityController sv ObservabilityGetConfig =
     returnM (JsonAnswer (getPublicConfig (sv_config sv)))"
| "observabilityController sv (ObservabilityGetLatestHealthSample i) =
     answerM SampleAnswer (getLatestHealthSample i)"
| "observabilityController sv (ObservabilityListHealthSamples i sinceMinutes) =
     answerM SamplesAnswer (listHealthSamples i (samplesSinceMinutes (sv_integer sv) sinceMinutes))"

datatype rca_request =
    RcaStartForIncident string
  | RcaFindByIncident string
  | RcaStartForDeployment string
  | RcaFindOne string
  | RcaListChat string
  | RcaChat string string
  | RcaGetConfig

fun rcaController :: "'c services \<Rightarrow> rca_request \<Rightarrow> ('c world, api_answer) io" where
  "rcaController sv (RcaStartForIncident i) =
     answerM RunAnswer (startForIncident (sv_fetch sv) (sv_signer sv) (sv_config sv) i Manual)"
| "rcaController sv (RcaFindByIncident i) = answerM RunsAnswer (findRunsByIncident i)"
| "rcaController sv (RcaStartForDeployment i) =
     answerM RunAnswer (startForDeployment (sv_fetch sv) (sv_signer sv) (sv_config sv) i)"
| "rcaController sv (RcaFindOne i) = answerM RunAnswer (findRunOrThrow i)"
| "rcaController sv (RcaListChat i) =
     answerM JsonAnswer (listChat (sv_fetch sv) (sv_signer sv) (sv_config sv) i)"
| "rcaController sv (RcaChat i message) =
     answerM JsonAnswer (chat (sv_fetch sv) (sv_signer sv) (sv_config sv) i message)"
| "rcaController sv RcaGetConfig = returnM (JsonAnswer (getRcaConfig (sv_config sv)))"

text \<open>The arguments of these are the texts of the query, validated by the handlers of Telemetry.\<close>

datatype telemetry_request =
    TelemetryGetOverview string string
  | TelemetryGetMetrics string string "string option" "string option"
  | TelemetryGetLogs string string "string option" "string option" "string option"
  | TelemetryGetTraces string string "string option" "string option"
  | TelemetryGetKubernetes string string "string option"

fun telemetryController :: "'c services \<Rightarrow> telemetry_request \<Rightarrow> ('c world, api_answer) io" where
  "telemetryController sv (TelemetryGetOverview a d) =
     answerM OverviewAnswer (getOverview (sv_kubernetes sv) (sv_config sv) a d)"
| "telemetryController sv (TelemetryGetMetrics a d since step) =
     answerM MetricsAnswer
       (getMetricsHandler (sv_fetch sv) (sv_numbers sv) (sv_config sv) (sv_integer sv) a d since step)"
| "telemetryController sv (TelemetryGetLogs a d since limit level) =
     answerM LogRowsAnswer
       (getLogsHandler (sv_fetch sv) (sv_numbers sv) (sv_config sv) (sv_integer sv) a d since limit level)"
| "telemetryController sv (TelemetryGetTraces a d since limit) =
     answerM TracesAnswer (getTracesHandler (sv_fetch sv) (sv_config sv) (sv_integer sv) a d since limit)"
| "telemetryController sv (TelemetryGetKubernetes a d since) =
     answerM KubernetesAnswer (getKubernetesHandler (sv_kubernetes sv) (sv_integer sv) a d since)"

text \<open>Whether the database answers is an argument; everything else in the model takes it that it does.\<close>

datatype health_request = HealthHealth | HealthReadiness

fun healthController :: "'c services \<Rightarrow> health_request \<Rightarrow> ('c world, api_answer) io" where
  "healthController sv HealthHealth = returnM (JsonAnswer (JObj [(''status'', JStr ''ok'')]))"
| "healthController sv HealthReadiness =
     (if sv_databaseUp sv
      then returnM (JsonAnswer (JObj [(''status'', JStr ''ready''), (''database'', JStr ''connected'')]))
      else throwM (ServiceUnavailable ''Service Unavailable Exception''))"

text \<open>\<open>request.principal\<close> is there on every route that is not public.\<close>

datatype auth_request =
    AuthLogin "string option"
  | AuthCallback json
  | AuthMe
  | AuthMetrics
  | AuthLogout
  | AuthSwitchOrganization string

fun authController :: "'c services \<Rightarrow> auth_request \<Rightarrow> principal option \<Rightarrow> ('c world, api_answer) io" where
  "authController sv (AuthLogin returnTo) who = answerM ReplyAnswer (loginHandler (sv_auth sv) returnTo)"
| "authController sv (AuthCallback query) who = answerM ReplyAnswer (callbackHandler (sv_auth sv) query)"
| "authController sv rq None = throwM (JsError ''Cannot read properties of undefined'')"
| "authController sv AuthMe (Some p) = answerM ReplyAnswer (meHandler p)"
| "authController sv AuthMetrics (Some p) = answerM ReplyAnswer (metricsHandler p)"
| "authController sv AuthLogout (Some p) = answerM ReplyAnswer (logoutHandler (sv_auth sv) p)"
| "authController sv (AuthSwitchOrganization i) (Some p) =
     answerM ReplyAnswer (switchOrganizationHandler (sv_auth sv) p i)"

section \<open>Routing\<close>

datatype api_request =
    AppsCall apps_request
  | AuthCall auth_request
  | BuildsCall builds_request
  | DeploymentsCall deployments_request
  | EvidenceCall evidence_request
  | HealthCall health_request
  | IncidentsCall incidents_request
  | ObservabilityCall observability_request
  | RcaCall rca_request
  | TelemetryCall telemetry_request

fun handle :: "'c services \<Rightarrow> api_request \<Rightarrow> principal option \<Rightarrow> ('c world, api_answer) io" where
  "handle sv (AppsCall r) who = appsController r"
| "handle sv (AuthCall r) who = authController sv r who"
| "handle sv (BuildsCall r) who = buildsController sv r"
| "handle sv (DeploymentsCall r) who = deploymentsController sv r"
| "handle sv (EvidenceCall r) who = evidenceController sv r"
| "handle sv (HealthCall r) who = healthController sv r"
| "handle sv (IncidentsCall r) who = incidentsController r"
| "handle sv (ObservabilityCall r) who = observabilityController sv r"
| "handle sv (RcaCall r) who = rcaController sv r"
| "handle sv (TelemetryCall r) who = telemetryController sv r"

text \<open>The class and the method a request is for, and its route in the table of Guards.\<close>

fun handlerOf :: "api_request \<Rightarrow> string \<times> string" where
  "handlerOf (AppsCall r) = (''AppsController'', case r of
      AppsCreate _ \<Rightarrow> ''create'' | AppsFindAll \<Rightarrow> ''findAll'' | AppsFindOne _ \<Rightarrow> ''findOne'')"
| "handlerOf (AuthCall r) = (''AuthController'', case r of
      AuthLogin _ \<Rightarrow> ''login'' | AuthCallback _ \<Rightarrow> ''callback'' | AuthMe \<Rightarrow> ''me'' | AuthMetrics \<Rightarrow> ''metrics''
    | AuthLogout \<Rightarrow> ''logout'' | AuthSwitchOrganization _ \<Rightarrow> ''switchOrganization'')"
| "handlerOf (BuildsCall r) = (''BuildsController'', case r of
      BuildsCreate _ _ \<Rightarrow> ''create'' | BuildsFindByApp _ \<Rightarrow> ''findByApp'' | BuildsFindOne _ \<Rightarrow> ''findOne''
    | BuildsGetStatus _ \<Rightarrow> ''getStatus'' | BuildsGetLogs _ \<Rightarrow> ''getLogs'')"
| "handlerOf (DeploymentsCall r) = (''DeploymentsController'', case r of
      DeploymentsCreate _ _ \<Rightarrow> ''create'' | DeploymentsFindByApp _ \<Rightarrow> ''findByApp''
    | DeploymentsGetStatus _ \<Rightarrow> ''getStatus'' | DeploymentsGetLogs _ \<Rightarrow> ''getLogs''
    | DeploymentsGetPods _ \<Rightarrow> ''getPods'' | DeploymentsGetEvents _ \<Rightarrow> ''getEvents''
    | DeploymentsRestart _ \<Rightarrow> ''restart'' | DeploymentsScale _ _ \<Rightarrow> ''scale'' | DeploymentsStop _ \<Rightarrow> ''stop''
    | DeploymentsStart _ _ \<Rightarrow> ''start'' | DeploymentsDelete _ \<Rightarrow> ''delete'')"
| "handlerOf (EvidenceCall r) = (''EvidenceController'', case r of
      EvidenceCollectLive _ _ _ _ \<Rightarrow> ''collectLive'' | EvidenceCreateSnapshot _ _ _ _ \<Rightarrow> ''createSnapshot''
    | EvidenceListSnapshots _ \<Rightarrow> ''listSnapshots'' | EvidenceGetSnapshot _ \<Rightarrow> ''getSnapshot'')"
| "handlerOf (HealthCall r) = (''HealthController'', case r of
      HealthHealth \<Rightarrow> ''health'' | HealthReadiness \<Rightarrow> ''readiness'')"
| "handlerOf (IncidentsCall r) = (''IncidentsController'', case r of
      IncidentsFindAll _ \<Rightarrow> ''findAll'' | IncidentsFindOne _ \<Rightarrow> ''findOne''
    | IncidentsCreateForDeployment _ _ \<Rightarrow> ''createForDeployment'' | IncidentsResolve _ \<Rightarrow> ''resolve'')"
| "handlerOf (ObservabilityCall r) = (''ObservabilityController'', case r of
      ObservabilityGetConfig \<Rightarrow> ''getConfig''
    | ObservabilityGetLatestHealthSample _ \<Rightarrow> ''getLatestHealthSample''
    | ObservabilityListHealthSamples _ _ \<Rightarrow> ''listHealthSamples'')"
| "handlerOf (RcaCall r) = (''RcaController'', case r of
      RcaStartForIncident _ \<Rightarrow> ''startForIncident'' | RcaFindByIncident _ \<Rightarrow> ''findByIncident''
    | RcaStartForDeployment _ \<Rightarrow> ''startForDeployment'' | RcaFindOne _ \<Rightarrow> ''findOne''
    | RcaListChat _ \<Rightarrow> ''listChat'' | RcaChat _ _ \<Rightarrow> ''chat'' | RcaGetConfig \<Rightarrow> ''getConfig'')"
| "handlerOf (TelemetryCall r) = (''TelemetryController'', case r of
      TelemetryGetOverview _ _ \<Rightarrow> ''getOverview'' | TelemetryGetMetrics _ _ _ _ \<Rightarrow> ''getMetrics''
    | TelemetryGetLogs _ _ _ _ _ \<Rightarrow> ''getLogs'' | TelemetryGetTraces _ _ _ _ \<Rightarrow> ''getTraces''
    | TelemetryGetKubernetes _ _ _ \<Rightarrow> ''getKubernetes'')"

definition routeOf :: "api_request \<Rightarrow> route option" where
  "routeOf c = find (\<lambda>rt. (rt_controller rt, rt_handler rt) = handlerOf c) routeTable"

text \<open>A request through the pipeline of its route.\<close>

definition serveRequest ::
  "'c services \<Rightarrow> http_request \<Rightarrow> api_request \<Rightarrow> ('c world, api_answer) io"
where
  "serveRequest sv rq c =
     (case routeOf c of
        None \<Rightarrow> throwM (NotFound ''Cannot find the route'')
      | Some rt \<Rightarrow> serve (crypto (sv_auth sv)) (settings (sv_auth sv)) rt rq (handle sv c))"

section \<open>Every handler keeps to its workspace\<close>

lemma keeps_answerM [keeps_intros]: "preorder_rel R \<Longrightarrow> keeps R m \<Longrightarrow> keeps R (answerM f m)"
  unfolding answerM_def by (intro keeps_bindM keeps_returnM)

lemma keeps_controllers [keeps_intros]:
  "keeps tenantFrame (appsController a)" "keeps tenantFrame (buildsController sv b)"
  "keeps tenantFrame (deploymentsController sv d)"
proof -
  show "keeps tenantFrame (appsController a)" by (cases a) (simp_all, (intro keeps_intros)+)
  show "keeps tenantFrame (buildsController sv b)"
    by (cases b) (simp_all add: findBuildsByApp_def, (intro keeps_intros)+)
  show "keeps tenantFrame (deploymentsController sv d)" by (cases d) (simp_all, (intro keeps_intros)+)
qed

lemma sameTables_telemetry:
  "keeps sameTables (getMetrics fetch num cfg a d n k)"
  "keeps sameTables (getLogs fetch num cfg a d n k l)"
  "keeps sameTables (getTraces fetch cfg a d n k)"
  "keeps sameTables (getKubernetes api a d n)"
  "keeps sameTables (getOverview api cfg a d)"
  unfolding getMetrics_def getLogs_def getTraces_def getKubernetes_def getOverview_def sourceResponse_def
    baseResponse_def recentSamples_def windowFor_def minutesAgo_def Let_def
  by (intro keeps_bindM keeps_prod keeps_returnM keeps_findMany keeps_collectSource keeps_requireWorkspaceId
      keeps_findDeploymentForTelemetry keeps_if sameTables_now sameTables_queries kube_sameTables
      preorder_sameTables)+

lemma sameTables_telemetryController: "keeps sameTables (telemetryController sv r)"
  by (cases r)
    (simp_all add: getMetricsHandler_def getLogsHandler_def getTracesHandler_def getKubernetesHandler_def,
      (intro keeps_answerM keeps_bindM keeps_liftM sameTables_telemetry preorder_sameTables)+)

lemma keeps_service_controllers [keeps_intros]:
  "keeps tenantFrame (evidenceController sv e)" "keeps tenantFrame (incidentsController i)"
  "keeps tenantFrame (observabilityController sv obs)" "keeps tenantFrame (rcaController sv r)"
  "keeps tenantFrame (telemetryController sv t)" "keeps tenantFrame (healthController sv h)"
proof -
  show "keeps tenantFrame (evidenceController sv e)" by (cases e) (simp_all, (intro keeps_intros)+)
  show "keeps tenantFrame (incidentsController i)" by (cases i) (simp_all, (intro keeps_intros)+)
  show "keeps tenantFrame (observabilityController sv obs)" by (cases obs) (simp_all, (intro keeps_intros)+)
  show "keeps tenantFrame (rcaController sv r)"
    by (cases r) (simp_all add: findRunsByIncident_def ensureIncidentExists_def,
        (intro keeps_intros keeps_sameTables_tenantFrame [OF sameTables_chat(1)]
          keeps_sameTables_tenantFrame [OF sameTables_chat(2)])+)
  show "keeps tenantFrame (telemetryController sv t)"
    by (rule keeps_sameTables_tenantFrame [OF sameTables_telemetryController])
  show "keeps tenantFrame (healthController sv h)" by (cases h) (auto intro!: keeps_intros)
qed

section \<open>The authentication handlers\<close>

text \<open>The tables of identities, sessions and audit records belong to no workspace.\<close>

lemma onlyClient_tenantFrame: "onlyClient w w' \<Longrightarrow> tenantFrame w w'"
  by (simp add: onlyClient_def tenantFrame_def)

lemma keeps_onlyClient_tenantFrame: "keeps onlyClient m \<Longrightarrow> keeps tenantFrame m"
  by (simp add: keeps_def onlyClient_tenantFrame)

lemmas provider_tenantFrame [keeps_intros] =
  keeps_provider [THEN keeps_onlyClient_tenantFrame]
  keeps_completeCallback [THEN keeps_onlyClient_tenantFrame]
  keeps_oidcSwitchOrganization [THEN keeps_onlyClient_tenantFrame]
  keeps_revokeTokens [THEN keeps_onlyClient_tenantFrame]

lemma keeps_crypto [keeps_intros]:
  "keeps tenantFrame randomToken" "keeps tenantFrame (encrypt lib cfg v)"
  "keeps tenantFrame (encryptOptional lib cfg v2)"
  unfolding randomToken_def encryptOptional_def encrypt_def Let_def by (intro keeps_intros)+

lemma keeps_createLoginAttempt [keeps_intros]:
  "keeps tenantFrame (createLoginAttempt lib cfg state nonce verifier returnTo)"
  unfolding createLoginAttempt_def by (intro keeps_intros)

lemma keeps_consumeLoginAttempt [keeps_intros]:
  "keeps tenantFrame (consumeLoginAttempt lib cfg state)"
  unfolding consumeLoginAttempt_def Let_def by (intro keeps_intros)

lemma keeps_createSession [keeps_intros]: "keeps tenantFrame (createSession lib cfg i)"
  unfolding createSession_def storeSession_def Let_def by (intro keeps_intros)

lemma keeps_sessionRows [keeps_intros]:
  "keeps tenantFrame (getStored h)" "keeps tenantFrame (destroy h)"
  "keeps tenantFrame (updateTokens lib cfg h a r i e)"
  unfolding getStored_def destroy_def updateTokens_def by (intro keeps_intros)+

lemma keeps_upsertRow:
  "preorder_rel R \<Longrightarrow> keeps R create \<Longrightarrow> keeps R (updateRow t p f) \<Longrightarrow> keeps R (upsertRow t p create f)"
  unfolding upsertRow_def by (intro keeps_intros)

lemma keeps_resolveIdentity [keeps_intros]: "keeps tenantFrame (resolveIdentity lib cfg identity)"
  unfolding resolveIdentity_def adoptLegacyWorkspace_def upsertWorkspace_def upsertUser_def
    upsertMembership_def
  by (intro keeps_intros keeps_upsertRow)

lemma keeps_audits [keeps_intros]:
  "keeps tenantFrame (audit u ws action outcome)" "keeps tenantFrame recordFailedLogin"
  unfolding audit_def recordFailedLogin_def by (intro keeps_intros)+

lemma keeps_payloadExpiry [keeps_intros]: "keeps tenantFrame (payloadExpiry payload)"
  unfolding payloadExpiry_def by (cases "member payload ''expires_in''") (auto intro!: keeps_intros)

lemma keeps_currentAccessToken [keeps_intros]: "keeps tenantFrame (currentAccessToken deps stored)"
  unfolding currentAccessToken_def by (intro keeps_intros)

lemma keeps_authHandlers [keeps_intros]:
  "keeps tenantFrame (loginHandler deps returnTo)" "keeps tenantFrame (callbackHandler deps query)"
  "keeps tenantFrame (meHandler p)" "keeps tenantFrame (metricsHandler p)"
  "keeps tenantFrame (logoutHandler deps p)" "keeps tenantFrame (switchOrganizationHandler deps p i)"
  unfolding loginHandler_def beginLogin_def callbackHandler_def completeLogin_def meHandler_def me_def
    metricsHandler_def metrics_def countRows_def logoutHandler_def logout_def revocation_def
    switchOrganizationHandler_def switchOrganization_def Let_def
  by (intro keeps_intros)+

lemma keeps_authController [keeps_intros]: "keeps tenantFrame (authController sv r who)"
  by (cases r; cases who) (simp_all, (intro keeps_intros)+)

lemma keeps_handle: "keeps tenantFrame (handle sv c who)"
  by (cases c) (simp_all, (intro keeps_intros)+)

section \<open>Isolation of a request\<close>

text \<open>The rows of one workspace, of every tenant model.\<close>

definition sameWorkspace :: "string \<Rightarrow> 'c world \<Rightarrow> 'c world \<Rightarrow> bool" where
  "sameWorkspace ws w w' \<longleftrightarrow>
     filter (\<lambda>r. a_workspaceId r = ws) (apps w') = filter (\<lambda>r. a_workspaceId r = ws) (apps w)
     \<and> filter (\<lambda>r. b_workspaceId r = ws) (builds w') = filter (\<lambda>r. b_workspaceId r = ws) (builds w)
     \<and> filter (\<lambda>r. d_workspaceId r = ws) (deployments w')
         = filter (\<lambda>r. d_workspaceId r = ws) (deployments w)
     \<and> filter (\<lambda>r. rc_workspaceId r = ws) (runtimeConfigs w')
         = filter (\<lambda>r. rc_workspaceId r = ws) (runtimeConfigs w)
     \<and> filter (\<lambda>r. h_workspaceId r = ws) (samples w') = filter (\<lambda>r. h_workspaceId r = ws) (samples w)
     \<and> filter (\<lambda>r. i_workspaceId r = ws) (incidents w')
         = filter (\<lambda>r. i_workspaceId r = ws) (incidents w)
     \<and> filter (\<lambda>r. r_workspaceId r = ws) (runs w') = filter (\<lambda>r. r_workspaceId r = ws) (runs w)
     \<and> filter (\<lambda>r. e_workspaceId r = ws) (runEvents w')
         = filter (\<lambda>r. e_workspaceId r = ws) (runEvents w)
     \<and> filter (\<lambda>r. es_workspaceId r = ws) (snapshots w')
         = filter (\<lambda>r. es_workspaceId r = ws) (snapshots w)"

lemma hiddenRows_other:
  assumes "hiddenRows f own rs' = hiddenRows f own rs" and "own \<noteq> Some ws"
  shows "filter (\<lambda>r. f r = ws) rs' = filter (\<lambda>r. f r = ws) rs"
proof -
  have "filter (\<lambda>r. f r = ws) (hiddenRows f own xs) = filter (\<lambda>r. f r = ws) xs" for xs
    using assms(2) by (auto simp: hiddenRows_def intro!: filter_cong)
  with assms(1) show ?thesis by metis
qed

lemma tenantFrame_other: "tenantFrame w w' \<Longrightarrow> databaseWorkspace w \<noteq> Some ws \<Longrightarrow> sameWorkspace ws w w'"
  unfolding tenantFrame_def sameWorkspace_def by (auto dest: hiddenRows_other)

lemma sameWorkspace_tenant [simp]:
  "sameWorkspace ws (w\<lparr>tenant := t\<rparr>) w' = sameWorkspace ws w w'"
  "sameWorkspace ws w (w'\<lparr>tenant := t'\<rparr>) = sameWorkspace ws w w'"
  by (simp_all add: sameWorkspace_def)

lemma sameWorkspace_sameData: "sameData w w1 \<Longrightarrow> sameWorkspace ws w1 w' = sameWorkspace ws w w'"
  by (simp add: sameWorkspace_def sameData_def)

lemma keeps_auditInterceptor:
  "keeps tenantFrame next \<Longrightarrow> keeps tenantFrame (auditInterceptor rt rq who next)"
  unfolding auditInterceptor_def Let_def by (intro keeps_intros)

lemma runInContext_isolated:
  assumes "keeps tenantFrame m" "runInContext ctx m w = (res, w')" "ws \<noteq> c_workspaceId ctx"
  shows "sameWorkspace ws w w' \<and> tenant w' = tenant w"
proof -
  let ?w = "w\<lparr>tenant := Some ctx\<rparr>"
  have "databaseWorkspace ?w \<noteq> Some ws" using assms(3) by (simp add: databaseWorkspace_def)
  with keepsD [OF assms(1), of ?w] have "sameWorkspace ws ?w (snd (m ?w))" by (rule tenantFrame_other)
  with assms(2) show ?thesis by (auto simp: runInContext_run split: prod.splits)
qed

text \<open>
  C1. A request to any route that is not public reads and writes for one workspace only: it is
  refused without effect on any data, or it is admitted by a live session and whatever the handler
  of the route does, and whether it fails, the rows of every other workspace are exactly what they
  were, and the tenant context is the one before the request.
\<close>

theorem tenants_are_isolated:
  assumes "routeOf c = Some rt" and "\<not> rt_public rt" and "serveRequest sv rq c w = (res, w')"
  shows "(\<exists>e. res = Inl e) \<and> sameData w w'
    \<or> (\<exists>s. admitted (crypto (sv_auth sv)) (settings (sv_auth sv)) rt rq s w
          \<and> tenant w' = tenant w \<and> (\<forall>ws. ws \<noteq> s_workspaceId s \<longrightarrow> sameWorkspace ws w w'))"
proof -
  let ?lib = "crypto (sv_auth sv)" and ?cfg = "settings (sv_auth sv)"
  from assms have run: "serve ?lib ?cfg rt rq (handle sv c) w = (res, w')" by (simp add: serveRequest_def)
  from serve_outcome [OF assms(2) run] show ?thesis
  proof (elim disjE exE conjE)
    fix s w1 p
    assume adm: "admitted ?lib ?cfg rt rq s w" and same: "sameData w w1"
      and ws: "p_workspaceId p = s_workspaceId s"
      and ran: "(res, w') = runInContext (principalContext p)
                  (auditInterceptor rt rq (Some p) (handle sv c (Some p))) w1"
    note isolated = runInContext_isolated [OF keeps_auditInterceptor [OF keeps_handle] ran [symmetric]]
    have "tenant w' = tenant w" "sameWorkspace x w w'" if "x \<noteq> s_workspaceId s" for x
      using isolated [of x] that ws sameWorkspace_sameData [OF same] same
      by (simp_all add: principalContext_def sameData_def)
    moreover have "tenant w' = tenant w"
      using ran same by (auto simp: runInContext_run sameData_def split: prod.splits)
    ultimately show ?thesis using adm by blast
  qed blast
qed

section \<open>Requests that only read\<close>

text \<open>What a request with a safe method may change: the status last seen of builds and deployments.\<close>

definition buildSeen :: "build \<Rightarrow> build \<Rightarrow> bool" where
  "buildSeen b b' \<longleftrightarrow> b' = b\<lparr>b_status := b_status b', b_errorMessage := b_errorMessage b'\<rparr>"

definition deploymentSeen :: "deployment \<Rightarrow> deployment \<Rightarrow> bool" where
  "deploymentSeen d d' \<longleftrightarrow> d' = d\<lparr>d_status := d_status d'\<rparr>"

definition onlyStatus :: "'c world \<Rightarrow> 'c world \<Rightarrow> bool" where
  "onlyStatus w w' \<longleftrightarrow>
     w' = w\<lparr>cluster := cluster w', ticks := ticks w', drawn := drawn w', builds := builds w',
            deployments := deployments w'\<rparr>
     \<and> list_all2 buildSeen (builds w) (builds w')
     \<and> list_all2 deploymentSeen (deployments w) (deployments w')"

lemma seen_refl [simp]: "buildSeen b b" "deploymentSeen d d"
  by (simp_all add: buildSeen_def deploymentSeen_def)

lemma seen_trans:
  "buildSeen a b \<Longrightarrow> buildSeen b c \<Longrightarrow> buildSeen a c"
  "deploymentSeen d e \<Longrightarrow> deploymentSeen e f \<Longrightarrow> deploymentSeen d f"
  unfolding buildSeen_def deploymentSeen_def by (cases a; cases b; cases c; simp) (cases d; cases e; cases f; simp)

lemma onlyStatus_trans:
  assumes "onlyStatus w w'" "onlyStatus w' w''"
  shows "onlyStatus w w''"
proof -
  from assms(1) obtain c t d bs ds where w': "w' = w\<lparr>cluster := c, ticks := t, drawn := d, builds := bs,
      deployments := ds\<rparr>"
    unfolding onlyStatus_def by blast
  from assms(2) obtain c' t' d' bs' ds' where w'': "w'' = w'\<lparr>cluster := c', ticks := t', drawn := d',
      builds := bs', deployments := ds'\<rparr>"
    unfolding onlyStatus_def by blast
  show ?thesis
    using assms list_all2_trans [of buildSeen buildSeen buildSeen "builds w" bs bs'] seen_trans(1)
      list_all2_trans [of deploymentSeen deploymentSeen deploymentSeen "deployments w" ds ds'] seen_trans(2)
    by (simp add: onlyStatus_def w' w'')
qed

lemma onlyStatus_refl: "onlyStatus w w"
  by (simp add: onlyStatus_def list.rel_refl)

lemma preorder_onlyStatus [keeps_intros, simp]: "preorder_rel onlyStatus"
  unfolding preorder_rel_def by (intro conjI reflpI transpI onlyStatus_refl) (rule onlyStatus_trans)

lemma sameTables_onlyStatus: "sameTables w w' \<Longrightarrow> onlyStatus w w'"
proof -
  assume "sameTables w w'"
  then obtain c t d where "w' = w\<lparr>cluster := c, ticks := t, drawn := d\<rparr>"
    unfolding sameTables_def by blast
  then show ?thesis by (simp add: onlyStatus_def list.rel_refl)
qed

lemma keeps_onlyStatus: "keeps sameTables m \<Longrightarrow> keeps onlyStatus m"
  by (simp add: keeps_def sameTables_onlyStatus)

lemma onlyStatus_setBuild: "(\<And>b. buildSeen b (f b)) \<Longrightarrow> keeps onlyStatus (setBuild i f)"
  by (rule keepsI)
    (auto simp: setBuild_def updateRow_def buildTable_def onlyStatus_def list.rel_map
      split: option.split intro!: list.rel_refl)

lemma onlyStatus_setDeployment: "(\<And>d. deploymentSeen d (f d)) \<Longrightarrow> keeps onlyStatus (setDeployment i f)"
  by (rule keepsI)
    (auto simp: setDeployment_def updateRow_def deploymentTable_def onlyStatus_def list.rel_map
      split: option.split intro!: list.rel_refl)

text \<open>The requests whose route has a safe method and is not public.\<close>

fun onlyReads :: "api_request \<Rightarrow> bool" where
  "onlyReads (AppsCall r) = (case r of AppsCreate _ \<Rightarrow> False | _ \<Rightarrow> True)"
| "onlyReads (AuthCall r) = (r = AuthMe \<or> r = AuthMetrics)"
| "onlyReads (BuildsCall r) = (case r of BuildsCreate _ _ \<Rightarrow> False | _ \<Rightarrow> True)"
| "onlyReads (DeploymentsCall r) =
     (case r of
        DeploymentsFindByApp _ \<Rightarrow> True | DeploymentsGetStatus _ \<Rightarrow> True | DeploymentsGetLogs _ \<Rightarrow> True
      | DeploymentsGetPods _ \<Rightarrow> True | DeploymentsGetEvents _ \<Rightarrow> True | _ \<Rightarrow> False)"
| "onlyReads (EvidenceCall r) = (case r of EvidenceCreateSnapshot _ _ _ _ \<Rightarrow> False | _ \<Rightarrow> True)"
| "onlyReads (HealthCall r) = False"
| "onlyReads (IncidentsCall r) =
     (case r of IncidentsFindAll _ \<Rightarrow> True | IncidentsFindOne _ \<Rightarrow> True | _ \<Rightarrow> False)"
| "onlyReads (ObservabilityCall r) = True"
| "onlyReads (RcaCall r) =
     (case r of RcaStartForIncident _ \<Rightarrow> False | RcaStartForDeployment _ \<Rightarrow> False | RcaChat _ _ \<Rightarrow> False
      | _ \<Rightarrow> True)"
| "onlyReads (TelemetryCall r) = True"

definition safeRoute :: "route \<Rightarrow> bool" where
  "safeRoute rt \<longleftrightarrow> rt_method rt \<in> set SAFE_METHODS \<and> \<not> rt_public rt"

lemma onlyReads_route: "map_option safeRoute (routeOf c) = Some (onlyReads c)"
proof (cases c)
  case (AppsCall r) then show ?thesis by (cases r; hypsubst; code_simp)
next
  case (AuthCall r) then show ?thesis by (cases r; hypsubst; code_simp)
next
  case (BuildsCall r) then show ?thesis by (cases r; hypsubst; code_simp)
next
  case (DeploymentsCall r) then show ?thesis by (cases r; hypsubst; code_simp)
next
  case (EvidenceCall r) then show ?thesis by (cases r; hypsubst; code_simp)
next
  case (HealthCall r) then show ?thesis by (cases r; hypsubst; code_simp)
next
  case (IncidentsCall r) then show ?thesis by (cases r; hypsubst; code_simp)
next
  case (ObservabilityCall r) then show ?thesis by (cases r; hypsubst; code_simp)
next
  case (RcaCall r) then show ?thesis by (cases r; hypsubst; code_simp)
next
  case (TelemetryCall r) then show ?thesis by (cases r; hypsubst; code_simp)
qed

lemma routeOf_Some: "\<exists>rt. routeOf c = Some rt"
  using onlyReads_route [of c] by (cases "routeOf c") simp_all

lemmas reading_keeps =
  sameTables_status sameTables_listing sameTables_listDeploymentPods sameTables_collectLive
  sameTables_chat(1) sameTables_telemetryController

lemma onlyStatus_getBuildStatus: "keeps onlyStatus (getBuildStatus api i)"
  unfolding getBuildStatus_def workspaceNamespace_def Let_def
  by (intro keeps_intros keeps_onlyStatus [OF sameTables_status(1)] onlyStatus_setBuild)
    (simp_all add: buildSeen_def)

lemma onlyStatus_getDeploymentStatus: "keeps onlyStatus (getDeploymentStatus api i)"
  unfolding getDeploymentStatus_def findDeploymentOrThrow_def Let_def
  by (intro keeps_intros keeps_onlyStatus [OF sameTables_status(2)] onlyStatus_setDeployment)
    (simp_all add: deploymentSeen_def)

text \<open>The two status views, and the reads besides them.\<close>

fun asksStatus :: "api_request \<Rightarrow> bool" where
  "asksStatus (BuildsCall (BuildsGetStatus i)) = True"
| "asksStatus (DeploymentsCall (DeploymentsGetStatus i)) = True"
| "asksStatus _ = False"

lemma plain_reads:
  "onlyReads (AppsCall a) \<Longrightarrow> keeps sameTables (appsController a)"
  "onlyReads (AuthCall u) \<Longrightarrow> keeps sameTables (authController sv u who)"
  "onlyReads (BuildsCall b) \<Longrightarrow> \<not> asksStatus (BuildsCall b) \<Longrightarrow> keeps sameTables (buildsController sv b)"
  "onlyReads (DeploymentsCall d) \<Longrightarrow> \<not> asksStatus (DeploymentsCall d) \<Longrightarrow>
   keeps sameTables (deploymentsController sv d)"
  "onlyReads (EvidenceCall e) \<Longrightarrow> keeps sameTables (evidenceController sv e)"
  "onlyReads (IncidentsCall i) \<Longrightarrow> keeps sameTables (incidentsController i)"
  "onlyReads (ObservabilityCall obs) \<Longrightarrow> keeps sameTables (observabilityController sv obs)"
  "onlyReads (RcaCall r) \<Longrightarrow> keeps sameTables (rcaController sv r)"
proof -
  note intros = keeps_intros reading_keeps sameTables_now
  show "onlyReads (AppsCall a) \<Longrightarrow> keeps sameTables (appsController a)"
    by (cases a) (simp_all, (intro intros)+)
  show "onlyReads (AuthCall u) \<Longrightarrow> keeps sameTables (authController sv u who)"
    by (cases u; cases who)
      (simp_all add: meHandler_def me_def metricsHandler_def metrics_def countRows_def Let_def,
        (intro intros)+)
  show "onlyReads (BuildsCall b) \<Longrightarrow> \<not> asksStatus (BuildsCall b) \<Longrightarrow> keeps sameTables (buildsController sv b)"
    by (cases b) (simp_all add: findBuildsByApp_def getBuildLogs_def workspaceNamespace_def, (intro intros)+)
  show "onlyReads (DeploymentsCall d) \<Longrightarrow> \<not> asksStatus (DeploymentsCall d) \<Longrightarrow>
      keeps sameTables (deploymentsController sv d)"
    by (cases d)
      (simp_all add: findDeploymentsByApp_def getDeploymentLogs_def getPods_def getEvents_def
        findDeploymentOrThrow_def, (intro intros)+)
  show "onlyReads (EvidenceCall e) \<Longrightarrow> keeps sameTables (evidenceController sv e)"
    by (cases e)
      (simp_all add: listSnapshots_def ensureEvidenceDeployment_def getSnapshot_def, (intro intros)+)
  show "onlyReads (IncidentsCall i) \<Longrightarrow> keeps sameTables (incidentsController i)"
    by (cases i) (simp_all add: findAllIncidents_def findIncidentOrThrow_def, (intro intros)+)
  have "keeps sameTables (minutesAgo m)" for m unfolding minutesAgo_def by (intro intros)
  then show "onlyReads (ObservabilityCall obs) \<Longrightarrow> keeps sameTables (observabilityController sv obs)"
    by (cases obs)
      (simp_all add: getLatestHealthSample_def listHealthSamples_def ensureDeploymentExists_def,
        (intro intros)+)
  show "onlyReads (RcaCall r) \<Longrightarrow> keeps sameTables (rcaController sv r)"
    by (cases r)
      (simp_all add: findRunsByIncident_def ensureIncidentExists_def findRunOrThrow_def, (intro intros)+)
qed

lemma reads_keep_tables:
  "onlyReads c \<Longrightarrow> \<not> asksStatus c \<Longrightarrow> keeps sameTables (handle sv c who)"
  by (cases c) (simp_all add: plain_reads reading_keeps)

lemma status_onlyStatus: "asksStatus c \<Longrightarrow> keeps onlyStatus (handle sv c who)"
  by (induction c rule: asksStatus.induct)
    (simp_all, (intro keeps_answerM onlyStatus_getBuildStatus onlyStatus_getDeploymentStatus preorder_onlyStatus)+)

text \<open>
  C5. Cross-site requests are harmless where no CSRF token is asked for: the handler of every route
  with a safe method that is not public changes no stored row, with one exception, the status a
  build or a deployment was last seen with, which the two status views record. It creates and
  deletes nothing, whoever calls it, whatever the cluster and the agent answer.
\<close>

theorem safe_requests_only_read:
  assumes "routeOf c = Some rt" and "rt_method rt \<in> set SAFE_METHODS" and "\<not> rt_public rt"
  shows "onlyStatus w (snd (handle sv c who w))"
proof -
  from assms onlyReads_route [of c] have "onlyReads c" by (simp add: safeRoute_def)
  then have "keeps onlyStatus (handle sv c who)"
    using status_onlyStatus keeps_onlyStatus reads_keep_tables by (cases "asksStatus c") blast+
  then show ?thesis by (rule keepsD)
qed

section \<open>Witnesses\<close>

definition sampleServices :: "unit services" where
  "sampleServices =
     \<lparr> sv_kubernetes = downApi, sv_fetch = logFetch, sv_signer = (\<lambda>_ _. ''jwt''),
       sv_config = defaultConfig, sv_auth = loginDeps, sv_parseDate = (\<lambda>_. None),
       sv_integer = (\<lambda>_. None), sv_numbers = sampleNumbers, sv_databaseUp = True \<rparr>"

text \<open>The world of one session with an app of another workspace in it.\<close>

definition otherApp :: app where
  "otherApp =
     \<lparr> a_id = ''a2'', a_workspaceId = ''other'', a_name = ''theirs'', a_displayName = ''Theirs'',
       a_sourceType = SourceImage, a_image = Some ''nginx'', a_defaultPort = None, a_repoUrl = None,
       a_branch = None, a_buildContext = None, a_dockerfilePath = None, a_createdAt = 0 \<rparr>"

definition sharedWorld :: "unit world" where
  "sharedWorld = sessionWorld\<lparr>apps := [otherApp]\<rparr>"

lemma sampleRoute_routed: "routeOf (AppsCall AppsFindAll) = Some sampleRoute"
  by code_simp

lemma sharedWorld_serves:
  "fst (serveRequest sampleServices (sampleHttp ''GET'' (Some ''token'')) (AppsCall AppsFindAll) sharedWorld)
     = Inr (AppsAnswer [])"
  by (simp add: serveRequest_def sampleRoute_routed serve_def authenticationGuard_def authenticate_def
      csrfGuard_def permissionGuard_def tenantContextInterceptor_def auditInterceptor_def io_simps
      sampleServices_def loginDeps_def toyCrypto_def sharedWorld_def sessionWorld_def sampleSession_def
      emptyWorld_def sampleHttp_def sampleRoute_def get_def SAFE_METHODS_def findFirst_def findMany_def updateRow_def
      sessionTable_def appTable_def visible_def isSession_def userOf_def workspaceOfSession_def now_run
      activeWorkspace_def toPrincipal_def answerM_def findAllApps_def databaseWorkspace_def
      principalContext_def otherApp_def newestFirst_def hash_def idleMs_def Let_def)

theorem tenants_are_isolated_witness:
  "\<exists>w'. serveRequest sampleServices (sampleHttp ''GET'' (Some ''token'')) (AppsCall AppsFindAll) sharedWorld
        = (Inr (AppsAnswer []), w')
      \<and> sameWorkspace ''other'' sharedWorld w'"
proof -
  obtain res w' where run: "serveRequest sampleServices (sampleHttp ''GET'' (Some ''token''))
      (AppsCall AppsFindAll) sharedWorld = (res, w')" by fastforce
  have "\<not> rt_public sampleRoute" by (simp add: sampleRoute_def get_def)
  from tenants_are_isolated [OF sampleRoute_routed this run]
  have "sameWorkspace ''other'' sharedWorld w'"
    using sharedWorld_serves run
    by (auto simp: admitted_def sharedWorld_def sessionWorld_def sampleSession_def)
  with run sharedWorld_serves show ?thesis by auto
qed

theorem safe_requests_only_read_witness:
  "\<exists>a w'. handle sampleServices (DeploymentsCall (DeploymentsGetStatus ''d1'')) None evidenceWorld = (a, w')
        \<and> onlyStatus evidenceWorld w'"
proof -
  let ?c = "DeploymentsCall (DeploymentsGetStatus ''d1'')"
  obtain rt where rt: "routeOf ?c = Some rt" using routeOf_Some by blast
  with onlyReads_route [of ?c] have "rt_method rt \<in> set SAFE_METHODS" "\<not> rt_public rt"
    by (simp_all add: safeRoute_def)
  from safe_requests_only_read [OF rt this, of evidenceWorld sampleServices None] show ?thesis
    by (metis prod.collapse)
qed

end
