(* ===== verification/Requests.thy ===== *)
theory Requests
  imports Deployments Incidents
begin

text \<open>
  The bodies of requests: the DTO classes (*/dto/*.dto.ts and the ones in the controllers) with the
  validation pipe of main.ts, as functions from the JSON body to the arguments the handlers get. A
  refused body is answered with status 400; of the list of messages only the first is kept.
\<close>

section \<open>Validators\<close>

text \<open>
  The decorators: a value is accepted, and then used as the type the class declares, or refused.
  Whether a text is an https address is a question to validator.js, and a parameter.
\<close>

type_synonym 'a field = "json \<Rightarrow> exn + 'a"

fun sumBind :: "exn + 'a \<Rightarrow> ('a \<Rightarrow> exn + 'b) \<Rightarrow> exn + 'b" where
  "sumBind (Inl e) f = Inl e"
| "sumBind (Inr x) f = f x"

definition optionalField :: "'a field \<Rightarrow> 'a option field" where
  "optionalField f v = (if v = JUndef \<or> v = JNull then Inr None else map_sum id Some (f v))"

fun stringField :: "string field" where
  "stringField (JStr s) = Inr s"
| "stringField _ = Inl (BadRequest ''must be a string'')"

definition notEmptyField :: "string field" where
  "notEmptyField v = (if v = JStr [] then Inl (BadRequest ''should not be empty'') else stringField v)"

definition maxLengthField :: "nat \<Rightarrow> string field" where
  "maxLengthField n v =
     sumBind (stringField v) (\<lambda>s.
       if length s \<le> n then Inr s else Inl (BadRequest ''must be shorter''))"

definition intField :: "int \<Rightarrow> int field" where
  "intField lo v =
     (case v of
        JNum n \<Rightarrow> (if lo \<le> n then Inr n else Inl (BadRequest ''must not be less''))
      | _ \<Rightarrow> Inl (BadRequest ''must be an integer number''))"

fun boolField :: "bool field" where
  "boolField (JBool b) = Inr b"
| "boolField _ = Inl (BadRequest ''must be a boolean value'')"

definition enumField :: "(string \<times> 'a) list \<Rightarrow> 'a field" where
  "enumField names v =
     (case v of
        JStr s \<Rightarrow> (case map_of names s of Some x \<Rightarrow> Inr x | None \<Rightarrow> Inl (BadRequest ''must be one of the values''))
      | _ \<Rightarrow> Inl (BadRequest ''must be one of the values''))"

definition urlField :: "(string \<Rightarrow> bool) \<Rightarrow> string field" where
  "urlField isHttpsUrl v =
     sumBind (stringField v) (\<lambda>s. if isHttpsUrl s then Inr s else Inl (BadRequest ''must be a URL address''))"

text \<open>
  An object is not looked into. The services turn the values of its members into strings, which is
  done here.
\<close>

definition stringsField :: "string entries field" where
  "stringsField v =
     (case v of
        JObj kvs \<Rightarrow> Inr (map (\<lambda>(k, x). (k, stringOf x)) kvs)
      | _ \<Rightarrow> Inl (BadRequest ''must be an object''))"

text \<open>The options \<open>whitelist\<close> and \<open>forbidNonWhitelisted\<close> of the pipe.\<close>

definition onlyMembers :: "string list \<Rightarrow> json \<Rightarrow> exn + unit" where
  "onlyMembers names body =
     (case body of
        JObj kvs \<Rightarrow>
          (case find (\<lambda>kv. fst kv \<notin> set names) kvs of
             None \<Rightarrow> Inr ()
           | Some kv \<Rightarrow> Inl (BadRequest (''property '' @ fst kv @ '' should not exist'')))
      | _ \<Rightarrow> Inl (BadRequest ''an object is expected''))"

section \<open>The DTO classes\<close>

definition createAppDto :: "(string \<Rightarrow> bool) \<Rightarrow> json \<Rightarrow> exn + create_app_dto" where
  "createAppDto isHttpsUrl body =
     sumBind (onlyMembers [''name'', ''displayName'', ''sourceType'', ''image'', ''defaultPort'', ''repoUrl'',
       ''branch'', ''buildContext'', ''dockerfilePath''] body) (\<lambda>_.
     sumBind (stringField (member body ''name'')) (\<lambda>nm.
     sumBind (stringField (member body ''displayName'')) (\<lambda>displayName.
     sumBind (optionalField (enumField [(''image'', SourceImage), (''git'', SourceGit)])
       (member body ''sourceType'')) (\<lambda>sourceType.
     sumBind (optionalField stringField (member body ''image'')) (\<lambda>img.
     sumBind (optionalField (intField 1) (member body ''defaultPort'')) (\<lambda>defaultPort.
     sumBind (optionalField (urlField isHttpsUrl) (member body ''repoUrl'')) (\<lambda>repoUrl.
     sumBind (optionalField stringField (member body ''branch'')) (\<lambda>branch.
     sumBind (optionalField stringField (member body ''buildContext'')) (\<lambda>buildContext.
     sumBind (optionalField stringField (member body ''dockerfilePath'')) (\<lambda>dockerfilePath.
       Inr \<lparr> ca_name = nm, ca_displayName = displayName, ca_sourceType = sourceType, ca_image = img,
             ca_defaultPort = defaultPort, ca_repoUrl = repoUrl, ca_branch = branch,
             ca_buildContext = buildContext, ca_dockerfilePath = dockerfilePath \<rparr>))))))))))"

definition createBuildDto :: "json \<Rightarrow> exn + create_build_dto" where
  "createBuildDto body =
     sumBind (onlyMembers [''strategy'', ''branch'', ''buildContext'', ''dockerfilePath''] body) (\<lambda>_.
     sumBind (optionalField (enumField [(''dockerfile'', Dockerfile), (''buildpack'', Buildpack)])
       (member body ''strategy'')) (\<lambda>strategy.
     sumBind (optionalField stringField (member body ''branch'')) (\<lambda>branch.
     sumBind (optionalField stringField (member body ''buildContext'')) (\<lambda>buildContext.
     sumBind (optionalField stringField (member body ''dockerfilePath'')) (\<lambda>dockerfilePath.
       Inr \<lparr> cb_strategy = strategy, cb_branch = branch, cb_buildContext = buildContext,
             cb_dockerfilePath = dockerfilePath \<rparr>)))))"

definition createDeploymentDto :: "json \<Rightarrow> exn + create_deployment_dto" where
  "createDeploymentDto body =
     sumBind (onlyMembers [''image'', ''buildId'', ''port'', ''replicas'', ''expose'', ''env'', ''secrets'',
       ''files'', ''secretFiles''] body) (\<lambda>_.
     sumBind (optionalField stringField (member body ''image'')) (\<lambda>img.
     sumBind (optionalField stringField (member body ''buildId'')) (\<lambda>buildId.
     sumBind (optionalField (intField 1) (member body ''port'')) (\<lambda>port.
     sumBind (optionalField (intField 1) (member body ''replicas'')) (\<lambda>replicas.
     sumBind (optionalField boolField (member body ''expose'')) (\<lambda>expose.
     sumBind (optionalField stringsField (member body ''env'')) (\<lambda>env.
     sumBind (optionalField stringsField (member body ''secrets'')) (\<lambda>secrets.
     sumBind (optionalField stringsField (member body ''files'')) (\<lambda>files.
     sumBind (optionalField stringsField (member body ''secretFiles'')) (\<lambda>secretFiles.
       Inr \<lparr> cd_image = img, cd_buildId = buildId, cd_port = port, cd_replicas = replicas,
             cd_expose = (expose = Some True), cd_env = env, cd_secrets = secrets, cd_files = files,
             cd_secretFiles = secretFiles \<rparr>))))))))))"

definition scaleDeploymentDto :: "json \<Rightarrow> exn + int" where
  "scaleDeploymentDto body =
     sumBind (onlyMembers [''replicas''] body) (\<lambda>_. intField 0 (member body ''replicas''))"

definition startDeploymentDto :: "json \<Rightarrow> exn + int option" where
  "startDeploymentDto body =
     sumBind (onlyMembers [''replicas''] body) (\<lambda>_. optionalField (intField 1) (member body ''replicas''))"

definition createIncidentDto :: "json \<Rightarrow> exn + create_incident_dto" where
  "createIncidentDto body =
     sumBind (onlyMembers [''severity'', ''title'', ''summary''] body) (\<lambda>_.
     sumBind (optionalField (enumField [(''info'', Info), (''warning'', Warning), (''critical'', Critical)])
       (member body ''severity'')) (\<lambda>sev.
     sumBind (optionalField (maxLengthField 160) (member body ''title'')) (\<lambda>title.
     sumBind (optionalField (maxLengthField 2000) (member body ''summary'')) (\<lambda>summary.
       Inr \<lparr> ci_title = title, ci_severity = sev, ci_summary = summary \<rparr>))))"

definition rcaChatDto :: "json \<Rightarrow> exn + string" where
  "rcaChatDto body =
     sumBind (onlyMembers [''message''] body) (\<lambda>_. notEmptyField (member body ''message''))"

definition switchOrganizationDto :: "json \<Rightarrow> exn + string" where
  "switchOrganizationDto body =
     sumBind (onlyMembers [''organizationId''] body) (\<lambda>_. notEmptyField (member body ''organizationId''))"

end
