(* ===== verification/Client.thy ===== *)
theory Client
  imports Api Requests
begin

text \<open>
  The browser's side of the API (src/frontend/src): config.ts, lib/api.ts and the schemas of
  lib/types.ts. The browser's \<open>fetch\<close> and the validation library zod are parameters; the state is
  the CSRF token the module keeps and the network.
\<close>

section \<open>Configuration\<close>

record window_config =
  wc_apiBaseUrl :: "string option"
  wc_environment :: "string option"

record ui_config =
  apiBaseUrl :: string
  deployEnvironment :: string

definition runtimeConfig :: "window_config option \<Rightarrow> ui_config" where
  "runtimeConfig given =
     (let member_or = (\<lambda>f d. orDefault (case given of None \<Rightarrow> None | Some c \<Rightarrow> f c) d) in
      \<lparr> apiBaseUrl = member_or wc_apiBaseUrl ''/api'',
        deployEnvironment = member_or wc_environment ''local'' \<rparr>)"

section \<open>Schemas\<close>

text \<open>
  What lib/types.ts says with \<open>z.string()\<close>, \<open>z.object({ ... })\<close>, \<open>.nullable()\<close> and so on. By the
  documentation of zod, \<open>parse\<close> returns a value of the schema with the members of objects that the
  schema does not name removed, and throws on any other value.
\<close>

datatype schema =
    SString
  | SNumber
  | SUnknown
  | SEnum "string list"
  | SNullable schema
  | SOptional schema
  | SArray schema
  | SObject "(string \<times> schema) list"

fun conforms :: "schema \<Rightarrow> json \<Rightarrow> bool"
  and conformsMembers :: "(string \<times> schema) list \<Rightarrow> json \<Rightarrow> bool"
where
  "conforms SString v = (case v of JStr _ \<Rightarrow> True | _ \<Rightarrow> False)"
| "conforms SNumber v = (case v of JNum _ \<Rightarrow> True | _ \<Rightarrow> False)"
| "conforms SUnknown v = True"
| "conforms (SEnum names) v = (case v of JStr s \<Rightarrow> s \<in> set names | _ \<Rightarrow> False)"
| "conforms (SNullable s) v = (v = JNull \<or> conforms s v)"
| "conforms (SOptional s) v = (v = JUndef \<or> conforms s v)"
| "conforms (SArray s) v = (case v of JArr xs \<Rightarrow> list_all (conforms s) xs | _ \<Rightarrow> False)"
| "conforms (SObject fs) v = (case v of JObj _ \<Rightarrow> conformsMembers fs v | _ \<Rightarrow> False)"
| "conformsMembers [] v = True"
| "conformsMembers ((k, s) # fs) v = (conforms s (member v k) \<and> conformsMembers fs v)"

fun strip :: "schema \<Rightarrow> json \<Rightarrow> json"
  and stripMembers :: "(string \<times> schema) list \<Rightarrow> json \<Rightarrow> json entries"
where
  "strip (SNullable s) v = (if v = JNull then v else strip s v)"
| "strip (SOptional s) v = (if v = JUndef then v else strip s v)"
| "strip (SArray s) v = JArr (map (strip s) (asItems v))"
| "strip (SObject fs) v = JObj (stripMembers fs v)"
| "strip _ v = v"
| "stripMembers [] v = []"
| "stripMembers ((k, s) # fs) v = (k, strip s (member v k)) # stripMembers fs v"

type_synonym zod_parse = "schema \<Rightarrow> json \<Rightarrow> exn + json"

definition optionalNullable :: "schema \<Rightarrow> schema" where
  "optionalNullable s = SOptional (SNullable s)"

definition nullableOptional :: "schema \<Rightarrow> schema" where
  "nullableOptional s = SNullable (SOptional s)"

definition authMeSchema :: schema where
  "authMeSchema =
     SObject
       [(''user'', SObject
          [(''id'', SString), (''subject'', SString), (''email'', optionalNullable SString),
           (''displayName'', optionalNullable SString)]),
        (''workspace'', SObject [(''id'', SString), (''organizationId'', SString)]),
        (''roles'', SArray SString), (''permissions'', SArray SString), (''csrfToken'', SString)]"

definition appSchema :: schema where
  "appSchema =
     SObject
       [(''id'', SString), (''name'', SString), (''displayName'', SString),
        (''sourceType'', SEnum [''image'', ''git'']), (''image'', optionalNullable SString),
        (''defaultPort'', optionalNullable SNumber), (''repoUrl'', optionalNullable SString),
        (''branch'', optionalNullable SString), (''buildContext'', optionalNullable SString),
        (''dockerfilePath'', optionalNullable SString), (''createdAt'', SOptional SString),
        (''updatedAt'', SOptional SString)]"

definition buildSchema :: schema where
  "buildSchema =
     SObject
       [(''id'', SString), (''appId'', SString), (''status'', SString), (''strategy'', SString),
        (''repoUrl'', nullableOptional SString), (''branch'', nullableOptional SString),
        (''buildContext'', nullableOptional SString), (''dockerfilePath'', nullableOptional SString),
        (''image'', nullableOptional SString), (''kubernetesJob'', nullableOptional SString),
        (''errorMessage'', nullableOptional SString), (''createdAt'', SOptional SString),
        (''updatedAt'', SOptional SString)]"

definition deploymentSchema :: schema where
  "deploymentSchema =
     SObject
       [(''id'', SString), (''appId'', SString), (''buildId'', optionalNullable SString),
        (''namespace'', SString), (''image'', SString), (''replicas'', SNumber),
        (''desiredReplicas'', SOptional SNumber), (''port'', SNumber), (''status'', SString),
        (''kubernetesDeployment'', SString), (''kubernetesService'', SString),
        (''publicHostname'', optionalNullable SString), (''publicUrl'', optionalNullable SString),
        (''createdAt'', SOptional SString), (''updatedAt'', SOptional SString)]"

definition incidentSchema :: schema where
  "incidentSchema =
     SObject
       [(''id'', SString), (''appId'', SOptional SString), (''deploymentId'', SOptional SString),
        (''status'', SString), (''severity'', SString), (''source'', SString), (''title'', SString),
        (''summary'', optionalNullable SString), (''openedAt'', SOptional SString),
        (''resolvedAt'', optionalNullable SString), (''app'', SOptional appSchema),
        (''deployment'', SOptional deploymentSchema), (''rcaRuns'', SOptional (SArray SUnknown))]"

section \<open>Requests\<close>

text \<open>
  A request as \<open>fetch\<close> sends it, and its response. Header names are in lower case. A body is the
  value \<open>JSON.stringify\<close> was given, \<open>undefined\<close> when there is none.
\<close>

record browser_request =
  bq_url :: string
  bq_method :: string
  bq_headers :: "string entries"
  bq_body :: json
  bq_credentials :: string

record browser_response =
  br_status :: nat
  br_statusText :: string
  br_contentType :: "string option"
  br_text :: "exn + string"
  br_json :: "exn + json"

definition br_ok :: "browser_response \<Rightarrow> bool" where
  "br_ok r \<longleftrightarrow> 200 \<le> br_status r \<and> br_status r < 300"

type_synonym 'n browser_fetch = "browser_request \<Rightarrow> 'n \<Rightarrow> (string + browser_response) \<times> 'n"

record 'n client =
  csrfToken :: string
  network :: 'n

definition browserFetch :: "'n browser_fetch \<Rightarrow> browser_request \<Rightarrow> ('n client, browser_response) io" where
  "browserFetch fetch rq =
     (\<lambda>c. case fetch rq (network c) of
        (Inl message, n) \<Rightarrow> (Inl (JsError message), c\<lparr>network := n\<rparr>)
      | (Inr response, n) \<Rightarrow> (Inr response, c\<lparr>network := n\<rparr>))"

definition setCsrfToken :: "string \<Rightarrow> ('n client, unit) io" where
  "setCsrfToken next = modifyM (\<lambda>c. c\<lparr>csrfToken := next\<rparr>)"

text \<open>\<open>toUpperCase\<close> of the ASCII letters, all a method has.\<close>

definition upperChar :: "char \<Rightarrow> char" where
  "upperChar c = (if isLowerAlpha c then char_of (code c - 32) else c)"

definition toUpperCase :: "string \<Rightarrow> string" where
  "toUpperCase s = map upperChar s"

text \<open>The members \<open>method\<close>, \<open>headers\<close> and \<open>body\<close> of the options.\<close>

record request_init =
  ri_method :: "string option"
  ri_headers :: "string entries"
  ri_body :: json

definition noInit :: request_init where
  "noInit = \<lparr> ri_method = None, ri_headers = [], ri_body = JUndef \<rparr>"

definition requestHeaders :: "string \<Rightarrow> request_init \<Rightarrow> string entries" where
  "requestHeaders csrf options =
     (let method = toUpperCase (orDefault (ri_method options) ''GET'');
          headers = ri_headers options;
          headers1 = (if ri_body options \<noteq> JUndef \<and> map_of headers ''content-type'' = None
                      then setEntry ''content-type'' ''application/json'' headers else headers)
      in (if method \<notin> set [''GET'', ''HEAD'', ''OPTIONS''] \<and> csrf \<noteq> []
          then setEntry ''x-csrf-token'' csrf headers1 else headers1))"

definition outgoing :: "ui_config \<Rightarrow> string \<Rightarrow> string \<Rightarrow> request_init \<Rightarrow> browser_request" where
  "outgoing cfg csrf p options =
     \<lparr> bq_url = apiBaseUrl cfg @ p, bq_method = orDefault (ri_method options) ''GET'',
       bq_headers = requestHeaders csrf options, bq_body = ri_body options,
       bq_credentials = ''include'' \<rparr>"

text \<open>An \<open>ApiError\<close> of the client is an \<open>HttpError\<close> here.\<close>

definition received :: "zod_parse \<Rightarrow> schema option \<Rightarrow> browser_response \<Rightarrow> ('n client, json) io" where
  "received parse schema response =
     (if \<not> br_ok response
      then bindM (catchM (liftM (br_text response)) (\<lambda>_. returnM [])) (\<lambda>msg.
             throwM (HttpError (br_status response) (if msg \<noteq> [] then msg else br_statusText response)))
      else
        bindM (if includesStr (orDefault (br_contentType response) []) ''application/json''
               then liftM (br_json response)
               else bindM (liftM (br_text response)) (\<lambda>s. returnM (JStr s))) (\<lambda>payload.
          case schema of None \<Rightarrow> returnM payload | Some s \<Rightarrow> liftM (parse s payload)))"

definition request ::
  "ui_config \<Rightarrow> 'n browser_fetch \<Rightarrow> zod_parse \<Rightarrow> string \<Rightarrow> request_init \<Rightarrow> schema option
   \<Rightarrow> ('n client, json) io"
where
  "request cfg fetch parse p options schema =
     bindM (readM csrfToken) (\<lambda>csrf.
     bindM (browserFetch fetch (outgoing cfg csrf p options)) (\<lambda>response.
       received parse schema response))"

section \<open>The calls of the API\<close>

datatype apps_call = ListApps | GetApp string | CreateApp json

datatype builds_call =
    ListBuilds string
  | GetBuild string
  | GetBuildStatus string
  | GetBuildLogs string
  | CreateBuild string json

datatype deployments_call =
    ListDeployments string
  | CreateDeployment string json
  | GetDeploymentStatus string
  | ScaleDeployment string int
  | RestartDeployment string
  | StopDeployment string
  | StartDeployment string "int option"
  | DeleteDeployment string

datatype telemetry_call =
    Overview string string
  | Metrics string string int
  | Logs string string int "string option"
  | Traces string string int
  | KubernetesView string string int

datatype incidents_call =
    ListIncidents "string option"
  | GetIncident string
  | ResolveIncident string
  | CreateIncident string json

datatype rca_call =
    AnalyseDeployment string
  | AnalyseIncident string
  | GetRun string
  | ListChat string
  | SendChat string string

datatype api_call =
    CallMe
  | CallApps apps_call
  | CallBuilds builds_call
  | CallDeployments deployments_call
  | CallTelemetry telemetry_call
  | CallIncidents incidents_call
  | CallRca rca_call
  | CallAuthMetrics

text \<open>The path, the options and the schema each method of \<open>api\<close> passes to \<open>request\<close>.\<close>

type_synonym call_spec = "string \<times> request_init \<times> schema option"

definition getSpec :: "string \<Rightarrow> schema option \<Rightarrow> call_spec" where
  "getSpec p s = (p, noInit, s)"

definition postSpec :: "string \<Rightarrow> json \<Rightarrow> schema option \<Rightarrow> call_spec" where
  "postSpec p body s = (p, noInit\<lparr>ri_method := Some ''POST'', ri_body := body\<rparr>, s)"

fun appsApi :: "apps_call \<Rightarrow> call_spec" where
  "appsApi ListApps = getSpec ''/apps'' (Some (SArray appSchema))"
| "appsApi (GetApp i) = getSpec (''/apps/'' @ i) (Some appSchema)"
| "appsApi (CreateApp body) = postSpec ''/apps'' body (Some appSchema)"

fun buildsApi :: "builds_call \<Rightarrow> call_spec" where
  "buildsApi (ListBuilds a) = getSpec (''/apps/'' @ a @ ''/builds'') (Some (SArray buildSchema))"
| "buildsApi (GetBuild i) = getSpec (''/builds/'' @ i) (Some buildSchema)"
| "buildsApi (GetBuildStatus i) = getSpec (''/builds/'' @ i @ ''/status'') None"
| "buildsApi (GetBuildLogs i) = getSpec (''/builds/'' @ i @ ''/logs'') None"
| "buildsApi (CreateBuild a body) = postSpec (''/apps/'' @ a @ ''/builds'') body (Some buildSchema)"

text \<open>A replica count of zero is left out of the body of a start, like a missing one.\<close>

fun deploymentsApi :: "deployments_call \<Rightarrow> call_spec" where
  "deploymentsApi (ListDeployments a) =
     getSpec (''/apps/'' @ a @ ''/deployments'') (Some (SArray deploymentSchema))"
| "deploymentsApi (CreateDeployment a body) =
     postSpec (''/apps/'' @ a @ ''/deployments'') body (Some deploymentSchema)"
| "deploymentsApi (GetDeploymentStatus i) = getSpec (''/deployments/'' @ i @ ''/status'') None"
| "deploymentsApi (ScaleDeployment i n) =
     postSpec (''/deployments/'' @ i @ ''/scale'') (JObj [(''replicas'', JNum n)]) None"
| "deploymentsApi (RestartDeployment i) = postSpec (''/deployments/'' @ i @ ''/restart'') JUndef None"
| "deploymentsApi (StopDeployment i) = postSpec (''/deployments/'' @ i @ ''/stop'') JUndef None"
| "deploymentsApi (StartDeployment i n) =
     postSpec (''/deployments/'' @ i @ ''/start'')
       (JObj (case n of None \<Rightarrow> [] | Some k \<Rightarrow> (if k = 0 then [] else [(''replicas'', JNum k)]))) None"
| "deploymentsApi (DeleteDeployment i) =
     (''/deployments/'' @ i, noInit\<lparr>ri_method := Some ''DELETE''\<rparr>, None)"

definition telemetryPath :: "string \<Rightarrow> string \<Rightarrow> string \<Rightarrow> string" where
  "telemetryPath a d view = ''/apps/'' @ a @ ''/deployments/'' @ d @ ''/telemetry/'' @ view"

fun telemetryApi :: "telemetry_call \<Rightarrow> call_spec" where
  "telemetryApi (Overview a d) = getSpec (telemetryPath a d ''overview'') None"
| "telemetryApi (Metrics a d n) =
     getSpec (telemetryPath a d ''metrics'' @ ''?sinceMinutes='' @ showInt n) None"
| "telemetryApi (Logs a d n level) =
     getSpec (telemetryPath a d ''logs'' @ ''?sinceMinutes='' @ showInt n
       @ (if truthy level then ''&level='' @ the level else [])) None"
| "telemetryApi (Traces a d n) =
     getSpec (telemetryPath a d ''traces'' @ ''?sinceMinutes='' @ showInt n) None"
| "telemetryApi (KubernetesView a d n) =
     getSpec (telemetryPath a d ''kubernetes'' @ ''?sinceMinutes='' @ showInt n) None"

fun incidentsApi :: "incidents_call \<Rightarrow> call_spec" where
  "incidentsApi (ListIncidents status) =
     getSpec (''/incidents'' @ (if truthy status then ''?status='' @ the status else []))
       (Some (SArray incidentSchema))"
| "incidentsApi (GetIncident i) = getSpec (''/incidents/'' @ i) (Some incidentSchema)"
| "incidentsApi (ResolveIncident i) = postSpec (''/incidents/'' @ i @ ''/resolve'') JUndef None"
| "incidentsApi (CreateIncident d body) =
     postSpec (''/deployments/'' @ d @ ''/incidents'') body (Some incidentSchema)"

fun rcaApi :: "rca_call \<Rightarrow> call_spec" where
  "rcaApi (AnalyseDeployment d) = postSpec (''/deployments/'' @ d @ ''/rca-runs'') JUndef None"
| "rcaApi (AnalyseIncident i) = postSpec (''/incidents/'' @ i @ ''/rca-runs'') JUndef None"
| "rcaApi (GetRun i) = getSpec (''/rca-runs/'' @ i) None"
| "rcaApi (ListChat i) = getSpec (''/rca-runs/'' @ i @ ''/chat'') None"
| "rcaApi (SendChat i message) =
     postSpec (''/rca-runs/'' @ i @ ''/chat'') (JObj [(''message'', JStr message)]) None"

fun callSpec :: "api_call \<Rightarrow> call_spec" where
  "callSpec CallMe = getSpec ''/auth/me'' (Some authMeSchema)"
| "callSpec (CallApps c) = appsApi c"
| "callSpec (CallBuilds c) = buildsApi c"
| "callSpec (CallDeployments c) = deploymentsApi c"
| "callSpec (CallTelemetry c) = telemetryApi c"
| "callSpec (CallIncidents c) = incidentsApi c"
| "callSpec (CallRca c) = rcaApi c"
| "callSpec CallAuthMetrics = getSpec ''/auth/metrics'' None"

definition send ::
  "ui_config \<Rightarrow> 'n browser_fetch \<Rightarrow> zod_parse \<Rightarrow> call_spec \<Rightarrow> ('n client, json) io"
where
  "send cfg fetch parse spec = (case spec of (p, options, schema) \<Rightarrow> request cfg fetch parse p options schema)"

text \<open>\<open>result.csrfToken\<close> is a string by the schema.\<close>

definition apiMe :: "ui_config \<Rightarrow> 'n browser_fetch \<Rightarrow> zod_parse \<Rightarrow> ('n client, json) io" where
  "apiMe cfg fetch parse =
     bindM (send cfg fetch parse (callSpec CallMe)) (\<lambda>result.
     thenM (setCsrfToken (stringOf (member result ''csrfToken'')))
       (returnM result))"

definition callApi ::
  "ui_config \<Rightarrow> 'n browser_fetch \<Rightarrow> zod_parse \<Rightarrow> api_call \<Rightarrow> ('n client, json) io"
where
  "callApi cfg fetch parse c =
     (if c = CallMe then apiMe cfg fetch parse else send cfg fetch parse (callSpec c))"

text \<open>Logging out calls \<open>fetch\<close> itself, on the origin of the page, and does not look at the answer.\<close>

definition apiLogout :: "'n browser_fetch \<Rightarrow> ('n client, browser_response) io" where
  "apiLogout fetch =
     bindM (readM csrfToken) (\<lambda>csrf.
       browserFetch fetch
         \<lparr> bq_url = ''/auth/logout'', bq_method = ''POST'',
           bq_headers = (if csrf = [] then [] else [(''x-csrf-token'', csrf)]),
           bq_body = JUndef, bq_credentials = ''include'' \<rparr>)"

section \<open>Calls and routes\<close>

text \<open>
  The request a call becomes on the server, once the server has routed it and validated its body.
\<close>

definition callBody :: "api_call \<Rightarrow> json" where
  "callBody c = ri_body (fst (snd (callSpec c)))"

inductive reaches :: "(string \<Rightarrow> bool) \<Rightarrow> api_call \<Rightarrow> api_request \<Rightarrow> bool"
  for isHttpsUrl :: "string \<Rightarrow> bool"
where
  me: "reaches isHttpsUrl CallMe (AuthCall AuthMe)"
| list_apps: "reaches isHttpsUrl (CallApps ListApps) (AppsCall AppsFindAll)"
| get_app: "reaches isHttpsUrl (CallApps (GetApp i)) (AppsCall (AppsFindOne i))"
| create_app:
    "createAppDto isHttpsUrl (callBody (CallApps (CreateApp body))) = Inr app_dto \<Longrightarrow>
     reaches isHttpsUrl (CallApps (CreateApp body)) (AppsCall (AppsCreate app_dto))"
| list_builds: "reaches isHttpsUrl (CallBuilds (ListBuilds a)) (BuildsCall (BuildsFindByApp a))"
| get_build: "reaches isHttpsUrl (CallBuilds (GetBuild i)) (BuildsCall (BuildsFindOne i))"
| build_status: "reaches isHttpsUrl (CallBuilds (GetBuildStatus i)) (BuildsCall (BuildsGetStatus i))"
| build_logs: "reaches isHttpsUrl (CallBuilds (GetBuildLogs i)) (BuildsCall (BuildsGetLogs i))"
| create_build:
    "createBuildDto (callBody (CallBuilds (CreateBuild a body))) = Inr build_dto \<Longrightarrow>
     reaches isHttpsUrl (CallBuilds (CreateBuild a body)) (BuildsCall (BuildsCreate a (Some build_dto)))"
| list_deployments: "reaches isHttpsUrl (CallDeployments (ListDeployments a)) (DeploymentsCall (DeploymentsFindByApp a))"
| create_deployment:
    "createDeploymentDto (callBody (CallDeployments (CreateDeployment a body))) = Inr deployment_dto \<Longrightarrow>
     reaches isHttpsUrl (CallDeployments (CreateDeployment a body)) (DeploymentsCall (DeploymentsCreate a deployment_dto))"
| deployment_status:
    "reaches isHttpsUrl (CallDeployments (GetDeploymentStatus i)) (DeploymentsCall (DeploymentsGetStatus i))"
| scale:
    "scaleDeploymentDto (callBody (CallDeployments (ScaleDeployment i n))) = Inr k \<Longrightarrow>
     reaches isHttpsUrl (CallDeployments (ScaleDeployment i n)) (DeploymentsCall (DeploymentsScale i k))"
| restart: "reaches isHttpsUrl (CallDeployments (RestartDeployment i)) (DeploymentsCall (DeploymentsRestart i))"
| stop: "reaches isHttpsUrl (CallDeployments (StopDeployment i)) (DeploymentsCall (DeploymentsStop i))"
| start:
    "startDeploymentDto (callBody (CallDeployments (StartDeployment i n))) = Inr k \<Longrightarrow>
     reaches isHttpsUrl (CallDeployments (StartDeployment i n)) (DeploymentsCall (DeploymentsStart i k))"
| delete: "reaches isHttpsUrl (CallDeployments (DeleteDeployment i)) (DeploymentsCall (DeploymentsDelete i))"
| overview: "reaches isHttpsUrl (CallTelemetry (Overview a d)) (TelemetryCall (TelemetryGetOverview a d))"
| metrics:
    "reaches isHttpsUrl (CallTelemetry (Metrics a d n)) (TelemetryCall (TelemetryGetMetrics a d (Some (showInt n)) None))"
| logs:
    "reaches isHttpsUrl (CallTelemetry (Logs a d n level))
       (TelemetryCall (TelemetryGetLogs a d (Some (showInt n)) None (if truthy level then level else None)))"
| traces: "reaches isHttpsUrl (CallTelemetry (Traces a d n)) (TelemetryCall (TelemetryGetTraces a d (Some (showInt n)) None))"
| kubernetes:
    "reaches isHttpsUrl (CallTelemetry (KubernetesView a d n)) (TelemetryCall (TelemetryGetKubernetes a d (Some (showInt n))))"
| list_incidents: "\<not> truthy status \<Longrightarrow> reaches isHttpsUrl (CallIncidents (ListIncidents status)) (IncidentsCall (IncidentsFindAll None))"
| list_incidents_by:
    "truthy status \<Longrightarrow> reaches isHttpsUrl (CallIncidents (ListIncidents status)) (IncidentsCall (IncidentsFindAll (Some st)))"
| get_incident: "reaches isHttpsUrl (CallIncidents (GetIncident i)) (IncidentsCall (IncidentsFindOne i))"
| resolve_incident: "reaches isHttpsUrl (CallIncidents (ResolveIncident i)) (IncidentsCall (IncidentsResolve i))"
| create_incident:
    "createIncidentDto (callBody (CallIncidents (CreateIncident d body))) = Inr incident_dto \<Longrightarrow>
     reaches isHttpsUrl (CallIncidents (CreateIncident d body)) (IncidentsCall (IncidentsCreateForDeployment d incident_dto))"
| analyse_deployment: "reaches isHttpsUrl (CallRca (AnalyseDeployment d)) (RcaCall (RcaStartForDeployment d))"
| analyse_incident: "reaches isHttpsUrl (CallRca (AnalyseIncident i)) (RcaCall (RcaStartForIncident i))"
| get_run: "reaches isHttpsUrl (CallRca (GetRun i)) (RcaCall (RcaFindOne i))"
| list_chat: "reaches isHttpsUrl (CallRca (ListChat i)) (RcaCall (RcaListChat i))"
| send_chat:
    "rcaChatDto (callBody (CallRca (SendChat i message))) = Inr m \<Longrightarrow>
     reaches isHttpsUrl (CallRca (SendChat i message)) (RcaCall (RcaChat i m))"
| auth_metrics: "reaches isHttpsUrl CallAuthMetrics (AuthCall AuthMetrics)"

text \<open>A path of the route table with its parameters replaced.\<close>

function fillPath :: "string \<Rightarrow> string list \<Rightarrow> string" where
  "fillPath [] args = []"
| "fillPath (c # cs) args =
     (if c = CHR '':'' \<and> args \<noteq> []
      then hd args @ fillPath (dropWhile (\<lambda>x. x \<noteq> CHR ''/'') cs) (tl args)
      else c # fillPath cs args)"
  by pat_completeness auto
termination
  by (relation "measure (\<lambda>(s, _). length s)") (auto simp: le_imp_less_Suc length_dropWhile_le)

text \<open>The arguments a request takes from its path, in their order.\<close>

fun pathArgs :: "api_request \<Rightarrow> string list" where
  "pathArgs (AppsCall r) = (case r of AppsFindOne i \<Rightarrow> [i] | _ \<Rightarrow> [])"
| "pathArgs (AuthCall r) = []"
| "pathArgs (BuildsCall r) =
     (case r of
        BuildsCreate a _ \<Rightarrow> [a] | BuildsFindByApp a \<Rightarrow> [a] | BuildsFindOne i \<Rightarrow> [i]
      | BuildsGetStatus i \<Rightarrow> [i] | BuildsGetLogs i \<Rightarrow> [i])"
| "pathArgs (DeploymentsCall r) =
     (case r of
        DeploymentsCreate a _ \<Rightarrow> [a] | DeploymentsFindByApp a \<Rightarrow> [a] | DeploymentsGetStatus i \<Rightarrow> [i]
      | DeploymentsGetLogs i \<Rightarrow> [i] | DeploymentsGetPods i \<Rightarrow> [i] | DeploymentsGetEvents i \<Rightarrow> [i]
      | DeploymentsRestart i \<Rightarrow> [i] | DeploymentsScale i _ \<Rightarrow> [i] | DeploymentsStop i \<Rightarrow> [i]
      | DeploymentsStart i _ \<Rightarrow> [i] | DeploymentsDelete i \<Rightarrow> [i])"
| "pathArgs (EvidenceCall r) =
     (case r of
        EvidenceCollectLive i _ _ _ \<Rightarrow> [i] | EvidenceCreateSnapshot i _ _ _ \<Rightarrow> [i]
      | EvidenceListSnapshots i \<Rightarrow> [i] | EvidenceGetSnapshot i \<Rightarrow> [i])"
| "pathArgs (HealthCall r) = []"
| "pathArgs (IncidentsCall r) =
     (case r of
        IncidentsFindAll _ \<Rightarrow> [] | IncidentsFindOne i \<Rightarrow> [i] | IncidentsCreateForDeployment d _ \<Rightarrow> [d]
      | IncidentsResolve i \<Rightarrow> [i])"
| "pathArgs (ObservabilityCall r) =
     (case r of
        ObservabilityGetConfig \<Rightarrow> [] | ObservabilityGetLatestHealthSample i \<Rightarrow> [i]
      | ObservabilityListHealthSamples i _ \<Rightarrow> [i])"
| "pathArgs (RcaCall r) =
     (case r of
        RcaStartForIncident i \<Rightarrow> [i] | RcaFindByIncident i \<Rightarrow> [i] | RcaStartForDeployment d \<Rightarrow> [d]
      | RcaFindOne i \<Rightarrow> [i] | RcaListChat i \<Rightarrow> [i] | RcaChat i _ \<Rightarrow> [i] | RcaGetConfig \<Rightarrow> [])"
| "pathArgs (TelemetryCall r) =
     (case r of
        TelemetryGetOverview a d \<Rightarrow> [a, d] | TelemetryGetMetrics a d _ _ \<Rightarrow> [a, d]
      | TelemetryGetLogs a d _ _ _ \<Rightarrow> [a, d] | TelemetryGetTraces a d _ _ \<Rightarrow> [a, d]
      | TelemetryGetKubernetes a d _ \<Rightarrow> [a, d])"

definition routeLine :: "api_request \<Rightarrow> (string \<times> string) option" where
  "routeLine r = map_option (\<lambda>rt. (rt_method rt, rt_path rt)) (routeOf r)"

lemma auth_apps_lines:
  "routeLine (AuthCall AuthMe) = Some (''GET'', ''/auth/me'')"
  "routeLine (AuthCall AuthMetrics) = Some (''GET'', ''/auth/metrics'')"
  "routeLine (AppsCall AppsFindAll) = Some (''GET'', ''/apps'')"
  "routeLine (AppsCall (AppsFindOne i)) = Some (''GET'', ''/apps/:id'')"
  "routeLine (AppsCall (AppsCreate app_dto)) = Some (''POST'', ''/apps'')"
  by code_simp+

lemma builds_lines:
  "routeLine (BuildsCall (BuildsFindByApp a)) = Some (''GET'', ''/apps/:appId/builds'')"
  "routeLine (BuildsCall (BuildsFindOne i)) = Some (''GET'', ''/builds/:id'')"
  "routeLine (BuildsCall (BuildsGetStatus i)) = Some (''GET'', ''/builds/:id/status'')"
  "routeLine (BuildsCall (BuildsGetLogs i)) = Some (''GET'', ''/builds/:id/logs'')"
  "routeLine (BuildsCall (BuildsCreate a build_dto)) = Some (''POST'', ''/apps/:appId/builds'')"
  by code_simp+

lemma deployments_lines:
  "routeLine (DeploymentsCall (DeploymentsFindByApp a)) = Some (''GET'', ''/apps/:appId/deployments'')"
  "routeLine (DeploymentsCall (DeploymentsCreate a deployment_dto)) = Some (''POST'', ''/apps/:appId/deployments'')"
  "routeLine (DeploymentsCall (DeploymentsGetStatus i)) = Some (''GET'', ''/deployments/:id/status'')"
  "routeLine (DeploymentsCall (DeploymentsScale i n)) = Some (''POST'', ''/deployments/:id/scale'')"
  "routeLine (DeploymentsCall (DeploymentsRestart i)) = Some (''POST'', ''/deployments/:id/restart'')"
  "routeLine (DeploymentsCall (DeploymentsStop i)) = Some (''POST'', ''/deployments/:id/stop'')"
  "routeLine (DeploymentsCall (DeploymentsStart i k)) = Some (''POST'', ''/deployments/:id/start'')"
  "routeLine (DeploymentsCall (DeploymentsDelete i)) = Some (''DELETE'', ''/deployments/:id'')"
  by code_simp+

lemma telemetry_lines:
  "routeLine (TelemetryCall (TelemetryGetOverview a d))
     = Some (''GET'', ''/apps/:appId/deployments/:deploymentId/telemetry/overview'')"
  "routeLine (TelemetryCall (TelemetryGetMetrics a d s k))
     = Some (''GET'', ''/apps/:appId/deployments/:deploymentId/telemetry/metrics'')"
  "routeLine (TelemetryCall (TelemetryGetLogs a d s k l))
     = Some (''GET'', ''/apps/:appId/deployments/:deploymentId/telemetry/logs'')"
  "routeLine (TelemetryCall (TelemetryGetTraces a d s k))
     = Some (''GET'', ''/apps/:appId/deployments/:deploymentId/telemetry/traces'')"
  "routeLine (TelemetryCall (TelemetryGetKubernetes a d s))
     = Some (''GET'', ''/apps/:appId/deployments/:deploymentId/telemetry/kubernetes'')"
  by code_simp+

lemma incidents_rca_lines:
  "routeLine (IncidentsCall (IncidentsFindAll st)) = Some (''GET'', ''/incidents'')"
  "routeLine (IncidentsCall (IncidentsFindOne i)) = Some (''GET'', ''/incidents/:id'')"
  "routeLine (IncidentsCall (IncidentsResolve i)) = Some (''POST'', ''/incidents/:id/resolve'')"
  "routeLine (IncidentsCall (IncidentsCreateForDeployment d incident_dto))
     = Some (''POST'', ''/deployments/:id/incidents'')"
  "routeLine (RcaCall (RcaStartForDeployment d)) = Some (''POST'', ''/deployments/:id/rca-runs'')"
  "routeLine (RcaCall (RcaStartForIncident i)) = Some (''POST'', ''/incidents/:id/rca-runs'')"
  "routeLine (RcaCall (RcaFindOne i)) = Some (''GET'', ''/rca-runs/:id'')"
  "routeLine (RcaCall (RcaListChat i)) = Some (''GET'', ''/rca-runs/:id/chat'')"
  "routeLine (RcaCall (RcaChat i message)) = Some (''POST'', ''/rca-runs/:id/chat'')"
  by code_simp+

lemmas route_lines =
  auth_apps_lines builds_lines deployments_lines telemetry_lines incidents_rca_lines

definition callMethod :: "api_call \<Rightarrow> string" where
  "callMethod c = orDefault (ri_method (fst (snd (callSpec c)))) ''GET''"

lemma spec_defs: "orDefault None d = d" "orDefault (Some x) d = x"
  by (simp_all add: orDefault_def)

lemma reaches_line:
  "reaches isHttpsUrl c r \<Longrightarrow>
   \<exists>p q. routeLine r = Some (callMethod c, p) \<and> fst (callSpec c) = fillPath p (pathArgs r) @ q
     \<and> (q = [] \<or> hd q = CHR ''?'')"
  by (induction rule: reaches.induct)
    (simp_all add: route_lines callMethod_def getSpec_def postSpec_def noInit_def spec_defs telemetryPath_def)

text \<open>
  C36. The client and the server agree on the API: each call of the client has the method of the
  route of the request it is meant to be, and its path is the route's path with the call's
  arguments in the places the handler reads them from, followed by nothing or a query.
\<close>

theorem calls_match_routes:
  assumes "reaches isHttpsUrl c r"
  shows "\<exists>rt q. routeOf r = Some rt \<and> rt_method rt = callMethod c
    \<and> fst (callSpec c) = fillPath (rt_path rt) (pathArgs r) @ q \<and> (q = [] \<or> hd q = CHR ''?'')"
  using reaches_line [OF assms] unfolding routeLine_def by auto

section \<open>The CSRF handshake\<close>

text \<open>What the documentation of zod promises of \<open>parse\<close>.\<close>

locale zod =
  fixes parse :: zod_parse
  assumes parse_ok: "conforms s v \<Longrightarrow> parse s v = Inr (strip s v)"
    and parse_fails: "\<not> conforms s v \<Longrightarrow> \<exists>e. parse s v = Inl e"
begin

lemma parse_Inr_iff: "parse s v = Inr u \<longleftrightarrow> conforms s v \<and> u = strip s v"
  using parse_ok [of s v] parse_fails [of s v] by (cases "conforms s v") auto

lemma received_json:
  assumes "br_ok response" "br_contentType response = Some ''application/json; charset=utf-8''"
    and "br_json response = Inr v" "conforms s v"
  shows "received parse (Some s) response c = (Inr (strip s v), c)"
proof -
  have "includesStr ''application/json; charset=utf-8'' ''application/json''" by code_simp
  with assms show ?thesis by (simp add: received_def bindM_run orDefault_def parse_ok)
qed

text \<open>Whatever the server answers, a call with a schema returns only values of its schema.\<close>

lemma received_conforms:
  "received parse (Some s) response c = (Inr u, c') \<Longrightarrow> \<exists>v. conforms s v \<and> u = strip s v"
  by (auto simp: received_def bindM_run catchM_run parse_Inr_iff split: if_splits sum.splits)

end

definition zodParse :: zod_parse where
  "zodParse s v = (if conforms s v then Inr (strip s v) else Inl (JsError ''ZodError''))"

interpretation z: zod zodParse
  by unfold_locales (simp_all add: zodParse_def)

lemma me_Inr:
  assumes "me p w = (Inr v, w')"
  obtains user :: identity_user where "u_id user = p_userId p"
    "v = JObj
       [(''user'', JObj [(''id'', JStr (u_id user)), (''subject'', JStr (u_subject user)),
          (''email'', nullable JStr (u_email user)),
          (''displayName'', nullable JStr (u_displayName user))]),
        (''workspace'', JObj [(''id'', JStr (p_workspaceId p)),
          (''organizationId'', JStr (p_organizationId p))]),
        (''roles'', JArr (map JStr (p_roles p))), (''permissions'', JArr (map JStr (p_scopes p))),
        (''csrfToken'', JStr (p_csrfToken p))]"
proof -
  from assms obtain user where "find (\<lambda>u. visible userTable w u \<and> u_id u = p_userId p) (rowsOf userTable w) = Some user"
    and v: "me p w = (Inr v, w')"
    by (auto simp: me_def bindM_run findFirst_def split: option.splits)
  moreover from this have "u_id user = p_userId p" using find_mem by fastforce
  ultimately show thesis using that [of user] by (simp add: me_def bindM_run findFirst_def)
qed

lemma me_conforms:
  assumes "me p w = (Inr v, w')"
  shows "conforms authMeSchema v" "member (strip authMeSchema v) ''csrfToken'' = JStr (p_csrfToken p)"
    "member (strip authMeSchema v) ''permissions'' = JArr (map JStr (p_scopes p))"
  using assms
  by (auto elim!: me_Inr simp: authMeSchema_def optionalNullable_def nullable_def list_all_iff
      split: option.split)

text \<open>
  How the server sees a request of the browser, which adds the cookie of the session and the
  origin of the page.
\<close>

definition arrives :: "string option \<Rightarrow> string \<Rightarrow> browser_request \<Rightarrow> http_request" where
  "arrives session origin rq =
     \<lparr> rq_method = bq_method rq, rq_path = bq_url rq, rq_session = session,
       rq_csrfToken = map_of (bq_headers rq) ''x-csrf-token'', rq_origin = Some origin, rq_params = [] \<rparr>"

lemma callMethod_cases: "callMethod c \<in> {''GET'', ''POST'', ''DELETE''}"
proof (cases c)
  case (CallApps x) then show ?thesis
    by (cases x) (simp_all add: callMethod_def getSpec_def postSpec_def noInit_def spec_defs)
next
  case (CallBuilds x) then show ?thesis
    by (cases x) (simp_all add: callMethod_def getSpec_def postSpec_def noInit_def spec_defs)
next
  case (CallDeployments x) then show ?thesis
    by (cases x) (simp_all add: callMethod_def getSpec_def postSpec_def noInit_def spec_defs)
next
  case (CallTelemetry x) then show ?thesis
    by (cases x) (simp_all add: callMethod_def getSpec_def noInit_def spec_defs)
next
  case (CallIncidents x) then show ?thesis
    by (cases x) (simp_all add: callMethod_def getSpec_def postSpec_def noInit_def spec_defs)
next
  case (CallRca x) then show ?thesis
    by (cases x) (simp_all add: callMethod_def getSpec_def postSpec_def noInit_def spec_defs)
qed (simp_all add: callMethod_def getSpec_def noInit_def spec_defs)

definition sends :: "ui_config \<Rightarrow> 'n client \<Rightarrow> api_call \<Rightarrow> browser_request" where
  "sends cfg s c = outgoing cfg (csrfToken s) (fst (callSpec c)) (fst (snd (callSpec c)))"

lemma send_run:
  "send cfg fetch parse (callSpec c) s =
     (case fetch (sends cfg s c) (network s) of
        (Inl message, n) \<Rightarrow> (Inl (JsError message), s\<lparr>network := n\<rparr>)
      | (Inr response, n) \<Rightarrow> received parse (snd (snd (callSpec c))) response (s\<lparr>network := n\<rparr>))"
  by (simp add: send_def request_def sends_def browserFetch_def bindM_run split: prod.split sum.split)

lemma upper_methods: "toUpperCase ''GET'' = ''GET''" "toUpperCase ''POST'' = ''POST''" "toUpperCase ''DELETE'' = ''DELETE''"
  by code_simp+

lemma sends_method: "bq_method (sends cfg s c) = callMethod c"
  by (simp add: sends_def outgoing_def callMethod_def)

text \<open>Exactly the requests that may change something carry the token, when there is one.\<close>

lemma sends_token:
  "csrfToken s \<noteq> [] \<Longrightarrow> callMethod c \<notin> set SAFE_METHODS \<Longrightarrow>
   map_of (bq_headers (sends cfg s c)) ''x-csrf-token'' = Some (csrfToken s)"
  using callMethod_cases [of c]
  by (auto simp: sends_def outgoing_def requestHeaders_def callMethod_def SAFE_METHODS_def Let_def
      map_of_setEntry upper_methods)

lemma apiMe_run:
  assumes "zod parse" "me p w = (Inr v, w')"
    and "fetch (sends cfg s CallMe) (network s) = (Inr response, n)" "br_ok response"
    and "br_contentType response = Some ''application/json; charset=utf-8''" "br_json response = Inr v"
  shows "apiMe cfg fetch parse s =
    (Inr (strip authMeSchema v), s\<lparr>csrfToken := p_csrfToken p, network := n\<rparr>)"
proof -
  have "received parse (snd (snd (callSpec CallMe))) response (s\<lparr>network := n\<rparr>)
      = (Inr (strip authMeSchema v), s\<lparr>network := n\<rparr>)"
    using zod.received_json [OF assms(1,4-6) me_conforms(1) [OF assms(2)]] by (simp add: getSpec_def)
  with assms(3) have "send cfg fetch parse (callSpec CallMe) s
      = (Inr (strip authMeSchema v), s\<lparr>network := n\<rparr>)"
    unfolding send_run by simp
  with me_conforms(2) [OF assms(2)] show ?thesis
    by (simp add: apiMe_def bindM_run thenM_run setCsrfToken_def)
qed

lemma csrfGuard_sends:
  assumes "p_csrfToken p \<noteq> []" "csrfToken s = p_csrfToken p"
    and "csrfOrigins acfg = Inr allowed" "origin \<in> set allowed" "origin \<noteq> []"
  shows "csrfGuard lib acfg rt (arrives session origin (sends cfg s c)) (Some p) = Inr ()"
  using assms sends_token [of s c cfg]
  by (auto simp: csrfGuard_def arrives_def sends_method Let_def equalHash_def)

text \<open>
  C38. The CSRF handshake: once \<open>api.me()\<close> is answered by the server with what it knows of the
  session's principal, the answer passes the schema, the client keeps the session's own token, and
  every request of every call it makes from then on, with whatever the network has become, passes
  the server's CSRF guard for that session from an allowed origin.
\<close>

theorem csrf_handshake:
  assumes "zod parse" and "me p w = (Inr v, w')" and "p_csrfToken p \<noteq> []"
    and "fetch (sends cfg s CallMe) (network s) = (Inr response, n)" and "br_ok response"
    and "br_contentType response = Some ''application/json; charset=utf-8''" and "br_json response = Inr v"
    and "csrfOrigins acfg = Inr allowed" and "origin \<in> set allowed" and "origin \<noteq> []"
  shows "\<exists>u s'. callApi cfg fetch parse CallMe s = (Inr u, s')
    \<and> member u ''permissions'' = JArr (map JStr (p_scopes p))
    \<and> (\<forall>c m. csrfGuard lib acfg rt (arrives session origin (sends cfg (s'\<lparr>network := m\<rparr>) c)) (Some p) = Inr ())"
proof -
  note run = apiMe_run [where fetch = fetch and cfg = cfg and s = s and n = n, OF assms(1,2,4-7)]
  have "csrfGuard lib acfg rt (arrives session origin
      (sends cfg (s\<lparr>csrfToken := p_csrfToken p, network := m\<rparr>) c)) (Some p) = Inr ()" for c m
    by (rule csrfGuard_sends [OF assms(3) _ assms(8-10)]) simp
  with run me_conforms(3) [OF assms(2)] show ?thesis by (simp add: callApi_def)
qed

section \<open>Witnesses\<close>

theorem calls_match_routes_witness:
  "\<exists>rt q. routeOf (TelemetryCall (TelemetryGetMetrics ''a'' ''d'' (Some (showInt 30)) None)) = Some rt
    \<and> rt_method rt = ''GET'' \<and> rt_path rt = ''/apps/:appId/deployments/:deploymentId/telemetry/metrics''
    \<and> fst (callSpec (CallTelemetry (Metrics ''a'' ''d'' 30)))
        = ''/apps/a/deployments/d/telemetry/metrics'' @ q \<and> hd q = CHR ''?''"
proof -
  let ?r = "TelemetryCall (TelemetryGetMetrics ''a'' ''d'' (Some (showInt 30)) None)"
  obtain rt q where rt: "routeOf ?r = Some rt" "rt_method rt = callMethod (CallTelemetry (Metrics ''a'' ''d'' 30))"
    and q: "fst (callSpec (CallTelemetry (Metrics ''a'' ''d'' 30))) = fillPath (rt_path rt) (pathArgs ?r) @ q"
      "q = [] \<or> hd q = CHR ''?''"
    using calls_match_routes [OF reaches.metrics [where isHttpsUrl = "\<lambda>_. True" and a = "''a''" and d = "''d''"
          and n = 30]] by auto
  have p: "rt_path rt = ''/apps/:appId/deployments/:deploymentId/telemetry/metrics''"
    using rt(1) route_lines(20) [of "''a''" "''d''" "Some (showInt 30)" None] by (simp add: routeLine_def)
  have m: "callMethod (CallTelemetry (Metrics ''a'' ''d'' 30)) = ''GET''"
    by (simp add: callMethod_def getSpec_def noInit_def spec_defs)
  have f: "fillPath (rt_path rt) (pathArgs ?r) = ''/apps/a/deployments/d/telemetry/metrics''"
    by (simp add: p)
  have "q \<noteq> []" using q(1) unfolding f by (auto simp: getSpec_def telemetryPath_def)
  with rt q p m f show ?thesis by auto
qed

definition meAnswer :: json where
  "meAnswer =
     JObj
       [(''user'', JObj [(''id'', JStr ''user''), (''subject'', JStr ''sub''), (''email'', JNull),
          (''displayName'', JNull)]),
        (''workspace'', JObj [(''id'', JStr ''ws''), (''organizationId'', JStr ''org'')]),
        (''roles'', JArr []), (''permissions'', JArr []), (''csrfToken'', JStr ''csrf'')]"

definition meResponse :: browser_response where
  "meResponse =
     \<lparr> br_status = 200, br_statusText = ''OK'', br_contentType = Some ''application/json; charset=utf-8'',
       br_text = Inr [], br_json = Inr meAnswer \<rparr>"

lemma me_sessionWorld: "me sessionPrincipal sessionWorld = (Inr meAnswer, sessionWorld)"
  by (simp add: me_def bindM_run findFirst_def userTable_def visible_def sessionWorld_def emptyWorld_def
      sessionPrincipal_def meAnswer_def nullable_def)

definition analyseRoute :: route where
  "analyseRoute = the (routeOf (RcaCall (RcaStartForDeployment ''d1'')))"

theorem csrf_handshake_witness:
  "\<exists>u s'. callApi (runtimeConfig None) (\<lambda>_ n. (Inr meResponse, n)) zodParse CallMe
        \<lparr>csrfToken = [], network = ()\<rparr> = (Inr u, s')
    \<and> csrfGuard toyCrypto (defaultAuthConfig\<lparr>ac_callbackUrl := [], ac_allowedOrigins := [''https://ui'']\<rparr>) analyseRoute
        (arrives (Some ''token'') ''https://ui'' (sends (runtimeConfig None) s' (CallRca (AnalyseDeployment ''d1''))))
        (Some sessionPrincipal) = Inr ()"
proof -
  have ok: "p_csrfToken sessionPrincipal \<noteq> []" "br_ok meResponse" "br_json meResponse = Inr meAnswer"
    "br_contentType meResponse = Some ''application/json; charset=utf-8''"
    by (simp_all add: sessionPrincipal_def meResponse_def br_ok_def)
  have origins: "csrfOrigins (defaultAuthConfig\<lparr>ac_callbackUrl := [], ac_allowedOrigins := [''https://ui'']\<rparr>)
      = Inr [''https://ui'']"
    by (simp add: csrfOrigins_def)
  obtain u s' where "callApi (runtimeConfig None) (\<lambda>_ n. (Inr meResponse, n)) zodParse CallMe
        \<lparr>csrfToken = [], network = ()\<rparr> = (Inr u, s')"
    and "\<forall>c m. csrfGuard toyCrypto (defaultAuthConfig\<lparr>ac_callbackUrl := [], ac_allowedOrigins := [''https://ui'']\<rparr>) analyseRoute
        (arrives (Some ''token'') ''https://ui'' (sends (runtimeConfig None) (s'\<lparr>network := m\<rparr>) c))
        (Some sessionPrincipal) = Inr ()"
    using csrf_handshake [where fetch = "\<lambda>_ n. (Inr meResponse, n)" and cfg = "runtimeConfig None"
        and s = "\<lparr>csrfToken = [], network = ()\<rparr>" and n = "()" and origin = "''https://ui''"
        and session = "Some ''token''" and rt = analyseRoute and lib = toyCrypto,
        OF z.zod_axioms me_sessionWorld ok(1) _ ok(2,4,3) origins] by auto
  moreover have "s'\<lparr>network := network s'\<rparr> = s'" by simp
  ultimately show ?thesis by metis
qed

end
