(* ===== verification/Forms.thy ===== *)
theory Forms
  imports Requests
begin

text \<open>
  lib/forms.ts and lib/format.ts of the frontend, with the bodies ui/pages.tsx makes of the forms.
  \<open>Number\<close> of a text that is an integer, and what zod takes for a URL, are parameters.
\<close>

section \<open>The app form\<close>

text \<open>
  The values of the inputs. An input that is on the page has a text, also when it is empty; one that
  is not has no value unless the form gives it a default.
\<close>

record app_form =
  af_name :: string
  af_displayName :: string
  af_sourceType :: string
  af_image :: "string option"
  af_defaultPort :: "string option"
  af_repoUrl :: "string option"
  af_branch :: "string option"
  af_buildContext :: "string option"
  af_dockerfilePath :: "string option"

record app_input =
  ai_name :: string
  ai_displayName :: string
  ai_sourceType :: string
  ai_image :: "string option"
  ai_defaultPort :: "int option"
  ai_repoUrl :: "string option"
  ai_branch :: "string option"
  ai_buildContext :: "string option"
  ai_dockerfilePath :: "string option"

definition isSlug :: "string \<Rightarrow> bool" where
  "isSlug s \<longleftrightarrow> s \<noteq> [] \<and> list_all (\<lambda>c. isLowerAlnum c \<or> c = CHR ''-'') s"

text \<open>\<open>z.coerce.number().int().positive()\<close>\<close>

definition positiveField :: "(string \<Rightarrow> int option) \<Rightarrow> string \<Rightarrow> int option" where
  "positiveField number s =
     (case number s of None \<Rightarrow> None | Some n \<Rightarrow> (if 0 < n then Some n else None))"

text \<open>The names of the fields refused, or the input.\<close>

definition createAppSchema ::
  "(string \<Rightarrow> int option) \<Rightarrow> (string \<Rightarrow> bool) \<Rightarrow> app_form \<Rightarrow> string list + app_input"
where
  "createAppSchema number isUrl f =
     (let port = map_option (positiveField number) (af_defaultPort f);
          issues =
            (if isSlug (af_name f) then [] else [''name''])
            @ (if af_displayName f \<noteq> [] then [] else [''displayName''])
            @ (if af_sourceType f \<in> set [''image'', ''git''] then [] else [''sourceType''])
            @ (if port = Some None then [''defaultPort''] else [])
            @ (if (case af_repoUrl f of None \<Rightarrow> True | Some u \<Rightarrow> u = [] \<or> isUrl u) then [] else [''repoUrl''])
      in if issues \<noteq> [] then Inl issues
         else Inr
           \<lparr> ai_name = af_name f, ai_displayName = af_displayName f, ai_sourceType = af_sourceType f,
             ai_image = af_image f, ai_defaultPort = Option.bind port (\<lambda>p. p),
             ai_repoUrl = af_repoUrl f, ai_branch = af_branch f, ai_buildContext = af_buildContext f,
             ai_dockerfilePath = af_dockerfilePath f \<rparr>)"

text \<open>Members that are \<open>undefined\<close> are left out of the body by \<open>JSON.stringify\<close>.\<close>

definition definedMembers :: "json entries \<Rightarrow> json" where
  "definedMembers kvs = JObj (filter (\<lambda>kv. snd kv \<noteq> JUndef) kvs)"

definition createAppBody :: "app_input \<Rightarrow> json" where
  "createAppBody input =
     definedMembers
       [(''name'', JStr (ai_name input)), (''displayName'', JStr (ai_displayName input)),
        (''sourceType'', JStr (ai_sourceType input)), (''image'', jsonOfOption (ai_image input)),
        (''defaultPort'',
          (case ai_defaultPort input of None \<Rightarrow> JUndef | Some n \<Rightarrow> (if n = 0 then JUndef else JNum n))),
        (''repoUrl'', (if truthy (ai_repoUrl input) then jsonOfOption (ai_repoUrl input) else JUndef)),
        (''branch'', jsonOfOption (ai_branch input)),
        (''buildContext'', jsonOfOption (ai_buildContext input)),
        (''dockerfilePath'', jsonOfOption (ai_dockerfilePath input))]"

section \<open>Key and value texts\<close>

text \<open>A line whose first \<open>=\<close> is missing or starts it is a name without a value.\<close>

definition keyValueLine :: "string \<Rightarrow> string \<times> string" where
  "keyValueLine line =
     (let key = takeWhile (\<lambda>c. c \<noteq> CHR ''='') line in
      if CHR ''='' \<notin> set line \<or> key = [] then (line, [])
      else (key, drop (length key + 1) line))"

definition parseKeyValueText :: "string option \<Rightarrow> string entries" where
  "parseKeyValueText value =
     (if trim (orDefault value []) = [] then []
      else
        fromEntries
          (map keyValueLine
            (filter (\<lambda>line. line \<noteq> [])
              (map trim (splitOn CHR 0x0A (the value))))))"

section \<open>The deployment form\<close>

record deployment_form =
  df_image :: "string option"
  df_buildId :: "string option"
  df_port :: string
  df_replicas :: string
  df_expose :: "bool option"
  df_envText :: "string option"
  df_secretsText :: "string option"

record deployment_values =
  dv_image :: "string option"
  dv_buildId :: "string option"
  dv_port :: int
  dv_replicas :: int
  dv_expose :: bool
  dv_envText :: "string option"
  dv_secretsText :: "string option"

definition createDeploymentSchema ::
  "(string \<Rightarrow> int option) \<Rightarrow> deployment_form \<Rightarrow> string list + deployment_values"
where
  "createDeploymentSchema number f =
     (case (positiveField number (df_port f), positiveField number (df_replicas f)) of
        (Some port, Some replicas) \<Rightarrow>
          Inr \<lparr> dv_image = df_image f, dv_buildId = df_buildId f, dv_port = port,
                dv_replicas = replicas, dv_expose = orDefault (df_expose f) False,
                dv_envText = df_envText f, dv_secretsText = df_secretsText f \<rparr>
      | (port, replicas) \<Rightarrow>
          Inl ((if port = None then [''port''] else []) @ (if replicas = None then [''replicas''] else [])))"

definition createDeploymentBody :: "deployment_values \<Rightarrow> json" where
  "createDeploymentBody input =
     definedMembers
       [(''image'', (if truthy (dv_image input) then jsonOfOption (dv_image input) else JUndef)),
        (''buildId'', (if truthy (dv_buildId input) then jsonOfOption (dv_buildId input) else JUndef)),
        (''port'', JNum (dv_port input)), (''replicas'', JNum (dv_replicas input)),
        (''expose'', JBool (dv_expose input)),
        (''env'', jsonOfStrings (parseKeyValueText (dv_envText input))),
        (''secrets'', jsonOfStrings (parseKeyValueText (dv_secretsText input)))]"

section \<open>Display\<close>

text \<open>\<open>Math.round(x / n)\<close> of whole numbers.\<close>

definition roundDiv :: "int \<Rightarrow> int \<Rightarrow> int" where
  "roundDiv x n = (2 * x + n) div (2 * n)"

definition timeAgo :: "(string \<Rightarrow> instant option) \<Rightarrow> instant \<Rightarrow> string option \<Rightarrow> string" where
  "timeAgo parse current value =
     (if \<not> truthy value then ''unknown''
      else
        (case parse (the value) of
           None \<Rightarrow> ''unknown''
         | Some t \<Rightarrow>
             (let minutes = max 0 (roundDiv (current - t) 60000) in
              if minutes < 1 then ''now''
              else if minutes < 60 then showInt minutes @ ''m ago''
              else
                (let hours = roundDiv minutes 60 in
                 if hours < 24 then showInt hours @ ''h ago''
                 else showInt (roundDiv hours 24) @ ''d ago''))))"

definition statusClass :: "string option \<Rightarrow> string" where
  "statusClass status =
     (let normalized = toLowerCase (orDefault status ''empty'') in
      if normalized = ''running'' \<or> normalized = ''succeeded'' then ''status-running''
      else if normalized = ''completed'' \<or> normalized = ''available'' then ''status-completed''
      else if normalized = ''pending'' \<or> normalized = ''creating'' then ''status-pending''
      else if normalized = ''warning'' then ''status-warning''
      else if normalized = ''failed'' \<or> normalized = ''error'' then ''status-error''
      else if normalized = ''critical'' then ''status-critical''
      else if normalized = ''stopped'' then ''status-stopped''
      else if normalized = ''deleted'' then ''status-deleted''
      else if normalized = ''resolved'' then ''status-resolved''
      else ''status-empty'')"

section \<open>What the forms send is accepted\<close>

lemma findSomeD: "find P xs = Some x \<Longrightarrow> P x \<and> x \<in> set xs"
  by (auto simp: find_Some_iff)

lemma member_definedMembers:
  "distinct (keys kvs) \<Longrightarrow>
   member (definedMembers kvs) k = (case map_of kvs k of None \<Rightarrow> JUndef | Some v \<Rightarrow> v)"
proof (induction kvs)
  case (Cons kv kvs)
  have "map_of (filter (\<lambda>kv. snd kv \<noteq> JUndef) kvs) (fst kv) = None"
    using Cons.prems by (auto simp: map_of_eq_None_iff)
  with Cons show ?case by (cases kv) (auto simp: definedMembers_def)
qed (simp add: definedMembers_def)

lemma onlyMembers_definedMembers:
  "list_all (\<lambda>kv. fst kv \<in> set names) kvs \<Longrightarrow> onlyMembers names (definedMembers kvs) = Inr ()"
  by (auto simp: onlyMembers_def definedMembers_def list_all_iff find_None_iff split: option.split
      dest!: findSomeD)

lemma optionalField_string [simp]: "optionalField stringField (jsonOfOption x) = Inr x"
  by (cases x) (simp_all add: optionalField_def)

lemma optionalField_undef [simp]: "optionalField f JUndef = Inr None"
  by (simp add: optionalField_def)

lemma stringsField_strings [simp]:
  "optionalField stringsField (jsonOfStrings kvs) = Inr (Some kvs)"
proof -
  have "map (\<lambda>(k, x). (k, stringOf x)) (map (\<lambda>(k, v). (k, JStr v)) kvs) = kvs"
    by (induction kvs) auto
  then show ?thesis by (simp add: optionalField_def stringsField_def jsonOfStrings_def)
qed

lemma positiveField_Some: "positiveField number s = Some n \<longleftrightarrow> number s = Some n \<and> 0 < n"
  by (auto simp: positiveField_def split: option.splits)

lemma createAppSchema_Inr:
  assumes "createAppSchema number isUrl f = Inr input"
  shows "isSlug (af_name f)" "af_displayName f \<noteq> []" "af_sourceType f = ''image'' \<or> af_sourceType f = ''git''"
    "case af_defaultPort f of None \<Rightarrow> ai_defaultPort input = None
       | Some s \<Rightarrow> \<exists>n > 0. number s = Some n \<and> ai_defaultPort input = Some n"
    "ai_name input = af_name f" "ai_displayName input = af_displayName f"
    "ai_sourceType input = af_sourceType f" "ai_repoUrl input = af_repoUrl f"
  using assms
  by (auto simp: createAppSchema_def Let_def positiveField_Some split: if_splits option.splits)

text \<open>
  The app form and the server agree: an input the form accepts, with an https address or none, is
  accepted by the server with the values of the form; its name is a slug and its port, when given,
  the positive number typed.
\<close>

theorem app_form_accepted:
  assumes "createAppSchema number isUrl f = Inr input"
    and "\<And>u. af_repoUrl f = Some u \<Longrightarrow> u \<noteq> [] \<Longrightarrow> isHttpsUrl u"
  shows "\<exists>dto. createAppDto isHttpsUrl (createAppBody input) = Inr dto
    \<and> ca_name dto = af_name f \<and> isSlug (ca_name dto) \<and> ca_displayName dto = af_displayName f
    \<and> ca_sourceType dto = Some (if af_sourceType f = ''git'' then SourceGit else SourceImage)
    \<and> ca_defaultPort dto = Option.bind (af_defaultPort f) number
    \<and> (\<forall>n. ca_defaultPort dto = Some n \<longrightarrow> 0 < n)
    \<and> ca_repoUrl dto = (if truthy (af_repoUrl f) then af_repoUrl f else None)"
proof -
  note f = createAppSchema_Inr [OF assms(1)]
  have pos: "0 < n" if "ai_defaultPort input = Some n" for n
    using f(4) that by (cases "af_defaultPort f") auto
  then have port: "optionalField (intField 1) (case ai_defaultPort input of None \<Rightarrow> JUndef
      | Some n \<Rightarrow> if n = 0 then JUndef else JNum n) = Inr (ai_defaultPort input)"
    by (force simp: optionalField_def intField_def split: option.split)
  have url: "optionalField (urlField isHttpsUrl) (if truthy (ai_repoUrl input)
      then jsonOfOption (ai_repoUrl input) else JUndef)
      = Inr (if truthy (af_repoUrl f) then af_repoUrl f else None)"
    using assms(2) f(8)
    by (cases "af_repoUrl f") (auto simp: optionalField_def urlField_def truthy_def)
  have src: "optionalField (enumField [(''image'', SourceImage), (''git'', SourceGit)]) (JStr (ai_sourceType input))
      = Inr (Some (if af_sourceType f = ''git'' then SourceGit else SourceImage))"
    using f(3,7) by (auto simp: optionalField_def enumField_def)
  have body: "createAppDto isHttpsUrl (createAppBody input) = Inr
      \<lparr> ca_name = ai_name input, ca_displayName = ai_displayName input,
        ca_sourceType = Some (if af_sourceType f = ''git'' then SourceGit else SourceImage),
        ca_image = ai_image input, ca_defaultPort = ai_defaultPort input,
        ca_repoUrl = (if truthy (af_repoUrl f) then af_repoUrl f else None),
        ca_branch = ai_branch input, ca_buildContext = ai_buildContext input,
        ca_dockerfilePath = ai_dockerfilePath input \<rparr>"
    unfolding createAppDto_def createAppBody_def
    by (simp add: onlyMembers_definedMembers member_definedMembers port url src)
  have "ai_defaultPort input = Option.bind (af_defaultPort f) number"
    using f(4) by (auto split: option.splits)
  with body f(1,5,6) pos show ?thesis
    by simp
qed

lemma blank_port_refused:
  "af_defaultPort f = Some [] \<Longrightarrow> number [] = Some 0 \<Longrightarrow>
   \<exists>issues. createAppSchema number isUrl f = Inl issues \<and> ''defaultPort'' \<in> set issues"
  by (simp add: createAppSchema_def positiveField_def Let_def)

lemma other_url_refused:
  assumes "createAppSchema number isUrl f = Inr input" "af_repoUrl f = Some u" "u \<noteq> []" "\<not> isHttpsUrl u"
  shows "\<exists>m. createAppDto isHttpsUrl (createAppBody input) = Inl (BadRequest m)"
proof -
  note f = createAppSchema_Inr [OF assms(1)]
  have port: "\<exists>p. optionalField (intField 1) (case ai_defaultPort input of None \<Rightarrow> JUndef
      | Some n \<Rightarrow> if n = 0 then JUndef else JNum n) = Inr p"
    using f(4) by (cases "af_defaultPort f") (auto simp: optionalField_def intField_def)
  have src: "\<exists>t. optionalField (enumField [(''image'', SourceImage), (''git'', SourceGit)])
      (JStr (ai_sourceType input)) = Inr t"
    using f(3,7) by (auto simp: optionalField_def enumField_def)
  have url: "optionalField (urlField isHttpsUrl) (if truthy (ai_repoUrl input)
      then jsonOfOption (ai_repoUrl input) else JUndef) = Inl (BadRequest ''must be a URL address'')"
    using assms(2-4) f(8) by (simp add: optionalField_def urlField_def truthy_def)
  from port src show ?thesis
    unfolding createAppDto_def createAppBody_def
    by (auto simp: onlyMembers_definedMembers member_definedMembers url)
qed

text \<open>
  Where the app form and the server do not agree: an empty port field makes the form refuse every
  input, though the port is optional (\<open>Number("")\<close> is zero); and an address the form accepts but the
  server does not, such as one with http, is refused by the server with status 400.
\<close>

theorem app_form_gaps:
  "(af_defaultPort f = Some [] \<and> number [] = Some 0 \<longrightarrow>
      (\<exists>issues. createAppSchema number isUrl f = Inl issues \<and> ''defaultPort'' \<in> set issues))
   \<and> (createAppSchema number isUrl f = Inr input \<and> af_repoUrl f = Some u \<and> u \<noteq> [] \<and> \<not> isHttpsUrl u \<longrightarrow>
      (\<exists>m. createAppDto isHttpsUrl (createAppBody input) = Inl (BadRequest m)))"
  using blank_port_refused other_url_refused by blast

text \<open>
  The deployment form and the server agree on every input: what the form accepts the server
  accepts, with the port and the replica count typed, both positive, and with the environment and the
  secrets written in the text fields.
\<close>

theorem deployment_form_accepted:
  assumes "createDeploymentSchema number f = Inr input"
  shows "\<exists>dto. createDeploymentDto (createDeploymentBody input) = Inr dto
    \<and> cd_port dto = number (df_port f) \<and> cd_replicas dto = number (df_replicas f)
    \<and> (\<exists>p r. cd_port dto = Some p \<and> cd_replicas dto = Some r \<and> 0 < p \<and> 0 < r)
    \<and> cd_expose dto = orDefault (df_expose f) False
    \<and> cd_image dto = (if truthy (df_image f) then df_image f else None)
    \<and> cd_buildId dto = (if truthy (df_buildId f) then df_buildId f else None)
    \<and> cd_env dto = Some (parseKeyValueText (df_envText f))
    \<and> cd_secrets dto = Some (parseKeyValueText (df_secretsText f))"
proof -
  from assms obtain p r where pr: "number (df_port f) = Some p" "0 < p" "number (df_replicas f) = Some r" "0 < r"
    and input: "dv_image input = df_image f" "dv_buildId input = df_buildId f" "dv_port input = p"
      "dv_replicas input = r" "dv_expose input = orDefault (df_expose f) False"
      "dv_envText input = df_envText f" "dv_secretsText input = df_secretsText f"
    by (auto simp: createDeploymentSchema_def positiveField_Some split: option.splits)
  have str: "optionalField stringField (if truthy x then jsonOfOption x else JUndef)
      = Inr (if truthy x then x else None)" for x by simp
  have num: "optionalField (intField 1) (JNum n) = Inr (Some n)" if "0 < n" for n
    using that by (simp add: optionalField_def intField_def)
  have flag: "optionalField boolField (JBool b) = Inr (Some b)" for b
    by (simp add: optionalField_def)
  show ?thesis
    unfolding createDeploymentDto_def createDeploymentBody_def
    using pr by (simp add: onlyMembers_definedMembers member_definedMembers str num flag input)
qed

section \<open>Key and value texts are read back\<close>

lemma dropWhile_keeps: "c \<in> set s \<Longrightarrow> \<not> P c \<Longrightarrow> c \<in> set (dropWhile P s)"
  by (induction s) auto

lemma trim_keeps: "c \<in> set s \<Longrightarrow> \<not> isSpace c \<Longrightarrow> c \<in> set (trim s)"
  by (simp add: trim_def dropWhile_keeps)

lemma trim_id:
  assumes "s \<noteq> []" "\<not> isSpace (hd s)" "\<not> isSpace (last s)"
  shows "trim s = s"
proof -
  have "dropWhile isSpace s = s" using assms(1,2) by (cases s) simp_all
  moreover have "dropWhile isSpace (rev s) = rev s"
    using assms(1,3) by (cases s rule: rev_cases) simp_all
  ultimately show ?thesis by (simp add: trim_def)
qed

text \<open>What can be written on one line and read back: a name and a value.\<close>

definition lineEntry :: "string \<times> string \<Rightarrow> bool" where
  "lineEntry kv \<longleftrightarrow>
     fst kv \<noteq> [] \<and> CHR ''='' \<notin> set (fst kv) \<and> CHR 0x0A \<notin> set (fst kv) \<and> \<not> isSpace (hd (fst kv))
     \<and> CHR 0x0A \<notin> set (snd kv) \<and> (snd kv = [] \<or> \<not> isSpace (last (snd kv)))"

definition lineOf :: "string \<times> string \<Rightarrow> string" where
  "lineOf kv = fst kv @ CHR ''='' # snd kv"

lemma isSpace_equals: "\<not> isSpace CHR ''=''"
  by code_simp

lemma lineOf_facts:
  assumes "lineEntry kv"
  shows "trim (lineOf kv) = lineOf kv" "keyValueLine (lineOf kv) = kv" "CHR 0x0A \<notin> set (lineOf kv)"
    "lineOf kv \<noteq> []" "CHR ''='' \<in> set (lineOf kv)"
proof -
  have key: "takeWhile (\<lambda>c. c \<noteq> CHR ''='') (lineOf kv) = fst kv"
    using assms by (simp add: lineOf_def lineEntry_def takeWhile_append)
  show "keyValueLine (lineOf kv) = kv"
    using assms unfolding keyValueLine_def key Let_def by (simp add: lineOf_def lineEntry_def)
  show "trim (lineOf kv) = lineOf kv"
    using assms isSpace_equals by (intro trim_id) (auto simp: lineOf_def lineEntry_def)
  show "CHR 0x0A \<notin> set (lineOf kv)" "lineOf kv \<noteq> []" "CHR ''='' \<in> set (lineOf kv)"
    using assms isSpace_equals by (auto simp: lineOf_def lineEntry_def)
qed

lemma spec_Some: "orDefault (Some x) d = x"
  by (simp add: orDefault_def)

lemma set_joinWith: "p \<in> set ps \<Longrightarrow> set p \<subseteq> set (joinWith sep ps)"
  by (induction sep ps rule: joinWith.induct) auto

text \<open>
  Settings written in a text field as lines with a name, an equals sign and a value are read back
  as the same names with the same values, in their order, whatever else the values contain.
\<close>

theorem key_values_roundtrip:
  assumes "distinct (keys kvs)" and "\<forall>kv \<in> set kvs. lineEntry kv"
  shows "parseKeyValueText (Some (joinWith [CHR 0x0A] (map lineOf kvs))) = kvs"
proof (cases "kvs = []")
  case True
  then show ?thesis by (simp add: parseKeyValueText_def orDefault_def trim_def)
next
  case False
  let ?text = "joinWith [CHR 0x0A] (map lineOf kvs)"
  have lines: "splitOn CHR 0x0A ?text = map lineOf kvs"
    using False assms(2) lineOf_facts(3) by (intro splitOn_joinWith) auto
  have same: "map trim (map lineOf kvs) = map lineOf kvs" "map keyValueLine (map lineOf kvs) = kvs"
    "filter (\<lambda>line. line \<noteq> []) (map lineOf kvs) = map lineOf kvs"
    using assms(2) lineOf_facts by (auto simp: map_idI intro!: filter_True)
  have "CHR ''='' \<in> set ?text"
    using False assms(2) lineOf_facts(5) set_joinWith [of "lineOf (hd kvs)" "map lineOf kvs" "[CHR 0x0A]"]
    by fastforce
  then have "trim ?text \<noteq> []" using trim_keeps [OF _ isSpace_equals] by fastforce
  then show ?thesis
    using assms(1)
    by (simp only: parseKeyValueText_def spec_Some lines same fromEntries_distinct if_False option.sel)
qed

section \<open>Witnesses\<close>

definition sampleNumber :: "string \<Rightarrow> int option" where
  "sampleNumber s = (if s = [] then Some 0 else Some (int (readNat s)))"

definition sampleForm :: app_form where
  "sampleForm =
     \<lparr> af_name = ''orders-api'', af_displayName = ''Orders'', af_sourceType = ''git'', af_image = None,
       af_defaultPort = Some ''8080'', af_repoUrl = Some ''https://x/r'', af_branch = Some ''main'',
       af_buildContext = Some ''.'', af_dockerfilePath = None \<rparr>"

lemma sampleForm_accepted:
  "\<exists>input. createAppSchema sampleNumber (\<lambda>_. True) (sampleForm\<lparr>af_repoUrl := u\<rparr>) = Inr input"
proof -
  have "isSlug ''orders-api''" "sampleNumber ''8080'' = Some 8080" by code_simp+
  then show ?thesis by (simp add: createAppSchema_def sampleForm_def positiveField_def split: option.split)
qed

theorem app_form_accepted_witness:
  "\<exists>input dto. createAppSchema sampleNumber (\<lambda>_. True) (sampleForm\<lparr>af_repoUrl := Some ''https://x/r''\<rparr>) = Inr input
     \<and> createAppDto (\<lambda>_. True) (createAppBody input) = Inr dto \<and> ca_sourceType dto = Some SourceGit"
proof -
  obtain input where run: "createAppSchema sampleNumber (\<lambda>_. True)
      (sampleForm\<lparr>af_repoUrl := Some ''https://x/r''\<rparr>) = Inr input"
    using sampleForm_accepted by blast
  from app_form_accepted [OF run, of "\<lambda>_. True"] run show ?thesis by (auto simp: sampleForm_def)
qed

theorem app_form_gaps_witness:
  "(\<exists>issues. createAppSchema sampleNumber (\<lambda>_. True) (sampleForm\<lparr>af_defaultPort := Some []\<rparr>) = Inl issues
      \<and> ''defaultPort'' \<in> set issues)
   \<and> (\<exists>input m. createAppSchema sampleNumber (\<lambda>_. True) (sampleForm\<lparr>af_repoUrl := Some ''http://x''\<rparr>) = Inr input
      \<and> createAppDto (\<lambda>s. startsWith s ''https'') (createAppBody input) = Inl (BadRequest m))"
proof -
  obtain input where run: "createAppSchema sampleNumber (\<lambda>_. True)
      (sampleForm\<lparr>af_repoUrl := Some ''http://x''\<rparr>) = Inr input"
    using sampleForm_accepted by blast
  have "\<not> startsWith ''http://x'' ''https''" by code_simp
  moreover have "sampleNumber [] = Some 0" by (simp add: sampleNumber_def)
  ultimately show ?thesis
    using run app_form_gaps [of "sampleForm\<lparr>af_repoUrl := Some ''http://x''\<rparr>" sampleNumber "\<lambda>_. True" input
        "''http://x''" "\<lambda>s. startsWith s ''https''"]
      app_form_gaps [of "sampleForm\<lparr>af_defaultPort := Some []\<rparr>" sampleNumber "\<lambda>_. True"]
    by auto
qed

theorem deployment_form_accepted_witness:
  "\<exists>input dto. createDeploymentSchema sampleNumber
       \<lparr> df_image = Some ''nginx'', df_buildId = Some [], df_port = ''80'', df_replicas = ''2'',
         df_expose = Some True, df_envText = Some ''A=1'', df_secretsText = None \<rparr> = Inr input
     \<and> createDeploymentDto (createDeploymentBody input) = Inr dto \<and> cd_port dto = Some 80"
proof -
  let ?f = "\<lparr> df_image = Some ''nginx'', df_buildId = Some [], df_port = ''80'', df_replicas = ''2'',
      df_expose = Some True, df_envText = Some ''A=1'', df_secretsText = None \<rparr>"
  have n: "sampleNumber ''80'' = Some 80" "sampleNumber ''2'' = Some 2" by code_simp+
  then obtain input where run: "createDeploymentSchema sampleNumber ?f = Inr input"
    by (simp add: createDeploymentSchema_def positiveField_def)
  from deployment_form_accepted [OF run] run n show ?thesis by auto
qed

theorem key_values_roundtrip_witness:
  "parseKeyValueText (Some (joinWith [CHR 0x0A] (map lineOf [(''A'', ''x=1''), (''B'', [])])))
     = [(''A'', ''x=1''), (''B'', [])]"
proof (rule key_values_roundtrip)
  show "\<forall>kv \<in> set [(''A'', ''x=1''), (''B'', [])]. lineEntry kv"
    by code_simp
qed simp

end
