(* ===== verification/Console.thy ===== *)
theory Console
  imports Client Forms
begin

text \<open>
  The pages of the frontend: ui/pages.tsx, ui/shell.tsx, ui/components.tsx and router.tsx. A page is
  the list of the API calls its queries make, and a function from their states to the list of what
  it shows, in its order: texts, cards, rows of tables, links, and buttons with the API call
  they make. Layout, icons and styles are left out, and the cells of a table are texts. Data of the API is JSON, as the schemas of Client admit it.
\<close>

section \<open>Components\<close>

record query =
  q_loading :: bool
  q_error :: "string option"
  q_data :: json

datatype item =
    Skeleton
  | ErrorBox string
  | PageHeader string string string \<comment> \<open>eyebrow, title and description, empty when there is none\<close>
  | Heading string
  | Note string
  | EmptyBox string string
  | Card string string string \<comment> \<open>label, value and caption, empty when there is none\<close>
  | Badge string string
  | Header "string list"
  | Row "string list" "string option"
  | Anchor string string
  | Button string api_call
  | LogoutButton string
  | Choice string "string list"
  | Input string
  | FieldError string
  | LogLines "string list"
  | Dump json

definition permissionGate :: "string list \<Rightarrow> string \<Rightarrow> 'a list \<Rightarrow> 'a list" where
  "permissionGate permissions require children = (if require \<in> set permissions then children else [])"

definition dataTable ::
  "json list \<Rightarrow> (string \<times> (json \<Rightarrow> string)) list \<Rightarrow> (json \<Rightarrow> string) option \<Rightarrow> item list"
where
  "dataTable rows columns getHref =
     Header (map fst columns)
     # map (\<lambda>row. Row (map (\<lambda>(_, render). render row) columns) (map_option (\<lambda>f. f row) getHref)) rows"

definition statusBadge :: "json \<Rightarrow> item" where
  "statusBadge status =
     (case asStr status of
        Some s \<Rightarrow> Badge (statusClass (Some s)) s
      | None \<Rightarrow> Badge (statusClass None) ''unknown'')"

definition statusCard :: "string \<Rightarrow> json \<Rightarrow> item list" where
  "statusCard label status = [Card label [] [], statusBadge status]"

definition field :: "string \<Rightarrow> string option \<Rightarrow> item list" where
  "field label err = Input label # (case err of None \<Rightarrow> [] | Some m \<Rightarrow> [FieldError m])"

definition logBlock :: "string list \<Rightarrow> item" where
  "logBlock entries = (if entries = [] then Note ''No log lines returned.'' else LogLines entries)"

text \<open>\<open>row.k\<close>, \<open>row.k ?? d\<close> as texts, and the items of an array or none.\<close>

definition text_of :: "string \<Rightarrow> json \<Rightarrow> string" where
  "text_of k row = stringOf (member row k)"

definition text_or :: "string \<Rightarrow> string \<Rightarrow> json \<Rightarrow> string" where
  "text_or k d row = stringOf (orElse (member row k) (JStr d))"

definition countOf :: "query \<Rightarrow> string" where
  "countOf q = showInt (int (length (asItems (q_data q))))"

definition sourceTarget :: "string \<Rightarrow> json \<Rightarrow> string" where
  "sourceTarget d a = stringOf (orElse (orElse (member a ''repoUrl'') (member a ''image'')) (JStr d))"

definition appHref :: "json \<Rightarrow> string" where
  "appHref a = ''/apps/'' @ text_of ''id'' a"

definition incidentHref :: "json \<Rightarrow> string" where
  "incidentHref i = ''/incidents/'' @ text_of ''id'' i"

text \<open>The permissions of \<open>useAuth()\<close>, none while they are not known.\<close>

definition permissionsOf :: "string list option \<Rightarrow> string list" where
  "permissionsOf auth = orDefault auth []"

section \<open>Dashboard and apps\<close>

definition loginView :: "item list" where
  "loginView =
     [Heading ''NexCause'',
      Note ''Deploy workloads, watch telemetry, and run RCA from one Kubernetes control plane.'',
      Anchor ''Sign in with Asgardeo'' ''/auth/login'']"

definition dashboardQueries :: "api_call list" where
  "dashboardQueries = [CallApps ListApps, CallIncidents (ListIncidents (Some ''open''))]"

definition dashboardView :: "(json \<Rightarrow> string) \<Rightarrow> query \<Rightarrow> query \<Rightarrow> item list" where
  "dashboardView ago appsQ incidentsQ =
     (if q_loading appsQ \<or> q_loading incidentsQ then [Skeleton]
      else
        (case q_error appsQ of
           Some m \<Rightarrow> [ErrorBox m]
         | None \<Rightarrow>
             [PageHeader ''Workspace'' ''Operational command center''
                ''A compact view of apps, incidents, and RCA activity across the active workspace.'',
              Anchor ''New app'' ''/apps/new'',
              Card ''Apps'' (countOf appsQ) [], Card ''Open incidents'' (countOf incidentsQ) [],
              Card ''Telemetry'' ''Live'' ''Prometheus/Loki/Tempo'',
              Card ''RCA agent'' ''Ready'' ''MCP-backed workflows'', Heading ''Recent apps'']
             @ (if asItems (q_data appsQ) \<noteq> []
                then dataTable (take 6 (asItems (q_data appsQ)))
                       [(''App'', text_of ''displayName''), (''Source'', text_of ''sourceType''),
                        (''Target'', sourceTarget ''not configured'')]
                       (Some appHref)
                else
                  [EmptyBox ''No apps yet''
                     (''Create the first app and NexCause will give you builds, deployments, ''
                      @ ''telemetry, and RCA from there.''),
                   Anchor ''Create app'' ''/apps/new''])
             @ [Heading ''Open incidents'']
             @ (if asItems (q_data incidentsQ) \<noteq> []
                then concat (map (\<lambda>i. [statusBadge (member i ''severity''),
                       Anchor (text_of ''title'' i) (incidentHref i), Note (ago (member i ''openedAt''))])
                       (take 5 (asItems (q_data incidentsQ))))
                else [Note ''No open incidents. Quiet clusters are underrated.''])))"

definition appsQueries :: "api_call list" where
  "appsQueries = [CallApps ListApps]"

definition appsView :: "string list option \<Rightarrow> query \<Rightarrow> item list" where
  "appsView auth appsQ =
     (if q_loading appsQ then [Skeleton]
      else
        (case q_error appsQ of
           Some m \<Rightarrow> [ErrorBox m]
         | None \<Rightarrow>
             PageHeader [] ''Apps'' ''Each app owns builds, deployments, telemetry, incidents, and RCA runs.''
             # permissionGate (permissionsOf auth) ''apps:create'' [Anchor ''Create app'' ''/apps/new'']
             @ (if asItems (q_data appsQ) \<noteq> []
                then dataTable (asItems (q_data appsQ))
                       [(''Name'', text_of ''displayName''), (''Slug'', text_of ''name''),
                        (''Source'', text_of ''sourceType''), (''Port'', text_or ''defaultPort'' ''none''),
                        (''Repository/Image'', sourceTarget ''not configured'')]
                       (Some appHref)
                else
                  [EmptyBox ''No apps''
                     ''Create a git-backed or image-backed app to start deploying workloads.''])))"

text \<open>
  The form submits only an input the schema accepts. Of the refused fields only the names are shown
  with an error, and only for the first two.
\<close>

definition createAppView ::
  "(string \<Rightarrow> int option) \<Rightarrow> (string \<Rightarrow> bool) \<Rightarrow> app_form \<Rightarrow> string option \<Rightarrow> item list"
where
  "createAppView number isUrl f createError =
     (let (issues, submit) =
        (case createAppSchema number isUrl f of
           Inl issues \<Rightarrow> (issues, [])
         | Inr input \<Rightarrow> ([], [Button ''Create app'' (CallApps (CreateApp (createAppBody input)))]));
        issue = (\<lambda>k. if k \<in> set issues then Some k else None)
      in
        PageHeader [] ''Create app'' ''Define the source NexCause will build or deploy.''
        # field ''Name'' (issue ''name'') @ field ''Display name'' (issue ''displayName'')
        @ [Choice ''Source type'' [''image'', ''git'']]
        @ (if af_sourceType f = ''image'' then field ''Image'' None
           else field ''Repository URL'' None @ field ''Branch'' None @ field ''Build context'' None
             @ field ''Dockerfile'' None)
        @ field ''Default port'' None
        @ (case createError of None \<Rightarrow> [] | Some m \<Rightarrow> [ErrorBox m])
        @ submit)"

text \<open>After the app was created: \<open>navigate(`/apps/${app.id}`)\<close>.\<close>

definition createdAppHref :: "json \<Rightarrow> string" where
  "createdAppHref = appHref"

definition buildsTable :: "(json \<Rightarrow> string) \<Rightarrow> string \<Rightarrow> json list \<Rightarrow> item list" where
  "buildsTable ago appId buildsQ =
     (if buildsQ = [] then [Note ''No builds yet.'']
      else dataTable buildsQ
             [(''Status'', text_of ''status''), (''Strategy'', text_of ''strategy''),
              (''Branch'', text_or ''branch'' ''main''), (''Updated'', \<lambda>b. ago (member b ''updatedAt''))]
             (Some (\<lambda>b. ''/apps/'' @ appId @ ''/builds/'' @ text_of ''id'' b)))"

definition deploymentsTable :: "string \<Rightarrow> json list \<Rightarrow> item list" where
  "deploymentsTable appId deploymentsQ =
     (if deploymentsQ = [] then [Note ''No deployments yet.'']
      else dataTable deploymentsQ
             [(''Status'', text_of ''status''), (''Kubernetes'', text_of ''kubernetesDeployment''),
              (''Image'', text_of ''image''),
              (''Exposure'', \<lambda>d. if truthyJson (member d ''publicHostname'') then ''public'' else ''internal'')]
             (Some (\<lambda>d. ''/apps/'' @ appId @ ''/deployments/'' @ text_of ''id'' d)))"

text \<open>Builds can be chosen once their stored status is succeeded.\<close>

definition deployableBuilds :: "json list \<Rightarrow> json list" where
  "deployableBuilds buildsQ = filter (\<lambda>b. member b ''status'' = JStr ''succeeded'') buildsQ"

definition createDeploymentPanel ::
  "(string \<Rightarrow> int option) \<Rightarrow> string \<Rightarrow> json list \<Rightarrow> string list \<Rightarrow> deployment_form \<Rightarrow> string option \<Rightarrow> item list"
where
  "createDeploymentPanel number appId buildsQ permissions f createError =
     permissionGate permissions ''deployments:write''
       (Heading ''Create deployment'' # Input ''Image override''
        # Choice ''buildId''
          (''No build'' # map (\<lambda>b. take 8 (text_of ''id'' b) @ '' '' @ text_of ''image'' b) (deployableBuilds buildsQ))
        # map Input [''port'', ''replicas'', ''Public HTTPS exposure'', ''envText'', ''secretsText'']
        @ (case createError of None \<Rightarrow> [] | Some m \<Rightarrow> [Note m])
        @ (case createDeploymentSchema number f of
             Inl _ \<Rightarrow> []
           | Inr input \<Rightarrow>
               [Button ''Deploy'' (CallDeployments (CreateDeployment appId (createDeploymentBody input)))]))"

definition appDetailQueries :: "string \<Rightarrow> api_call list" where
  "appDetailQueries appId =
     [CallApps (GetApp appId), CallBuilds (ListBuilds appId), CallDeployments (ListDeployments appId)]"

definition appDetailView ::
  "(string \<Rightarrow> int option) \<Rightarrow> (json \<Rightarrow> string) \<Rightarrow> string \<Rightarrow> string list option \<Rightarrow> query \<Rightarrow> query \<Rightarrow> query
   \<Rightarrow> deployment_form \<Rightarrow> string option \<Rightarrow> item list"
where
  "appDetailView number ago appId auth app buildsQ deploymentsQ f createError =
     (if q_loading app then [Skeleton]
      else
        (case q_error app of
           Some m \<Rightarrow> [ErrorBox m]
         | None \<Rightarrow>
             (if q_data app = JUndef then []
              else
                [PageHeader (text_of ''sourceType'' (q_data app)) (text_of ''displayName'' (q_data app))
                   (sourceTarget ''No source configured'' (q_data app))]
                @ (if member (q_data app) ''sourceType'' = JStr ''git''
                   then permissionGate (permissionsOf auth) ''builds:start''
                          [Button ''Start build'' (CallBuilds (CreateBuild appId (JObj [])))]
                   else [])
                @ [Card ''Default port'' (text_or ''defaultPort'' ''none'' (q_data app)) [],
                   Card ''Builds'' (countOf buildsQ) [], Card ''Deployments'' (countOf deploymentsQ) [],
                   Heading ''Builds'']
                @ buildsTable ago appId (asItems (q_data buildsQ))
                @ [Heading ''Deployments'']
                @ createDeploymentPanel number (text_of ''id'' (q_data app)) (asItems (q_data buildsQ))
                    (permissionsOf auth) f createError
                @ deploymentsTable appId (asItems (q_data deploymentsQ)))))"

section \<open>Builds and deployments\<close>

definition buildDetailQueries :: "string \<Rightarrow> api_call list" where
  "buildDetailQueries buildId = [CallBuilds (GetBuild buildId), CallBuilds (GetBuildLogs buildId)]"

text \<open>How often the build is asked for again, in milliseconds.\<close>

definition buildRefetchInterval :: "json \<Rightarrow> int option" where
  "buildRefetchInterval build =
     (if stringOf (member build ''status'') \<in> set [''pending'', ''running''] then Some 5000 else None)"

definition buildDetailView :: "(json \<Rightarrow> string) \<Rightarrow> string \<Rightarrow> query \<Rightarrow> query \<Rightarrow> item list" where
  "buildDetailView ago appId build logs =
     (if q_loading build then [Skeleton]
      else
        (case q_error build of
           Some m \<Rightarrow> [ErrorBox m]
         | None \<Rightarrow>
             (if q_data build = JUndef then []
              else
                [PageHeader [] (''Build '' @ take 8 (text_of ''id'' (q_data build)))
                   (text_of ''strategy'' (q_data build) @ '' build for branch ''
                     @ text_or ''branch'' ''unknown'' (q_data build)),
                 Anchor ''Back to app'' (''/apps/'' @ appId)]
                @ statusCard ''Status'' (member (q_data build) ''status'')
                @ [Card ''Image'' (text_or ''image'' ''pending'' (q_data build)) [],
                   Card ''Context'' (text_or ''buildContext'' ''.'' (q_data build)) [],
                   Card ''Updated'' (ago (member (q_data build) ''updatedAt'')) [],
                   Heading ''Build logs'',
                   logBlock (map (\<lambda>i. text_of ''podName'' i @ [CHR 0x0A] @ text_of ''logs'' i)
                     (asItems (q_data logs)))])))"

definition deploymentDetailQueries :: "string \<Rightarrow> string \<Rightarrow> api_call list" where
  "deploymentDetailQueries appId deploymentId =
     [CallDeployments (ListDeployments appId), CallTelemetry (Overview appId deploymentId)]"

datatype deployment_action = ActRestart | ActStop | ActStart | ActDelete

fun deploymentAction :: "string \<Rightarrow> deployment_action \<Rightarrow> api_call" where
  "deploymentAction i ActRestart = CallDeployments (RestartDeployment i)"
| "deploymentAction i ActStop = CallDeployments (StopDeployment i)"
| "deploymentAction i ActStart = CallDeployments (StartDeployment i None)"
| "deploymentAction i ActDelete = CallDeployments (DeleteDeployment i)"

definition deploymentButtons :: "string list option \<Rightarrow> string \<Rightarrow> json \<Rightarrow> item list" where
  "deploymentButtons auth deploymentId status =
     permissionGate (permissionsOf auth) ''deployments:write''
       [Button ''Restart'' (deploymentAction deploymentId ActRestart),
        (if status = JStr ''stopped'' then Button ''Start'' (deploymentAction deploymentId ActStart)
         else Button ''Stop'' (deploymentAction deploymentId ActStop)),
        Button ''Delete deployment'' (deploymentAction deploymentId ActDelete)]"

text \<open>The address of a public deployment, or none.\<close>

definition publicAddress :: "json \<Rightarrow> string option" where
  "publicAddress d =
     (if truthyJson (member d ''publicUrl'') \<or> truthyJson (member d ''publicHostname'')
      then Some (stringOf (orElse (member d ''publicUrl'')
             (JStr (''https://'' @ text_of ''publicHostname'' d))))
      else None)"

definition deploymentDetailView ::
  "string \<Rightarrow> string \<Rightarrow> string list option \<Rightarrow> query \<Rightarrow> query \<Rightarrow> item list"
where
  "deploymentDetailView appId deploymentId auth listed over =
     (if q_loading listed then [Skeleton]
      else
        (case q_error listed of
           Some m \<Rightarrow> [ErrorBox m]
         | None \<Rightarrow>
             (case find (\<lambda>d. member d ''id'' = JStr deploymentId) (asItems (q_data listed)) of
                None \<Rightarrow> [ErrorBox ''Deployment was not found for this app.'']
              | Some d \<Rightarrow>
                  [PageHeader (text_of ''namespace'' d) (text_of ''kubernetesDeployment'' d) (text_of ''image'' d)]
                  @ deploymentButtons auth deploymentId (member d ''status'')
                  @ statusCard ''Status'' (member d ''status'')
                  @ [Card ''Replicas'' (text_of ''replicas'' d) [], Card ''Port'' (text_of ''port'' d) [],
                     (case publicAddress d of
                        Some address \<Rightarrow> Anchor ''Open'' address
                      | None \<Rightarrow> Card ''Public URL'' ''internal'' []),
                     Heading ''Overview'', Dump (orElse (q_data over) (JObj [])),
                     Heading ''RCA'',
                     Note ''Start an RCA run directly from this deployment when telemetry or events look suspicious.'',
                     Button ''Run RCA'' (CallRca (AnalyseDeployment deploymentId)),
                     Anchor ''View telemetry''
                       (''/apps/'' @ appId @ ''/deployments/'' @ deploymentId @ ''/telemetry'')])))"

section \<open>Telemetry\<close>

definition telemetryWindows :: "int list" where
  "telemetryWindows = [30, 60, 360]"

definition telemetryLevels :: "string list" where
  "telemetryLevels = [[], ''error'', ''warning'', ''info'']"

definition initialWindow :: int where
  "initialWindow = 60"

text \<open>The level chosen in the list, the empty one being none.\<close>

definition chosenLevel :: "string \<Rightarrow> string option" where
  "chosenLevel v = (if v = [] then None else Some v)"

definition telemetryQueries :: "string \<Rightarrow> string \<Rightarrow> int \<Rightarrow> string option \<Rightarrow> api_call list" where
  "telemetryQueries appId deploymentId windowMinutes logLevel =
     [CallTelemetry (Overview appId deploymentId),
      CallTelemetry (Metrics appId deploymentId windowMinutes),
      CallTelemetry (Logs appId deploymentId windowMinutes logLevel),
      CallTelemetry (Traces appId deploymentId windowMinutes),
      CallTelemetry (KubernetesView appId deploymentId windowMinutes)]"

definition chartData :: "(string \<Rightarrow> string) \<Rightarrow> json \<Rightarrow> (string \<times> json) list" where
  "chartData clockTime metricsData =
     (case asItems (member metricsData ''series'') of
        [] \<Rightarrow> []
      | first # _ \<Rightarrow> map (\<lambda>point. (clockTime (text_of ''timestamp'' point), member point ''value''))
          (asItems (member first ''values'')))"

definition telemetryView ::
  "(string \<Rightarrow> string) \<Rightarrow> int \<Rightarrow> query \<Rightarrow> query \<Rightarrow> query \<Rightarrow> query \<Rightarrow> query \<Rightarrow> item list"
where
  "telemetryView clockTime windowMinutes over metricsQ logsQ tracesQ kubernetesQ =
     PageHeader ''Telemetry'' ''Deployment observability''
       (''Metrics, logs, traces, Kubernetes status, and stored health samples scoped to one '' @ ''deployment.'')
     # Choice ''window'' (map (\<lambda>m. if m = 360 then ''6h'' else showInt m @ ''m'') telemetryWindows)
     # concat (map (\<lambda>(k, v). statusCard k v)
         (case member (q_data over) ''sourceStatus'' of JObj kvs \<Rightarrow> kvs | _ \<Rightarrow> []))
     @ [Heading ''Metrics'',
        Dump (JArr (map (\<lambda>(t, v). JObj [(''timestamp'', JStr t), (''value'', v)])
          (chartData clockTime (q_data metricsQ)))),
        Heading ''Logs'', Choice ''level'' telemetryLevels,
        logBlock (map (\<lambda>row. text_of ''timestamp'' row @ '' '' @ text_of ''podName'' row @ '' ''
            @ text_of ''level'' row @ '' '' @ text_of ''line'' row)
          (asItems (member (q_data logsQ) ''logs''))),
        Heading ''Traces'']
     @ dataTable (asItems (member (q_data tracesQ) ''traces''))
         [(''Trace'', text_of ''traceId''), (''Operation'', text_or ''rootOperation'' ''unknown''),
          (''Duration'',
           \<lambda>t. if truthyJson (member t ''durationMs'') then text_of ''durationMs'' t @ ''ms'' else ''n/a'')]
         None
     @ [Heading ''Kubernetes'', Dump (orElse (q_data kubernetesQ) (JObj []))]"

section \<open>Incidents and analyses\<close>

definition incidentChoices :: "string list" where
  "incidentChoices = [''open'', ''resolved'']"

definition incidentsQueries :: "string \<Rightarrow> api_call list" where
  "incidentsQueries status = [CallIncidents (ListIncidents (Some status))]"

definition incidentsView :: "(json \<Rightarrow> string) \<Rightarrow> query \<Rightarrow> item list" where
  "incidentsView ago listed =
     (if q_loading listed then [Skeleton]
      else
        (case q_error listed of
           Some m \<Rightarrow> [ErrorBox m]
         | None \<Rightarrow>
             [PageHeader [] ''Incidents'' ''Automatic and manual incidents that can feed RCA runs.'',
              Choice ''status'' incidentChoices]
             @ dataTable (asItems (q_data listed))
                 [(''Severity'', text_of ''severity''), (''Title'', text_of ''title''),
                  (''Source'', text_of ''source''), (''Opened'', \<lambda>i. ago (member i ''openedAt''))]
                 (Some incidentHref)))"

definition incidentDetailQueries :: "string \<Rightarrow> api_call list" where
  "incidentDetailQueries incidentId = [CallIncidents (GetIncident incidentId)]"

definition incidentDetailView :: "(json \<Rightarrow> string) \<Rightarrow> string \<Rightarrow> query \<Rightarrow> item list" where
  "incidentDetailView ago incidentId inc =
     (if q_loading inc then [Skeleton]
      else
        (case q_error inc of
           Some m \<Rightarrow> [ErrorBox m]
         | None \<Rightarrow>
             (if q_data inc = JUndef then []
              else
                [PageHeader (text_of ''source'' (q_data inc)) (text_of ''title'' (q_data inc))
                   (text_or ''summary'' ''No summary provided'' (q_data inc)),
                 Button ''Run RCA'' (CallRca (AnalyseIncident incidentId))]
                @ statusCard ''Severity'' (member (q_data inc) ''severity'')
                @ statusCard ''Status'' (member (q_data inc) ''status'')
                @ [Card ''Opened'' (ago (member (q_data inc) ''openedAt'')) [], Dump (q_data inc)])))"

definition rcaRunQueries :: "string \<Rightarrow> api_call list" where
  "rcaRunQueries runId = [CallRca (GetRun runId), CallRca (ListChat runId)]"

text \<open>The button is disabled while the message is blank, and so is the submission of the form.\<close>

definition rcaRunView :: "string \<Rightarrow> string \<Rightarrow> query \<Rightarrow> query \<Rightarrow> item list" where
  "rcaRunView runId message analysis chats =
     (if q_loading analysis then [Skeleton]
      else
        (case q_error analysis of
           Some m \<Rightarrow> [ErrorBox m]
         | None \<Rightarrow>
             [PageHeader [] (''RCA run '' @ take 8 runId) ''Agent findings, final report, and follow-up chat.'',
              Heading ''Report'', Dump (q_data analysis), Heading ''RCA chat'']
             @ map (\<lambda>c. Card (text_of ''role'' c) (text_of ''content'' c) []) (asItems (q_data chats))
             @ Input ''Ask a follow-up''
             # (if trim message = [] then [] else [Button ''Send'' (CallRca (SendChat runId message))])))"

section \<open>Settings\<close>

text \<open>While the permissions are not known \<open>enabled\<close> is \<open>undefined\<close>, by which a query is enabled.\<close>

definition settingsQueries :: "string list option \<Rightarrow> api_call list" where
  "settingsQueries auth =
     (case auth of
        None \<Rightarrow> [CallAuthMetrics]
      | Some ps \<Rightarrow> (if ''members:manage'' \<in> set ps then [CallAuthMetrics] else []))"

definition settingsView :: "json \<Rightarrow> query \<Rightarrow> item list" where
  "settingsView auth metricsQ =
     [PageHeader [] ''Settings'' ''Current user, workspace, roles, permissions, and session controls.'',
      Heading ''Identity'', Dump auth, LogoutButton ''Logout'', Heading ''Auth metrics'',
      Dump (orElse (q_data metricsQ) (JStr ''members:manage required''))]"

section \<open>The shell\<close>

definition navItems :: "(string \<times> string) list" where
  "navItems =
     [(''/'', ''Dashboard''), (''/apps'', ''Apps''), (''/incidents'', ''Incidents''),
      (''/rca-runs/latest'', ''RCA Runs''), (''/settings'', ''Settings'')]"

text \<open>Where the shell sends the browser, and what it shows around the page.\<close>

record shell =
  sh_redirect :: "(string \<times> string) option"
  sh_items :: "item list"

definition appShell ::
  "ui_config \<Rightarrow> bool \<Rightarrow> bool \<Rightarrow> exn option \<Rightarrow> json \<Rightarrow> string \<Rightarrow> item list \<Rightarrow> shell"
where
  "appShell cfg routeError loading authError auth pathname page =
     (let signedOut = (case authError of Some e \<Rightarrow> isUnauthorized e | None \<Rightarrow> False) in
      \<lparr> sh_redirect = (if signedOut then Some (''/login'', pathname) else None),
        sh_items =
          (if loading then [Skeleton]
           else if authError \<noteq> None \<and> \<not> signedOut then [ErrorBox (errorMessage (the authError))]
           else
             map (\<lambda>(to, label). Anchor label (if to = ''/rca-runs/latest'' then ''/incidents'' else to)) navItems
             @ [Note (deployEnvironment cfg),
                Note (stringOf (orElse (path auth [''workspace'', ''organizationId''])
                  (JStr ''workspace pending''))),
                Note (stringOf (orElse (orElse (path auth [''user'', ''displayName''])
                  (path auth [''user'', ''email''])) (JStr ''Operator''))),
                Note (let roles = joinWith '', '' (map stringOf (asItems (member auth ''roles''))) in
                      if roles = [] then ''viewer'' else roles)]
             @ (if routeError
                then [ErrorBox ''The route failed to render. Check the console and retry.'']
                else page)) \<rparr>)"

section \<open>Routes\<close>

datatype page =
    LoginPage
  | DashboardPage
  | AppsPage
  | CreateAppPage
  | AppDetailPage string
  | BuildDetailPage string string
  | DeploymentDetailPage string string
  | TelemetryPage string string
  | IncidentsPage
  | IncidentDetailPage string
  | RcaRunPage string
  | SettingsPage

text \<open>The pattern of a page in the router and its parameters; any other path leads to the dashboard.\<close>

fun pageRoute :: "page \<Rightarrow> string \<times> string list" where
  "pageRoute LoginPage = (''/login'', [])"
| "pageRoute DashboardPage = (''/'', [])"
| "pageRoute AppsPage = (''/apps'', [])"
| "pageRoute CreateAppPage = (''/apps/new'', [])"
| "pageRoute (AppDetailPage a) = (''/apps/:appId'', [a])"
| "pageRoute (BuildDetailPage a b) = (''/apps/:appId/builds/:buildId'', [a, b])"
| "pageRoute (DeploymentDetailPage a d) = (''/apps/:appId/deployments/:deploymentId'', [a, d])"
| "pageRoute (TelemetryPage a d) = (''/apps/:appId/deployments/:deploymentId/telemetry'', [a, d])"
| "pageRoute IncidentsPage = (''/incidents'', [])"
| "pageRoute (IncidentDetailPage i) = (''/incidents/:incidentId'', [i])"
| "pageRoute (RcaRunPage r) = (''/rca-runs/:runId'', [r])"
| "pageRoute SettingsPage = (''/settings'', [])"

definition pagePath :: "page \<Rightarrow> string" where
  "pagePath p = (case pageRoute p of (pattern, args) \<Rightarrow> fillPath pattern args)"

section \<open>What the console does\<close>

text \<open>The calls the pages make to be shown, and the items they show, for some permissions.\<close>

inductive queried :: "string list option \<Rightarrow> api_call \<Rightarrow> bool" for auth where
  me: "queried auth CallMe"
| dashboard: "c \<in> set dashboardQueries \<Longrightarrow> queried auth c"
| apps: "c \<in> set appsQueries \<Longrightarrow> queried auth c"
| app_detail: "c \<in> set (appDetailQueries appId) \<Longrightarrow> queried auth c"
| build_detail: "c \<in> set (buildDetailQueries buildId) \<Longrightarrow> queried auth c"
| deployment_detail: "c \<in> set (deploymentDetailQueries appId deploymentId) \<Longrightarrow> queried auth c"
| telemetry:
    "c \<in> set (telemetryQueries appId deploymentId n l) \<Longrightarrow> n \<in> set telemetryWindows \<Longrightarrow>
     l = None \<or> (\<exists>v \<in> set telemetryLevels. l = chosenLevel v) \<Longrightarrow> queried auth c"
| incidents: "c \<in> set (incidentsQueries status) \<Longrightarrow> status \<in> set incidentChoices \<Longrightarrow> queried auth c"
| incident_detail: "c \<in> set (incidentDetailQueries incidentId) \<Longrightarrow> queried auth c"
| rca_run: "c \<in> set (rcaRunQueries runId) \<Longrightarrow> queried auth c"
| settings: "c \<in> set (settingsQueries auth) \<Longrightarrow> queried auth c"

inductive shown :: "string list option \<Rightarrow> item \<Rightarrow> bool" for auth where
  login: "i \<in> set loginView \<Longrightarrow> shown auth i"
| dashboard: "i \<in> set (dashboardView ago q1 q2) \<Longrightarrow> shown auth i"
| apps: "i \<in> set (appsView auth q1) \<Longrightarrow> shown auth i"
| create_app: "i \<in> set (createAppView number isUrl form err) \<Longrightarrow> shown auth i"
| app_detail: "i \<in> set (appDetailView number ago appId auth q1 q2 q3 df err) \<Longrightarrow> shown auth i"
| build_detail: "i \<in> set (buildDetailView ago appId q1 q2) \<Longrightarrow> shown auth i"
| deployment_detail: "i \<in> set (deploymentDetailView appId deploymentId auth q1 q2) \<Longrightarrow> shown auth i"
| telemetry: "i \<in> set (telemetryView clockTime n q1 q2 q3 q4 q5) \<Longrightarrow> shown auth i"
| incidents: "i \<in> set (incidentsView ago q1) \<Longrightarrow> shown auth i"
| incident_detail: "i \<in> set (incidentDetailView ago incidentId q1) \<Longrightarrow> shown auth i"
| rca_run: "i \<in> set (rcaRunView runId message q1 q2) \<Longrightarrow> shown auth i"
| settings: "i \<in> set (settingsView me_data q1) \<Longrightarrow> shown auth i"
| shell: "i \<in> set (sh_items (appShell cfg routeError loading err me_data pathname [])) \<Longrightarrow> shown auth i"

lemmas query_defs =
  dashboardQueries_def appsQueries_def appDetailQueries_def buildDetailQueries_def
  deploymentDetailQueries_def telemetryQueries_def incidentsQueries_def incidentDetailQueries_def
  rcaRunQueries_def settingsQueries_def

lemma queried_get:
  "queried auth c \<Longrightarrow> callMethod c = ''GET'' \<and> (\<forall>i. c \<noteq> CallBuilds (GetBuildStatus i))
     \<and> (\<forall>i. c \<noteq> CallDeployments (GetDeploymentStatus i))"
  by (induction rule: queried.induct)
    (auto simp: query_defs callMethod_def getSpec_def noInit_def spec_defs split: option.splits if_splits)

lemma reaches_asksStatus:
  "reaches isHttpsUrl c r \<Longrightarrow> asksStatus r \<Longrightarrow>
   (\<exists>i. c = CallBuilds (GetBuildStatus i)) \<or> (\<exists>i. c = CallDeployments (GetDeploymentStatus i))"
  by (induction rule: reaches.induct) auto

lemma reaches_get: "reaches isHttpsUrl c r \<Longrightarrow> callMethod c = ''GET'' \<Longrightarrow> onlyReads r"
  by (induction rule: reaches.induct)
    (simp_all add: callMethod_def getSpec_def postSpec_def noInit_def spec_defs)


subsection \<open>Buttons and permissions\<close>

text \<open>The buttons and the permission each is shown with.\<close>

inductive gated :: "string list \<Rightarrow> api_call \<Rightarrow> bool" for permissions where
  create_app: "gated permissions (CallApps (CreateApp body))"
| start_build: "''builds:start'' \<in> set permissions \<Longrightarrow> gated permissions (CallBuilds (CreateBuild a (JObj [])))"
| deploy:
    "''deployments:write'' \<in> set permissions \<Longrightarrow> gated permissions (CallDeployments (CreateDeployment a body))"
| act: "''deployments:write'' \<in> set permissions \<Longrightarrow> gated permissions (deploymentAction i action)"
| analyse_deployment: "gated permissions (CallRca (AnalyseDeployment d))"
| analyse_incident: "gated permissions (CallRca (AnalyseIncident i))"
| send_chat: "trim message \<noteq> [] \<Longrightarrow> gated permissions (CallRca (SendChat i message))"

lemma no_button:
  "Button l c \<notin> set (dataTable rows columns href)" "Button l c \<noteq> statusBadge s" "Button l c \<noteq> logBlock es"
  "Button l c \<notin> set (buildsTable ago a bs)" "Button l c \<notin> set (deploymentsTable a ds)"
  "Button l c \<notin> set (field f e)" "Button l c \<notin> set (statusCard f status)"
  by (auto simp: dataTable_def statusBadge_def logBlock_def buildsTable_def deploymentsTable_def field_def
      statusCard_def split: option.split)

lemma shown_button: "shown auth i \<Longrightarrow> i = Button l c \<Longrightarrow> gated (permissionsOf auth) c"
proof (induction rule: shown.induct)
  case (create_app i number isUrl form err)
  then show ?case by (auto simp: createAppView_def no_button Let_def intro: gated.intros
        split: option.splits sum.splits if_splits)
next
  case (app_detail i number ago appId q1 q2 q3 df err)
  then show ?case
    by (auto simp: appDetailView_def createDeploymentPanel_def permissionGate_def no_button
        intro: gated.intros split: option.splits sum.splits if_splits)
next
  case (deployment_detail i appId deploymentId q1 q2)
  then show ?case
    by (auto simp: deploymentDetailView_def deploymentButtons_def permissionGate_def no_button
        simp del: deploymentAction.simps intro: gated.intros split: option.splits if_splits)
next
  case (incident_detail i ago incidentId q1)
  then show ?case
    by (auto simp: incidentDetailView_def no_button intro: gated.intros split: option.splits if_splits)
next
  case (rca_run i runId message q1 q2)
  then show ?case by (auto simp: rcaRunView_def intro: gated.intros split: option.splits if_splits)
next
  case (shell i cfg routeError loading err me_data pathname)
  then show ?case by (auto simp: appShell_def navItems_def Let_def split: if_splits)
qed (auto simp: loginView_def dashboardView_def appsView_def buildDetailView_def telemetryView_def
      incidentsView_def settingsView_def permissionGate_def no_button
      split: option.splits if_splits json.splits)

definition routePermissions :: "api_request \<Rightarrow> string list" where
  "routePermissions r = (case routeOf r of None \<Rightarrow> [] | Some rt \<Rightarrow> rt_permissions rt)"

lemma button_permissions:
  "routePermissions (AppsCall (AppsCreate dto)) = [''apps:create'']"
  "routePermissions (BuildsCall (BuildsCreate a bd)) = [''builds:start'']"
  "routePermissions (DeploymentsCall (DeploymentsCreate a dd)) = [''deployments:write'']"
  "routePermissions (DeploymentsCall (DeploymentsRestart i)) = [''deployments:write'']"
  "routePermissions (DeploymentsCall (DeploymentsStop i)) = [''deployments:write'']"
  "routePermissions (DeploymentsCall (DeploymentsStart i n)) = [''deployments:write'']"
  "routePermissions (DeploymentsCall (DeploymentsDelete i)) = [''deployments:delete'']"
  "routePermissions (RcaCall (RcaStartForDeployment i)) = [''rca:run'']"
  "routePermissions (RcaCall (RcaStartForIncident i)) = [''rca:run'']"
  "routePermissions (RcaCall (RcaChat i m)) = [''rca:chat:write'']"
  by code_simp+

inductive_cases reaches_button:
  "reaches isHttpsUrl (CallApps (CreateApp body)) r"
  "reaches isHttpsUrl (CallBuilds (CreateBuild a body)) r"
  "reaches isHttpsUrl (CallDeployments (CreateDeployment a body)) r"
  "reaches isHttpsUrl (CallDeployments (RestartDeployment i)) r"
  "reaches isHttpsUrl (CallDeployments (StopDeployment i)) r"
  "reaches isHttpsUrl (CallDeployments (StartDeployment i n)) r"
  "reaches isHttpsUrl (CallDeployments (DeleteDeployment i)) r"
  "reaches isHttpsUrl (CallRca (AnalyseDeployment i)) r"
  "reaches isHttpsUrl (CallRca (AnalyseIncident i)) r"
  "reaches isHttpsUrl (CallRca (SendChat i message)) r"

text \<open>The buttons no gate or a wrong gate stands before.\<close>

fun misgated :: "api_call \<Rightarrow> bool" where
  "misgated (CallApps (CreateApp body)) = True"
| "misgated (CallDeployments (DeleteDeployment i)) = True"
| "misgated (CallRca (AnalyseDeployment i)) = True"
| "misgated (CallRca (AnalyseIncident i)) = True"
| "misgated (CallRca (SendChat i message)) = True"
| "misgated _ = False"

lemma gated_permissions:
  "gated permissions c \<Longrightarrow> reaches isHttpsUrl c r \<Longrightarrow> \<not> misgated c \<Longrightarrow>
   set (routePermissions r) \<subseteq> set permissions"
proof (induction rule: gated.induct)
  case (act i action)
  then show ?case by (cases action) (auto elim!: reaches_button simp: button_permissions)
qed (auto elim!: reaches_button simp: button_permissions)


text \<open>
  Every developer is shown the button that deletes a deployment, and the server refuses its request
  for every developer.
\<close>

theorem delete_shown_but_refused:
  "Button ''Delete deployment'' (CallDeployments (DeleteDeployment i))
      \<in> set (deploymentButtons (Some developerScopes) i status)
   \<and> fst (permissionGuard (the (routeOf (DeploymentsCall (DeploymentsDelete i)))) rq
        (Some (p\<lparr>p_scopes := developerScopes\<rparr>)) w)
      = Inl (Forbidden ''The required permission is missing'')"
proof -
  obtain rt where rt: "routeOf (DeploymentsCall (DeploymentsDelete i)) = Some rt" using routeOf_Some by blast
  then have "rt_permissions rt = [''deployments:delete'']"
    using button_permissions(7) [of i] by (simp add: routePermissions_def)
  moreover have "''deployments:delete'' \<notin> set developerScopes" "''deployments:write'' \<in> set developerScopes"
    by code_simp+
  ultimately show ?thesis
    using rt
    by (simp add: deploymentButtons_def permissionGate_def permissionsOf_def spec_defs permissionGuard_def
        thenM_run audit_run Let_def)
qed

subsection \<open>Links\<close>

lemma page_paths:
  "pagePath DashboardPage = ''/''" "pagePath AppsPage = ''/apps''" "pagePath CreateAppPage = ''/apps/new''"
  "pagePath (AppDetailPage a) = ''/apps/'' @ a"
  "pagePath (BuildDetailPage a b) = ''/apps/'' @ a @ ''/builds/'' @ b"
  "pagePath (DeploymentDetailPage a d) = ''/apps/'' @ a @ ''/deployments/'' @ d"
  "pagePath (TelemetryPage a d) = ''/apps/'' @ a @ ''/deployments/'' @ d @ ''/telemetry''"
  "pagePath IncidentsPage = ''/incidents''" "pagePath (IncidentDetailPage i) = ''/incidents/'' @ i"
  "pagePath (RcaRunPage r) = ''/rca-runs/'' @ r" "pagePath SettingsPage = ''/settings''"
  "pagePath LoginPage = ''/login''"
  by (simp_all add: pagePath_def)

definition linked :: "string \<Rightarrow> bool" where
  "linked h \<longleftrightarrow> (\<exists>p. h = pagePath p \<and> (\<forall>r. p \<noteq> RcaRunPage r))"

lemma linkedI: "h = pagePath p \<Longrightarrow> \<forall>r. p \<noteq> RcaRunPage r \<Longrightarrow> linked h"
  by (auto simp: linked_def)

lemma linked_hrefs:
  "linked ''/apps/new''" "linked (''/apps/'' @ x)" "linked (''/incidents/'' @ x)"
  "linked (''/apps/'' @ x @ ''/builds/'' @ y)" "linked (''/apps/'' @ x @ ''/deployments/'' @ y)"
  "linked (''/apps/'' @ x @ ''/deployments/'' @ y @ ''/telemetry'')"
proof -
  show "linked ''/apps/new''" by (rule linkedI [OF page_paths(3) [symmetric]]) simp
  show "linked (''/apps/'' @ x)" by (rule linkedI [OF page_paths(4) [symmetric]]) simp
  show "linked (''/incidents/'' @ x)" by (rule linkedI [OF page_paths(9) [symmetric]]) simp
  show "linked (''/apps/'' @ x @ ''/builds/'' @ y)" by (rule linkedI [OF page_paths(5) [symmetric]]) simp
  show "linked (''/apps/'' @ x @ ''/deployments/'' @ y)" by (rule linkedI [OF page_paths(6) [symmetric]]) simp
  show "linked (''/apps/'' @ x @ ''/deployments/'' @ y @ ''/telemetry'')"
    by (rule linkedI [OF page_paths(7) [symmetric]]) simp
qed

lemmas linked_simps [simp] = linked_hrefs [simplified]

lemma linked_not_run: "linked h \<Longrightarrow> \<not> startsWith h ''/rca-runs/''"
proof -
  assume "linked h"
  then obtain p where p: "h = pagePath p" "\<forall>r. p \<noteq> RcaRunPage r" by (auto simp: linked_def)
  from p(2) show ?thesis unfolding p(1) by (cases p) (simp_all only: page_paths, simp_all)
qed

text \<open>The items whose link leads to one of the pages, to the login or to a deployment.\<close>

fun okLink :: "item \<Rightarrow> bool" where
  "okLink (Anchor l h) = (linked h \<or> l = ''Open'' \<or> h = ''/auth/login'')"
| "okLink (Row cells (Some h)) = linked h"
| "okLink _ = True"

lemma okLink_simps [simp]:
  "okLink (statusBadge s)" "okLink (logBlock es)" "list_all okLink (field f e)" "list_all okLink (statusCard f s)"
  "list_all okLink (permissionGate ps require items) \<longleftrightarrow> require \<in> set ps \<longrightarrow> list_all okLink items"
  by (simp_all add: statusBadge_def logBlock_def permissionGate_def field_def statusCard_def split: option.split)

lemma okLink_table:
  "(\<And>f x. href = Some f \<Longrightarrow> linked (f x)) \<Longrightarrow> list_all okLink (dataTable rows columns href)"
  by (cases href) (auto simp: dataTable_def list_all_iff)

lemma okLink_tables [simp]:
  "list_all okLink (dataTable rows columns None)" "list_all okLink (dataTable rows columns (Some appHref))"
  "list_all okLink (dataTable rows columns (Some incidentHref))"
  "list_all okLink (buildsTable ago a bs)" "list_all okLink (deploymentsTable a ds)"
  by (auto simp: buildsTable_def deploymentsTable_def appHref_def incidentHref_def
      intro!: okLink_table)

lemma okLink_concat: "list_all okLink (concat (map f xs)) \<longleftrightarrow> (\<forall>x \<in> set xs. list_all okLink (f x))"
  by (induction xs) simp_all

lemma view_links:
  "list_all okLink loginView" "list_all okLink (dashboardView ago q1 q2)" "list_all okLink (appsView auth q1)"
  "list_all okLink (createAppView number isUrl form err)"
  "list_all okLink (appDetailView number ago appId auth q1 q2 q3 df err)"
  "list_all okLink (buildDetailView ago appId q1 q2)"
  "list_all okLink (deploymentDetailView appId deploymentId auth q1 q2)"
  "list_all okLink (telemetryView clockTime n q1 q2 q3 q4 q5)"
  "list_all okLink (incidentsView ago q1)" "list_all okLink (incidentDetailView ago incidentId q1)"
  "list_all okLink (rcaRunView runId message q1 q2)" "list_all okLink (settingsView me_data q1)"
proof -
  show "list_all okLink loginView" by (simp add: loginView_def)
  show "list_all okLink (dashboardView ago q1 q2)"
    by (simp add: dashboardView_def okLink_concat incidentHref_def split: option.split)
  show "list_all okLink (appsView auth q1)" by (simp add: appsView_def split: option.split)
  show "list_all okLink (createAppView number isUrl form err)"
    by (simp add: createAppView_def Let_def split: option.split sum.split)
  show "list_all okLink (appDetailView number ago appId auth q1 q2 q3 df err)"
    by (simp add: appDetailView_def createDeploymentPanel_def split: option.split sum.split)
  show "list_all okLink (buildDetailView ago appId q1 q2)"
    by (simp add: buildDetailView_def split: option.split)
  show "list_all okLink (deploymentDetailView appId deploymentId auth q1 q2)"
    by (simp add: deploymentDetailView_def deploymentButtons_def split: option.split)
  show "list_all okLink (telemetryView clockTime n q1 q2 q3 q4 q5)"
    by (simp add: telemetryView_def okLink_concat split: json.split prod.split)
  show "list_all okLink (incidentsView ago q1)" by (simp add: incidentsView_def split: option.split)
  show "list_all okLink (incidentDetailView ago incidentId q1)"
    by (simp add: incidentDetailView_def split: option.split)
  show "list_all okLink (rcaRunView runId message q1 q2)"
    by (auto simp: rcaRunView_def list_all_iff split: option.split)
  show "list_all okLink (settingsView me_data q1)" by (simp add: settingsView_def)
qed

lemma shell_links: "list_all okLink (sh_items (appShell cfg routeError loading err me_data pathname []))"
proof -
  have "linked ''/''" by (rule linkedI [OF page_paths(1) [symmetric]]) simp
  moreover have "linked ''/apps''" by (rule linkedI [OF page_paths(2) [symmetric]]) simp
  moreover have "linked ''/incidents''" by (rule linkedI [OF page_paths(8) [symmetric]]) simp
  moreover have "linked ''/settings''" by (rule linkedI [OF page_paths(11) [symmetric]]) simp
  ultimately show ?thesis by (simp add: appShell_def navItems_def Let_def)
qed

lemma shown_link: "shown auth i \<Longrightarrow> okLink i"
proof (induction rule: shown.induct)
  case (shell i cfg routeError loading err me_data pathname)
  with shell_links show ?case by (meson list_all_iff)
qed (metis list_all_iff view_links)+

text \<open>
  Every link of the console leads to one of its own pages, to the login or, from the button named
  Open, to a deployment; none leads to the page of an analysis, which cannot be reached by links.
\<close>

theorem links_lead_to_pages:
  assumes "shown auth i" and "(i = Anchor l h \<and> l \<noteq> ''Open'' \<and> h \<noteq> ''/auth/login'') \<or> i = Row cells (Some h)"
  shows "(\<exists>p. h = pagePath p) \<and> \<not> startsWith h (pagePath (RcaRunPage []))"
proof -
  have "linked h" using shown_link [OF assms(1)] assms(2) by auto
  then show ?thesis using linked_not_run by (auto simp: linked_def page_paths(10))
qed

subsection \<open>Choices\<close>

text \<open>Every window and level the telemetry page offers is one the server accepts.\<close>

lemma offered_window:
  assumes "\<And>n. number (showInt n) = Some n" and "n \<in> set telemetryWindows"
  shows "windowParam number (Some (showInt n)) = Inr (Some n)"
proof -
  have "list_all (\<lambda>n. showInt n \<noteq> []) telemetryWindows" by code_simp
  with assms show ?thesis
    by (auto simp: telemetryWindows_def windowParam_def intParam_def toOptionalNumber_def)
qed

lemma offered_level: "v \<in> set telemetryLevels \<Longrightarrow> \<exists>lv. levelParam (chosenLevel v) = Inr lv"
  by (auto simp: telemetryLevels_def chosenLevel_def levelParam_def)

section \<open>Witnesses\<close>



theorem links_lead_to_pages_witness: "(\<exists>p. ''/apps/new'' = pagePath p) \<and> \<not> startsWith ''/apps/new'' (pagePath (RcaRunPage []))"
proof -
  have "Anchor ''Create app'' ''/apps/new'' \<in> set (appsView (Some [''apps:create''])
      \<lparr> q_loading = False, q_error = None, q_data = JArr [] \<rparr>)"
    by (simp add: appsView_def permissionGate_def permissionsOf_def spec_defs)
  from links_lead_to_pages [OF shown.apps [OF this]] show ?thesis by simp
qed

end
