(* ===== verification/Progress.thy ===== *)
theory Progress
  imports Console
begin

text \<open>
  How builds get on: only the answer to a status request of BuildsService records that a build
  succeeded. Every other request leaves the stored builds and may append new ones, none of which
  has succeeded. From this follow what the API guarantees of a build whose status is asked for
  again and again, and what the console, which never asks, does not.
\<close>

section \<open>Builds that are only added\<close>

definition grows :: "'c world \<Rightarrow> 'c world \<Rightarrow> bool" where
  "grows w w' \<longleftrightarrow>
     (\<exists>bs. builds w' = builds w @ bs
        \<and> (\<forall>b \<in> set bs. b_status b \<noteq> BuildSucceeded \<and> b_id b \<notin> b_id ` set (builds w)))"

lemma grows_same: "builds w' = builds w \<Longrightarrow> grows w w'"
  unfolding grows_def by (intro exI [of _ "[]"]) simp

lemma grows_trans: "grows w w' \<Longrightarrow> grows w' w'' \<Longrightarrow> grows w w''"
  unfolding grows_def by (elim exE conjE, rule_tac x = "bs @ bsa" in exI) auto

lemma preorder_grows [keeps_intros, simp]: "preorder_rel grows"
  unfolding preorder_rel_def
proof (rule conjI)
  show "reflp (grows :: 'a world \<Rightarrow> _)" by (rule reflpI) (simp add: grows_same)
  show "transp (grows :: 'a world \<Rightarrow> _)" by (rule transpI) (rule grows_trans)
qed

lemma keeps_grows_sameTables: "keeps sameTables m \<Longrightarrow> keeps grows m"
  using sameTables_builds by (auto simp: keeps_def intro!: grows_same)

lemma keeps_grows_builds: "(\<And>w. builds (snd (m w)) = builds w) \<Longrightarrow> keeps grows m"
  by (simp add: keeps_def grows_same)

text \<open>Rows of any other table.\<close>

lemma grows_rows:
  assumes "\<And>rs w. builds (setRows t rs w) = builds w"
  shows "keeps grows (createRow t mk)" "keeps grows (updateRow t p f)" "keeps grows (deleteMany t p)"
    "keeps grows (deleteRow t p)"
  using assms
  by (auto intro!: keeps_grows_builds simp: createRow_def updateRow_def deleteMany_def deleteRow_def Let_def
      split: option.split)

lemma other_tables:
  "builds (setRows appTable as w) = builds w" "builds (setRows deploymentTable ds w) = builds w"
  "builds (setRows runtimeConfigTable rcs w) = builds w" "builds (setRows sampleTable hs w) = builds w"
  "builds (setRows incidentTable is w) = builds w" "builds (setRows runTable rs w) = builds w"
  "builds (setRows runEventTable es w) = builds w" "builds (setRows snapshotTable ss w) = builds w"
  "builds (setRows workspaceTable wss w) = builds w" "builds (setRows userTable us w) = builds w"
  "builds (setRows membershipTable ms w) = builds w" "builds (setRows attemptTable las w) = builds w"
  "builds (setRows sessionTable sns w) = builds w" "builds (setRows auditTable aes w) = builds w"
  by (simp_all add: table_defs)

lemmas grows_tables [keeps_intros] =
  other_tables(1) [THEN grows_rows(1)] other_tables(2) [THEN grows_rows(1)]
  other_tables(3) [THEN grows_rows(1)] other_tables(4) [THEN grows_rows(1)]
  other_tables(5) [THEN grows_rows(1)] other_tables(6) [THEN grows_rows(1)]
  other_tables(7) [THEN grows_rows(1)] other_tables(8) [THEN grows_rows(1)]
  other_tables(9) [THEN grows_rows(1)] other_tables(10) [THEN grows_rows(1)]
  other_tables(11) [THEN grows_rows(1)] other_tables(12) [THEN grows_rows(1)]
  other_tables(13) [THEN grows_rows(1)] other_tables(14) [THEN grows_rows(1)]
  other_tables(2) [THEN grows_rows(2)] other_tables(5) [THEN grows_rows(2)]
  other_tables(9) [THEN grows_rows(2)] other_tables(10) [THEN grows_rows(2)]
  other_tables(11) [THEN grows_rows(2)] other_tables(13) [THEN grows_rows(2)]
  other_tables(4) [THEN grows_rows(3)] other_tables(12) [THEN grows_rows(3)]
  other_tables(13) [THEN grows_rows(3)] other_tables(12) [THEN grows_rows(4)]
  other_tables(13) [THEN grows_rows(4)]

lemma grows_clock [keeps_intros]: "keeps grows now" "keeps grows fresh"
  by (auto intro!: keeps_grows_builds simp: now_run fresh_run)

lemma grows_transaction [keeps_intros]:
  assumes "keeps grows m"
  shows "keeps grows (transaction m)"
proof (rule keepsI)
  fix w
  show "grows w (snd (transaction m w))"
    using keepsD [OF assms, of w]
    by (auto simp: transaction_run restoreTables_def intro: grows_same split: prod.split sum.split)
qed

lemma grows_withTenantTransaction [keeps_intros]: "keeps grows m \<Longrightarrow> keeps grows (withTenantTransaction m)"
  by (rule keeps_withTenantTransaction_by) (auto simp: grows_def restoreTables_def)

section \<open>Every other handler\<close>

lemmas kube_grows [keeps_intros] = kube_sameTables [THEN keeps_grows_sameTables]

lemma grows_createBuild [keeps_intros]: "keeps grows (createBuild api cfg appId dto)"
proof (rule keepsI)
  fix w
  obtain res w' where run: "createBuild api cfg appId dto w = (res, w')" by fastforce
  with createBuild_outcome [OF run] show "grows w (snd (createBuild api cfg appId dto w))"
    by (auto simp: grows_def split: sum.splits)
qed

lemma grows_setDeployment [keeps_intros]: "keeps grows (setDeployment i f)"
  unfolding setDeployment_def by (intro keeps_intros)

lemma grows_deployments [keeps_intros]:
  "keeps grows (createApp app_dto)" "keeps grows (createDeployment api cfg appId dto)"
  "keeps grows (getDeploymentStatus api i)" "keeps grows (scale api i n)" "keeps grows (stop api i)"
  "keeps grows (start api i requested)" "keeps grows (restart api i)" "keeps grows (deleteDeployment api i)"
  unfolding createApp_def createDeployment_def storeDeployment_def deployStored_def getDeploymentStatus_def
    scale_def stop_def start_def restart_def deleteDeployment_def scaleTo_def Let_def
  by (intro keeps_intros; simp)+

lemma grows_evidence [keeps_intros]:
  "keeps grows (collectLive api parse i opts)" "keeps grows (createSnapshot api parse i opts)"
  "keeps grows (createManualIncident i incident_dto)" "keeps grows (resolveIncident i)"
proof -
  show collect: "keeps grows (collectLive api parse i opts)"
    by (rule keeps_grows_sameTables [OF sameTables_collectLive])
  show "keeps grows (createSnapshot api parse i opts)"
    unfolding createSnapshot_def by (intro keeps_intros collect)
  show "keeps grows (createManualIncident i incident_dto)" "keeps grows (resolveIncident i)"
    unfolding createManualIncident_def findDeploymentForIncident_def resolveIncident_def setIncident_def
      findIncidentOrThrow_def
    by (intro keeps_intros)+
qed

lemma grows_rca [keeps_intros]:
  "keeps grows (startForIncident fetch signer rca_cfg i src)" "keeps grows (startForDeployment fetch signer rca_cfg d)"
  "keeps grows (listChat fetch signer rca_cfg i)" "keeps grows (chat fetch signer rca_cfg i message)"
  unfolding startForIncident_def startForDeployment_def createRun_def createRunEvent_def manualRcaIncident_def
  by (intro keeps_intros keeps_grows_sameTables [OF sameTables_triggered]
      keeps_grows_sameTables [OF sameTables_chat(1)] keeps_grows_sameTables [OF sameTables_chat(2)])+

lemma onlyClient_grows: "keeps onlyClient m \<Longrightarrow> keeps grows m"
  by (auto simp: keeps_def onlyClient_def intro!: grows_same)

lemmas provider_grows [keeps_intros] =
  keeps_provider [THEN onlyClient_grows] keeps_completeCallback [THEN onlyClient_grows]
  keeps_oidcSwitchOrganization [THEN onlyClient_grows] keeps_revokeTokens [THEN onlyClient_grows]

lemma grows_crypto [keeps_intros]:
  "keeps grows randomToken" "keeps grows (encrypt lib cfg v)" "keeps grows (encryptOptional lib cfg v2)"
  unfolding randomToken_def encryptOptional_def encrypt_def Let_def by (intro keeps_intros)+

lemma grows_sessions [keeps_intros]:
  "keeps grows (createLoginAttempt lib cfg state nonce verifier returnTo)"
  "keeps grows (consumeLoginAttempt lib cfg state)" "keeps grows (createSession lib cfg si)"
  "keeps grows (getStored h)" "keeps grows (destroy h)" "keeps grows (updateTokens lib cfg h a r i e)"
  unfolding createLoginAttempt_def consumeLoginAttempt_def createSession_def storeSession_def getStored_def
    destroy_def updateTokens_def Let_def
  by (intro keeps_intros)+

lemma grows_identity [keeps_intros]:
  "keeps grows (resolveIdentity lib cfg identity)" "keeps grows (audit u ws action outcome)"
  "keeps grows recordFailedLogin"
  unfolding resolveIdentity_def adoptLegacyWorkspace_def upsertWorkspace_def upsertUser_def
    upsertMembership_def audit_def recordFailedLogin_def
  by (intro keeps_intros keeps_upsertRow)+

lemma grows_payloadExpiry [keeps_intros]: "keeps grows (payloadExpiry payload)"
  unfolding payloadExpiry_def by (cases "member payload ''expires_in''") (auto intro!: keeps_intros)

lemma grows_currentAccessToken [keeps_intros]: "keeps grows (currentAccessToken deps stored)"
  unfolding currentAccessToken_def by (intro keeps_intros)

lemma grows_authHandlers [keeps_intros]:
  "keeps grows (loginHandler deps returnTo)" "keeps grows (callbackHandler deps query)"
  "keeps grows (meHandler p)" "keeps grows (metricsHandler p)" "keeps grows (logoutHandler deps p)"
  "keeps grows (switchOrganizationHandler deps p i)"
  unfolding loginHandler_def beginLogin_def callbackHandler_def completeLogin_def meHandler_def me_def
    metricsHandler_def metrics_def countRows_def logoutHandler_def logout_def revocation_def
    switchOrganizationHandler_def switchOrganization_def Let_def
  by (intro keeps_intros)+

fun asksBuildStatus :: "api_request \<Rightarrow> bool" where
  "asksBuildStatus (BuildsCall (BuildsGetStatus i)) = True"
| "asksBuildStatus _ = False"

lemma grows_handle: "\<not> asksBuildStatus c \<Longrightarrow> keeps grows (handle sv c who)"
proof (cases "onlyReads c \<and> \<not> asksStatus c")
  case True
  then show ?thesis by (blast intro: keeps_grows_sameTables reads_keep_tables)
next
  case False
  assume "\<not> asksBuildStatus c"
  with False show ?thesis
  proof (cases c)
    case (AppsCall x) with False show ?thesis by (cases x) (simp_all, (intro keeps_intros)+)
  next
    case (AuthCall x) then show ?thesis by (cases x; cases who) (simp_all, (intro keeps_intros)+)
  next
    case (BuildsCall x) with False \<open>\<not> asksBuildStatus c\<close> show ?thesis
      by (cases x) (simp_all, (intro keeps_intros)+)
  next
    case (DeploymentsCall x) with False show ?thesis by (cases x) (simp_all, (intro keeps_intros)+)
  next
    case (EvidenceCall x) with False show ?thesis by (cases x) (simp_all, (intro keeps_intros)+)
  next
    case (IncidentsCall x) with False show ?thesis by (cases x) (simp_all, (intro keeps_intros)+)
  next
    case (ObservabilityCall x) with False show ?thesis by (cases x) simp_all
  next
    case (RcaCall x) with False show ?thesis by (cases x) (simp_all, (intro keeps_intros)+)
  next
    case (TelemetryCall x)
    show ?thesis unfolding TelemetryCall handle.simps
      by (rule keeps_grows_sameTables [OF sameTables_telemetryController])
  next
    case (HealthCall x) then show ?thesis by (cases x) (auto intro!: keeps_intros)
  qed
qed

section \<open>Requests\<close>

text \<open>What the pipeline around a handler leaves alone.\<close>

definition aside :: "'c world \<Rightarrow> 'c world \<Rightarrow> bool" where
  "aside w w' \<longleftrightarrow> cluster w' = cluster w \<and> workspaces w' = workspaces w \<and> builds w' = builds w"

lemma aside_refl: "aside w w" and aside_tenant: "aside w (w\<lparr>tenant := c\<rparr>)"
  and aside_trans: "aside w w' \<Longrightarrow> aside w' w'' \<Longrightarrow> aside w w''"
  and sameData_aside: "sameData w w' \<Longrightarrow> aside w w'"
  and aside_grows: "aside w w' \<Longrightarrow> grows w w'"
  by (simp_all add: aside_def sameData_def grows_same)

lemma auditInterceptor_around:
  assumes "auditInterceptor rt rq who next w = (res, w')"
  obtains w1 where "next w = (res, w1)" "aside w1 w'"
  using assms
  by (cases who; cases "next w"; cases "fst (next w)")
    (auto simp: auditInterceptor_def bindM_run attemptM_run thenM_run audit_run aside_def Let_def
      split: if_splits)

lemma serve_around:
  assumes "serve lib cfg rt rq handler w = (res, w')"
  shows "((\<exists>e. res = Inl e) \<and> aside w w')
    \<or> (\<exists>who w1 w2. aside w w1 \<and> handler who w1 = (res, w2) \<and> aside w2 w')"
proof (cases "rt_public rt")
  case True
  obtain r w1 where perm: "permissionGuard rt rq None w = (r, w1)" by fastforce
  then have "w1 = w" by (auto simp: permissionGuard_def Let_def split: if_splits)
  with perm True assms have "r = Inr () \<and> handler None w = (res, w') \<or> (\<exists>e. res = Inl e) \<and> w' = w"
    by (cases r)
      (auto simp: serve_def bindM_run thenM_run authenticationGuard_def csrfGuard_def
        tenantContextInterceptor_def auditInterceptor_def split: if_splits)
  then show ?thesis using aside_refl by blast
next
  case False
  from serve_outcome [OF False assms] show ?thesis
  proof (elim disjE conjE exE)
    fix e assume "res = Inl e" "sameData w w'"
    then show ?thesis by (blast intro: sameData_aside)
  next
    fix s w1 p
    assume same: "sameData w w1"
      and run: "(res, w') = runInContext (principalContext p) (auditInterceptor rt rq (Some p) (handler (Some p))) w1"
    let ?w = "w1\<lparr>tenant := Some (principalContext p)\<rparr>"
    obtain r v where "auditInterceptor rt rq (Some p) (handler (Some p)) ?w = (r, v)" by fastforce
    with run have res: "auditInterceptor rt rq (Some p) (handler (Some p)) ?w = (res, v)"
      and w': "w' = v\<lparr>tenant := tenant w1\<rparr>" by (simp_all add: runInContext_run)
    from res obtain w2 where "handler (Some p) ?w = (res, w2)" "aside w2 v" by (rule auditInterceptor_around)
    moreover have "aside w ?w" using sameData_aside [OF same] aside_tenant aside_trans by blast
    moreover have "aside v w'" unfolding w' by (rule aside_tenant)
    ultimately show ?thesis using aside_trans by blast
  qed
qed

lemma serveRequest_around:
  "serveRequest sv rq c w = (res, w') \<Longrightarrow> ((\<exists>e. res = Inl e) \<and> aside w w')
    \<or> (\<exists>who w1 w2. aside w w1 \<and> handle sv c who w1 = (res, w2) \<and> aside w2 w')"
proof -
  assume run: "serveRequest sv rq c w = (res, w')"
  obtain rt where "routeOf c = Some rt" using routeOf_Some by blast
  with run have "serve (crypto (sv_auth sv)) (settings (sv_auth sv)) rt rq (handle sv c) w = (res, w')"
    by (simp add: serveRequest_def)
  from serve_around [OF this] show ?thesis .
qed

lemma serveRequest_grows:
  assumes "\<not> asksBuildStatus c" and "serveRequest sv rq c w = (res, w')"
  shows "grows w w'"
  using serveRequest_around [OF assms(2)] keepsD [OF grows_handle [OF assms(1)]] aside_grows grows_trans
  by (metis snd_conv)

section \<open>The row of a build\<close>

definition buildRow :: "string \<Rightarrow> 'c world \<Rightarrow> build list" where
  "buildRow i w = filter (\<lambda>b. b_id b = i) (builds w)"

lemma buildRow_iff: "buildRow i w = [b] \<Longrightarrow> x \<in> set (builds w) \<and> b_id x = i \<longleftrightarrow> x = b"
proof -
  assume "buildRow i w = [b]"
  then have "{x \<in> set (builds w). b_id x = i} = {b}" unfolding buildRow_def by (metis list.set(1,2) set_filter)
  then show ?thesis by blast
qed

lemma grows_row:
  assumes "grows w w'" and "buildRow i w = [b]"
  shows "buildRow i w' = [b]"
proof -
  from assms(1) obtain bs where "builds w' = builds w @ bs" "\<forall>x \<in> set bs. b_id x \<notin> b_id ` set (builds w)"
    by (auto simp: grows_def)
  moreover have "i \<in> b_id ` set (builds w)" using buildRow_iff [OF assms(2), of b] by blast
  ultimately show ?thesis using assms(2) by (auto simp: buildRow_def filter_empty_conv)
qed

lemma seen_id: "buildSeen b b' \<Longrightarrow> b_id b' = b_id b"
  unfolding buildSeen_def by (cases b; cases b') simp

lemma filter_seen:
  "list_all2 buildSeen bs bs' \<Longrightarrow>
   list_all2 buildSeen (filter (\<lambda>b. b_id b = i) bs) (filter (\<lambda>b. b_id b = i) bs')"
proof (induction rule: list_all2_induct)
  case (Cons b bs b' bs')
  with seen_id show ?case by fastforce
qed simp

lemma seen_row:
  "list_all2 buildSeen (builds w) (builds w') \<Longrightarrow> buildRow i w = [b] \<Longrightarrow>
   \<exists>b'. buildRow i w' = [b'] \<and> buildSeen b b'"
  using filter_seen [of "builds w" "builds w'" i] by (auto simp: buildRow_def list_all2_Cons1)

text \<open>Setting another build leaves the row; setting this one sets it.\<close>

lemma filter_update_other:
  "j \<noteq> i \<Longrightarrow> (\<And>b. b_id (f b) = b_id b) \<Longrightarrow>
   filter (\<lambda>b. b_id b = i) (map (\<lambda>b. if v b \<and> b_id b = j then f b else b) bs) = filter (\<lambda>b. b_id b = i) bs"
  by (induction bs) auto

lemma filter_update_same:
  "(\<And>b. b_id (f b) = b_id b) \<Longrightarrow>
   filter (\<lambda>b. b_id b = i) (map (\<lambda>b. if v b \<and> b_id b = i then f b else b) bs)
     = map (\<lambda>b. if v b then f b else b) (filter (\<lambda>b. b_id b = i) bs)"
  by (induction bs) auto

lemma find_row: "buildRow i w = [b] \<Longrightarrow>
   find (\<lambda>x. visible buildTable w x \<and> b_id x = i) (builds w) = (if visible buildTable w b then Some b else None)"
proof -
  assume row: "buildRow i w = [b]"
  have "find (\<lambda>x. P x \<and> Q x) xs = find P (filter Q xs)" for P Q and xs :: "build list"
    by (induction xs) auto
  with row show ?thesis by (simp add: buildRow_def)
qed

lemma setBuild_row:
  assumes "\<And>b. b_id (f b) = b_id b" and "setBuild j f w = (res, w')" and "buildRow i w = [b]"
  shows "buildRow i w' = [b] \<or> (j = i \<and> buildRow i w' = [f b])"
proof (cases "builds w' = builds w")
  case True
  with assms(3) show ?thesis by (simp add: buildRow_def)
next
  case False
  then have "builds w' = map (\<lambda>x. if visible buildTable w x \<and> b_id x = j then f x else x) (builds w)"
    using assms(2) by (auto simp: setBuild_def updateRow_def buildTable_def split: option.splits if_splits)
  then show ?thesis
    using assms(1,3) filter_update_other [of j i f "visible buildTable w" "builds w"]
      filter_update_same [of f i "visible buildTable w" "builds w"]
    by (cases "j = i") (auto simp: buildRow_def)
qed

lemma setBuild_own_row:
  assumes "\<And>x. b_id (f x) = b_id x \<and> b_workspaceId (f x) = b_workspaceId x"
    and "buildRow i w = [b]" "visible buildTable w b"
  shows "\<exists>w'. setBuild i f w = (Inr (f b), w') \<and> buildRow i w' = [f b]"
proof -
  have v: "visible buildTable w (f b)"
    using assms(1,3) by (simp add: visible_def buildTable_def)
  have "b_id b = i" and "\<And>x. x \<in> set (builds w) \<Longrightarrow> b_id x = i \<Longrightarrow> x = b"
    using buildRow_iff [OF assms(2)] by blast+
  then have "\<not> list_ex (\<lambda>r'. \<not> (visible buildTable w r' \<and> b_id r' = i) \<and> b_id r' = b_id (f b)) (builds w)"
    using assms(1,3) by (auto simp: list_ex_iff)
  moreover note find_row [OF assms(2)]
  ultimately have "setBuild i f w = (Inr (f b), w\<lparr>builds :=
      map (\<lambda>x. if visible buildTable w x \<and> b_id x = i then f x else x) (builds w)\<rparr>)"
    using v assms(3) by (simp add: setBuild_def updateRow_def buildTable_def)
  moreover have "filter (\<lambda>b. b_id b = i) (map (\<lambda>x. if visible buildTable w x \<and> b_id x = i then f x else x) (builds w))
      = [f b]"
    using filter_update_same [of f i "visible buildTable w" "builds w"] assms by (simp add: buildRow_def)
  ultimately show ?thesis by (auto simp: buildRow_def)
qed

section \<open>Asking for the status\<close>

text \<open>What the cluster reports of a job: \<open>status.succeeded\<close> is more than none.\<close>

definition jobDone :: "'c kubernetes_api \<Rightarrow> 'c \<Rightarrow> string \<Rightarrow> string \<Rightarrow> bool" where
  "jobDone api c ns job =
     (case fst (api (Read KJob job ns) c) of
        Inl _ \<Rightarrow> False
      | Inr body \<Rightarrow> 0 < count0 (member body ''status'') ''succeeded'')"

text \<open>The build \<open>b\<close> has a job the cluster reports as succeeded, in the namespace of its workspace.\<close>

definition finished :: "'c kubernetes_api \<Rightarrow> build \<Rightarrow> 'c world \<Rightarrow> bool" where
  "finished api b w \<longleftrightarrow>
     truthy (b_kubernetesJob b)
     \<and> (\<exists>x. find (\<lambda>x. ws_id x = b_workspaceId b) (workspaces w) = Some x
          \<and> jobDone api (cluster w) (ws_namespace x) (the (b_kubernetesJob b)))"

lemma finished_aside: "aside w w' \<Longrightarrow> finished api b w' = finished api b w"
  by (simp add: finished_def aside_def)

lemma seen_status: "buildSeen b b' \<Longrightarrow> buildSeen b (b'\<lparr>b_status := s\<rparr>)"
  unfolding buildSeen_def by (cases b; cases b') simp

lemma finished_seen: "buildSeen b b' \<Longrightarrow> finished api b' w = finished api b w"
  unfolding buildSeen_def by (cases b; cases b') (simp add: finished_def)

lemma getBuildStatus_own:
  assumes "buildRow i w = [b]" and "visible buildTable w b" and "finished api b w"
  shows "\<exists>v w'. getBuildStatus api i w = (Inr v, w') \<and> buildRow i w' = [b\<lparr>b_status := BuildSucceeded\<rparr>]"
proof -
  from assms(3) obtain job x where job: "b_kubernetesJob b = Some job" "job \<noteq> []"
    and x: "find (\<lambda>x. ws_id x = b_workspaceId b) (workspaces w) = Some x"
    and reported: "jobDone api (cluster w) (ws_namespace x) job"
    by (auto simp: finished_def truthy_def split: option.splits)
  from reported obtain body c where body: "api (Read KJob job (ws_namespace x)) (cluster w) = (Inr body, c)"
    and n: "0 < count0 (member body ''status'') ''succeeded''"
    by (auto simp: jobDone_def split: sum.splits prod.splits)
      (metis old.sum.exhaust prod.collapse)
  have find_b: "findFirst buildTable (\<lambda>b. b_id b = i) w = (Inr (Some b), w)"
    using find_row [OF assms(1)] assms(2) by (simp add: findFirst_def buildTable_def)
  have ns: "workspaceNamespace (b_workspaceId b) w = (Inr (ws_namespace x), w)"
    using x by (simp add: workspaceNamespace_def bindM_run findFirst_def visible_def workspaceTable_def)
  show ?thesis
  proof (cases "b_status b = BuildSucceeded")
    case True
    then have "b\<lparr>b_status := BuildSucceeded\<rparr> = b" by (cases b) simp
    with True assms(1) job ns body n find_b show ?thesis
      by (auto simp: getBuildStatus_def findBuildOrThrow_def bindM_run thenM_run getBuildJobStatus_def callK_run
          getBuildStatusFromJob_def truthy_def whenM_def buildRow_def Let_def)
  next
    case False
    let ?f = "\<lambda>x. x\<lparr>b_status := BuildSucceeded, b_errorMessage := b_errorMessage b\<rparr>"
    have row: "buildRow i (w\<lparr>cluster := c\<rparr>) = [b]" "visible buildTable (w\<lparr>cluster := c\<rparr>) b"
      using assms(1,2) by (simp_all add: buildRow_def visible_def)
    from setBuild_own_row [OF _ row, of ?f] obtain w' where
      "setBuild i ?f (w\<lparr>cluster := c\<rparr>) = (Inr (?f b), w')" "buildRow i w' = [?f b]" by auto
    moreover have "?f b = b\<lparr>b_status := BuildSucceeded\<rparr>" by (cases b) simp
    moreover have "b_id b = i" using buildRow_iff [OF assms(1), of b] by blast
    ultimately show ?thesis
      using False job ns body n find_b
      by (auto simp: getBuildStatus_def findBuildOrThrow_def bindM_run thenM_run getBuildJobStatus_def callK_run
          getBuildStatusFromJob_def truthy_def whenM_def voidM_run Let_def)
  qed
qed

lemma getBuildStatus_absent:
  assumes "\<not> (\<exists>b. b_id b = j \<and> b \<in> set (builds w) \<and> visible buildTable w b)"
  shows "\<exists>e. getBuildStatus api j w = (Inl e, w)"
proof -
  have "find (\<lambda>b. visible buildTable w b \<and> b_id b = j) (builds w) = None"
    using assms by (auto simp: find_None_iff)
  then show ?thesis
    by (simp add: getBuildStatus_def findBuildOrThrow_def bindM_run findFirst_def buildTable_def)
qed

lemma keeps_bindM_result:
  assumes "preorder_rel R" "keeps R m" "\<And>x w w'. m w = (Inr x, w') \<Longrightarrow> keeps R (f x)"
  shows "keeps R (bindM m f)"
proof (rule keepsI)
  fix w
  obtain r v where run: "m w = (r, v)" by fastforce
  have wv: "R w v" using keepsD [OF assms(2), of w] run by simp
  show "R w (snd (bindM m f w))"
  proof (cases r)
    case (Inr x)
    with assms(3) run have "R v (snd (f x v))" by (auto intro: keepsD)
    with wv Inr run assms(1) show ?thesis by (auto simp: bindM_run preorder_rel_def dest: transpD)
  qed (simp add: bindM_run run wv)
qed

lemma getBuildStatus_other:
  assumes "j \<noteq> i"
  shows "buildRow i (snd (getBuildStatus api j w)) = buildRow i w"
proof -
  let ?R = "\<lambda>w w'. buildRow i w' = buildRow i (w :: 'a world)"
  have pre: "preorder_rel ?R" by (auto simp: preorder_rel_def reflp_def transp_def)
  have kube: "keeps ?R (getBuildJobStatus api ns job)" for ns job
  proof (rule keepsI)
    fix w
    have "keeps sameTables (getBuildJobStatus api ns job)" by (simp add: kube_sameTables)
    from sameTables_builds [OF keepsD [OF this, of w]]
    show "buildRow i (snd (getBuildJobStatus api ns job w)) = buildRow i w" by (simp add: buildRow_def)
  qed
  have ns: "keeps ?R (workspaceNamespace ws)" for ws
    unfolding workspaceNamespace_def by (intro keeps_intros pre)
  have set: "keeps ?R (setBuild j f)" if "\<And>b. b_id (f b) = b_id b" for f
    using filter_update_other [of j i f] assms that
    by (auto simp: keeps_def setBuild_def updateRow_def buildTable_def buildRow_def split: option.split)
  have "keeps ?R (getBuildStatus api j)"
    unfolding getBuildStatus_def Let_def
  proof (rule keeps_bindM_result [OF pre], goal_cases)
    case 1
    show ?case by (rule keeps_findBuildOrThrow [OF pre])
  next
    case (2 b v v')
    then have "b_id b = j"
      by (auto simp: findBuildOrThrow_def bindM_run findFirst_def find_Some_iff split: option.splits)
    then show ?case
      by (intro keeps_option keeps_bindM keeps_thenM keeps_whenM keeps_voidM keeps_returnM kube ns pre)
        (simp add: set)
  qed
  then show ?thesis by (rule keepsD)
qed

lemma getBuildStatus_row:
  assumes "getBuildStatus api j w = (res, w')" and "buildRow i w = [b]" and "finished api b w"
  shows "buildRow i w' = [b] \<or> buildRow i w' = [b\<lparr>b_status := BuildSucceeded\<rparr>]"
proof (cases "j = i")
  case True
  show ?thesis
  proof (cases "visible buildTable w b")
    case vis: True
    with getBuildStatus_own [OF assms(2) vis assms(3)] assms(1) True show ?thesis by auto
  next
    case False
    have "\<not> (\<exists>x. b_id x = j \<and> x \<in> set (builds w) \<and> visible buildTable w x)"
      using buildRow_iff [OF assms(2)] True False by metis
    from getBuildStatus_absent [OF this, of api] assms show ?thesis by auto
  qed
next
  case False
  from getBuildStatus_other [OF this, of api w] assms show ?thesis by simp
qed

section \<open>Histories\<close>

text \<open>
  A step of a history: a request is served, or something else happens that leaves the stored
  builds alone: a job of the cluster, a background task, another program.
\<close>

inductive apiStep :: "'c services \<Rightarrow> 'c world \<Rightarrow> 'c world \<Rightarrow> bool" for sv where
  served: "serveRequest sv rq c w = (res, w') \<Longrightarrow> apiStep sv w w'"
| elsewhere: "builds w' = builds w \<Longrightarrow> apiStep sv w w'"

text \<open>Whatever happens, the build is still there, with the job it was given.\<close>

lemma apiStep_row: "apiStep sv w w' \<Longrightarrow> buildRow i w = [b] \<Longrightarrow> \<exists>b'. buildRow i w' = [b'] \<and> buildSeen b b'"
proof (induction rule: apiStep.induct)
  case (served rq c w res w')
  have aside_row: "aside u u' \<Longrightarrow> buildRow i u' = buildRow i u" for u u' :: "'a world"
    by (simp add: aside_def buildRow_def)
  show ?case
  proof (cases "asksBuildStatus c")
    case True
    then obtain j where c: "c = BuildsCall (BuildsGetStatus j)" by (auto elim: asksBuildStatus.elims)
    have "keeps onlyStatus (handle sv c who)" for who
      by (rule status_onlyStatus) (simp add: c)
    then have "onlyStatus w1 w2" if "handle sv c who w1 = (res, w2)" for who w1 w2
      using that by (metis keepsD snd_conv)
    with serveRequest_around [OF served.hyps] have "aside w w'
        \<or> (\<exists>w1 w2. aside w w1 \<and> onlyStatus w1 w2 \<and> aside w2 w')" by blast
    then show ?thesis
    proof (elim disjE exE conjE)
      assume "aside w w'"
      with served.prems show ?thesis by (simp add: aside_row)
    next
      fix w1 w2 assume "aside w w1" "onlyStatus w1 w2" "aside w2 w'"
      with served.prems seen_row [of w1 w2 i b] show ?thesis by (simp add: aside_row onlyStatus_def)
    qed
  next
    case False
    from grows_row [OF serveRequest_grows [OF this served.hyps] served.prems] show ?thesis by simp
  qed
next
  case (elsewhere w' w)
  then show ?case by (simp add: buildRow_def)
qed

text \<open>Once its job has succeeded, a step leaves the row of the build or records just that.\<close>

lemma apiStep_finished:
  "apiStep sv w w' \<Longrightarrow> buildRow i w = [b] \<Longrightarrow> finished (sv_kubernetes sv) b w \<Longrightarrow>
   buildRow i w' = [b] \<or> buildRow i w' = [b\<lparr>b_status := BuildSucceeded\<rparr>]"
proof (induction rule: apiStep.induct)
  case (served rq c w res w')
  have aside_row: "aside u u' \<Longrightarrow> buildRow i u' = buildRow i u" for u u' :: "'a world"
    by (simp add: aside_def buildRow_def)
  show ?case
  proof (cases "asksBuildStatus c")
    case True
    then obtain j where c: "c = BuildsCall (BuildsGetStatus j)" by (auto elim: asksBuildStatus.elims)
    from serveRequest_around [OF served.hyps] show ?thesis
    proof (elim disjE exE conjE)
      fix e assume "aside w w'"
      then show ?thesis using aside_row served.prems by simp
    next
      fix who w1 w2
      assume around: "aside w w1" "aside w2 w'" and run: "handle sv c who w1 = (res, w2)"
      from run c obtain r where "getBuildStatus (sv_kubernetes sv) j w1 = (r, w2)"
        by (cases "getBuildStatus (sv_kubernetes sv) j w1"; cases "fst (getBuildStatus (sv_kubernetes sv) j w1)")
          (auto simp: answerM_def bindM_run)
      from getBuildStatus_row [OF this, of i b] served.prems aside_row [OF around(1)] aside_row [OF around(2)]
        finished_aside [OF around(1)]
      show ?thesis by simp
    qed
  next
    case False
    from grows_row [OF serveRequest_grows [OF this served.hyps] served.prems(1)] show ?thesis by simp
  qed
next
  case (elsewhere w' w)
  then show ?case by (simp add: buildRow_def)
qed

text \<open>An answered status request records it.\<close>

lemma answered_records:
  assumes "serveRequest sv rq (BuildsCall (BuildsGetStatus i)) w = (Inr a, w')"
    and "buildRow i w = [b]" and "finished (sv_kubernetes sv) b w"
  shows "buildRow i w' = [b\<lparr>b_status := BuildSucceeded\<rparr>]"
proof -
  let ?c = "BuildsCall (BuildsGetStatus i)"
  have aside_row: "aside u u' \<Longrightarrow> buildRow i u' = buildRow i u" for u u' :: "'a world"
    by (simp add: aside_def buildRow_def)
  from serveRequest_around [OF assms(1)] obtain who w1 w2
    where around: "aside w w1" "aside w2 w'" and run: "handle sv ?c who w1 = (Inr a, w2)" by auto
  from run obtain v where status: "getBuildStatus (sv_kubernetes sv) i w1 = (Inr v, w2)"
    by (auto simp: answerM_def bindM_run split: prod.splits sum.splits)
  have row: "buildRow i w1 = [b]" "finished (sv_kubernetes sv) b w1"
    using assms(2,3) aside_row [OF around(1)] finished_aside [OF around(1)] by simp_all
  have "visible buildTable w1 b"
  proof (rule ccontr)
    assume "\<not> visible buildTable w1 b"
    then have "\<not> (\<exists>x. b_id x = i \<and> x \<in> set (builds w1) \<and> visible buildTable w1 x)"
      using buildRow_iff [OF row(1)] by metis
    from getBuildStatus_absent [OF this, of "sv_kubernetes sv"] status show False by simp
  qed
  from getBuildStatus_own [OF row(1) this row(2)] status aside_row [OF around(2)] show ?thesis by auto
qed

text \<open>
  C34. Progress of a build: if its job succeeds and stays so, and its status is asked for, and
  answered, again and again, then from some moment on the build is recorded as succeeded for good,
  whatever other requests are served and whatever else happens in between.
\<close>

theorem build_outcome_recorded:
  assumes "\<forall>n. apiStep sv (history n) (history (Suc n))"
    and "buildRow i (history 0) = [b]"
    and "\<exists>k. \<forall>n \<ge> k. finished (sv_kubernetes sv) b (history n)"
    and "\<forall>k. \<exists>n \<ge> k. \<exists>rq a. serveRequest sv rq (BuildsCall (BuildsGetStatus i)) (history n)
      = (Inr a, history (Suc n))"
  shows "\<exists>k. \<forall>n \<ge> k. \<exists>b'. buildRow i (history n) = [b'] \<and> b_status b' = BuildSucceeded"
proof -
  have row: "\<exists>b'. buildRow i (history n) = [b'] \<and> buildSeen b b'" for n
  proof (induction n)
    case (Suc n)
    then show ?case using apiStep_row assms(1) seen_trans(1) by blast
  qed (use assms(2) in simp)
  obtain k where k: "\<And>n. n \<ge> k \<Longrightarrow> finished (sv_kubernetes sv) b (history n)" using assms(3) by blast
  from assms(4) obtain m rq a where m: "m \<ge> k"
    "serveRequest sv rq (BuildsCall (BuildsGetStatus i)) (history m) = (Inr a, history (Suc m))" by blast
  from row obtain b0 where b0: "buildRow i (history m) = [b0]" "buildSeen b b0" by blast
  let ?b = "b0\<lparr>b_status := BuildSucceeded\<rparr>"
  have finished: "finished (sv_kubernetes sv) ?b (history n)" if "n \<ge> k" for n
    using k [OF that] finished_seen [of b ?b "sv_kubernetes sv" "history n"] b0(2) by (simp add: seen_status)
  have "buildRow i (history (Suc m + n)) = [?b]" for n
  proof (induction n)
    case 0
    show ?case
      using answered_records [OF m(2) b0(1)] k [OF m(1)]
        finished_seen [OF b0(2), of "sv_kubernetes sv" "history m"] by simp
  next
    case (Suc n)
    from apiStep_finished [OF assms(1) [rule_format] Suc] finished m(1) show ?case by simp
  qed
  then have "buildRow i (history n) = [?b]" if "n \<ge> Suc m" for n
    using that by (metis le_add_diff_inverse)
  then show ?thesis by (intro exI [of _ "Suc m"]) simp
qed

section \<open>The console\<close>

text \<open>A step of the console: a page is shown, or a button is pressed, or something happens elsewhere.\<close>

inductive consoleStep :: "'c services \<Rightarrow> (string \<Rightarrow> bool) \<Rightarrow> 'c world \<Rightarrow> 'c world \<Rightarrow> bool"
  for sv isHttpsUrl
where
  looked: "queried auth c \<Longrightarrow> reaches isHttpsUrl c r \<Longrightarrow> serveRequest sv rq r w = (res, w') \<Longrightarrow>
    consoleStep sv isHttpsUrl w w'"
| pressed: "shown auth (Button l c) \<Longrightarrow> reaches isHttpsUrl c r \<Longrightarrow> serveRequest sv rq r w = (res, w') \<Longrightarrow>
    consoleStep sv isHttpsUrl w w'"
| elsewhere: "builds w' = builds w \<Longrightarrow> consoleStep sv isHttpsUrl w w'"

lemma gated_asks: "gated ps c \<Longrightarrow> c \<noteq> CallBuilds (GetBuildStatus i)"
proof (induction rule: gated.induct)
  case (act d action)
  then show ?case by (cases action) simp_all
qed simp_all

lemma reaches_asksBuildStatus:
  "reaches isHttpsUrl c r \<Longrightarrow> asksBuildStatus r \<Longrightarrow> \<exists>i. c = CallBuilds (GetBuildStatus i)"
  by (induction rule: reaches.induct) simp_all

lemma consoleStep_grows: "consoleStep sv isHttpsUrl w w' \<Longrightarrow> grows w w'"
proof (induction rule: consoleStep.induct)
  case (looked auth c r rq w res w')
  then have "\<not> asksBuildStatus r" using reaches_asksBuildStatus queried_get by blast
  from serveRequest_grows [OF this looked.hyps(3)] show ?case .
next
  case (pressed auth l c r rq w res w')
  then have "gated (permissionsOf auth) c" by (blast intro: shown_button)
  with pressed have "\<not> asksBuildStatus r" using reaches_asksBuildStatus gated_asks by blast
  from serveRequest_grows [OF this pressed.hyps(3)] show ?case .
next
  case (elsewhere w' w)
  then show ?case by (rule grows_same)
qed

text \<open>
  C35. In the console no build ever succeeds: none of its pages asks for the status of a build,
  which is what would record it, so however long it is used, the builds recorded as succeeded are
  those that were so before. A build started in the console can never be chosen for a deployment.
\<close>

theorem console_never_records_success:
  assumes "(consoleStep sv isHttpsUrl)\<^sup>*\<^sup>* w w'" and "b \<in> set (builds w')" and "b_status b = BuildSucceeded"
  shows "b \<in> set (builds w)"
proof -
  have "grows w w'"
    using assms(1) by (induction rule: rtranclp_induct) (auto intro: grows_same grows_trans consoleStep_grows)
  with assms(2,3) show ?thesis by (auto simp: grows_def)
qed

section \<open>Witnesses\<close>

definition finishedServices :: "unit services" where
  "finishedServices = sampleServices\<lparr>sv_kubernetes :=
     (\<lambda>_ c. (Inr (JObj [(''status'', JObj [(''succeeded'', JNum 1)])]), c))\<rparr>"

definition runningBuild :: build where
  "runningBuild =
     \<lparr> b_id = ''b1'', b_workspaceId = ''ws'', b_appId = ''a1'', b_status = BuildRunning,
       b_strategy = Dockerfile, b_repoUrl = [], b_branch = [], b_buildContext = [],
       b_dockerfilePath = None, b_image = Some ''image'', b_kubernetesJob = Some ''job'',
       b_errorMessage = None, b_createdAt = 0 \<rparr>"

definition succeededBuild :: build where
  "succeededBuild = runningBuild\<lparr>b_status := BuildSucceeded\<rparr>"

definition askingWorld :: "build \<Rightarrow> unit world" where
  "askingWorld b = sessionWorld\<lparr>builds := [b], sessions := [sampleSession\<lparr>s_scopes := [''builds:read'']\<rparr>]\<rparr>"

abbreviation ask :: "build \<Rightarrow> (exn + api_answer) \<times> unit world" where
  "ask b \<equiv> serveRequest finishedServices (sampleHttp ''GET'' (Some ''token''))
     (BuildsCall (BuildsGetStatus ''b1'')) (askingWorld b)"

definition statusRoute :: route where
  "statusRoute = get ''BuildsController'' ''getStatus'' ''/builds/:id/status'' [''builds:read'']"

lemma statusRoute_routed: "routeOf (BuildsCall (BuildsGetStatus i)) = Some statusRoute"
  by code_simp

lemma ask_answers:
  "b = runningBuild \<or> b = succeededBuild \<Longrightarrow> \<exists>v w'. ask b = (Inr (BuildStatusAnswer v), w') \<and> builds w' = [succeededBuild]
     \<and> workspaces w' = workspaces sessionWorld"
  by (elim disjE)
    (simp_all add: serveRequest_def statusRoute_routed serve_def authenticationGuard_def authenticate_def
      csrfGuard_def permissionGuard_def tenantContextInterceptor_def auditInterceptor_def io_simps
      finishedServices_def sampleServices_def loginDeps_def toyCrypto_def askingWorld_def sessionWorld_def
      sampleSession_def emptyWorld_def sampleHttp_def statusRoute_def get_def SAFE_METHODS_def findFirst_def
      updateRow_def sessionTable_def buildTable_def workspaceTable_def visible_def isSession_def userOf_def
      workspaceOfSession_def now_run activeWorkspace_def toPrincipal_def answerM_def getBuildStatus_def
      findBuildOrThrow_def workspaceNamespace_def getBuildJobStatus_def callK_run getBuildStatusFromJob_def
      setBuild_def count0_def databaseWorkspace_def principalContext_def runningBuild_def succeededBuild_def
      hash_def idleMs_def truthy_def whenM_def voidM_run runInContext_run Let_def)

text \<open>The history in which the status is asked for in every other step, with a fresh session.\<close>

definition asked :: "nat \<Rightarrow> build" where
  "asked n = (if n = 0 then runningBuild else succeededBuild)"

definition askingHistory :: "nat \<Rightarrow> unit world" where
  "askingHistory n = (if even n then askingWorld (asked n) else snd (ask (asked (n - 1))))"

lemma asked_answer: "\<exists>v w'. ask (asked n) = (Inr (BuildStatusAnswer v), w') \<and> builds w' = [succeededBuild]
  \<and> workspaces w' = workspaces sessionWorld"
  by (rule ask_answers) (simp add: asked_def)

theorem build_outcome_recorded_witness:
  "\<exists>k. \<forall>n \<ge> k. \<exists>b'. buildRow ''b1'' (askingHistory n) = [b'] \<and> b_status b' = BuildSucceeded"
proof (rule build_outcome_recorded [where sv = finishedServices])
  show "\<forall>n. apiStep finishedServices (askingHistory n) (askingHistory (Suc n))"
  proof
    fix n
    show "apiStep finishedServices (askingHistory n) (askingHistory (Suc n))"
    proof (cases "even n")
      case True
      then show ?thesis by (auto simp: askingHistory_def intro: apiStep.served [OF prod.collapse [symmetric]])
    next
      case False
      then have "builds (askingHistory (Suc n)) = builds (askingHistory n)"
        using asked_answer [of "n - 1"] by (auto simp: askingHistory_def asked_def askingWorld_def)
      then show ?thesis by (rule apiStep.elsewhere)
    qed
  qed
  show "buildRow ''b1'' (askingHistory 0) = [runningBuild]"
    by (simp add: askingHistory_def asked_def askingWorld_def buildRow_def runningBuild_def)
  have world: "workspaces (askingHistory n) = workspaces sessionWorld" for n
    using asked_answer [of "n - 1"] by (auto simp: askingHistory_def askingWorld_def)
  have "finished (sv_kubernetes finishedServices) runningBuild (askingHistory n)" for n
    unfolding finished_def
    by (simp add: world) (simp add: finishedServices_def jobDone_def count0_def runningBuild_def sessionWorld_def truthy_def)
  then show "\<exists>k. \<forall>n \<ge> k. finished (sv_kubernetes finishedServices) runningBuild (askingHistory n)" by blast
  show "\<forall>k. \<exists>n \<ge> k. \<exists>rq a. serveRequest finishedServices rq (BuildsCall (BuildsGetStatus ''b1'')) (askingHistory n)
      = (Inr a, askingHistory (Suc n))"
  proof
    fix k :: nat
    have "\<exists>a. ask (asked (2 * k)) = (Inr a, askingHistory (Suc (2 * k)))"
      using asked_answer [of "2 * k"] by (auto simp: askingHistory_def)
    then show "\<exists>n \<ge> k. \<exists>rq a. serveRequest finishedServices rq (BuildsCall (BuildsGetStatus ''b1'')) (askingHistory n)
        = (Inr a, askingHistory (Suc n))"
      by (intro exI [of _ "2 * k"]) (auto simp: askingHistory_def)
  qed
qed

theorem console_never_records_success_witness:
  "filter (\<lambda>b. b_status b = BuildSucceeded) (builds (snd (serveRequest finishedServices
     (sampleHttp ''GET'' (Some ''token'')) (BuildsCall (BuildsFindByApp ''a1'')) (askingWorld runningBuild)))) = []"
proof -
  have "queried None (CallBuilds (ListBuilds ''a1''))"
    by (rule queried.app_detail [of _ "''a1''"]) (simp add: query_defs)
  then have "consoleStep finishedServices (\<lambda>_. True) (askingWorld runningBuild)
      (snd (serveRequest finishedServices (sampleHttp ''GET'' (Some ''token''))
         (BuildsCall (BuildsFindByApp ''a1'')) (askingWorld runningBuild)))"
    by (rule consoleStep.looked [OF _ reaches.list_builds prod.collapse [symmetric]])
  from console_never_records_success
    [OF r_into_rtranclp [where r = "consoleStep finishedServices (\<lambda>_. True)", OF this]]
  show ?thesis
    by (force simp: askingWorld_def runningBuild_def filter_empty_conv)
qed

end
