(* ===== verification/Confidential.thy ===== *)
theory Confidential
  imports Progress
begin

text \<open>
  Confidentiality of the workspaces, as non-interference: the answer to a request of one workspace
  and the state it leaves depend on the rows of the other workspaces through their identifiers
  only. Two worlds look the same from a workspace when they differ at most in the other columns of
  the rows of other workspaces; every program of the services maps such worlds to the same
  answer and to such worlds. As in Isolation, the contract of a table is a locale, interpreted on
  every table, and a service operation is dealt with by splitting its program.
\<close>

section \<open>What a workspace sees\<close>

text \<open>Of a row of another workspace: which workspace it belongs to, and its identifier.\<close>

definition outline :: "('r \<Rightarrow> string) \<Rightarrow> ('r \<Rightarrow> string) \<Rightarrow> string \<Rightarrow> 'r \<Rightarrow> string \<times> string \<times> 'r option" where
  "outline wsOf key ws r = (wsOf r, key r, if wsOf r = ws then Some r else None)"

text \<open>Everything but the rows of the tenant models.\<close>

definition emptied :: "'c world \<Rightarrow> 'c world" where
  "emptied w = w\<lparr>apps := [], builds := [], deployments := [], runtimeConfigs := [], samples := [],
     incidents := [], runs := [], runEvents := [], snapshots := []\<rparr>"

definition alike :: "string \<Rightarrow> 'c world \<Rightarrow> 'c world \<Rightarrow> bool" where
  "alike ws w v \<longleftrightarrow>
     emptied w = emptied v
     \<and> map (outline a_workspaceId a_id ws) (apps w) = map (outline a_workspaceId a_id ws) (apps v)
     \<and> map (outline b_workspaceId b_id ws) (builds w) = map (outline b_workspaceId b_id ws) (builds v)
     \<and> map (outline d_workspaceId d_id ws) (deployments w)
         = map (outline d_workspaceId d_id ws) (deployments v)
     \<and> map (outline rc_workspaceId rc_deploymentId ws) (runtimeConfigs w)
         = map (outline rc_workspaceId rc_deploymentId ws) (runtimeConfigs v)
     \<and> map (outline h_workspaceId h_id ws) (samples w) = map (outline h_workspaceId h_id ws) (samples v)
     \<and> map (outline i_workspaceId i_id ws) (incidents w)
         = map (outline i_workspaceId i_id ws) (incidents v)
     \<and> map (outline r_workspaceId r_id ws) (runs w) = map (outline r_workspaceId r_id ws) (runs v)
     \<and> map (outline e_workspaceId e_id ws) (runEvents w)
         = map (outline e_workspaceId e_id ws) (runEvents v)
     \<and> map (outline es_workspaceId es_id ws) (snapshots w)
         = map (outline es_workspaceId es_id ws) (snapshots v)"

lemma alike_refl [simp]: "alike ws w w"
  by (simp add: alike_def)

lemma emptied_fields:
  assumes "emptied w = emptied v"
  shows "workspaces w = workspaces v" "users w = users v" "memberships w = memberships v"
    "attempts w = attempts v" "sessions w = sessions v" "audits w = audits v" "tenant w = tenant v"
    "cluster w = cluster v" "collecting w = collecting v" "detecting w = detecting v"
    "oidcClient w = oidcClient v" "clock w = clock v" "ticks w = ticks v" "entropy w = entropy v"
    "drawn w = drawn v"
  using arg_cong [OF assms, of workspaces] arg_cong [OF assms, of users]
    arg_cong [OF assms, of memberships] arg_cong [OF assms, of attempts]
    arg_cong [OF assms, of sessions] arg_cong [OF assms, of audits] arg_cong [OF assms, of tenant]
    arg_cong [OF assms, of cluster] arg_cong [OF assms, of collecting]
    arg_cong [OF assms, of detecting] arg_cong [OF assms, of oidcClient]
    arg_cong [OF assms, of clock] arg_cong [OF assms, of ticks] arg_cong [OF assms, of entropy]
    arg_cong [OF assms, of drawn]
  by (simp_all add: emptied_def)

lemma emptied_updates [simp]:
  "emptied (w\<lparr>apps := as\<rparr>) = emptied w" "emptied (w\<lparr>builds := bs\<rparr>) = emptied w"
  "emptied (w\<lparr>deployments := ds\<rparr>) = emptied w" "emptied (w\<lparr>runtimeConfigs := rcs\<rparr>) = emptied w"
  "emptied (w\<lparr>samples := hs\<rparr>) = emptied w" "emptied (w\<lparr>incidents := is\<rparr>) = emptied w"
  "emptied (w\<lparr>runs := rs\<rparr>) = emptied w" "emptied (w\<lparr>runEvents := es\<rparr>) = emptied w"
  "emptied (w\<lparr>snapshots := ss\<rparr>) = emptied w"
  "emptied (w\<lparr>workspaces := wss\<rparr>) = (emptied w)\<lparr>workspaces := wss\<rparr>"
  "emptied (w\<lparr>users := us\<rparr>) = (emptied w)\<lparr>users := us\<rparr>"
  "emptied (w\<lparr>memberships := ms\<rparr>) = (emptied w)\<lparr>memberships := ms\<rparr>"
  "emptied (w\<lparr>attempts := las\<rparr>) = (emptied w)\<lparr>attempts := las\<rparr>"
  "emptied (w\<lparr>sessions := sns\<rparr>) = (emptied w)\<lparr>sessions := sns\<rparr>"
  "emptied (w\<lparr>audits := aes\<rparr>) = (emptied w)\<lparr>audits := aes\<rparr>"
  "emptied (w\<lparr>tenant := tn\<rparr>) = (emptied w)\<lparr>tenant := tn\<rparr>"
  "emptied (w\<lparr>cluster := cl\<rparr>) = (emptied w)\<lparr>cluster := cl\<rparr>"
  "emptied (w\<lparr>oidcClient := oc\<rparr>) = (emptied w)\<lparr>oidcClient := oc\<rparr>"
  "emptied (w\<lparr>ticks := n\<rparr>) = (emptied w)\<lparr>ticks := n\<rparr>"
  "emptied (w\<lparr>drawn := m\<rparr>) = (emptied w)\<lparr>drawn := m\<rparr>"
  by (simp_all add: emptied_def)

text \<open>
  The same before and after the tenant context is set: no workspace, or this one.
\<close>

definition inside :: "string \<Rightarrow> 'c world \<Rightarrow> 'c world \<Rightarrow> bool" where
  "inside ws w v \<longleftrightarrow> alike ws w v \<and> databaseWorkspace w \<in> {None, Some ws}"

text \<open>A program that tells nothing of other workspaces to this one.\<close>

definition secure :: "string \<Rightarrow> ('c world, 'a) io \<Rightarrow> bool" where
  "secure ws m \<longleftrightarrow>
     (\<forall>w v. inside ws w v \<longrightarrow> fst (m w) = fst (m v) \<and> inside ws (snd (m w)) (snd (m v)))"

named_theorems secure_intros \<open>introduction rules that split a program\<close>

lemma alike_fields:
  assumes "alike ws w v"
  shows "workspaces w = workspaces v" "users w = users v" "memberships w = memberships v"
    "attempts w = attempts v" "sessions w = sessions v" "audits w = audits v" "tenant w = tenant v"
    "cluster w = cluster v" "collecting w = collecting v" "detecting w = detecting v"
    "oidcClient w = oidcClient v" "clock w = clock v" "ticks w = ticks v" "entropy w = entropy v"
    "drawn w = drawn v"
  using emptied_fields [of w v] assms by (simp_all add: alike_def)

lemma alike_databaseWorkspace: "alike ws w v \<Longrightarrow> databaseWorkspace w = databaseWorkspace v"
  by (rule databaseWorkspace_cong) (rule alike_fields)

lemma inside_workspace: "inside ws w v \<Longrightarrow> databaseWorkspace v = databaseWorkspace w"
  using alike_databaseWorkspace [of ws w v] by (auto simp: inside_def)

lemma secureI:
  "(\<And>w v. inside ws w v \<Longrightarrow> fst (m w) = fst (m v) \<and> inside ws (snd (m w)) (snd (m v))) \<Longrightarrow> secure ws m"
  by (simp add: secure_def)

lemma secureD:
  assumes "secure ws m" "inside ws w v"
  obtains r w' v' where "m w = (r, w')" "m v = (r, v')" "inside ws w' v'"
  using assms by (metis prod.collapse secure_def)

section \<open>Splitting programs\<close>

lemma secure_base [secure_intros]:
  "secure ws (returnM x)" "secure ws (throwM e)" "secure ws (liftM r)"
  by (auto intro: secureI)

lemma secure_readM: "(\<And>w v. alike ws w v \<Longrightarrow> f w = f v) \<Longrightarrow> secure ws (readM f)"
  by (auto intro: secureI simp: inside_def)

lemma secure_bindM [secure_intros]:
  assumes "secure ws m" "\<And>x. secure ws (f x)"
  shows "secure ws (bindM m f)"
proof (rule secureI)
  fix w v :: "'a world" assume "inside ws w v"
  with assms(1) obtain r w' v' where "m w = (r, w')" "m v = (r, v')" "inside ws w' v'"
    by (rule secureD)
  with assms(2) show "fst (bindM m f w) = fst (bindM m f v) \<and> inside ws (snd (bindM m f w)) (snd (bindM m f v))"
    by (cases r) (auto simp: bindM_run secure_def)
qed

lemma secure_thenM [secure_intros]: "secure ws m \<Longrightarrow> secure ws n \<Longrightarrow> secure ws (thenM m n)"
  unfolding thenM_def by (rule secure_bindM)

lemma secure_catchM [secure_intros]:
  assumes "secure ws m" "\<And>e. secure ws (h e)"
  shows "secure ws (catchM m h)"
proof (rule secureI)
  fix w v :: "'a world" assume "inside ws w v"
  with assms(1) obtain r w' v' where "m w = (r, w')" "m v = (r, v')" "inside ws w' v'"
    by (rule secureD)
  with assms(2) show "fst (catchM m h w) = fst (catchM m h v) \<and> inside ws (snd (catchM m h w)) (snd (catchM m h v))"
    by (cases r) (auto simp: catchM_run secure_def)
qed

lemma secure_attemptM [secure_intros]: "secure ws m \<Longrightarrow> secure ws (attemptM m)"
  by (simp add: secure_def attemptM_run)

lemma secure_voidM [secure_intros]: "secure ws m \<Longrightarrow> secure ws (voidM m)"
  unfolding voidM_def by (intro secure_bindM secure_base)

lemma secure_whenM [secure_intros]: "(b \<Longrightarrow> secure ws m) \<Longrightarrow> secure ws (whenM b m)"
  by (simp add: whenM_def secure_base)

lemma secure_if [secure_intros]:
  "(b \<Longrightarrow> secure ws m) \<Longrightarrow> (\<not> b \<Longrightarrow> secure ws n) \<Longrightarrow> secure ws (if b then m else n)"
  by simp

lemma secure_forM [secure_intros]: "(\<And>x. secure ws (f x)) \<Longrightarrow> secure ws (forM xs f)"
  by (induction xs) (auto intro: secure_intros)

lemma secure_mapM [secure_intros]: "(\<And>x. secure ws (f x)) \<Longrightarrow> secure ws (mapM f xs)"
  by (induction xs) (auto intro: secure_intros)

lemma secure_allM [secure_intros]: "(\<And>x. secure ws (f x)) \<Longrightarrow> secure ws (allM f xs)"
  by (induction xs) (auto intro: secure_intros)

lemma secure_sum [secure_intros]:
  "(\<And>e. x = Inl e \<Longrightarrow> secure ws (g e)) \<Longrightarrow> (\<And>y. x = Inr y \<Longrightarrow> secure ws (f y)) \<Longrightarrow>
   secure ws (case x of Inl e \<Rightarrow> g e | Inr y \<Rightarrow> f y)"
  by (cases x) auto

lemma secure_prod [secure_intros]:
  "(\<And>a b. x = (a, b) \<Longrightarrow> secure ws (f a b)) \<Longrightarrow> secure ws (case x of (a, b) \<Rightarrow> f a b)"
  by (cases x) auto

lemma secure_option [secure_intros]:
  "(x = None \<Longrightarrow> secure ws m) \<Longrightarrow> (\<And>y. x = Some y \<Longrightarrow> secure ws (f y)) \<Longrightarrow>
   secure ws (case x of None \<Rightarrow> m | Some y \<Rightarrow> f y)"
  by (cases x) auto

section \<open>Time, chance and the outside\<close>

text \<open>Steps that change what both worlds have in common.\<close>

lemma alike_update:
  "alike ws w v \<Longrightarrow> alike ws (w\<lparr>ticks := n\<rparr>) (v\<lparr>ticks := n\<rparr>)"
  "alike ws w v \<Longrightarrow> alike ws (w\<lparr>drawn := n\<rparr>) (v\<lparr>drawn := n\<rparr>)"
  "alike ws w v \<Longrightarrow> alike ws (w\<lparr>cluster := c\<rparr>) (v\<lparr>cluster := c\<rparr>)"
  "alike ws w v \<Longrightarrow> alike ws (w\<lparr>tenant := tn\<rparr>) (v\<lparr>tenant := tn\<rparr>)"
  "alike ws w v \<Longrightarrow> alike ws (w\<lparr>oidcClient := oc\<rparr>) (v\<lparr>oidcClient := oc\<rparr>)"
  by (simp_all add: alike_def)

lemma secure_now [secure_intros]: "secure ws now"
proof (rule secureI)
  fix w v :: "'a world" assume "inside ws w v"
  then have "alike ws w v" "databaseWorkspace w \<in> {None, Some ws}" by (simp_all add: inside_def)
  then show "fst (now w) = fst (now v) \<and> inside ws (snd (now w)) (snd (now v))"
    using alike_fields [of ws w v] alike_update(1) [of ws w v "Suc (ticks v)"]
    by (simp add: now_run inside_def)
qed

lemma secure_fresh [secure_intros]: "secure ws fresh"
proof (rule secureI)
  fix w v :: "'a world" assume "inside ws w v"
  then have "alike ws w v" "databaseWorkspace w \<in> {None, Some ws}" by (simp_all add: inside_def)
  then show "fst (fresh w) = fst (fresh v) \<and> inside ws (snd (fresh w)) (snd (fresh v))"
    using alike_fields [of ws w v] alike_update(2) [of ws w v "Suc (drawn v)"]
    by (simp add: fresh_run inside_def)
qed

text \<open>The cluster answers by its own state, which the workspaces share.\<close>

lemma secure_cluster:
  assumes "\<And>w. m w = (r (cluster w), w\<lparr>cluster := c (cluster w)\<rparr>)"
  shows "secure ws m"
proof (rule secureI)
  fix w v :: "'a world" assume "inside ws w v"
  then have "alike ws w v" "databaseWorkspace w \<in> {None, Some ws}" by (simp_all add: inside_def)
  then show "fst (m w) = fst (m v) \<and> inside ws (snd (m w)) (snd (m v))"
    using alike_fields [of ws w v] alike_update(3) [of ws w v "c (cluster v)"] assms
    by (simp add: inside_def)
qed

lemma secure_outside [secure_intros]: "secure ws (outside f)"
  by (rule secure_cluster) (rule outside_run)

lemma secure_callK [secure_intros]: "secure ws (callK api call)"
  by (rule secure_cluster [where r = "\<lambda>c. case fst (api call c) of Inl e \<Rightarrow> Inl (KubeError e) | Inr body \<Rightarrow> Inr body"
        and c = "\<lambda>c. snd (api call c)"])
    (simp add: callK_run split: prod.split sum.split)

lemma secure_callFetch [secure_intros]: "secure ws (callFetch fetch rq)"
  by (rule secure_cluster [where r = "\<lambda>c. case fst (fetch rq c) of Inl e \<Rightarrow> Inl (JsError e) | Inr body \<Rightarrow> Inr body"
        and c = "\<lambda>c. snd (fetch rq c)"])
    (simp add: callFetch_run split: prod.split sum.split)

section \<open>The contract of a table\<close>

lemma outlines_all2: "map (outline wsOf key ws) rs = map (outline wsOf key ws) rs'
  \<longleftrightarrow> list_all2 (\<lambda>r r'. outline wsOf key ws r = outline wsOf key ws r') rs rs'"
  by (simp add: list_eq_iff_nth_eq list_all2_conv_all_nth) auto

lemma outline_own: "outline wsOf key ws r = outline wsOf key ws r' \<Longrightarrow> wsOf r = ws \<or> wsOf r' = ws \<Longrightarrow> r' = r"
  by (auto simp: outline_def split: if_splits)

lemma outline_parts: "outline wsOf key ws r = outline wsOf key ws r' \<Longrightarrow> wsOf r = wsOf r' \<and> key r = key r'"
  by (simp add: outline_def)

lemma ex_outlined:
  assumes "map (outline wsOf key ws) rs = map (outline wsOf key ws) rs'"
  shows "list_ex (\<lambda>r. Q (wsOf r) (key r)) rs = list_ex (\<lambda>r. Q (wsOf r) (key r)) rs'"
  using assms unfolding outlines_all2 by induction (auto dest: outline_parts)

lemma ex_same:
  assumes "list_all2 E rs rs'" "\<And>r r'. E r r' \<Longrightarrow> P r = P' r'"
  shows "list_ex P rs = list_ex P' rs'"
  using assms by induction auto

text \<open>The rows of a tenant model: \<open>key\<close> is the column other workspaces may learn.\<close>

locale secret_table = tenant_table t for t :: "('c, 'r) table" +
  fixes key :: "'r \<Rightarrow> string"
  assumes alike_rows: "alike ws w v \<Longrightarrow>
      map (outline (workspaceOf t) key ws) (rowsOf t w) = map (outline (workspaceOf t) key ws) (rowsOf t v)"
    and alike_setRows: "alike ws w v \<Longrightarrow>
      map (outline (workspaceOf t) key ws) rs = map (outline (workspaceOf t) key ws) rs' \<Longrightarrow>
      alike ws (setRows t rs w) (setRows t rs' v)"
    and alike_clash: "workspaceOf t r = ws \<Longrightarrow>
      outline (workspaceOf t) key ws x = outline (workspaceOf t) key ws y \<Longrightarrow>
      uniqueClash t x r = uniqueClash t y r"
    and alike_parents: "alike ws w v \<Longrightarrow> workspaceOf t r = ws \<Longrightarrow> parentsExist t w r = parentsExist t v r"
begin

lemma rows_all2: "alike ws w v \<Longrightarrow>
  list_all2 (\<lambda>r r'. outline (workspaceOf t) key ws r = outline (workspaceOf t) key ws r') (rowsOf t w) (rowsOf t v)"
  using alike_rows outlines_all2 by blast

lemma visible_inside: "inside ws w v \<Longrightarrow> visible t w r \<Longrightarrow> workspaceOf t r = ws"
  by (auto simp: inside_def visible_iff)

lemma visible_alike: "inside ws w v \<Longrightarrow> visible t v r = visible t w r"
  by (simp add: visible_iff inside_workspace)

lemma visible_same:
  assumes "inside ws w v" "outline (workspaceOf t) key ws r = outline (workspaceOf t) key ws r'"
  shows "visible t w r = visible t v r'" "visible t w r \<Longrightarrow> r' = r"
proof -
  from outline_parts [OF assms(2)] show "visible t w r = visible t v r'"
    by (simp add: visible_iff inside_workspace [OF assms(1)])
  show "visible t w r \<Longrightarrow> r' = r"
    using outline_own [OF assms(2)] visible_inside [OF assms(1)] by blast
qed

lemma found_same:
  assumes "inside ws w v"
  shows "filter (\<lambda>r. visible t w r \<and> p r) (rowsOf t w) = filter (\<lambda>r. visible t v r \<and> p r) (rowsOf t v)"
    "find (\<lambda>r. visible t w r \<and> p r) (rowsOf t w) = find (\<lambda>r. visible t v r \<and> p r) (rowsOf t v)"
proof -
  have "filter (\<lambda>r. visible t w r \<and> p r) rs = filter (\<lambda>r. visible t v r \<and> p r) rs'
      \<and> find (\<lambda>r. visible t w r \<and> p r) rs = find (\<lambda>r. visible t v r \<and> p r) rs'"
    if "list_all2 (\<lambda>r r'. outline (workspaceOf t) key ws r = outline (workspaceOf t) key ws r') rs rs'" for rs rs'
    using that by induction (auto dest: visible_same [OF assms])
  moreover have "alike ws w v" using assms by (simp add: inside_def)
  ultimately show "filter (\<lambda>r. visible t w r \<and> p r) (rowsOf t w) = filter (\<lambda>r. visible t v r \<and> p r) (rowsOf t v)"
    "find (\<lambda>r. visible t w r \<and> p r) (rowsOf t w) = find (\<lambda>r. visible t v r \<and> p r) (rowsOf t v)"
    using rows_all2 by blast+
qed

lemma inside_setRows:
  assumes "inside ws w v"
    and "map (outline (workspaceOf t) key ws) rs = map (outline (workspaceOf t) key ws) rs'"
  shows "inside ws (setRows t rs w) (setRows t rs' v)"
  using assms alike_setRows databaseWorkspace_cong [OF tenant_setRows] by (auto simp: inside_def)

lemma secure_findMany: "secure ws (findMany t p)" and secure_findFirst: "secure ws (findFirst t p)"
  using found_same by (auto intro!: secureI simp: findMany_def findFirst_def)

lemma secure_createRow: "secure ws (createRow t mk)"
proof (rule secureI)
  fix w v :: "'c world" assume i: "inside ws w v"
  then have a: "alike ws w v" and d: "databaseWorkspace w = databaseWorkspace v"
    using inside_workspace [OF i] by (simp_all add: inside_def)
  show "fst (createRow t mk w) = fst (createRow t mk v) \<and> inside ws (snd (createRow t mk w)) (snd (createRow t mk v))"
  proof (cases "databaseWorkspace v")
    case None
    with i d show ?thesis by (simp add: createRow_def tenant_model)
  next
    case (Some u)
    let ?r = "mk u"
    have "list_ex (\<lambda>r'. uniqueClash t r' ?r) (rowsOf t w) = list_ex (\<lambda>r'. uniqueClash t r' ?r) (rowsOf t v)"
      "parentsExist t w ?r = parentsExist t v ?r" if "visible t w ?r"
    proof -
      have "list_ex (\<lambda>r'. uniqueClash t r' ?r) (rowsOf t w) = list_ex (\<lambda>r'. uniqueClash t r' ?r) (rowsOf t v)"
        by (rule ex_same [OF rows_all2 [OF a]]) (rule alike_clash [OF visible_inside [OF i that]])
      with alike_parents [OF a visible_inside [OF i that]] show
        "list_ex (\<lambda>r'. uniqueClash t r' ?r) (rowsOf t w) = list_ex (\<lambda>r'. uniqueClash t r' ?r) (rowsOf t v)"
        "parentsExist t w ?r = parentsExist t v ?r" by simp_all
    qed
    moreover have "inside ws (setRows t (rowsOf t w @ [?r]) w) (setRows t (rowsOf t v @ [?r]) v)"
      by (rule inside_setRows [OF i]) (simp add: alike_rows [OF a])
    ultimately show ?thesis
      using i d Some visible_alike [OF i] by (auto simp: createRow_def tenant_model Let_def)
  qed
qed

lemma secure_updateRow: "secure ws (updateRow t p f)"
proof (rule secureI)
  fix w v :: "'c world" assume i: "inside ws w v"
  then have a: "alike ws w v" by (simp add: inside_def)
  show "fst (updateRow t p f w) = fst (updateRow t p f v) \<and> inside ws (snd (updateRow t p f w)) (snd (updateRow t p f v))"
  proof (cases "find (\<lambda>r. visible t v r \<and> p r) (rowsOf t v)")
    case None
    with i found_same(2) [OF i, of p] show ?thesis by (simp add: updateRow_def)
  next
    case (Some r)
    have "list_ex (\<lambda>x. \<not> (visible t w x \<and> p x) \<and> uniqueClash t x (f r)) (rowsOf t w)
        = list_ex (\<lambda>x. \<not> (visible t v x \<and> p x) \<and> uniqueClash t x (f r)) (rowsOf t v)"
      if "visible t w (f r)"
    proof (rule ex_same [OF rows_all2 [OF a]])
      fix x y assume same: "outline (workspaceOf t) key ws x = outline (workspaceOf t) key ws y"
      from alike_clash [OF visible_inside [OF i that] this]
      show "(\<not> (visible t w x \<and> p x) \<and> uniqueClash t x (f r)) = (\<not> (visible t v y \<and> p y) \<and> uniqueClash t y (f r))"
        using visible_same [OF i same] by auto
    qed
    moreover have "inside ws (setRows t (map (\<lambda>x. if visible t w x \<and> p x then f x else x) (rowsOf t w)) w)
        (setRows t (map (\<lambda>x. if visible t v x \<and> p x then f x else x) (rowsOf t v)) v)"
    proof (rule inside_setRows [OF i])
      have "map (outline (workspaceOf t) key ws) (map (\<lambda>x. if visible t w x \<and> p x then f x else x) rs)
          = map (outline (workspaceOf t) key ws) (map (\<lambda>x. if visible t v x \<and> p x then f x else x) rs')"
        if "list_all2 (\<lambda>r r'. outline (workspaceOf t) key ws r = outline (workspaceOf t) key ws r') rs rs'" for rs rs'
        using that by induction (auto dest: visible_same [OF i])
      with rows_all2 [OF a]
      show "map (outline (workspaceOf t) key ws) (map (\<lambda>x. if visible t w x \<and> p x then f x else x) (rowsOf t w))
          = map (outline (workspaceOf t) key ws) (map (\<lambda>x. if visible t v x \<and> p x then f x else x) (rowsOf t v))"
        by blast
    qed
    ultimately show ?thesis
      using i Some found_same(2) [OF i, of p] visible_alike [OF i] by (auto simp: updateRow_def)
  qed
qed

lemma inside_filter:
  assumes i: "inside ws w v"
  shows "inside ws (setRows t (filter (\<lambda>r. \<not> (visible t w r \<and> p r)) (rowsOf t w)) w)
    (setRows t (filter (\<lambda>r. \<not> (visible t v r \<and> p r)) (rowsOf t v)) v)"
proof (rule inside_setRows [OF i])
  have "map (outline (workspaceOf t) key ws) (filter (\<lambda>r. \<not> (visible t w r \<and> p r)) rs)
      = map (outline (workspaceOf t) key ws) (filter (\<lambda>r. \<not> (visible t v r \<and> p r)) rs')"
    if "list_all2 (\<lambda>r r'. outline (workspaceOf t) key ws r = outline (workspaceOf t) key ws r') rs rs'" for rs rs'
    using that by induction (auto dest: visible_same [OF i])
  moreover have "alike ws w v" using i by (simp add: inside_def)
  ultimately show "map (outline (workspaceOf t) key ws) (filter (\<lambda>r. \<not> (visible t w r \<and> p r)) (rowsOf t w))
      = map (outline (workspaceOf t) key ws) (filter (\<lambda>r. \<not> (visible t v r \<and> p r)) (rowsOf t v))"
    using rows_all2 by blast
qed

lemma secure_deleteMany: "secure ws (deleteMany t p)"
  using found_same(1) inside_filter by (auto intro!: secureI simp: deleteMany_def)

lemmas secure_rows = secure_findMany secure_findFirst secure_createRow secure_updateRow secure_deleteMany

end

text \<open>The rows of a model that belongs to no workspace are common to both worlds.\<close>

locale shared_table = global_table t for t :: "('c, 'r) table" +
  assumes shared_rows: "alike ws w v \<Longrightarrow> rowsOf t w = rowsOf t v"
    and shared_setRows: "alike ws w v \<Longrightarrow> alike ws (setRows t rs w) (setRows t rs v)"
    and shared_parents: "alike ws w v \<Longrightarrow> parentsExist t w r = parentsExist t v r"
begin

lemma secure_shared:
  assumes "\<And>w. m w = (let (x, rs) = f (rowsOf t w) (parentsExist t w) in
      (x, case rs of None \<Rightarrow> w | Some rs \<Rightarrow> setRows t rs w))"
  shows "secure ws m"
proof (rule secureI)
  fix w v :: "'c world" assume i: "inside ws w v"
  then have a: "alike ws w v" by (simp add: inside_def)
  have "parentsExist t w = parentsExist t v" by (rule ext) (rule shared_parents [OF a])
  then have "m v = (let (x, rs) = f (rowsOf t w) (parentsExist t w) in
      (x, case rs of None \<Rightarrow> v | Some rs \<Rightarrow> setRows t rs v))"
    unfolding assms [of v] shared_rows [OF a] by (rule ssubst) (rule refl)
  moreover have "databaseWorkspace (setRows t rs w) = databaseWorkspace w" for rs
    by (rule databaseWorkspace_cong) (rule tenant_setRows)
  ultimately show "fst (m w) = fst (m v) \<and> inside ws (snd (m w)) (snd (m v))"
    using assms [of w] i shared_setRows [OF a]
    by (auto simp: inside_def split: prod.split option.split)
qed

lemma secure_findMany: "secure ws (findMany t p)"
  by (rule secure_shared [where f = "\<lambda>rs _. (Inr (filter p rs), None)"]) (simp add: findMany_def visible_always)

lemma secure_findFirst: "secure ws (findFirst t p)"
  by (rule secure_shared [where f = "\<lambda>rs _. (Inr (find p rs), None)"]) (simp add: findFirst_def visible_always)

lemma secure_createRow: "secure ws (createRow t mk)"
  by (rule secure_shared [where f = "\<lambda>rs parents. if list_ex (\<lambda>r'. uniqueClash t r' (mk [])) rs
        then (Inl (PrismaError ''P2002''), None) else if \<not> parents (mk []) then (Inl (PrismaError ''P2003''), None)
        else (Inr (mk []), Some (rs @ [mk []]))"])
    (simp add: createRow_def visible_always global_model Let_def)

lemma secure_updateRow: "secure ws (updateRow t p f)"
  by (rule secure_shared [where f = "\<lambda>rs _. case find p rs of None \<Rightarrow> (Inl (PrismaError ''P2025''), None)
        | Some r \<Rightarrow> (if list_ex (\<lambda>r'. \<not> p r' \<and> uniqueClash t r' (f r)) rs then (Inl (PrismaError ''P2002''), None)
            else (Inr (f r), Some (map (\<lambda>r'. if p r' then f r' else r') rs)))"])
    (simp add: updateRow_def visible_always split: option.split)

lemma secure_deleteMany: "secure ws (deleteMany t p)"
  by (rule secure_shared [where f = "\<lambda>rs _. (Inr (length (filter p rs)), Some (filter (\<lambda>r. \<not> p r) rs))"])
    (simp add: deleteMany_def visible_always)

lemma secure_deleteRow: "secure ws (deleteRow t p)"
  by (rule secure_shared [where f = "\<lambda>rs _. if list_ex p rs then (Inr (), Some (filter (\<lambda>r. \<not> p r) rs))
        else (Inl (PrismaError ''P2025''), None)"])
    (simp add: deleteRow_def visible_always)

lemmas shared_rules = secure_findMany secure_findFirst secure_createRow secure_updateRow secure_deleteMany
  secure_deleteRow

end

text \<open>Foreign keys refer to rows by identifier and workspace.\<close>

lemma alike_parents:
  assumes "alike ws w v"
  shows
    "list_ex (\<lambda>a. a_id a = i \<and> a_workspaceId a = u) (apps w) = list_ex (\<lambda>a. a_id a = i \<and> a_workspaceId a = u) (apps v)"
    "list_ex (\<lambda>b. b_id b = i) (builds w) = list_ex (\<lambda>b. b_id b = i) (builds v)"
    "list_ex (\<lambda>d. d_id d = i \<and> d_workspaceId d = u) (deployments w)
       = list_ex (\<lambda>d. d_id d = i \<and> d_workspaceId d = u) (deployments v)"
    "list_ex (\<lambda>s. h_id s = i) (samples w) = list_ex (\<lambda>s. h_id s = i) (samples v)"
    "list_ex (\<lambda>x. i_id x = i \<and> i_workspaceId x = u) (incidents w)
       = list_ex (\<lambda>x. i_id x = i \<and> i_workspaceId x = u) (incidents v)"
    "list_ex (\<lambda>r. r_id r = i \<and> r_workspaceId r = u) (runs w)
       = list_ex (\<lambda>r. r_id r = i \<and> r_workspaceId r = u) (runs v)"
  using assms
    ex_outlined [of a_workspaceId a_id ws "apps w" "apps v" "\<lambda>x k. k = i \<and> x = u"]
    ex_outlined [of b_workspaceId b_id ws "builds w" "builds v" "\<lambda>x k. k = i"]
    ex_outlined [of d_workspaceId d_id ws "deployments w" "deployments v" "\<lambda>x k. k = i \<and> x = u"]
    ex_outlined [of h_workspaceId h_id ws "samples w" "samples v" "\<lambda>x k. k = i"]
    ex_outlined [of i_workspaceId i_id ws "incidents w" "incidents v" "\<lambda>x k. k = i \<and> x = u"]
    ex_outlined [of r_workspaceId r_id ws "runs w" "runs v" "\<lambda>x k. k = i \<and> x = u"]
  by (simp_all add: alike_def)

lemma tables_alike:
  assumes "alike ws w v"
  shows "parentsExist appTable w = parentsExist appTable v"
    "parentsExist buildTable w = parentsExist buildTable v"
    "parentsExist deploymentTable w = parentsExist deploymentTable v"
    "parentsExist runtimeConfigTable w = parentsExist runtimeConfigTable v"
    "parentsExist sampleTable w = parentsExist sampleTable v"
    "parentsExist incidentTable w = parentsExist incidentTable v"
    "parentsExist runTable w = parentsExist runTable v"
    "parentsExist runEventTable w = parentsExist runEventTable v"
    "parentsExist snapshotTable w = parentsExist snapshotTable v"
    "parentsExist membershipTable w = parentsExist membershipTable v"
    "parentsExist sessionTable w = parentsExist sessionTable v"
    "parentsExist auditTable w = parentsExist auditTable v"
  using alike_parents [OF assms] alike_fields(1,2) [OF assms]
  by (simp_all add: table_defs fun_eq_iff split: option.split)

interpretation secretApp: secret_table appTable a_id
proof
  fix ws w v assume "alike ws w (v :: 'c world)"
  from tables_alike [OF this] show "parentsExist appTable w r = parentsExist appTable v r" for r by simp
qed (auto simp: alike_def outline_def appTable_def split: if_splits)
interpretation secretBuild: secret_table buildTable b_id
proof
  fix ws w v assume "alike ws w (v :: 'c world)"
  from tables_alike [OF this] show "parentsExist buildTable w r = parentsExist buildTable v r" for r by simp
qed (auto simp: alike_def outline_def buildTable_def split: if_splits)
interpretation secretDeployment: secret_table deploymentTable d_id
proof
  fix ws w v assume "alike ws w (v :: 'c world)"
  from tables_alike [OF this] show "parentsExist deploymentTable w r = parentsExist deploymentTable v r" for r by simp
qed (auto simp: alike_def outline_def deploymentTable_def split: if_splits)
interpretation secretConfig: secret_table runtimeConfigTable rc_deploymentId
proof
  fix ws w v assume "alike ws w (v :: 'c world)"
  from tables_alike [OF this] show "parentsExist runtimeConfigTable w r = parentsExist runtimeConfigTable v r" for r by simp
qed (auto simp: alike_def outline_def runtimeConfigTable_def split: if_splits)
interpretation secretSample: secret_table sampleTable h_id
proof
  fix ws w v assume "alike ws w (v :: 'c world)"
  from tables_alike [OF this] show "parentsExist sampleTable w r = parentsExist sampleTable v r" for r by simp
qed (auto simp: alike_def outline_def sampleTable_def split: if_splits)
interpretation secretIncident: secret_table incidentTable i_id
proof
  fix ws w v assume "alike ws w (v :: 'c world)"
  from tables_alike [OF this] show "parentsExist incidentTable w r = parentsExist incidentTable v r" for r by simp
qed (auto simp: alike_def outline_def incidentTable_def split: if_splits)
interpretation secretRun: secret_table runTable r_id
proof
  fix ws w v assume "alike ws w (v :: 'c world)"
  from tables_alike [OF this] show "parentsExist runTable w r = parentsExist runTable v r" for r by simp
qed (auto simp: alike_def outline_def runTable_def split: if_splits)
interpretation secretRunEvent: secret_table runEventTable e_id
proof
  fix ws w v assume "alike ws w (v :: 'c world)"
  from tables_alike [OF this] show "parentsExist runEventTable w r = parentsExist runEventTable v r" for r by simp
qed (auto simp: alike_def outline_def runEventTable_def split: if_splits)
interpretation secretSnapshot: secret_table snapshotTable es_id
proof
  fix ws w v assume "alike ws w (v :: 'c world)"
  from tables_alike [OF this] show "parentsExist snapshotTable w r = parentsExist snapshotTable v r" for r by simp
qed (auto simp: alike_def outline_def snapshotTable_def split: if_splits)

interpretation sharedWorkspace: shared_table workspaceTable
proof
  fix ws w v assume "alike ws w (v :: 'c world)"
  from tables_alike [OF this] alike_fields [OF this]
  show "rowsOf workspaceTable w = rowsOf workspaceTable v" "parentsExist workspaceTable w r = parentsExist workspaceTable v r" for r
    by (simp_all add: workspaceTable_def)
qed (auto simp: alike_def workspaceTable_def)
interpretation sharedUser: shared_table userTable
proof
  fix ws w v assume "alike ws w (v :: 'c world)"
  from tables_alike [OF this] alike_fields [OF this]
  show "rowsOf userTable w = rowsOf userTable v" "parentsExist userTable w r = parentsExist userTable v r" for r
    by (simp_all add: userTable_def)
qed (auto simp: alike_def userTable_def)
interpretation sharedMembership: shared_table membershipTable
proof
  fix ws w v assume "alike ws w (v :: 'c world)"
  from tables_alike [OF this] alike_fields [OF this]
  show "rowsOf membershipTable w = rowsOf membershipTable v" "parentsExist membershipTable w r = parentsExist membershipTable v r" for r
    by (simp_all add: membershipTable_def)
qed (auto simp: alike_def membershipTable_def)
interpretation sharedAttempt: shared_table attemptTable
proof
  fix ws w v assume "alike ws w (v :: 'c world)"
  from tables_alike [OF this] alike_fields [OF this]
  show "rowsOf attemptTable w = rowsOf attemptTable v" "parentsExist attemptTable w r = parentsExist attemptTable v r" for r
    by (simp_all add: attemptTable_def)
qed (auto simp: alike_def attemptTable_def)
interpretation sharedSession: shared_table sessionTable
proof
  fix ws w v assume "alike ws w (v :: 'c world)"
  from tables_alike [OF this] alike_fields [OF this]
  show "rowsOf sessionTable w = rowsOf sessionTable v" "parentsExist sessionTable w r = parentsExist sessionTable v r" for r
    by (simp_all add: sessionTable_def)
qed (auto simp: alike_def sessionTable_def)
interpretation sharedAudit: shared_table auditTable
proof
  fix ws w v assume "alike ws w (v :: 'c world)"
  from tables_alike [OF this] alike_fields [OF this]
  show "rowsOf auditTable w = rowsOf auditTable v" "parentsExist auditTable w r = parentsExist auditTable v r" for r
    by (simp_all add: auditTable_def)
qed (auto simp: alike_def auditTable_def)

lemmas secure_tables [secure_intros] =
  secretApp.secure_rows secretBuild.secure_rows secretDeployment.secure_rows secretConfig.secure_rows
  secretSample.secure_rows secretIncident.secure_rows secretRun.secure_rows secretRunEvent.secure_rows
  secretSnapshot.secure_rows
  sharedWorkspace.shared_rules sharedUser.shared_rules sharedMembership.shared_rules
  sharedAttempt.shared_rules sharedSession.shared_rules sharedAudit.shared_rules

section \<open>Contexts and transactions\<close>

lemma secure_currentContext [secure_intros]: "secure ws currentContext"
  unfolding currentContext_def by (rule secure_readM) (rule alike_fields)

lemma secure_requireWorkspaceId [secure_intros]: "secure ws requireWorkspaceId"
proof (rule secureI)
  fix w v :: "'a world" assume i: "inside ws w v"
  then have "tenant w = tenant v" using alike_fields [of ws w v] by (simp add: inside_def)
  with i show "fst (requireWorkspaceId w) = fst (requireWorkspaceId v)
      \<and> inside ws (snd (requireWorkspaceId w)) (snd (requireWorkspaceId v))"
    by (auto simp: requireWorkspaceId_def split: option.split)
qed

lemma inside_restored:
  assumes "inside ws w v" "inside ws w' v'" "databaseWorkspace (restoreTables w w') = databaseWorkspace w'"
  shows "inside ws (restoreTables w w') (restoreTables v v')"
proof -
  have "emptied (restoreTables u u') = (emptied u')\<lparr>workspaces := workspaces u, users := users u,
      memberships := memberships u, attempts := attempts u, sessions := sessions u, audits := audits u\<rparr>"
    for u u' :: "'a world"
    by (simp add: emptied_def restoreTables_def)
  moreover have "alike ws w v" "emptied w' = emptied v'" using assms by (simp_all add: inside_def alike_def)
  ultimately have "emptied (restoreTables w w') = emptied (restoreTables v v')"
    by (simp add: alike_fields [of ws w v])
  with assms show ?thesis by (simp add: inside_def alike_def restoreTables_def)
qed

lemma secure_transaction [secure_intros]:
  assumes "secure ws m"
  shows "secure ws (transaction m)"
proof (rule secureI)
  fix w v :: "'a world" assume i: "inside ws w v"
  with assms obtain r w' v' where runs: "m w = (r, w')" "m v = (r, v')" "inside ws w' v'"
    by (rule secureD)
  have "databaseWorkspace (restoreTables w w') = databaseWorkspace w'"
    by (rule databaseWorkspace_cong) simp
  from inside_restored [OF i runs(3) this] runs
  show "fst (transaction m w) = fst (transaction m v) \<and> inside ws (snd (transaction m w)) (snd (transaction m v))"
    by (cases r) (simp_all add: transaction_run)
qed

lemma secure_runInContext:
  assumes "secure ws m" and "c_workspaceId c = ws"
  shows "secure ws (runInContext c m)"
proof (rule secureI)
  fix w v :: "'a world" assume i: "inside ws w v"
  then have a: "alike ws w v" and t: "tenant v = tenant w" using alike_fields [of ws w v] by (simp_all add: inside_def)
  have "inside ws (w\<lparr>tenant := Some c\<rparr>) (v\<lparr>tenant := Some c\<rparr>)"
    using alike_update(4) [OF a] assms(2) by (auto simp: inside_def databaseWorkspace_def)
  with assms(1) obtain r w' v' where runs: "m (w\<lparr>tenant := Some c\<rparr>) = (r, w')" "m (v\<lparr>tenant := Some c\<rparr>) = (r, v')"
      "inside ws w' v'"
    by (rule secureD)
  have "databaseWorkspace (w'\<lparr>tenant := tenant w\<rparr>) = databaseWorkspace w"
    by (rule databaseWorkspace_cong) simp
  with i runs(3) alike_update(4) [of ws w' v' "tenant w"]
  have "inside ws (w'\<lparr>tenant := tenant w\<rparr>) (v'\<lparr>tenant := tenant w\<rparr>)" by (simp add: inside_def)
  with runs t show "fst (runInContext c m w) = fst (runInContext c m v)
      \<and> inside ws (snd (runInContext c m w)) (snd (runInContext c m v))"
    by (simp add: runInContext_run)
qed

lemma secure_withTenantTransaction [secure_intros]:
  assumes "secure ws m"
  shows "secure ws (withTenantTransaction m)"
proof (rule secureI)
  fix w v :: "'a world" assume i: "inside ws w v"
  then have t: "tenant v = tenant w" using alike_fields [of ws w v] by (simp add: inside_def)
  show "fst (withTenantTransaction m w) = fst (withTenantTransaction m v)
      \<and> inside ws (snd (withTenantTransaction m w)) (snd (withTenantTransaction m v))"
  proof (cases "databaseWorkspace w")
    case None
    with i inside_workspace [OF i] show ?thesis by (simp add: withTenantTransaction_run)
  next
    case (Some u)
    with i have "u = ws" by (simp add: inside_def)
    then have "secure ws (transaction (runInContext ((the (tenant w))\<lparr>c_workspaceId := u, c_transactionActive := True\<rparr>) m))"
      by (intro secure_transaction secure_runInContext assms) simp
    from this i obtain r w' v' where
      "transaction (runInContext ((the (tenant w))\<lparr>c_workspaceId := u, c_transactionActive := True\<rparr>) m) w = (r, w')"
      "transaction (runInContext ((the (tenant w))\<lparr>c_workspaceId := u, c_transactionActive := True\<rparr>) m) v = (r, v')"
      "inside ws w' v'" by (rule secureD)
    with Some t inside_workspace [OF i] show ?thesis by (simp add: withTenantTransaction_run)
  qed
qed

section \<open>The operations of the services\<close>

lemma secure_setters [secure_intros]:
  "secure ws (setBuild i bf)" "secure ws (setDeployment i df)" "secure ws (setIncident i ic)"
  unfolding setBuild_def setDeployment_def setIncident_def by (intro secure_intros)+

lemma secure_cluster_steps [secure_intros]:
  "secure ws (upsertObject api k name ns body f)" "secure ws (deleteIfExists api k name ns)"
  "secure ws (getBuildJobStatus api ns name)" "secure ws (kubeDeploymentStatus api ns name)"
  "secure ws (scaleDeployment api ns name replicaCount)" "secure ws (restartDeployment api ns name)"
  "secure ws (listDeploymentPods api ns labels)" "secure ws (getPodLogsByLabels api ns labels t s)"
  unfolding upsertObject_def deleteIfExists_def getBuildJobStatus_def kubeDeploymentStatus_def
    scaleDeployment_def restartDeployment_def listDeploymentPods_def getPodLogsByLabels_def Let_def
  by (intro secure_intros)+

lemma secure_kubernetes [secure_intros]:
  "secure ws (ensureNamespace api cfg ns labels)"
  "secure ws (enableApplicationRouting api route)"
  "secure ws (deleteDeploymentResources api ns names deleteRoutes)"
  "secure ws (listDeploymentEvents api ns name labels)" "secure ws (getBuildJobLogs api ns labels)"
  "secure ws (kubeDeploymentLogs api ns labels)" "secure ws (getDeploymentEvidenceLogs api ns labels n2 s)"
  unfolding ensureNamespace_def reconcileTenantNetworkPolicies_def upsertNetworkPolicy_def
    enableApplicationRouting_def createHttpRoute_def deleteHttpRoute_def deleteDeploymentResources_def
    listDeploymentEvents_def getBuildJobLogs_def kubeDeploymentLogs_def getDeploymentEvidenceLogs_def Let_def
  by (intro secure_intros)+

lemma secure_workloads [secure_intros]:
  "secure ws (deployImage api cfg input)" "secure ws (createBuildJob api cfg job)"
  "secure ws (createBuildpackJob api cfg job)"
  unfolding deployImage_def upsertConfigMap_def upsertFileConfigMap_def upsertSecret_def
    upsertSecretFiles_def upsertDeployment_def upsertService_def createBuildJob_def createBuildpackJob_def
    Let_def
  by (intro secure_intros)+

lemma secure_lookups [secure_intros]:
  "secure ws (requirePermissions ps)" "secure ws (workspaceNamespace i)" "secure ws (findAppOrThrow i)"
  "secure ws (findBuildOrThrow i)" "secure ws (findDeploymentOrThrow i)" "secure ws (runtimeConfigsOf d)"
  "secure ws (resolveDeploymentImage i dto)" "secure ws (findDeploymentForHealthSample i)"
  "secure ws (ensureDeploymentExists i)" "secure ws (findRunOrThrow i)"
  "secure ws (findDeploymentForIncident i)" "secure ws (findIncidentOrThrow i)"
  "secure ws (ensureEvidenceDeployment i)" "secure ws (findDeploymentForTelemetry i j)"
  "secure ws (minutesAgo n)" "secure ws (ensureIncidentExists i)"
  unfolding requirePermissions_def workspaceNamespace_def findAppOrThrow_def findBuildOrThrow_def
    findDeploymentOrThrow_def runtimeConfigsOf_def resolveDeploymentImage_def
    findDeploymentForHealthSample_def ensureDeploymentExists_def findRunOrThrow_def
    findDeploymentForIncident_def findIncidentOrThrow_def ensureEvidenceDeployment_def
    findDeploymentForTelemetry_def minutesAgo_def ensureIncidentExists_def Let_def
  by (intro secure_intros)+

lemma secure_apps_builds [secure_intros]:
  "secure ws (createApp app_dto)" "secure ws findAllApps" "secure ws (createBuild api cfg i build_dto)"
  "secure ws (getBuildStatus api i)" "secure ws (getBuildLogs api i)" "secure ws (findBuildsByApp i)"
  unfolding createApp_def findAllApps_def createBuild_def startBuildJob_def getBuildStatus_def
    getBuildLogs_def findBuildsByApp_def Let_def
  by (intro secure_intros)+

lemma secure_deployments [secure_intros]:
  "secure ws (createDeployment api cfg i dto)" "secure ws (findDeploymentsByApp i)"
  "secure ws (getDeploymentStatus api i)" "secure ws (getDeploymentLogs api i)" "secure ws (getPods api i)"
  "secure ws (getEvents api i)" "secure ws (scale api i n)" "secure ws (stop api i)"
  "secure ws (start api i requested)" "secure ws (restart api i)" "secure ws (deleteDeployment api i)"
  unfolding createDeployment_def storeDeployment_def deployStored_def findDeploymentsByApp_def
    getDeploymentStatus_def getDeploymentLogs_def getPods_def getEvents_def scale_def stop_def start_def
    restart_def deleteDeployment_def scaleTo_def Let_def
  by (intro secure_intros)+

lemma secure_observability [secure_intros]:
  "secure ws (readKubernetesState api d labels)" "secure ws (collectDeploymentHealthSample api i)"
  "secure ws (listHealthSamples i n)" "secure ws (getLatestHealthSample i)"
  unfolding readKubernetesState_def collectDeploymentHealthSample_def listHealthSamples_def
    getLatestHealthSample_def Let_def
  by (intro secure_intros)+

lemma secure_rca [secure_intros]:
  "secure ws (triggered fetch signer rca_cfg r)" "secure ws (startForIncident fetch signer rca_cfg i src)"
  "secure ws (startForDeployment fetch signer rca_cfg i)"
  "secure ws (listChat fetch signer rca_cfg i)" "secure ws (chat fetch signer rca_cfg i message)"
  unfolding triggered_def triggerAgentRun_def signInternalToken_def startForIncident_def
    startForDeployment_def createRun_def createRunEvent_def manualRcaIncident_def listChat_def chat_def
    callAgent_def Let_def
  by (intro secure_intros)+

lemma secure_incidents [secure_intros]:
  "secure ws (createManualIncident i incident_dto)" "secure ws (findAllIncidents st)"
  "secure ws (resolveIncident i)"
  unfolding createManualIncident_def findAllIncidents_def resolveIncident_def Let_def
  by (intro secure_intros)+

lemma secure_evidence [secure_intros]:
  "secure ws (findDeploymentForEvidence i)" "secure ws (readLiveState api d n)"
  "secure ws (collectLive api parse i opts)" "secure ws (createSnapshot api parse i opts)"
  "secure ws (listSnapshots i)" "secure ws (getSnapshot i)"
  unfolding findDeploymentForEvidence_def readLiveState_def collectOrError_def collectLive_def
    createSnapshot_def listSnapshots_def getSnapshot_def runtimeConfigsOf_def Let_def
  by (intro secure_intros)+

lemma secure_collectSource [secure_intros]: "secure ws m \<Longrightarrow> secure ws (collectSource e m)"
  unfolding collectSource_def by (intro secure_intros)

lemma secure_telemetry [secure_intros]:
  "secure ws (queryDeploymentLogs fetch num tel_cfg d s u n lvl)"
  "secure ws (queryDeploymentMetrics fetch num tel_cfg d s u n)"
  "secure ws (queryDeploymentTraces fetch tel_cfg an di s u n)"
  "secure ws (getMetrics fetch num tel_cfg a di since limit)"
  "secure ws (getLogs fetch num tel_cfg a di since limit level)"
  "secure ws (getTraces fetch tel_cfg a di since limit)"
  "secure ws (getKubernetes api a di since)"
  "secure ws (getOverview api tel_cfg a di)"
  unfolding queryDeploymentLogs_def queryDeploymentMetrics_def queryDeploymentTraces_def queryRange_def
    askSource_def getMetrics_def getLogs_def getTraces_def getKubernetes_def getOverview_def
    sourceResponse_def baseResponse_def recentSamples_def windowFor_def Let_def
  by (intro secure_intros)+

section \<open>Authentication\<close>

lemma secure_modifyM_client: "secure ws (modifyM (\<lambda>w. w\<lparr>oidcClient := oc\<rparr>))"
  using alike_update(5) by (auto intro!: secureI simp: inside_def)

lemma secure_provider [secure_intros]:
  "secure ws (required k setting)" "secure ws (discoverClient op cfg)" "secure ws (client op cfg)"
  "secure ws (authorizationRequest op cfg)" "secure ws (verifyAccessToken op cfg tok)"
  "secure ws (introspectAccessToken op cfg tok)" "secure ws (refreshTokens op cfg tok)"
  "secure ws (logoutUrl op cfg hint)" "secure ws (revokeTokens op cfg at rt)"
proof -
  show req: "secure ws (required k setting)" for k setting
    unfolding required_def by (intro secure_intros)
  show discover: "secure ws (discoverClient op cfg)"
    unfolding discoverClient_def by (intro secure_intros req)
  show cl: "secure ws (client op cfg)"
    unfolding client_def
    by (intro secure_intros discover secure_modifyM_client secure_readM) (rule alike_fields)
  show "secure ws (authorizationRequest op cfg)" "secure ws (verifyAccessToken op cfg tok)"
    "secure ws (introspectAccessToken op cfg tok)" "secure ws (refreshTokens op cfg tok)"
    "secure ws (logoutUrl op cfg hint)" "secure ws (revokeTokens op cfg at rt)"
    unfolding authorizationRequest_def verifyAccessToken_def introspectAccessToken_def refreshTokens_def
      logoutUrl_def revokeTokens_def Let_def
    by (intro secure_intros req cl)+
qed

lemma secure_switchClaims [secure_intros]: "secure ws (switchClaims op cfg payload)"
  unfolding switchClaims_def
  by (cases "member payload ''access_token''") (auto intro!: secure_intros)

lemma secure_callback [secure_intros]:
  "secure ws (identityFromTokenSet op cfg ts)" "secure ws (completeCallback op cfg params checks)"
  "secure ws (oidcSwitchOrganization op fetch b64 cfg tok org sub)"
  unfolding identityFromTokenSet_def completeCallback_def oidcSwitchOrganization_def Let_def
  by (intro secure_intros)+

lemma secure_crypto [secure_intros]:
  "secure ws randomToken" "secure ws (encrypt lib cfg v)" "secure ws (encryptOptional lib cfg v2)"
  unfolding randomToken_def encryptOptional_def encrypt_def Let_def by (intro secure_intros)+

lemma secure_authenticate [secure_intros]: "secure ws (authenticate lib cfg token)"
proof -
  have "secure ws (readM (\<lambda>w. (userOf w s, workspaceOfSession w s)))" for s
    by (rule secure_readM) (simp add: userOf_def workspaceOfSession_def alike_fields)
  then show ?thesis unfolding authenticate_def Let_def by (intro secure_intros)
qed

lemma secure_sessions [secure_intros]:
  "secure ws (createLoginAttempt lib cfg state nonce verifier returnTo)"
  "secure ws (consumeLoginAttempt lib cfg state)" "secure ws (createSession lib cfg si)"
  "secure ws (getStored h)" "secure ws (destroy h)" "secure ws (updateTokens lib cfg h a r i e)"
  unfolding createLoginAttempt_def consumeLoginAttempt_def createSession_def storeSession_def getStored_def
    destroy_def updateTokens_def Let_def
  by (intro secure_intros)+

lemma secure_upsertRow:
  "secure ws create \<Longrightarrow> secure ws (updateRow t p f) \<Longrightarrow> secure ws (findFirst t p) \<Longrightarrow>
   secure ws (upsertRow t p create f)"
  unfolding upsertRow_def by (intro secure_intros)

lemma secure_identity [secure_intros]:
  "secure ws (resolveIdentity lib cfg identity)" "secure ws (audit u x action outcome)"
  "secure ws recordFailedLogin"
  unfolding resolveIdentity_def adoptLegacyWorkspace_def upsertWorkspace_def upsertUser_def
    upsertMembership_def audit_def recordFailedLogin_def
  by (intro secure_intros secure_upsertRow)+

lemma secure_payloadExpiry [secure_intros]: "secure ws (payloadExpiry payload)"
  unfolding payloadExpiry_def by (cases "member payload ''expires_in''") (auto intro!: secure_intros)

lemma secure_currentAccessToken [secure_intros]: "secure ws (currentAccessToken deps stored)"
  unfolding currentAccessToken_def by (intro secure_intros)

lemma secure_authHandlers [secure_intros]:
  "secure ws (loginHandler deps returnTo)" "secure ws (callbackHandler deps query)"
  "secure ws (meHandler p)" "secure ws (metricsHandler p)" "secure ws (logoutHandler deps p)"
  "secure ws (switchOrganizationHandler deps p i)"
  unfolding loginHandler_def beginLogin_def callbackHandler_def completeLogin_def meHandler_def me_def
    metricsHandler_def metrics_def countRows_def logoutHandler_def logout_def revocation_def
    switchOrganizationHandler_def switchOrganization_def Let_def
  by (intro secure_intros)+

section \<open>Requests\<close>

lemma secure_answerM [secure_intros]: "secure ws m \<Longrightarrow> secure ws (answerM f m)"
  unfolding answerM_def by (intro secure_intros)

lemma secure_telemetryController: "secure ws (telemetryController sv r)"
  by (cases r)
    (simp_all add: getMetricsHandler_def getLogsHandler_def getTracesHandler_def getKubernetesHandler_def,
      (intro secure_intros)+)

lemma secure_handle: "secure ws (handle sv c who)"
proof (cases c)
  case (AppsCall x) then show ?thesis by (cases x) (simp_all, (intro secure_intros)+)
next
  case (AuthCall x) then show ?thesis by (cases x; cases who) (simp_all, (intro secure_intros)+)
next
  case (BuildsCall x) then show ?thesis by (cases x) (simp_all, (intro secure_intros)+)
next
  case (DeploymentsCall x) then show ?thesis by (cases x) (simp_all, (intro secure_intros)+)
next
  case (EvidenceCall x) then show ?thesis by (cases x) (simp_all, (intro secure_intros)+)
next
  case (IncidentsCall x) then show ?thesis by (cases x) (simp_all, (intro secure_intros)+)
next
  case (ObservabilityCall x) then show ?thesis by (cases x) (simp_all, (intro secure_intros)+)
next
  case (RcaCall x)
  then show ?thesis by (cases x) (simp_all add: findRunsByIncident_def, (intro secure_intros)+)
next
  case (TelemetryCall x) then show ?thesis by (simp add: secure_telemetryController)
next
  case (HealthCall x) then show ?thesis by (cases x) (auto intro!: secure_intros)
qed

lemma secure_auditInterceptor: "secure ws m \<Longrightarrow> secure ws (auditInterceptor rt rq who m)"
  unfolding auditInterceptor_def Let_def by (intro secure_intros)

lemma secure_permissionGuard: "secure ws (permissionGuard rt rq who)"
  unfolding permissionGuard_def Let_def by (intro secure_intros)

lemma secure_authenticationGuard: "secure ws (authenticationGuard lib cfg rt rq)"
  unfolding authenticationGuard_def by (intro secure_intros)

lemma secure_admitted:
  assumes "\<And>p. who = Some p \<Longrightarrow> p_workspaceId p = ws" and "\<And>who. secure ws (handler who)"
  shows "secure ws
    (thenM (liftM (csrfGuard lib cfg rt rq who))
      (thenM (permissionGuard rt rq who)
        (tenantContextInterceptor who (auditInterceptor rt rq who (handler who)))))"
  using assms(1) unfolding tenantContextInterceptor_def
  by (intro secure_intros secure_permissionGuard secure_runInContext secure_auditInterceptor assms(2))
    (simp add: principalContext_def)

text \<open>The session a request names, if there is one, belongs to the workspace.\<close>

definition sentFrom :: "'c services \<Rightarrow> http_request \<Rightarrow> string \<Rightarrow> 'c world \<Rightarrow> bool" where
  "sentFrom sv rq ws w \<longleftrightarrow>
     (case rq_session rq of
        None \<Rightarrow> True
      | Some token \<Rightarrow>
          list_all (\<lambda>s. s_idHash s = hash (crypto (sv_auth sv)) token \<longrightarrow> s_workspaceId s = ws) (sessions w))"

lemma serve_confidential:
  assumes "inside ws w v" and "sentFrom sv rq ws w" and "\<And>who. secure ws (handler who)"
  shows "fst (serve (crypto (sv_auth sv)) cfg rt rq handler w) = fst (serve (crypto (sv_auth sv)) cfg rt rq handler v)
    \<and> inside ws (snd (serve (crypto (sv_auth sv)) cfg rt rq handler w))
        (snd (serve (crypto (sv_auth sv)) cfg rt rq handler v))"
proof -
  let ?lib = "crypto (sv_auth sv)"
  obtain r w1 v1 where guard: "authenticationGuard ?lib cfg rt rq w = (r, w1)"
      "authenticationGuard ?lib cfg rt rq v = (r, v1)" "inside ws w1 v1"
    using secureD [OF secure_authenticationGuard assms(1)] by metis
  show ?thesis
  proof (cases r)
    case (Inr who)
    have "p_workspaceId p = ws" if "who = Some p" for p
    proof (cases "rt_public rt")
      case False
      from authenticationGuard_cases [OF this guard(1)] Inr that show ?thesis
        using assms(2) by (auto simp: sentFrom_def list_all_iff toPrincipal_def)
    qed (use guard(1) Inr that in \<open>simp add: authenticationGuard_def\<close>)
    then have "secure ws (thenM (liftM (csrfGuard ?lib cfg rt rq who)) (thenM (permissionGuard rt rq who)
        (tenantContextInterceptor who (auditInterceptor rt rq who (handler who)))))"
      using assms(3) by (rule secure_admitted)
    with guard Inr show ?thesis by (simp add: serve_def bindM_run secure_def)
  qed (use guard in \<open>simp add: serve_def bindM_run\<close>)
qed

text \<open>
  C2. Confidentiality of the workspaces: take two states of the system that differ only in the
  columns of rows that belong to workspaces other than \<open>ws\<close> (all but their identifiers). Then any
  request, whatever route it is for, whose session belongs to \<open>ws\<close> is answered the same in both,
  with the same error where it fails, and leaves two states that again differ in nothing else. So
  no sequence of requests of a workspace can tell it anything of the applications, builds,
  deployments, settings, health samples, incidents, analyses or evidence of another.
\<close>

theorem requests_tell_nothing_of_others:
  assumes "alike ws w v" and "tenant w = None" and "sentFrom sv rq ws w"
    and "serveRequest sv rq c w = (res, w')"
  shows "\<exists>v'. serveRequest sv rq c v = (res, v') \<and> alike ws w' v'"
proof -
  obtain rt where rt: "routeOf c = Some rt" using routeOf_Some by blast
  have "inside ws w v" using assms(1,2) by (simp add: inside_def databaseWorkspace_def)
  from serve_confidential [OF this assms(3), of "handle sv c" "settings (sv_auth sv)" rt] rt assms(4)
  have "fst (serveRequest sv rq c v) = res" "inside ws w' (snd (serveRequest sv rq c v))"
    by (simp_all add: serveRequest_def secure_handle)
  then show ?thesis by (metis inside_def prod.collapse)
qed

text \<open>Another workspace's application, under another name.\<close>

theorem requests_tell_nothing_of_others_witness:
  "\<exists>v'. serveRequest sampleServices (sampleHttp ''GET'' (Some ''token'')) (AppsCall AppsFindAll)
      (sessionWorld\<lparr>apps := [otherApp\<lparr>a_name := ''secret'', a_repoUrl := Some ''https://secret''\<rparr>]\<rparr>)
    = (Inr (AppsAnswer []), v')"
proof -
  let ?v = "sessionWorld\<lparr>apps := [otherApp\<lparr>a_name := ''secret'', a_repoUrl := Some ''https://secret''\<rparr>]\<rparr>"
  obtain w' where run: "serveRequest sampleServices (sampleHttp ''GET'' (Some ''token'')) (AppsCall AppsFindAll)
      sharedWorld = (Inr (AppsAnswer []), w')"
    using sharedWorld_serves by (metis prod.collapse)
  have "alike ''ws'' sharedWorld ?v"
    by (simp add: alike_def sharedWorld_def otherApp_def outline_def)
  moreover have "tenant sharedWorld = None" by (simp add: sharedWorld_def sessionWorld_def emptyWorld_def)
  moreover have "sentFrom sampleServices (sampleHttp ''GET'' (Some ''token'')) ''ws'' sharedWorld"
    by (simp add: sentFrom_def sharedWorld_def sessionWorld_def sampleSession_def sampleHttp_def)
  ultimately show ?thesis using requests_tell_nothing_of_others [OF _ _ _ run] by blast
qed

end
