(* ===== verification/Wire.thy ===== *)
theory Wire
  imports Progress
begin

text \<open>
  The answers as they travel: the rows of the database as the JSON that Nest sends, and the
  schemas the console parses them with. Dates are sent by \<open>toJSON\<close> as texts; columns that hold no
  value are sent as \<open>null\<close>.
\<close>

section \<open>Rows as JSON\<close>

text \<open>
  What an answer carries beyond the columns of the model: the text of a date, the \<open>createdAt\<close> and
  \<open>updatedAt\<close> columns the model leaves out, for the row with an identifier, and, for a query with \<open>include\<close>, the rows an incident refers to.
\<close>

record loaded =
  ld_iso :: "instant \<Rightarrow> string"
  ld_createdAt :: "string \<Rightarrow> instant"
  ld_updatedAt :: "string \<Rightarrow> instant"
  ld_app :: "string \<Rightarrow> app"
  ld_deployment :: "string \<Rightarrow> deployment"
  ld_sample :: "string \<Rightarrow> json"
  ld_runs :: "string \<Rightarrow> json list"

definition dateJson :: "loaded \<Rightarrow> instant \<Rightarrow> json" where
  "dateJson ld t = JStr (ld_iso ld t)"

definition appJson :: "loaded \<Rightarrow> app \<Rightarrow> json" where
  "appJson ld a =
     JObj
       [(''id'', JStr (a_id a)), (''workspaceId'', JStr (a_workspaceId a)), (''name'', JStr (a_name a)),
        (''displayName'', JStr (a_displayName a)),
        (''sourceType'', JStr (sourceTypeName (a_sourceType a))), (''image'', nullable JStr (a_image a)),
        (''defaultPort'', nullable JNum (a_defaultPort a)), (''repoUrl'', nullable JStr (a_repoUrl a)),
        (''branch'', nullable JStr (a_branch a)), (''buildContext'', nullable JStr (a_buildContext a)),
        (''dockerfilePath'', nullable JStr (a_dockerfilePath a)),
        (''createdAt'', dateJson ld (a_createdAt a)), (''updatedAt'', dateJson ld (ld_updatedAt ld (a_id a)))]"

definition buildJson :: "loaded \<Rightarrow> build \<Rightarrow> json" where
  "buildJson ld b =
     JObj
       [(''id'', JStr (b_id b)), (''workspaceId'', JStr (b_workspaceId b)), (''appId'', JStr (b_appId b)),
        (''status'', JStr (buildStatusName (b_status b))), (''strategy'', JStr (strategyName (b_strategy b))),
        (''repoUrl'', JStr (b_repoUrl b)), (''branch'', JStr (b_branch b)),
        (''buildContext'', JStr (b_buildContext b)), (''dockerfilePath'', nullable JStr (b_dockerfilePath b)),
        (''image'', nullable JStr (b_image b)), (''kubernetesJob'', nullable JStr (b_kubernetesJob b)),
        (''errorMessage'', nullable JStr (b_errorMessage b)),
        (''createdAt'', dateJson ld (b_createdAt b)), (''updatedAt'', dateJson ld (ld_updatedAt ld (b_id b)))]"

definition deploymentMembers :: "loaded \<Rightarrow> deployment \<Rightarrow> json entries" where
  "deploymentMembers ld d =
     [(''id'', JStr (d_id d)), (''workspaceId'', JStr (d_workspaceId d)), (''appId'', JStr (d_appId d)),
      (''buildId'', nullable JStr (d_buildId d)), (''namespace'', JStr (d_namespace d)),
      (''image'', JStr (d_image d)), (''replicas'', JNum (d_replicas d)),
      (''desiredReplicas'', JNum (d_desiredReplicas d)),
      (''lastNonZeroReplicas'', nullable JNum (d_lastNonZeroReplicas d)), (''port'', JNum (d_port d)),
      (''status'', JStr (statusName (d_status d))),
      (''kubernetesDeployment'', JStr (d_kubernetesDeployment d)),
      (''kubernetesService'', JStr (d_kubernetesService d)),
      (''kubernetesConfigMap'', nullable JStr (d_kubernetesConfigMap d)),
      (''kubernetesFileConfigMap'', nullable JStr (d_kubernetesFileConfigMap d)),
      (''kubernetesSecret'', nullable JStr (d_kubernetesSecret d)),
      (''kubernetesSecretFiles'', nullable JStr (d_kubernetesSecretFiles d)),
      (''publicHostname'', nullable JStr (d_publicHostname d)),
      (''stoppedAt'', nullable (dateJson ld) (d_stoppedAt d)),
      (''lastRestartedAt'', nullable (dateJson ld) (d_lastRestartedAt d)),
      (''deletedAt'', nullable (dateJson ld) (d_deletedAt d)),
      (''createdAt'', dateJson ld (d_createdAt d)), (''updatedAt'', dateJson ld (ld_updatedAt ld (d_id d)))]"

definition deploymentJson :: "loaded \<Rightarrow> deployment \<Rightarrow> json" where
  "deploymentJson ld d = JObj (deploymentMembers ld d)"

text \<open>Of a stored setting the model keeps no identifier and times.\<close>

definition settingJson :: "runtime_config \<Rightarrow> json" where
  "settingJson rc =
     JObj
       [(''workspaceId'', JStr (rc_workspaceId rc)), (''deploymentId'', JStr (rc_deploymentId rc)),
        (''type'', JStr (configTypeName (rc_type rc))), (''data'', rc_data rc)]"

definition viewJson :: "loaded \<Rightarrow> deployment_view \<Rightarrow> json" where
  "viewJson ld v =
     JObj (deploymentMembers ld (dv_deployment v)
       @ [(''publicUrl'', nullable JStr (dv_publicUrl v))]
       @ (case dv_runtimeConfigs v of
            None \<Rightarrow> []
          | Some cs \<Rightarrow> [(''runtimeConfigs'', JArr (map settingJson cs))]))"

fun incidentStatusName :: "incident_status \<Rightarrow> string" where
  "incidentStatusName IncidentOpen = ''open''"
| "incidentStatusName IncidentResolved = ''resolved''"

fun severityName :: "severity \<Rightarrow> string" where
  "severityName Info = ''info''"
| "severityName Warning = ''warning''"
| "severityName Critical = ''critical''"

definition incidentMembers :: "loaded \<Rightarrow> incident \<Rightarrow> json entries" where
  "incidentMembers ld i =
     [(''id'', JStr (i_id i)), (''workspaceId'', JStr (i_workspaceId i)), (''appId'', JStr (i_appId i)),
      (''deploymentId'', JStr (i_deploymentId i)), (''status'', JStr (incidentStatusName (i_status i))),
      (''severity'', JStr (severityName (i_severity i))), (''source'', JStr (sourceName (i_source i))),
      (''ruleKey'', nullable JStr (i_ruleKey i)), (''title'', JStr (i_title i)),
      (''summary'', nullable JStr (i_summary i)), (''metadata'', i_metadata i),
      (''latestHealthSampleId'', nullable JStr (i_latestHealthSampleId i)),
      (''openedAt'', dateJson ld (i_openedAt i)), (''resolvedAt'', nullable (dateJson ld) (i_resolvedAt i)),
      (''createdAt'', dateJson ld (ld_createdAt ld (i_id i))),
      (''updatedAt'', dateJson ld (ld_updatedAt ld (i_id i)))]"

text \<open>With \<open>include: { app, deployment, latestHealthSample, rcaRuns }\<close>.\<close>

definition incidentIncluding :: "loaded \<Rightarrow> incident \<Rightarrow> json" where
  "incidentIncluding ld i =
     JObj (incidentMembers ld i
       @ [(''app'', appJson ld (ld_app ld (i_appId i))),
          (''deployment'', deploymentJson ld (ld_deployment ld (i_deploymentId i))),
          (''latestHealthSample'', nullable (ld_sample ld) (i_latestHealthSampleId i)),
          (''rcaRuns'', JArr (ld_runs ld (i_id i)))])"

text \<open>
  The body of an answer to the requests whose answers the console checks; the queries for
  incidents load what they refer to, the other operations answer with the row alone.
\<close>

fun sentJson :: "loaded \<Rightarrow> api_request \<Rightarrow> api_answer \<Rightarrow> json option" where
  "sentJson ld c (AppAnswer a) = Some (appJson ld a)"
| "sentJson ld c (AppsAnswer as) = Some (JArr (map (appJson ld) as))"
| "sentJson ld c (BuildAnswer b) = Some (buildJson ld b)"
| "sentJson ld c (BuildsAnswer bs) = Some (JArr (map (buildJson ld) bs))"
| "sentJson ld c (DeploymentAnswer d) = Some (deploymentJson ld d)"
| "sentJson ld c (DeploymentViewAnswer v) = Some (viewJson ld v)"
| "sentJson ld c (DeploymentViewsAnswer vs) = Some (JArr (map (viewJson ld) vs))"
| "sentJson ld (IncidentsCall (IncidentsFindOne k)) (IncidentAnswer i) = Some (incidentIncluding ld i)"
| "sentJson ld c (IncidentAnswer i) = Some (JObj (incidentMembers ld i))"
| "sentJson ld c (IncidentsAnswer is) = Some (JArr (map (incidentIncluding ld) is))"
| "sentJson ld c (ReplyAnswer r) = Some (rp_body r)"
| "sentJson ld c a = None"

section \<open>The schemas fit\<close>

lemma member_JObj: "member (JObj kvs) k = (case map_of kvs k of None \<Rightarrow> JUndef | Some v \<Rightarrow> v)"
  by simp

lemma conforms_optional:
  "conforms (optionalNullable SString) (nullable JStr s)" "conforms (nullableOptional SString) (nullable JStr s)"
  "conforms (optionalNullable SNumber) (nullable JNum n)"
  "conforms (optionalNullable SString) (nullable (dateJson ld) t)"
  "conforms (nullableOptional SString) (JStr x)"
  by (auto simp: optionalNullable_def nullableOptional_def nullable_def dateJson_def split: option.split)

lemma conforms_undefined: "conforms (optionalNullable s) JUndef"
  by (simp add: optionalNullable_def)

lemma app_conforms: "conforms appSchema (appJson ld a)"
  by (cases "a_sourceType a") (simp_all add: appSchema_def appJson_def conforms_optional dateJson_def)

lemma build_conforms: "conforms buildSchema (buildJson ld b)"
  by (simp add: buildSchema_def buildJson_def conforms_optional dateJson_def)

lemma deployment_conforms: "conforms deploymentSchema (JObj (deploymentMembers ld d @ extra))"
  if "conforms (optionalNullable SString) (member (JObj extra) ''publicUrl'')"
  using that
  by (simp add: deploymentSchema_def deploymentMembers_def conforms_optional dateJson_def)

lemma view_conforms: "conforms deploymentSchema (viewJson ld v)"
  unfolding viewJson_def
  by (rule deployment_conforms) (simp add: conforms_optional)

lemma row_conforms: "conforms deploymentSchema (deploymentJson ld d)"
  using deployment_conforms [of "[]" ld d] by (simp add: deploymentJson_def conforms_undefined)

lemma incident_conforms:
  "conforms incidentSchema (JObj (incidentMembers ld i))" "conforms incidentSchema (incidentIncluding ld i)"
  by (simp_all add: incidentSchema_def incidentMembers_def incidentIncluding_def conforms_optional dateJson_def
      app_conforms row_conforms list_all_iff)

text \<open>What the handler of a call answers fits the schema the call names.\<close>

lemma answerM_Inr: "answerM f m w = (Inr a, w') \<Longrightarrow> \<exists>x. m w = (Inr x, w') \<and> a = f x"
  by (auto simp: answerM_def bindM_run split: prod.splits sum.splits)

lemma list_conforms: "(\<And>x. conforms s (f x)) \<Longrightarrow> conforms (SArray s) (JArr (map f xs))"
  by (simp add: list_all_iff)

lemma handle_conforms:
  "reaches isHttpsUrl call c \<Longrightarrow> handle sv c who w = (Inr a, w') \<Longrightarrow> snd (snd (callSpec call)) = Some s \<Longrightarrow>
   \<exists>v. sentJson ld c a = Some v \<and> conforms s v"
proof (induction rule: reaches.induct)
  case me
  then obtain p where "who = Some p" by (cases who) auto
  with me obtain v where "me p w = (Inr v, w')" "a = ReplyAnswer (bodyReply v)"
    by (auto simp: meHandler_def dest!: answerM_Inr elim!: bindM_E)
  with me me_conforms(1) show ?case by (simp add: bodyReply_def getSpec_def)
qed (auto simp: getSpec_def postSpec_def noInit_def app_conforms build_conforms view_conforms
    incident_conforms list_all_iff dest!: answerM_Inr)

text \<open>
  C37. The answers of the server have the types the console relies on: whenever the server answers a
  request and the browser delivers the answer, the call that made the request passes its schema
  check, for every call that has one, and returns the answer restricted to the members of the
  schema; so no page fails on an answer of this server.
\<close>

theorem answers_fit_the_schemas:
  assumes "zod parse" and "reaches isHttpsUrl call c" and "snd (snd (callSpec call)) = Some s"
    and "serveRequest sv rq c w = (Inr a, w')"
    and "fetch (sends cfg browser call) (network browser) = (Inr response, n)" and "br_ok response"
    and "br_contentType response = Some ''application/json; charset=utf-8''"
    and "\<forall>v. sentJson ld c a = Some v \<longrightarrow> br_json response = Inr v"
  shows "\<exists>v. sentJson ld c a = Some v \<and> conforms s v
    \<and> send cfg fetch parse (callSpec call) browser = (Inr (strip s v), browser\<lparr>network := n\<rparr>)"
proof -
  from serveRequest_around [OF assms(4)] obtain who w1 w2 where "handle sv c who w1 = (Inr a, w2)" by auto
  from handle_conforms [OF assms(2) this assms(3), of ld] obtain v
    where v: "sentJson ld c a = Some v" "conforms s v" by auto
  with assms(8) have "br_json response = Inr v" by blast
  from zod.received_json [OF assms(1,6,7) this v(2)] assms(3,5) v show ?thesis
    unfolding send_run by simp
qed

text \<open>The list of the applications, with one application.\<close>

definition ownApp :: app where
  "ownApp = otherApp\<lparr>a_workspaceId := ''ws''\<rparr>"

lemma ownApp_listed:
  "fst (serveRequest sampleServices (sampleHttp ''GET'' (Some ''token'')) (AppsCall AppsFindAll)
      (sessionWorld\<lparr>apps := [ownApp]\<rparr>)) = Inr (AppsAnswer [ownApp])"
  by (simp add: serveRequest_def sampleRoute_routed serve_def authenticationGuard_def authenticate_def
      csrfGuard_def permissionGuard_def tenantContextInterceptor_def auditInterceptor_def io_simps
      sampleServices_def loginDeps_def toyCrypto_def ownApp_def sessionWorld_def sampleSession_def
      emptyWorld_def sampleHttp_def sampleRoute_def get_def SAFE_METHODS_def findFirst_def findMany_def updateRow_def
      sessionTable_def appTable_def visible_def isSession_def userOf_def workspaceOfSession_def now_run
      activeWorkspace_def toPrincipal_def answerM_def findAllApps_def databaseWorkspace_def
      principalContext_def otherApp_def newestFirst_def hash_def idleMs_def Let_def)

definition sampleLoaded :: loaded where
  "sampleLoaded =
     \<lparr> ld_iso = showInt, ld_createdAt = (\<lambda>_. 0), ld_updatedAt = (\<lambda>_. 0), ld_app = (\<lambda>_. ownApp), ld_deployment = (\<lambda>_. sampleDeployment),
       ld_sample = (\<lambda>_. JNull), ld_runs = (\<lambda>_. []) \<rparr>"

definition appsResponse :: browser_response where
  "appsResponse =
     \<lparr> br_status = 200, br_statusText = ''OK'', br_contentType = Some ''application/json; charset=utf-8'',
       br_text = Inr [], br_json = Inr (JArr [appJson sampleLoaded ownApp]) \<rparr>"

theorem answers_fit_the_schemas_witness:
  "send (runtimeConfig None) (\<lambda>_ n. (Inr appsResponse, n)) zodParse (callSpec (CallApps ListApps))
      \<lparr>csrfToken = [], network = ()\<rparr>
    = (Inr (JArr [strip appSchema (appJson sampleLoaded ownApp)]), \<lparr>csrfToken = [], network = ()\<rparr>)"
proof -
  obtain w' where run: "serveRequest sampleServices (sampleHttp ''GET'' (Some ''token'')) (AppsCall AppsFindAll)
      (sessionWorld\<lparr>apps := [ownApp]\<rparr>) = (Inr (AppsAnswer [ownApp]), w')"
    using ownApp_listed by (metis prod.collapse)
  have spec: "snd (snd (callSpec (CallApps ListApps))) = Some (SArray appSchema)" by (simp add: getSpec_def)
  have ok: "br_ok appsResponse" "br_contentType appsResponse = Some ''application/json; charset=utf-8''"
    by (simp_all add: appsResponse_def br_ok_def)
  show ?thesis
    using answers_fit_the_schemas [where fetch = "\<lambda>_ n. (Inr appsResponse, n)" and cfg = "runtimeConfig None"
        and browser = "\<lparr>csrfToken = [], network = ()\<rparr>" and n = "()" and ld = sampleLoaded,
        OF z.zod_axioms reaches.list_apps spec run _ ok]
    by (simp add: appsResponse_def)
qed

text \<open>
  The deployment inside an overview is not a \<open>DeploymentRecord\<close>, as the type of the client says: it
  has no \<open>appId\<close>. The pages do not read it.
\<close>

lemma overview_deployment_differs: "\<not> conforms deploymentSchema (deploymentSummary d)"
  by (simp add: deploymentSchema_def deploymentSummary_def)

end
