(* ===== verification/Integrity.thy ===== *)
theory Integrity
  imports Wire
begin

text \<open>
  Integrity of the database: in every table no two rows share the columns of a unique index, and
  every row refers to rows that exist, in its own workspace where the foreign key says so. The
  database refuses to create a row that would break this; what is shown here is that no update or
  deletion of the services breaks it either. The contract of a table is a locale once more, and an
  operation is dealt with by splitting its program.
\<close>

section \<open>Well-formed databases\<close>

definition fit :: "('c, 'r) table \<Rightarrow> 'c world \<Rightarrow> bool" where
  "fit t w \<longleftrightarrow>
     sorted_wrt (\<lambda>r r'. \<not> uniqueClash t r r') (rowsOf t w) \<and> list_all (parentsExist t w) (rowsOf t w)"

definition wellFormed :: "'c world \<Rightarrow> bool" where
  "wellFormed w \<longleftrightarrow>
     fit workspaceTable w \<and> fit userTable w \<and> fit membershipTable w \<and> fit attemptTable w
     \<and> fit sessionTable w \<and> fit auditTable w \<and> fit appTable w \<and> fit buildTable w
     \<and> fit deploymentTable w \<and> fit runtimeConfigTable w \<and> fit sampleTable w \<and> fit incidentTable w
     \<and> fit runTable w \<and> fit runEventTable w \<and> fit snapshotTable w"

text \<open>All that foreign keys can refer to in the first world is there in the second.\<close>

definition covers :: "'c world \<Rightarrow> 'c world \<Rightarrow> bool" where
  "covers w w' \<longleftrightarrow>
     ws_id ` set (workspaces w) \<subseteq> ws_id ` set (workspaces w')
     \<and> u_id ` set (users w) \<subseteq> u_id ` set (users w')
     \<and> (\<lambda>r. (a_workspaceId r, a_id r)) ` set (apps w) \<subseteq> (\<lambda>r. (a_workspaceId r, a_id r)) ` set (apps w')
     \<and> b_id ` set (builds w) \<subseteq> b_id ` set (builds w')
     \<and> (\<lambda>r. (d_workspaceId r, d_id r)) ` set (deployments w)
         \<subseteq> (\<lambda>r. (d_workspaceId r, d_id r)) ` set (deployments w')
     \<and> h_id ` set (samples w) \<subseteq> h_id ` set (samples w')
     \<and> (\<lambda>r. (i_workspaceId r, i_id r)) ` set (incidents w)
         \<subseteq> (\<lambda>r. (i_workspaceId r, i_id r)) ` set (incidents w')
     \<and> (\<lambda>r. (r_workspaceId r, r_id r)) ` set (runs w) \<subseteq> (\<lambda>r. (r_workspaceId r, r_id r)) ` set (runs w')"

text \<open>A sample an operation is about to refer to, if any.\<close>

definition hasSample :: "string option \<Rightarrow> 'c world \<Rightarrow> bool" where
  "hasSample s w \<longleftrightarrow> (case s of None \<Rightarrow> True | Some i \<Rightarrow> list_ex (\<lambda>h. h_id h = i) (samples w))"

definition sound :: "string option \<Rightarrow> 'c world \<Rightarrow> 'c world \<Rightarrow> bool" where
  "sound s w w' \<longleftrightarrow> (wellFormed w \<and> hasSample s w \<longrightarrow> wellFormed w' \<and> hasSample s w')"

lemma preorder_sound [keeps_intros, simp]: "preorder_rel (sound s)"
  by (auto simp: preorder_rel_def reflp_def transp_def sound_def)

lemma covers_key:
  "k ` set xs \<subseteq> k ` set ys \<Longrightarrow> list_ex (\<lambda>x. k x = i) xs \<Longrightarrow> list_ex (\<lambda>x. k x = i) ys"
  by (auto simp: list_ex_iff subset_iff image_iff) metis

lemma covers_pair:
  "(\<lambda>x. (g x, k x)) ` set xs \<subseteq> (\<lambda>x. (g x, k x)) ` set ys \<Longrightarrow>
   list_ex (\<lambda>x. k x = i \<and> g x = u) xs \<Longrightarrow> list_ex (\<lambda>x. k x = i \<and> g x = u) ys"
  by (auto simp: list_ex_iff subset_iff image_iff) metis

lemma covers_sample: "covers w w' \<Longrightarrow> hasSample s w \<Longrightarrow> hasSample s w'"
  by (cases s) (simp_all add: hasSample_def covers_def covers_key [of h_id "samples w" "samples w'"])

lemma covers_refs:
  assumes "covers w w'"
  shows "list_ex (\<lambda>x. ws_id x = i) (workspaces w) \<Longrightarrow> list_ex (\<lambda>x. ws_id x = i) (workspaces w')"
    "list_ex (\<lambda>x. u_id x = i) (users w) \<Longrightarrow> list_ex (\<lambda>x. u_id x = i) (users w')"
    "list_ex (\<lambda>x. a_id x = i \<and> a_workspaceId x = u) (apps w)
      \<Longrightarrow> list_ex (\<lambda>x. a_id x = i \<and> a_workspaceId x = u) (apps w')"
    "list_ex (\<lambda>x. b_id x = i) (builds w) \<Longrightarrow> list_ex (\<lambda>x. b_id x = i) (builds w')"
    "list_ex (\<lambda>x. d_id x = i \<and> d_workspaceId x = u) (deployments w)
      \<Longrightarrow> list_ex (\<lambda>x. d_id x = i \<and> d_workspaceId x = u) (deployments w')"
    "list_ex (\<lambda>x. h_id x = i) (samples w) \<Longrightarrow> list_ex (\<lambda>x. h_id x = i) (samples w')"
    "list_ex (\<lambda>x. i_id x = i \<and> i_workspaceId x = u) (incidents w)
      \<Longrightarrow> list_ex (\<lambda>x. i_id x = i \<and> i_workspaceId x = u) (incidents w')"
    "list_ex (\<lambda>x. r_id x = i \<and> r_workspaceId x = u) (runs w)
      \<Longrightarrow> list_ex (\<lambda>x. r_id x = i \<and> r_workspaceId x = u) (runs w')"
proof -
  note c = assms [unfolded covers_def]
  show "list_ex (\<lambda>x. ws_id x = i) (workspaces w) \<Longrightarrow> list_ex (\<lambda>x. ws_id x = i) (workspaces w')"
    by (rule covers_key [OF c [THEN conjunct1]])
  show "list_ex (\<lambda>x. u_id x = i) (users w) \<Longrightarrow> list_ex (\<lambda>x. u_id x = i) (users w')"
    by (rule covers_key [OF c [THEN conjunct2, THEN conjunct1]])
  show "list_ex (\<lambda>x. a_id x = i \<and> a_workspaceId x = u) (apps w)
      \<Longrightarrow> list_ex (\<lambda>x. a_id x = i \<and> a_workspaceId x = u) (apps w')"
    by (rule covers_pair [OF c [THEN conjunct2, THEN conjunct2, THEN conjunct1]])
  show "list_ex (\<lambda>x. b_id x = i) (builds w) \<Longrightarrow> list_ex (\<lambda>x. b_id x = i) (builds w')"
    by (rule covers_key [OF c [THEN conjunct2, THEN conjunct2, THEN conjunct2, THEN conjunct1]])
  show "list_ex (\<lambda>x. d_id x = i \<and> d_workspaceId x = u) (deployments w)
      \<Longrightarrow> list_ex (\<lambda>x. d_id x = i \<and> d_workspaceId x = u) (deployments w')"
    by (rule covers_pair [OF c [THEN conjunct2, THEN conjunct2, THEN conjunct2, THEN conjunct2, THEN conjunct1]])
  show "list_ex (\<lambda>x. h_id x = i) (samples w) \<Longrightarrow> list_ex (\<lambda>x. h_id x = i) (samples w')"
    by (rule covers_key [OF c [THEN conjunct2, THEN conjunct2, THEN conjunct2, THEN conjunct2, THEN conjunct2, THEN conjunct1]])
  show "list_ex (\<lambda>x. i_id x = i \<and> i_workspaceId x = u) (incidents w)
      \<Longrightarrow> list_ex (\<lambda>x. i_id x = i \<and> i_workspaceId x = u) (incidents w')"
    by (rule covers_pair [OF c [THEN conjunct2, THEN conjunct2, THEN conjunct2, THEN conjunct2, THEN conjunct2, THEN conjunct2, THEN conjunct1]])
  show "list_ex (\<lambda>x. r_id x = i \<and> r_workspaceId x = u) (runs w)
      \<Longrightarrow> list_ex (\<lambda>x. r_id x = i \<and> r_workspaceId x = u) (runs w')"
    by (rule covers_pair [OF c [THEN conjunct2, THEN conjunct2, THEN conjunct2, THEN conjunct2, THEN conjunct2, THEN conjunct2, THEN conjunct2]])
qed

lemma covers_parents:
  assumes "covers w w'"
  shows "parentsExist workspaceTable w x1 \<Longrightarrow> parentsExist workspaceTable w' x1"
    "parentsExist userTable w x2 \<Longrightarrow> parentsExist userTable w' x2"
    "parentsExist membershipTable w x3 \<Longrightarrow> parentsExist membershipTable w' x3"
    "parentsExist attemptTable w x4 \<Longrightarrow> parentsExist attemptTable w' x4"
    "parentsExist sessionTable w x5 \<Longrightarrow> parentsExist sessionTable w' x5"
    "parentsExist auditTable w x6 \<Longrightarrow> parentsExist auditTable w' x6"
    "parentsExist appTable w x7 \<Longrightarrow> parentsExist appTable w' x7"
    "parentsExist buildTable w x8 \<Longrightarrow> parentsExist buildTable w' x8"
    "parentsExist deploymentTable w x9 \<Longrightarrow> parentsExist deploymentTable w' x9"
    "parentsExist runtimeConfigTable w x10 \<Longrightarrow> parentsExist runtimeConfigTable w' x10"
    "parentsExist sampleTable w x11 \<Longrightarrow> parentsExist sampleTable w' x11"
    "parentsExist incidentTable w x12 \<Longrightarrow> parentsExist incidentTable w' x12"
    "parentsExist runTable w x13 \<Longrightarrow> parentsExist runTable w' x13"
    "parentsExist runEventTable w x14 \<Longrightarrow> parentsExist runEventTable w' x14"
    "parentsExist snapshotTable w x15 \<Longrightarrow> parentsExist snapshotTable w' x15"
  by (auto simp: table_defs intro: covers_refs [OF assms] split: option.splits)

lemma fit_same:
  assumes "rowsOf t w' = rowsOf t w" "\<And>r. parentsExist t w r \<Longrightarrow> parentsExist t w' r" "fit t w"
  shows "fit t w'"
  using assms by (auto simp: fit_def list_all_iff)

section \<open>The contract of a table\<close>

lemma sorted_wrt_either:
  "sorted_wrt P xs \<Longrightarrow> x \<in> set xs \<Longrightarrow> y \<in> set xs \<Longrightarrow> x \<noteq> y \<Longrightarrow> P x y \<or> P y x"
  by (induction xs) auto

locale integral_table = lawful_table t for t :: "('c, 'r) table" +
  fixes key :: "'r \<Rightarrow> string"
  assumes covers_setRows: "(\<And>r. r \<in> set (rowsOf t w) \<Longrightarrow>
        \<exists>r' \<in> set rs. workspaceOf t r' = workspaceOf t r \<and> key r' = key r) \<Longrightarrow> covers w (setRows t rs w)"
    and fit_setRows: "covers w (setRows t rs w) \<Longrightarrow> wellFormed w \<Longrightarrow> fit t (setRows t rs w) \<Longrightarrow>
        wellFormed (setRows t rs w)"
    and parents_mono: "covers w w' \<Longrightarrow> parentsExist t w r \<Longrightarrow> parentsExist t w' r"
    and fit_table: "wellFormed w \<Longrightarrow> fit t w"
    and clash_sym: "uniqueClash t r r' = uniqueClash t r' r"
begin

lemma sound_setRows:
  assumes "covers w (setRows t rs w)"
    and "fit t w \<Longrightarrow> sorted_wrt (\<lambda>r r'. \<not> uniqueClash t r r') rs"
    and "\<And>r. fit t w \<Longrightarrow> r \<in> set rs \<Longrightarrow> parentsExist t w r"
  shows "sound s w (setRows t rs w)"
proof -
  have "fit t (setRows t rs w)" if "wellFormed w"
    using assms(2,3) parents_mono [OF assms(1)] fit_table [OF that] by (auto simp: fit_def rows_setRows list_all_iff)
  with fit_setRows [OF assms(1)] covers_sample [OF assms(1)] show ?thesis by (simp add: sound_def)
qed

lemma sound_createRow: "keeps (sound s) (createRow t mk)"
proof (rule keepsI)
  fix w
  show "sound s w (snd (createRow t mk w))"
  proof (cases "createRow t mk w")
    case (Pair res w')
    show ?thesis
    proof (cases res)
      case (Inl e)
      with createRow_failed Pair show ?thesis by (auto simp: sound_def)
    next
      case (Inr r)
      from createRow_stored [OF Pair [unfolded Inr]]
      have new: "\<not> list_ex (\<lambda>r'. uniqueClash t r' r) (rowsOf t w)" "parentsExist t w r" by simp_all
      have "w' = setRows t (rowsOf t w @ [r]) w"
        using Pair Inr by (auto simp: createRow_def Let_def split: option.splits if_splits)
      moreover have "sound s w (setRows t (rowsOf t w @ [r]) w)"
        using new by (intro sound_setRows covers_setRows)
          (auto simp: sorted_wrt_append fit_def list_all_iff list_ex_iff)
      ultimately show ?thesis using Pair by simp
    qed
  qed
qed

text \<open>An update that leaves the columns of indexes and foreign keys as they are.\<close>

lemma sound_updateRow:
  assumes columns: "\<And>r. workspaceOf t (f r) = workspaceOf t r" "\<And>r. key (f r) = key r"
    and clashes: "\<And>r r'. uniqueClash t (f r) r' = uniqueClash t r r'"
    and parents: "\<And>w r. wellFormed w \<Longrightarrow> hasSample s w \<Longrightarrow> parentsExist t w r \<Longrightarrow> parentsExist t w (f r)"
  shows "keeps (sound s) (updateRow t p f)"
proof (rule keepsI)
  fix w
  let ?g = "\<lambda>x. if visible t w x \<and> p x then f x else x"
  have "uniqueClash t x (f y) = uniqueClash t x y" for x y
    unfolding clash_sym [of x "f y"] clashes by (rule clash_sym)
  then have clash: "uniqueClash t (?g x) (?g y) = uniqueClash t x y" for x y by (simp add: clashes)
  have "sound s w (setRows t (map ?g (rowsOf t w)) w)" if "wellFormed w" "hasSample s w"
  proof (rule sound_setRows)
    show "covers w (setRows t (map ?g (rowsOf t w)) w)"
    proof (rule covers_setRows)
      fix r assume "r \<in> set (rowsOf t w)"
      then show "\<exists>r' \<in> set (map ?g (rowsOf t w)). workspaceOf t r' = workspaceOf t r \<and> key r' = key r"
        by (intro bexI [of _ "?g r"]) (simp_all add: columns)
    qed
    show "sorted_wrt (\<lambda>r r'. \<not> uniqueClash t r r') (map ?g (rowsOf t w))" if "fit t w"
      using that by (simp add: fit_def sorted_wrt_map clash)
    show "parentsExist t w r" if "fit t w" "r \<in> set (map ?g (rowsOf t w))" for r
      using that parents [OF \<open>wellFormed w\<close> \<open>hasSample s w\<close>] by (auto simp: fit_def list_all_iff)
  qed
  then have "sound s w (setRows t (map ?g (rowsOf t w)) w)" by (auto simp: sound_def)
  then show "sound s w (snd (updateRow t p f w))"
    by (auto simp: updateRow_def sound_def split: option.split)
qed

text \<open>An update of one row of a global model, which the database checks against the indexes.\<close>

lemma sound_updateUnique:
  assumes global: "\<not> tenantModel t"
    and columns: "\<And>r. workspaceOf t (f r) = workspaceOf t r" "\<And>r. key (f r) = key r"
    and unique: "\<And>r r'. p r \<Longrightarrow> p r' \<Longrightarrow> uniqueClash t r r'"
    and parents: "\<And>w r. parentsExist t w r \<Longrightarrow> parentsExist t w (f r)"
  shows "keeps (sound s) (updateRow t p f)"
proof (rule keepsI)
  fix w
  let ?g = "\<lambda>x. if p x then f x else x"
  have sorted: "sorted_wrt (\<lambda>r r'. \<not> uniqueClash t r r') (map ?g rs)"
    if "sorted_wrt (\<lambda>r r'. \<not> uniqueClash t r r') rs" "\<And>x y. x \<in> set rs \<Longrightarrow> y \<in> set rs \<Longrightarrow> p x \<Longrightarrow> \<not> p y \<Longrightarrow> \<not> uniqueClash t y (f x)" for rs
    using that
  proof (induction rs)
    case (Cons a rs)
    then have "sorted_wrt (\<lambda>r r'. \<not> uniqueClash t r r') (map ?g rs)" by simp
    moreover have "\<not> uniqueClash t (?g a) (?g y)" if "y \<in> set rs" for y
      using Cons.prems that unique [of a y] clash_sym by (cases "p a"; cases "p y") auto
    then have "\<forall>z \<in> set (map ?g rs). \<not> uniqueClash t (?g a) z" unfolding set_map by blast
    ultimately show ?case unfolding list.map sorted_wrt.simps by blast
  qed simp
  have "sound s w (setRows t (map ?g (rowsOf t w)) w)"
    if found: "find p (rowsOf t w) = Some r" and fresh: "\<not> list_ex (\<lambda>r'. \<not> p r' \<and> uniqueClash t r' (f r)) (rowsOf t w)" for r
  proof (rule sound_setRows)
    show "covers w (setRows t (map ?g (rowsOf t w)) w)"
    proof (rule covers_setRows)
      fix r assume "r \<in> set (rowsOf t w)"
      then show "\<exists>r' \<in> set (map ?g (rowsOf t w)). workspaceOf t r' = workspaceOf t r \<and> key r' = key r"
        by (intro bexI [of _ "?g r"]) (simp_all add: columns)
    qed
    show "parentsExist t w r" if "fit t w" "r \<in> set (map ?g (rowsOf t w))" for r
      using that parents by (auto simp: fit_def list_all_iff)
    assume "fit t w"
    then have old: "sorted_wrt (\<lambda>r r'. \<not> uniqueClash t r r') (rowsOf t w)" by (simp add: fit_def)
    have "x = r" if "x \<in> set (rowsOf t w)" "p x" for x
    proof -
      from found have "r \<in> set (rowsOf t w)" "p r" by (auto simp: find_Some_iff)
      with that sorted_wrt_either [OF old, of x r] unique show ?thesis by blast
    qed
    with fresh show "sorted_wrt (\<lambda>r r'. \<not> uniqueClash t r r') (map ?g (rowsOf t w))"
      by (intro sorted old) (auto simp: list_ex_iff)
  qed
  moreover have "visible t w r" for r using global by (simp add: visible_def)
  ultimately show "sound s w (snd (updateRow t p f w))"
    by (auto simp: updateRow_def sound_def split: option.split)
qed

end

text \<open>A table nothing refers to.\<close>

locale leaf_table = integral_table +
  assumes covers_any: "covers w (setRows t rs w)"
begin

lemma sound_filter: "sound s w (setRows t (filter q (rowsOf t w)) w)"
  by (intro sound_setRows covers_any) (auto simp: fit_def list_all_iff intro: sorted_wrt_filter)

lemma sound_deleteMany: "keeps (sound s) (deleteMany t p)" and sound_deleteRow: "keeps (sound s) (deleteRow t p)"
  using sound_filter by (auto intro!: keepsI simp: deleteMany_def deleteRow_def sound_def)

end

text \<open>The tables of the model.\<close>

lemma table_rows:
  "rowsOf workspaceTable w = workspaces w"
  "rowsOf userTable w = users w"
  "rowsOf membershipTable w = memberships w"
  "rowsOf attemptTable w = attempts w"
  "rowsOf sessionTable w = sessions w"
  "rowsOf auditTable w = audits w"
  "rowsOf appTable w = apps w"
  "rowsOf buildTable w = builds w"
  "rowsOf deploymentTable w = deployments w"
  "rowsOf runtimeConfigTable w = runtimeConfigs w"
  "rowsOf sampleTable w = samples w"
  "rowsOf incidentTable w = incidents w"
  "rowsOf runTable w = runs w"
  "rowsOf runEventTable w = runEvents w"
  "rowsOf snapshotTable w = snapshots w"
  by (simp_all add: table_defs)

lemma table_setters:
  "setRows workspaceTable x0 w = w\<lparr>workspaces := x0\<rparr>"
  "setRows userTable x1 w = w\<lparr>users := x1\<rparr>"
  "setRows membershipTable x2 w = w\<lparr>memberships := x2\<rparr>"
  "setRows attemptTable x3 w = w\<lparr>attempts := x3\<rparr>"
  "setRows sessionTable x4 w = w\<lparr>sessions := x4\<rparr>"
  "setRows auditTable x5 w = w\<lparr>audits := x5\<rparr>"
  "setRows appTable x6 w = w\<lparr>apps := x6\<rparr>"
  "setRows buildTable x7 w = w\<lparr>builds := x7\<rparr>"
  "setRows deploymentTable x8 w = w\<lparr>deployments := x8\<rparr>"
  "setRows runtimeConfigTable x9 w = w\<lparr>runtimeConfigs := x9\<rparr>"
  "setRows sampleTable x10 w = w\<lparr>samples := x10\<rparr>"
  "setRows incidentTable x11 w = w\<lparr>incidents := x11\<rparr>"
  "setRows runTable x12 w = w\<lparr>runs := x12\<rparr>"
  "setRows runEventTable x13 w = w\<lparr>runEvents := x13\<rparr>"
  "setRows snapshotTable x14 w = w\<lparr>snapshots := x14\<rparr>"
  by (simp_all add: table_defs)

lemma fits_same:
  assumes "covers w w'"
  shows
    "workspaces w' = workspaces w \<Longrightarrow> fit workspaceTable w \<Longrightarrow> fit workspaceTable w'"
    "users w' = users w \<Longrightarrow> fit userTable w \<Longrightarrow> fit userTable w'"
    "memberships w' = memberships w \<Longrightarrow> fit membershipTable w \<Longrightarrow> fit membershipTable w'"
    "attempts w' = attempts w \<Longrightarrow> fit attemptTable w \<Longrightarrow> fit attemptTable w'"
    "sessions w' = sessions w \<Longrightarrow> fit sessionTable w \<Longrightarrow> fit sessionTable w'"
    "audits w' = audits w \<Longrightarrow> fit auditTable w \<Longrightarrow> fit auditTable w'"
    "apps w' = apps w \<Longrightarrow> fit appTable w \<Longrightarrow> fit appTable w'"
    "builds w' = builds w \<Longrightarrow> fit buildTable w \<Longrightarrow> fit buildTable w'"
    "deployments w' = deployments w \<Longrightarrow> fit deploymentTable w \<Longrightarrow> fit deploymentTable w'"
    "runtimeConfigs w' = runtimeConfigs w \<Longrightarrow> fit runtimeConfigTable w \<Longrightarrow> fit runtimeConfigTable w'"
    "samples w' = samples w \<Longrightarrow> fit sampleTable w \<Longrightarrow> fit sampleTable w'"
    "incidents w' = incidents w \<Longrightarrow> fit incidentTable w \<Longrightarrow> fit incidentTable w'"
    "runs w' = runs w \<Longrightarrow> fit runTable w \<Longrightarrow> fit runTable w'"
    "runEvents w' = runEvents w \<Longrightarrow> fit runEventTable w \<Longrightarrow> fit runEventTable w'"
    "snapshots w' = snapshots w \<Longrightarrow> fit snapshotTable w \<Longrightarrow> fit snapshotTable w'"
  using fit_same covers_parents [OF assms] by (metis table_rows)+

lemma image_keys: "(\<And>r. r \<in> set xs \<Longrightarrow> \<exists>r' \<in> set ys. f r' = f r) \<Longrightarrow> f ` set xs \<subseteq> f ` set ys"
  by (metis (mono_tags, lifting) image_iff subsetI)

lemma image_pairs:
  "(\<And>r. r \<in> set xs \<Longrightarrow> \<exists>r' \<in> set ys. g r' = g r \<and> k r' = k r) \<Longrightarrow> k ` set xs \<subseteq> k ` set ys"
  by (rule image_keys) blast

text \<open>The laws of the locales, for all tables.\<close>

lemma covers_tables:
  "(\<And>r. r \<in> set (rowsOf workspaceTable w) \<Longrightarrow> \<exists>r' \<in> set x0. workspaceOf workspaceTable r' = workspaceOf workspaceTable r \<and> ws_id r' = ws_id r)
      \<Longrightarrow> covers w (setRows workspaceTable x0 w)"
  "(\<And>r. r \<in> set (rowsOf userTable w) \<Longrightarrow> \<exists>r' \<in> set x1. workspaceOf userTable r' = workspaceOf userTable r \<and> u_id r' = u_id r)
      \<Longrightarrow> covers w (setRows userTable x1 w)"
  "covers w (setRows membershipTable x2 w)"
  "covers w (setRows attemptTable x3 w)"
  "covers w (setRows sessionTable x4 w)"
  "covers w (setRows auditTable x5 w)"
  "(\<And>r. r \<in> set (rowsOf appTable w) \<Longrightarrow> \<exists>r' \<in> set x6. workspaceOf appTable r' = workspaceOf appTable r \<and> a_id r' = a_id r)
      \<Longrightarrow> covers w (setRows appTable x6 w)"
  "(\<And>r. r \<in> set (rowsOf buildTable w) \<Longrightarrow> \<exists>r' \<in> set x7. workspaceOf buildTable r' = workspaceOf buildTable r \<and> b_id r' = b_id r)
      \<Longrightarrow> covers w (setRows buildTable x7 w)"
  "(\<And>r. r \<in> set (rowsOf deploymentTable w) \<Longrightarrow> \<exists>r' \<in> set x8. workspaceOf deploymentTable r' = workspaceOf deploymentTable r \<and> d_id r' = d_id r)
      \<Longrightarrow> covers w (setRows deploymentTable x8 w)"
  "covers w (setRows runtimeConfigTable x9 w)"
  "(\<And>r. r \<in> set (rowsOf sampleTable w) \<Longrightarrow> \<exists>r' \<in> set x10. workspaceOf sampleTable r' = workspaceOf sampleTable r \<and> h_id r' = h_id r)
      \<Longrightarrow> covers w (setRows sampleTable x10 w)"
  "(\<And>r. r \<in> set (rowsOf incidentTable w) \<Longrightarrow> \<exists>r' \<in> set x11. workspaceOf incidentTable r' = workspaceOf incidentTable r \<and> i_id r' = i_id r)
      \<Longrightarrow> covers w (setRows incidentTable x11 w)"
  "(\<And>r. r \<in> set (rowsOf runTable w) \<Longrightarrow> \<exists>r' \<in> set x12. workspaceOf runTable r' = workspaceOf runTable r \<and> r_id r' = r_id r)
      \<Longrightarrow> covers w (setRows runTable x12 w)"
  "covers w (setRows runEventTable x13 w)"
  "covers w (setRows snapshotTable x14 w)"
  using image_keys [of "workspaces w" x0 ws_id] image_keys [of "users w" x1 u_id]
    image_keys [of "apps w" x6 "\<lambda>r. (a_workspaceId r, a_id r)"]
    image_pairs [of "builds w" x7 b_workspaceId b_id]
    image_keys [of "deployments w" x8 "\<lambda>r. (d_workspaceId r, d_id r)"]
    image_pairs [of "samples w" x10 h_workspaceId h_id]
    image_keys [of "incidents w" x11 "\<lambda>r. (i_workspaceId r, i_id r)"]
    image_keys [of "runs w" x12 "\<lambda>r. (r_workspaceId r, r_id r)"]
  by (simp_all add: covers_def table_defs)

lemma wellFormed_tables:
  "covers w (setRows workspaceTable x0 w) \<Longrightarrow> wellFormed w \<Longrightarrow> fit workspaceTable (setRows workspaceTable x0 w) \<Longrightarrow> wellFormed (setRows workspaceTable x0 w)"
  "covers w (setRows userTable x1 w) \<Longrightarrow> wellFormed w \<Longrightarrow> fit userTable (setRows userTable x1 w) \<Longrightarrow> wellFormed (setRows userTable x1 w)"
  "covers w (setRows membershipTable x2 w) \<Longrightarrow> wellFormed w \<Longrightarrow> fit membershipTable (setRows membershipTable x2 w) \<Longrightarrow> wellFormed (setRows membershipTable x2 w)"
  "covers w (setRows attemptTable x3 w) \<Longrightarrow> wellFormed w \<Longrightarrow> fit attemptTable (setRows attemptTable x3 w) \<Longrightarrow> wellFormed (setRows attemptTable x3 w)"
  "covers w (setRows sessionTable x4 w) \<Longrightarrow> wellFormed w \<Longrightarrow> fit sessionTable (setRows sessionTable x4 w) \<Longrightarrow> wellFormed (setRows sessionTable x4 w)"
  "covers w (setRows auditTable x5 w) \<Longrightarrow> wellFormed w \<Longrightarrow> fit auditTable (setRows auditTable x5 w) \<Longrightarrow> wellFormed (setRows auditTable x5 w)"
  "covers w (setRows appTable x6 w) \<Longrightarrow> wellFormed w \<Longrightarrow> fit appTable (setRows appTable x6 w) \<Longrightarrow> wellFormed (setRows appTable x6 w)"
  "covers w (setRows buildTable x7 w) \<Longrightarrow> wellFormed w \<Longrightarrow> fit buildTable (setRows buildTable x7 w) \<Longrightarrow> wellFormed (setRows buildTable x7 w)"
  "covers w (setRows deploymentTable x8 w) \<Longrightarrow> wellFormed w \<Longrightarrow> fit deploymentTable (setRows deploymentTable x8 w) \<Longrightarrow> wellFormed (setRows deploymentTable x8 w)"
  "covers w (setRows runtimeConfigTable x9 w) \<Longrightarrow> wellFormed w \<Longrightarrow> fit runtimeConfigTable (setRows runtimeConfigTable x9 w) \<Longrightarrow> wellFormed (setRows runtimeConfigTable x9 w)"
  "covers w (setRows sampleTable x10 w) \<Longrightarrow> wellFormed w \<Longrightarrow> fit sampleTable (setRows sampleTable x10 w) \<Longrightarrow> wellFormed (setRows sampleTable x10 w)"
  "covers w (setRows incidentTable x11 w) \<Longrightarrow> wellFormed w \<Longrightarrow> fit incidentTable (setRows incidentTable x11 w) \<Longrightarrow> wellFormed (setRows incidentTable x11 w)"
  "covers w (setRows runTable x12 w) \<Longrightarrow> wellFormed w \<Longrightarrow> fit runTable (setRows runTable x12 w) \<Longrightarrow> wellFormed (setRows runTable x12 w)"
  "covers w (setRows runEventTable x13 w) \<Longrightarrow> wellFormed w \<Longrightarrow> fit runEventTable (setRows runEventTable x13 w) \<Longrightarrow> wellFormed (setRows runEventTable x13 w)"
  "covers w (setRows snapshotTable x14 w) \<Longrightarrow> wellFormed w \<Longrightarrow> fit snapshotTable (setRows snapshotTable x14 w) \<Longrightarrow> wellFormed (setRows snapshotTable x14 w)"
  by (simp_all add: wellFormed_def table_setters fits_same)

lemma fit_tables:
  "wellFormed w \<Longrightarrow> fit workspaceTable w"
  "wellFormed w \<Longrightarrow> fit userTable w"
  "wellFormed w \<Longrightarrow> fit membershipTable w"
  "wellFormed w \<Longrightarrow> fit attemptTable w"
  "wellFormed w \<Longrightarrow> fit sessionTable w"
  "wellFormed w \<Longrightarrow> fit auditTable w"
  "wellFormed w \<Longrightarrow> fit appTable w"
  "wellFormed w \<Longrightarrow> fit buildTable w"
  "wellFormed w \<Longrightarrow> fit deploymentTable w"
  "wellFormed w \<Longrightarrow> fit runtimeConfigTable w"
  "wellFormed w \<Longrightarrow> fit sampleTable w"
  "wellFormed w \<Longrightarrow> fit incidentTable w"
  "wellFormed w \<Longrightarrow> fit runTable w"
  "wellFormed w \<Longrightarrow> fit runEventTable w"
  "wellFormed w \<Longrightarrow> fit snapshotTable w"
  by (simp_all add: wellFormed_def)

lemma clash_tables:
  "uniqueClash workspaceTable y0 z0 = uniqueClash workspaceTable z0 y0"
  "uniqueClash userTable y1 z1 = uniqueClash userTable z1 y1"
  "uniqueClash membershipTable y2 z2 = uniqueClash membershipTable z2 y2"
  "uniqueClash attemptTable y3 z3 = uniqueClash attemptTable z3 y3"
  "uniqueClash sessionTable y4 z4 = uniqueClash sessionTable z4 y4"
  "uniqueClash auditTable y5 z5 = uniqueClash auditTable z5 y5"
  "uniqueClash appTable y6 z6 = uniqueClash appTable z6 y6"
  "uniqueClash buildTable y7 z7 = uniqueClash buildTable z7 y7"
  "uniqueClash deploymentTable y8 z8 = uniqueClash deploymentTable z8 y8"
  "uniqueClash runtimeConfigTable y9 z9 = uniqueClash runtimeConfigTable z9 y9"
  "uniqueClash sampleTable y10 z10 = uniqueClash sampleTable z10 y10"
  "uniqueClash incidentTable y11 z11 = uniqueClash incidentTable z11 y11"
  "uniqueClash runTable y12 z12 = uniqueClash runTable z12 y12"
  "uniqueClash runEventTable y13 z13 = uniqueClash runEventTable z13 y13"
  "uniqueClash snapshotTable y14 z14 = uniqueClash snapshotTable z14 y14"
  by (auto simp: table_defs)

lemmas integral_laws = covers_tables wellFormed_tables covers_parents fit_tables clash_tables

interpretation soundWorkspace: integral_table workspaceTable ws_id
  by unfold_locales (rule integral_laws; assumption?)+
interpretation soundUser: integral_table userTable u_id
  by unfold_locales (rule integral_laws; assumption?)+
interpretation soundMembership: leaf_table membershipTable m_userId
  by unfold_locales (rule integral_laws; assumption?)+
interpretation soundAttempt: leaf_table attemptTable la_stateHash
  by unfold_locales (rule integral_laws; assumption?)+
interpretation soundSession: leaf_table sessionTable s_idHash
  by unfold_locales (rule integral_laws; assumption?)+
interpretation soundAudit: leaf_table auditTable ae_action
  by unfold_locales (rule integral_laws; assumption?)+
interpretation soundApp: integral_table appTable a_id
  by unfold_locales (rule integral_laws; assumption?)+
interpretation soundBuild: integral_table buildTable b_id
  by unfold_locales (rule integral_laws; assumption?)+
interpretation soundDeployment: integral_table deploymentTable d_id
  by unfold_locales (rule integral_laws; assumption?)+
interpretation soundConfig: leaf_table runtimeConfigTable rc_deploymentId
  by unfold_locales (rule integral_laws; assumption?)+
interpretation soundSample: integral_table sampleTable h_id
  by unfold_locales (rule integral_laws; assumption?)+
interpretation soundIncident: integral_table incidentTable i_id
  by unfold_locales (rule integral_laws; assumption?)+
interpretation soundRun: integral_table runTable r_id
  by unfold_locales (rule integral_laws; assumption?)+
interpretation soundRunEvent: leaf_table runEventTable e_id
  by unfold_locales (rule integral_laws; assumption?)+
interpretation soundSnapshot: leaf_table snapshotTable es_id
  by unfold_locales (rule integral_laws; assumption?)+

section \<open>Steps outside the tables\<close>

lemma parents_restored:
  "parentsExist workspaceTable (restoreTables w w') = parentsExist workspaceTable w"
  "parentsExist userTable (restoreTables w w') = parentsExist userTable w"
  "parentsExist membershipTable (restoreTables w w') = parentsExist membershipTable w"
  "parentsExist attemptTable (restoreTables w w') = parentsExist attemptTable w"
  "parentsExist sessionTable (restoreTables w w') = parentsExist sessionTable w"
  "parentsExist auditTable (restoreTables w w') = parentsExist auditTable w"
  "parentsExist appTable (restoreTables w w') = parentsExist appTable w"
  "parentsExist buildTable (restoreTables w w') = parentsExist buildTable w"
  "parentsExist deploymentTable (restoreTables w w') = parentsExist deploymentTable w"
  "parentsExist runtimeConfigTable (restoreTables w w') = parentsExist runtimeConfigTable w"
  "parentsExist sampleTable (restoreTables w w') = parentsExist sampleTable w"
  "parentsExist incidentTable (restoreTables w w') = parentsExist incidentTable w"
  "parentsExist runTable (restoreTables w w') = parentsExist runTable w"
  "parentsExist runEventTable (restoreTables w w') = parentsExist runEventTable w"
  "parentsExist snapshotTable (restoreTables w w') = parentsExist snapshotTable w"
  by (simp_all add: table_defs restoreTables_def fun_eq_iff split: option.split)

lemma parents_tenant:
  "parentsExist workspaceTable (w\<lparr>tenant := c\<rparr>) = parentsExist workspaceTable w"
  "parentsExist userTable (w\<lparr>tenant := c\<rparr>) = parentsExist userTable w"
  "parentsExist membershipTable (w\<lparr>tenant := c\<rparr>) = parentsExist membershipTable w"
  "parentsExist attemptTable (w\<lparr>tenant := c\<rparr>) = parentsExist attemptTable w"
  "parentsExist sessionTable (w\<lparr>tenant := c\<rparr>) = parentsExist sessionTable w"
  "parentsExist auditTable (w\<lparr>tenant := c\<rparr>) = parentsExist auditTable w"
  "parentsExist appTable (w\<lparr>tenant := c\<rparr>) = parentsExist appTable w"
  "parentsExist buildTable (w\<lparr>tenant := c\<rparr>) = parentsExist buildTable w"
  "parentsExist deploymentTable (w\<lparr>tenant := c\<rparr>) = parentsExist deploymentTable w"
  "parentsExist runtimeConfigTable (w\<lparr>tenant := c\<rparr>) = parentsExist runtimeConfigTable w"
  "parentsExist sampleTable (w\<lparr>tenant := c\<rparr>) = parentsExist sampleTable w"
  "parentsExist incidentTable (w\<lparr>tenant := c\<rparr>) = parentsExist incidentTable w"
  "parentsExist runTable (w\<lparr>tenant := c\<rparr>) = parentsExist runTable w"
  "parentsExist runEventTable (w\<lparr>tenant := c\<rparr>) = parentsExist runEventTable w"
  "parentsExist snapshotTable (w\<lparr>tenant := c\<rparr>) = parentsExist snapshotTable w"
  by (simp_all add: table_defs fun_eq_iff split: option.split)

lemma wellFormed_restored: "wellFormed (restoreTables w w') = wellFormed w"
  by (simp add: wellFormed_def fit_def table_rows parents_restored) (simp add: restoreTables_def)

lemma wellFormed_tenant: "wellFormed (w\<lparr>tenant := c\<rparr>) = wellFormed w"
  by (simp add: wellFormed_def fit_def table_rows parents_tenant)

lemma sound_restoreTables: "sound s w (restoreTables w w')"
proof -
  have "samples (restoreTables w w') = samples w" by (simp add: restoreTables_def)
  then show ?thesis by (cases s) (simp_all add: sound_def wellFormed_restored hasSample_def)
qed

lemma sound_tables: "restoreTables w w' = w' \<Longrightarrow> sound s w w'"
  using sound_restoreTables [of s w w'] by simp

lemma sameTables_sound: "sameTables w w' \<Longrightarrow> sound s w w'"
proof -
  assume "sameTables w w'"
  then obtain c t d where "w' = w\<lparr>cluster := c, ticks := t, drawn := d\<rparr>" unfolding sameTables_def by blast
  then show ?thesis by (intro sound_tables) (simp add: restoreTables_def)
qed

lemma sound_sameTables: "keeps sameTables m \<Longrightarrow> keeps (sound s) m"
  by (simp add: keeps_def sameTables_sound)

lemma sound_clock [keeps_intros]: "keeps (sound s) now" "keeps (sound s) fresh"
  "keeps (sound s) (callFetch fetch rq)"
  by (auto intro!: keepsI sound_tables simp: now_run fresh_run callFetch_run restoreTables_def
      split: prod.split sum.split)

lemma sound_transaction [keeps_intros]:
  assumes "keeps (sound s) m"
  shows "keeps (sound s) (transaction m)"
proof (rule keepsI)
  fix w
  show "sound s w (snd (transaction m w))"
    using keepsD [OF assms, of w] by (auto simp: transaction_run sound_restoreTables split: prod.split sum.split)
qed

lemma sound_tenant [simp]: "sound s (w\<lparr>tenant := t\<rparr>) w' = sound s w w'" "sound s w (w'\<lparr>tenant := t\<rparr>) = sound s w w'"
  by (cases s; simp add: sound_def wellFormed_tenant hasSample_def)+

lemma sound_runInContext [keeps_intros]: "keeps (sound s) m \<Longrightarrow> keeps (sound s) (runInContext c m)"
proof (rule keepsI)
  fix w assume "keeps (sound s) m"
  from keepsD [OF this, of "w\<lparr>tenant := Some c\<rparr>"] show "sound s w (snd (runInContext c m w))"
    by (cases "m (w\<lparr>tenant := Some c\<rparr>)") (simp add: runInContext_run)
qed

lemma sound_withTenantTransaction [keeps_intros]:
  "keeps (sound s) m \<Longrightarrow> keeps (sound s) (withTenantTransaction m)"
  by (rule keeps_withTenantTransaction_by) (simp_all add: sound_restoreTables)

lemmas sound_rows [keeps_intros] =
  soundWorkspace.sound_createRow soundUser.sound_createRow soundMembership.sound_createRow
  soundAttempt.sound_createRow soundSession.sound_createRow soundAudit.sound_createRow
  soundApp.sound_createRow soundBuild.sound_createRow soundDeployment.sound_createRow
  soundConfig.sound_createRow soundSample.sound_createRow soundIncident.sound_createRow
  soundRun.sound_createRow soundRunEvent.sound_createRow soundSnapshot.sound_createRow
  soundAttempt.sound_deleteMany soundAttempt.sound_deleteRow
  soundSession.sound_deleteMany soundSession.sound_deleteRow

section \<open>Updates\<close>

text \<open>None of them touches the columns of an index or a foreign key, but for two.\<close>

lemma sound_setBuild [keeps_intros]:
  "(\<And>b. b_id (f b) = b_id b \<and> b_workspaceId (f b) = b_workspaceId b \<and> b_appId (f b) = b_appId b) \<Longrightarrow>
   keeps (sound s) (setBuild i f)"
  unfolding setBuild_def by (rule soundBuild.sound_updateRow) (simp_all add: buildTable_def)

lemma sound_setDeployment [keeps_intros]:
  "(\<And>d. d_id (f d) = d_id d \<and> d_workspaceId (f d) = d_workspaceId d \<and> d_appId (f d) = d_appId d
      \<and> d_buildId (f d) = d_buildId d) \<Longrightarrow>
   keeps (sound s) (setDeployment i f)"
  unfolding setDeployment_def by (rule soundDeployment.sound_updateRow) (simp_all add: deploymentTable_def)

text \<open>An incident may be given the sample that the operation has found.\<close>

lemma sound_setIncident [keeps_intros]:
  "(\<And>x. i_id (f x) = i_id x \<and> i_workspaceId (f x) = i_workspaceId x \<and> i_appId (f x) = i_appId x
      \<and> i_deploymentId (f x) = i_deploymentId x
      \<and> (i_latestHealthSampleId (f x) = i_latestHealthSampleId x
         \<or> s \<noteq> None \<and> i_latestHealthSampleId (f x) = s)) \<Longrightarrow>
   keeps (sound s) (setIncident i f)"
  unfolding setIncident_def
proof (rule soundIncident.sound_updateRow)
  fix w :: "'c world" and r
  assume columns: "\<And>x. i_id (f x) = i_id x \<and> i_workspaceId (f x) = i_workspaceId x \<and> i_appId (f x) = i_appId x
      \<and> i_deploymentId (f x) = i_deploymentId x
      \<and> (i_latestHealthSampleId (f x) = i_latestHealthSampleId x \<or> s \<noteq> None \<and> i_latestHealthSampleId (f x) = s)"
    and there: "hasSample s w" "parentsExist incidentTable w r"
  from columns [of r] have same: "i_workspaceId (f r) = i_workspaceId r" "i_appId (f r) = i_appId r"
    "i_deploymentId (f r) = i_deploymentId r"
    and latest: "i_latestHealthSampleId (f r) = i_latestHealthSampleId r
      \<or> s \<noteq> None \<and> i_latestHealthSampleId (f r) = s" by simp_all
  from latest show "parentsExist incidentTable w (f r)"
    using there by (elim disjE conjE) (auto simp: incidentTable_def hasSample_def same)
qed (simp_all add: incidentTable_def)

lemma sound_updateSession [keeps_intros]:
  "(\<And>x. s_idHash (f x) = s_idHash x \<and> s_userId (f x) = s_userId x \<and> s_workspaceId (f x) = s_workspaceId x) \<Longrightarrow>
   keeps (sound s) (updateRow sessionTable p f)"
  by (rule soundSession.sound_updateRow) (simp_all add: sessionTable_def)

lemma sound_updateUser [keeps_intros]:
  "(\<And>x. u_id (f x) = u_id x \<and> u_subject (f x) = u_subject x) \<Longrightarrow> keeps (sound s) (updateRow userTable p f)"
  by (rule soundUser.sound_updateRow) (simp_all add: userTable_def)

lemma sound_updateMembership [keeps_intros]:
  "(\<And>x. m_workspaceId (f x) = m_workspaceId x \<and> m_userId (f x) = m_userId x) \<Longrightarrow>
   keeps (sound s) (updateRow membershipTable p f)"
  by (rule soundMembership.sound_updateRow) (simp_all add: membershipTable_def)

text \<open>The workspace that is found by its identifier may be given an organization.\<close>

lemma sound_updateWorkspace:
  "(\<And>x. ws_id (f x) = ws_id x \<and> ws_organizationId (f x) = ws_organizationId x \<and> ws_namespace (f x) = ws_namespace x)
   \<Longrightarrow> keeps (sound s) (updateRow workspaceTable p f)"
  "(\<And>x. ws_id (g x) = ws_id x) \<Longrightarrow> keeps (sound s) (updateRow workspaceTable (\<lambda>x. ws_id x = i) g)"
  by (rule soundWorkspace.sound_updateRow; simp add: workspaceTable_def)
    (rule soundWorkspace.sound_updateUnique; simp add: workspaceTable_def)

section \<open>The operations of the services\<close>

lemmas kube_sound [keeps_intros] = kube_sameTables [THEN sound_sameTables]

lemma sound_apps_builds [keeps_intros]:
  "keeps (sound s) (createApp app_dto)" "keeps (sound s) (createBuild api cfg i build_dto)"
  "keeps (sound s) (getBuildStatus api i)"
  unfolding createApp_def createBuild_def startBuildJob_def getBuildStatus_def Let_def
  by (intro keeps_intros; simp)+

lemma sound_deployments [keeps_intros]:
  "keeps (sound s) (createDeployment api cfg i dto)" "keeps (sound s) (getDeploymentStatus api i)"
  "keeps (sound s) (scale api i n)" "keeps (sound s) (stop api i)" "keeps (sound s) (start api i requested)"
  "keeps (sound s) (restart api i)" "keeps (sound s) (deleteDeployment api i)"
  unfolding createDeployment_def storeDeployment_def deployStored_def getDeploymentStatus_def scale_def
    stop_def start_def restart_def deleteDeployment_def scaleTo_def Let_def
  by (intro keeps_intros; simp)+

lemma sound_evidence [keeps_intros]: "keeps (sound s) (createSnapshot api parse i opts)"
  unfolding createSnapshot_def by (intro keeps_intros sound_sameTables [OF sameTables_collectLive])

lemma sound_rca [keeps_intros]:
  "keeps (sound s) (startForIncident fetch signer rca_cfg i src)"
  "keeps (sound s) (startForDeployment fetch signer rca_cfg d)"
  "keeps (sound s) (listChat fetch signer rca_cfg i)" "keeps (sound s) (chat fetch signer rca_cfg i message)"
  unfolding startForIncident_def startForDeployment_def createRun_def createRunEvent_def manualRcaIncident_def
  by (intro keeps_intros sound_sameTables [OF sameTables_triggered] sound_sameTables [OF sameTables_chat(1)]
      sound_sameTables [OF sameTables_chat(2)])+

lemma sound_incidents [keeps_intros]:
  "keeps (sound s) (createManualIncident i incident_dto)" "keeps (sound s) (resolveIncident i)"
  unfolding createManualIncident_def findDeploymentForIncident_def resolveIncident_def findIncidentOrThrow_def
  by (intro keeps_intros; simp)+

section \<open>Authentication\<close>

lemma onlyClient_sound: "keeps onlyClient m \<Longrightarrow> keeps (sound s) m"
  by (auto simp: keeps_def onlyClient_def restoreTables_def intro!: sound_tables)

lemmas provider_sound [keeps_intros] =
  keeps_provider [THEN onlyClient_sound] keeps_completeCallback [THEN onlyClient_sound]
  keeps_oidcSwitchOrganization [THEN onlyClient_sound] keeps_revokeTokens [THEN onlyClient_sound]

lemma sound_crypto [keeps_intros]:
  "keeps (sound s) randomToken" "keeps (sound s) (encrypt lib cfg v)" "keeps (sound s) (encryptOptional lib cfg v2)"
  unfolding randomToken_def encryptOptional_def encrypt_def Let_def by (intro keeps_intros)+

lemma sound_sessions [keeps_intros]:
  "keeps (sound s) (createLoginAttempt lib cfg state nonce verifier returnTo)"
  "keeps (sound s) (consumeLoginAttempt lib cfg state)" "keeps (sound s) (createSession lib cfg si)"
  "keeps (sound s) (getStored h)" "keeps (sound s) (destroy h)" "keeps (sound s) (updateTokens lib cfg h a r i e)"
  "keeps (sound s) (authenticate lib cfg token)" "keeps (sound s) cleanupJob"
  unfolding createLoginAttempt_def consumeLoginAttempt_def createSession_def storeSession_def getStored_def
    destroy_def updateTokens_def authenticate_def cleanupJob_def cleanup_def Let_def
  by (intro keeps_intros; simp)+

lemma sound_identity [keeps_intros]:
  "keeps (sound s) (resolveIdentity lib cfg identity)" "keeps (sound s) (audit u ws action outcome)"
  "keeps (sound s) recordFailedLogin"
  unfolding resolveIdentity_def adoptLegacyWorkspace_def upsertWorkspace_def upsertUser_def
    upsertMembership_def audit_def recordFailedLogin_def
  by (intro keeps_intros keeps_upsertRow sound_updateWorkspace; simp)+

lemma sound_payloadExpiry [keeps_intros]: "keeps (sound s) (payloadExpiry payload)"
  unfolding payloadExpiry_def by (cases "member payload ''expires_in''") (auto intro!: keeps_intros)

lemma sound_currentAccessToken [keeps_intros]: "keeps (sound s) (currentAccessToken deps stored)"
  unfolding currentAccessToken_def by (intro keeps_intros)

lemma sound_authHandlers [keeps_intros]:
  "keeps (sound s) (loginHandler deps returnTo)" "keeps (sound s) (callbackHandler deps query)"
  "keeps (sound s) (meHandler p)" "keeps (sound s) (metricsHandler p)" "keeps (sound s) (logoutHandler deps p)"
  "keeps (sound s) (switchOrganizationHandler deps p i)"
  unfolding loginHandler_def beginLogin_def callbackHandler_def completeLogin_def meHandler_def me_def
    metricsHandler_def metrics_def countRows_def logoutHandler_def logout_def revocation_def
    switchOrganizationHandler_def switchOrganization_def Let_def
  by (intro keeps_intros)+

section \<open>Requests\<close>

text \<open>
  A relation kept by what leaves the tables alone and by every operation of the services that writes
  is kept by the handlers, and with the records of the audit and the sessions by whole requests.
\<close>

lemma keeps_handle_by:
  fixes R :: "'c world \<Rightarrow> 'c world \<Rightarrow> bool"
  assumes "preorder_rel R"
    and tables: "\<And>m :: ('c world, api_answer) io. keeps sameTables m \<Longrightarrow> keeps R m"
    and databases: "\<And>dto. keeps R (createApp dto)"
      "\<And>api cfg i dto. keeps R (createBuild api cfg i dto)" "\<And>api i. keeps R (getBuildStatus api i)"
      "\<And>api cfg i dto. keeps R (createDeployment api cfg i dto)" "\<And>api i. keeps R (getDeploymentStatus api i)"
      "\<And>api i n. keeps R (scale api i n)" "\<And>api i. keeps R (stop api i)" "\<And>api i n. keeps R (start api i n)"
      "\<And>api i. keeps R (restart api i)" "\<And>api i. keeps R (deleteDeployment api i)"
      "\<And>api parse i opts. keeps R (createSnapshot api parse i opts)"
      "\<And>i dto. keeps R (createManualIncident i dto)" "\<And>i. keeps R (resolveIncident i)"
      "\<And>fetch signer cfg i src. keeps R (startForIncident fetch signer cfg i src)"
      "\<And>fetch signer cfg d. keeps R (startForDeployment fetch signer cfg d)"
      "\<And>fetch signer cfg i. keeps R (listChat fetch signer cfg i)"
      "\<And>fetch signer cfg i message. keeps R (chat fetch signer cfg i message)"
    and handlers: "\<And>deps returnTo. keeps R (loginHandler deps returnTo)"
      "\<And>deps query. keeps R (callbackHandler deps query)" "\<And>p. keeps R (meHandler p)"
      "\<And>p. keeps R (metricsHandler p)" "\<And>deps p. keeps R (logoutHandler deps p)"
      "\<And>deps p i. keeps R (switchOrganizationHandler deps p i)"
  shows "keeps R (handle sv c who)"
proof (cases "onlyReads c \<and> \<not> asksStatus c")
  case True
  then show ?thesis by (blast intro: tables reads_keep_tables)
next
  case False
  note ops = databases handlers assms(1)
  show ?thesis
  proof (cases c)
    case (AppsCall x) with False show ?thesis by (cases x) (simp_all, (intro keeps_intros ops)+)
  next
    case (AuthCall x) then show ?thesis by (cases x; cases who) (simp_all, (intro keeps_intros ops)+)
  next
    case (BuildsCall x) with False show ?thesis by (cases x) (simp_all, (intro keeps_intros ops)+)
  next
    case (DeploymentsCall x) with False show ?thesis by (cases x) (simp_all, (intro keeps_intros ops)+)
  next
    case (EvidenceCall x) with False show ?thesis by (cases x) (simp_all, (intro keeps_intros ops)+)
  next
    case (IncidentsCall x) with False show ?thesis by (cases x) (simp_all, (intro keeps_intros ops)+)
  next
    case (ObservabilityCall x) with False show ?thesis by (cases x) simp_all
  next
    case (RcaCall x) with False show ?thesis by (cases x) (simp_all, (intro keeps_intros ops)+)
  next
    case (TelemetryCall x)
    show ?thesis unfolding TelemetryCall handle.simps
      by (rule tables [OF sameTables_telemetryController])
  next
    case (HealthCall x) then show ?thesis by (cases x) (auto intro!: keeps_intros ops)
  qed
qed

lemma keeps_serveRequest_by:
  fixes R :: "'c world \<Rightarrow> 'c world \<Rightarrow> bool"
  assumes "preorder_rel R" "keeps R now" "\<And>mk. keeps R (createRow auditTable mk)"
    "\<And>lib cfg token. keeps R (authenticate lib cfg token)" "\<And>who. keeps R (handle sv c who)"
    "\<And>u ws action outcome. keeps R (audit u ws action outcome)"
    and contexts: "\<And>cx (m :: ('c world, api_answer) io). keeps R m \<Longrightarrow> keeps R (runInContext cx m)"
  shows "keeps R (serveRequest sv rq c)"
proof -
  have around: "keeps R (auditInterceptor rt rq who (handle sv c who))"
    "keeps R (permissionGuard rt rq who)" "keeps R (authenticationGuard lib cfg rt rq)"
    for rt who lib cfg
    unfolding auditInterceptor_def permissionGuard_def authenticationGuard_def Let_def
    by (intro keeps_intros assms(1-6))+
  show ?thesis
    unfolding serveRequest_def serve_def tenantContextInterceptor_def
    by (intro keeps_intros around contexts assms(1-6))
qed

lemma sound_serveRequest: "keeps (sound s) (serveRequest sv rq c)"
proof (rule keeps_serveRequest_by)
  show "keeps (sound s) (handle sv c who)" for who
    by (rule keeps_handle_by) (intro keeps_intros sound_sameTables; assumption?)+
qed (intro keeps_intros; assumption?)+

section \<open>Background tasks\<close>

text \<open>Old samples go, and with them the references incidents have to them.\<close>

lemma sound_deleteSamples [keeps_intros]: "keeps (sound None) (deleteSamples p)"
proof (rule keepsI)
  fix w :: "'c world"
  define kept where "kept = filter (\<lambda>h. \<not> (visible sampleTable w h \<and> p h)) (samples w)"
  define clear :: "incident \<Rightarrow> incident" where "clear = (\<lambda>i. case i_latestHealthSampleId i of
      None \<Rightarrow> i
    | Some k \<Rightarrow> (if list_ex (\<lambda>h. h_id h = k) (filter (\<lambda>h. visible sampleTable w h \<and> p h) (samples w))
        then i\<lparr>i_latestHealthSampleId := None\<rparr> else i))"
  define v where "v = w\<lparr>samples := kept, incidents := map clear (incidents w)\<rparr>"
  have run: "snd (deleteSamples p w) = v"
    by (simp add: deleteSamples_def deleteMany_def table_rows table_setters Let_def v_def kept_def clear_def)
  have ids: "i_id (clear i) = i_id i" "i_workspaceId (clear i) = i_workspaceId i" "i_appId (clear i) = i_appId i"
    "i_deploymentId (clear i) = i_deploymentId i" for i
    by (simp_all add: clear_def split: option.split)
  have latest: "case i_latestHealthSampleId (clear i) of None \<Rightarrow> True | Some h \<Rightarrow> list_ex (\<lambda>s. h_id s = h) kept"
    if "case i_latestHealthSampleId i of None \<Rightarrow> True | Some h \<Rightarrow> list_ex (\<lambda>s. h_id s = h) (samples w)" for i
    using that by (auto simp: clear_def kept_def list_ex_iff split: option.splits)
  have "wellFormed v" if "wellFormed w"
  proof -
    from that have "fit incidentTable w" "fit sampleTable w" "fit runTable w" by (simp_all add: wellFormed_def)
    then have "fit incidentTable v" "fit sampleTable v" "fit runTable v"
      using latest
      by (simp_all add: v_def kept_def [symmetric] fit_def incidentTable_def sampleTable_def runTable_def
          sorted_wrt_map list_all_iff ids list_ex_iff [where xs = "map f xs" for f xs] cong: option.case_cong)
        (auto simp: kept_def list_ex_iff intro: sorted_wrt_filter)
    with that show ?thesis
      by (simp add: wellFormed_def) (simp add: v_def fit_def table_defs cong: option.case_cong)
  qed
  then show "sound None w (snd (deleteSamples p w))" by (simp add: run sound_def hasSample_def)
qed

lemma sound_flags [keeps_intros]:
  "keeps (sound s) (modifyM (\<lambda>w. w\<lparr>collecting := b\<rparr>))" "keeps (sound s) (modifyM (\<lambda>w. w\<lparr>detecting := b\<rparr>))"
  by (auto intro!: keepsI sound_tables simp: restoreTables_def)

lemma sound_collect [keeps_intros]: "keeps (sound s) (collectDeploymentHealthSample api i)"
  "keeps (sound s) (minutesAgo m)"
  unfolding collectDeploymentHealthSample_def findDeploymentForHealthSample_def minutesAgo_def Let_def
  by (intro keeps_intros sound_sameTables [OF sameTables_readKubernetesState])+

lemma sound_collectAll: "keeps (sound None) (collectAllHealthSamples api cfg)"
  unfolding collectAllHealthSamples_def collectWorkspace_def deleteExpiredHealthSamples_def
  by (intro keeps_intros)

text \<open>An incident is opened with a sample that was read just before.\<close>

lemma sound_openAutomatic: "keeps (sound (Some (h_id s))) (openAutomaticIncident fetch signer cfg s d sg)"
  unfolding openAutomaticIncident_def by (intro keeps_intros; simp)

lemma sound_detectDeployment [keeps_intros]: "keeps (sound None) (detectDeploymentIncidents fetch signer cfg i)"
  unfolding detectDeploymentIncidents_def
proof (rule keepsI)
  fix w :: "'a world"
  let ?rows = "filter (\<lambda>s. visible sampleTable w s \<and> h_deploymentId s = i) (samples w)"
  show "sound None w (snd (bindM (findMany sampleTable (\<lambda>s. h_deploymentId s = i)) (\<lambda>rows.
       case take 2 (newestFirst h_collectedAt rows) of
         [] \<Rightarrow> returnM ()
       | latest # rest \<Rightarrow>
           bindM (deploymentOfSample latest) (\<lambda>d.
             voidM (allM (openAutomaticIncident fetch signer cfg latest d)
               (buildSignals latest (case rest of [] \<Rightarrow> None | p # _ \<Rightarrow> Some p))))) w))"
  proof (cases "take 2 (newestFirst h_collectedAt ?rows)")
    case Nil
    then show ?thesis by (simp add: bindM_run findMany_def table_rows returnM_run sound_def)
  next
    case (Cons latest rest)
    let ?act = "bindM (deploymentOfSample latest) (\<lambda>d.
             voidM (allM (openAutomaticIncident fetch signer cfg latest d)
               (buildSignals latest (case rest of [] \<Rightarrow> None | p # _ \<Rightarrow> Some p))))"
    have "latest \<in> set (take 2 (newestFirst h_collectedAt ?rows))" using Cons by simp
    from in_set_takeD [OF this] have "latest \<in> set (samples w)" by (simp add: set_newestFirst)
    then have there: "hasSample (Some (h_id latest)) w" by (auto simp: hasSample_def list_ex_iff)
    have "keeps (sound (Some (h_id latest))) ?act"
      unfolding deploymentOfSample_def by (intro keeps_intros sound_openAutomatic)
    from keepsD [OF this, of w] there have "sound None w (snd (?act w))"
      by (auto simp: sound_def hasSample_def)
    with Cons show ?thesis by (simp add: bindM_run findMany_def table_rows)
  qed
qed

lemma sound_detectIncidents: "keeps (sound None) (detectIncidents fetch signer cfg)"
  unfolding detectIncidents_def detectWorkspace_def getDeploymentIdsWithRecentSamples_def
  by (intro keeps_intros)

end
