(* ===== verification/Server.thy ===== *)
theory Server
  imports Integrity
begin

text \<open>
  The running service: the start and the stop of its two background tasks (the life cycle hooks of
  observability/observability.service.ts and incidents/incidents.service.ts), their ticks, the
  requests it serves and the scheduled clean-up of the sessions, as the steps of one system, and the
  invariants of the database that hold in every state the system reaches.
\<close>

section \<open>Incidents under the other operations\<close>

text \<open>
  The relation \<open>keepsRules\<close> of the incident rows, for every operation of the service. A table that
  is not the table of the incidents does not matter to it.
\<close>

locale bystander_table = lawful_table t for t :: "('c, 'r) table" +
  assumes incidents_setRows: "incidents (setRows t rs w) = incidents w"
begin

lemma keepsRules_rows: "keepsRules w (setRows t rs w)"
  by (rule keepsRules_same) (rule incidents_setRows)

lemma keepsRules_refl: "keepsRules w w"
  by (simp add: keepsRules_def)

lemma keepsRules_createRow: "keeps keepsRules (createRow t mk)"
  and keepsRules_updateRow: "keeps keepsRules (updateRow t p f)"
  and keepsRules_deleteMany: "keeps keepsRules (deleteMany t p)"
  and keepsRules_deleteRow: "keeps keepsRules (deleteRow t p)"
  by (auto intro!: keepsI simp: createRow_def updateRow_def deleteMany_def deleteRow_def Let_def
      keepsRules_rows keepsRules_refl split: option.split)

end

interpretation besideWorkspace: bystander_table workspaceTable by unfold_locales (simp_all add: table_defs)
interpretation besideUser: bystander_table userTable by unfold_locales (simp_all add: table_defs)
interpretation besideMembership: bystander_table membershipTable by unfold_locales (simp_all add: table_defs)
interpretation besideAttempt: bystander_table attemptTable by unfold_locales (simp_all add: table_defs)
interpretation besideSession: bystander_table sessionTable by unfold_locales (simp_all add: table_defs)
interpretation besideAudit: bystander_table auditTable by unfold_locales (simp_all add: table_defs)
interpretation besideApp: bystander_table appTable by unfold_locales (simp_all add: table_defs)
interpretation besideBuild: bystander_table buildTable by unfold_locales (simp_all add: table_defs)
interpretation besideDeployment: bystander_table deploymentTable by unfold_locales (simp_all add: table_defs)
interpretation besideConfig: bystander_table runtimeConfigTable by unfold_locales (simp_all add: table_defs)
interpretation besideSample: bystander_table sampleTable by unfold_locales (simp_all add: table_defs)
interpretation besideRun: bystander_table runTable by unfold_locales (simp_all add: table_defs)
interpretation besideRunEvent: bystander_table runEventTable by unfold_locales (simp_all add: table_defs)
interpretation besideSnapshot: bystander_table snapshotTable by unfold_locales (simp_all add: table_defs)

lemmas rules_rows [keeps_intros] =
  besideWorkspace.keepsRules_createRow besideUser.keepsRules_createRow besideMembership.keepsRules_createRow
  besideAttempt.keepsRules_createRow besideSession.keepsRules_createRow besideAudit.keepsRules_createRow
  besideApp.keepsRules_createRow besideBuild.keepsRules_createRow besideDeployment.keepsRules_createRow
  besideConfig.keepsRules_createRow besideSample.keepsRules_createRow besideRun.keepsRules_createRow
  besideRunEvent.keepsRules_createRow besideSnapshot.keepsRules_createRow
  besideWorkspace.keepsRules_updateRow besideUser.keepsRules_updateRow besideMembership.keepsRules_updateRow
  besideSession.keepsRules_updateRow besideBuild.keepsRules_updateRow besideDeployment.keepsRules_updateRow
  besideAttempt.keepsRules_deleteMany besideAttempt.keepsRules_deleteRow
  besideSession.keepsRules_deleteMany besideSession.keepsRules_deleteRow

declare preorder_keepsRules [keeps_intros] keepsRules_outside [keeps_intros]
  keepsRules_transaction [keeps_intros] keepsRules_runInContext [keeps_intros]
  keepsRules_startForIncident [keeps_intros] keepsRules_manual [keeps_intros]

lemma sameTables_rules: "sameTables w w' \<Longrightarrow> keepsRules w w'"
proof -
  assume "sameTables w w'"
  then obtain c t d where "w' = w\<lparr>cluster := c, ticks := t, drawn := d\<rparr>" unfolding sameTables_def by blast
  then show ?thesis by (simp add: keepsRules_same)
qed

lemma rules_sameTables: "keeps sameTables m \<Longrightarrow> keeps keepsRules m"
  by (simp add: keeps_def sameTables_rules)

lemma rules_onlyClient: "keeps onlyClient m \<Longrightarrow> keeps keepsRules m"
  by (auto simp: keeps_def onlyClient_def restoreTables_def intro!: keepsRules_same)

lemma rules_transaction [keeps_intros]: "keeps keepsRules m \<Longrightarrow> keeps keepsRules (transaction m)"
proof (rule keepsI)
  fix w assume "keeps keepsRules m"
  from keepsD [OF this, of w] show "keepsRules w (snd (transaction m w))"
    by (auto simp: transaction_run keepsRules_def oneOpenPerRule_def restoreTables_def split: prod.split sum.split)
qed

lemmas kube_rules [keeps_intros] = kube_sameTables [THEN rules_sameTables]

lemmas provider_rules [keeps_intros] =
  keeps_provider [THEN rules_onlyClient] keeps_completeCallback [THEN rules_onlyClient]
  keeps_oidcSwitchOrganization [THEN rules_onlyClient] keeps_revokeTokens [THEN rules_onlyClient]

lemma rules_set [keeps_intros]: "keeps keepsRules (setBuild i f)" "keeps keepsRules (setDeployment i g)"
  unfolding setBuild_def setDeployment_def by (intro keeps_intros)+

lemma rules_apps_builds [keeps_intros]:
  "keeps keepsRules (createApp app_dto)" "keeps keepsRules (createBuild api cfg i build_dto)"
  "keeps keepsRules (getBuildStatus api i)"
  unfolding createApp_def createBuild_def startBuildJob_def getBuildStatus_def Let_def
  by (intro keeps_intros)+

lemma rules_deployments [keeps_intros]:
  "keeps keepsRules (createDeployment api cfg i dto)" "keeps keepsRules (getDeploymentStatus api i)"
  "keeps keepsRules (scale api i n)" "keeps keepsRules (stop api i)" "keeps keepsRules (start api i requested)"
  "keeps keepsRules (restart api i)" "keeps keepsRules (deleteDeployment api i)"
  unfolding createDeployment_def storeDeployment_def deployStored_def getDeploymentStatus_def scale_def
    stop_def start_def restart_def deleteDeployment_def scaleTo_def Let_def
  by (intro keeps_intros)+

lemma rules_evidence [keeps_intros]: "keeps keepsRules (createSnapshot api parse i opts)"
  unfolding createSnapshot_def by (intro keeps_intros rules_sameTables [OF sameTables_collectLive])

lemma rules_chat [keeps_intros]:
  "keeps keepsRules (listChat fetch signer rca_cfg i)" "keeps keepsRules (chat fetch signer rca_cfg i message)"
  by (rule rules_sameTables [OF sameTables_chat(1)], rule rules_sameTables [OF sameTables_chat(2)])

lemma rules_crypto [keeps_intros]:
  "keeps keepsRules randomToken" "keeps keepsRules (encrypt lib cfg v)" "keeps keepsRules (encryptOptional lib cfg v2)"
  unfolding randomToken_def encryptOptional_def encrypt_def Let_def by (intro keeps_intros)+

lemma rules_sessions [keeps_intros]:
  "keeps keepsRules (createLoginAttempt lib cfg state nonce verifier returnTo)"
  "keeps keepsRules (consumeLoginAttempt lib cfg state)" "keeps keepsRules (createSession lib cfg si)"
  "keeps keepsRules (getStored h)" "keeps keepsRules (destroy h)" "keeps keepsRules (updateTokens lib cfg h a r i e)"
  "keeps keepsRules (authenticate lib cfg token)" "keeps keepsRules cleanupJob"
  unfolding createLoginAttempt_def consumeLoginAttempt_def createSession_def storeSession_def getStored_def
    destroy_def updateTokens_def authenticate_def cleanupJob_def cleanup_def Let_def
  by (intro keeps_intros)+

lemma rules_identity [keeps_intros]:
  "keeps keepsRules (resolveIdentity lib cfg identity)" "keeps keepsRules (audit u ws action outcome)"
  "keeps keepsRules recordFailedLogin"
  unfolding resolveIdentity_def adoptLegacyWorkspace_def upsertWorkspace_def upsertUser_def
    upsertMembership_def audit_def recordFailedLogin_def
  by (intro keeps_intros keeps_upsertRow)+

lemma rules_payloadExpiry [keeps_intros]: "keeps keepsRules (payloadExpiry payload)"
  unfolding payloadExpiry_def by (cases "member payload ''expires_in''") (auto intro!: keeps_intros)

lemma rules_currentAccessToken [keeps_intros]: "keeps keepsRules (currentAccessToken deps stored)"
  unfolding currentAccessToken_def by (intro keeps_intros)

lemma rules_authHandlers [keeps_intros]:
  "keeps keepsRules (loginHandler deps returnTo)" "keeps keepsRules (callbackHandler deps query)"
  "keeps keepsRules (meHandler p)" "keeps keepsRules (metricsHandler p)" "keeps keepsRules (logoutHandler deps p)"
  "keeps keepsRules (switchOrganizationHandler deps p i)"
  unfolding loginHandler_def beginLogin_def callbackHandler_def completeLogin_def meHandler_def me_def
    metricsHandler_def metrics_def countRows_def logoutHandler_def logout_def revocation_def
    switchOrganizationHandler_def switchOrganization_def Let_def
  by (intro keeps_intros)+

lemma rules_serveRequest: "keeps keepsRules (serveRequest sv rq c)"
proof (rule keeps_serveRequest_by)
  show "keeps keepsRules (handle sv c who)" for who
    by (rule keeps_handle_by) (intro keeps_intros rules_sameTables; assumption?)+
qed (intro keeps_intros; assumption?)+

section \<open>The process\<close>

text \<open>
  \<open>setInterval\<close> of Node: a period outside 1 to 2147483647 milliseconds is taken as 1. A running timer
  is its period.
\<close>

definition setInterval :: "int \<Rightarrow> int" where
  "setInterval delay = (if delay < 1 \<or> 2147483647 < delay then 1 else delay)"

record 'c server =
  sr_world :: "'c world"
  sr_healthSampleTimer :: "int option"
  sr_detectionTimer :: "int option"

definition getHealthSampleIntervalSeconds :: "service_config \<Rightarrow> int" where
  "getHealthSampleIntervalSeconds cfg = healthSampleIntervalSeconds cfg"

definition isDetectionEnabled :: "service_config \<Rightarrow> bool" where
  "isDetectionEnabled cfg = incidentDetectionEnabled cfg"

definition getDetectionIntervalSeconds :: "service_config \<Rightarrow> int" where
  "getDetectionIntervalSeconds cfg = incidentDetectionIntervalSeconds cfg"

text \<open>A program run for its effect; what it raises is caught and logged.\<close>

definition startHealthSampleCollection :: "'c services \<Rightarrow> 'c server \<Rightarrow> 'c server" where
  "startHealthSampleCollection sv s =
     s\<lparr>sr_world := snd (catchM (collectAllHealthSamples (sv_kubernetes sv) (sv_config sv))
        (\<lambda>_. returnM ()) (sr_world s))\<rparr>"

definition startIncidentDetection :: "'c services \<Rightarrow> 'c server \<Rightarrow> 'c server" where
  "startIncidentDetection sv s =
     s\<lparr>sr_world := snd (catchM (detectIncidents (sv_fetch sv) (sv_signer sv) (sv_config sv))
        (\<lambda>_. returnM ()) (sr_world s))\<rparr>"

definition observabilityModuleInit :: "'c services \<Rightarrow> 'c server \<Rightarrow> 'c server" where
  "observabilityModuleInit sv s =
     (if \<not> isEnabled (sv_config sv) then s
      else
        let intervalSeconds = getHealthSampleIntervalSeconds (sv_config sv) in
        if intervalSeconds \<le> 0 then s
        else startHealthSampleCollection sv
               (s\<lparr>sr_healthSampleTimer := Some (setInterval (intervalSeconds * 1000))\<rparr>))"

definition incidentsModuleInit :: "'c services \<Rightarrow> 'c server \<Rightarrow> 'c server" where
  "incidentsModuleInit sv s =
     (if \<not> isDetectionEnabled (sv_config sv) then s
      else
        let intervalSeconds = getDetectionIntervalSeconds (sv_config sv) in
        if intervalSeconds \<le> 0 then s
        else startIncidentDetection sv
               (s\<lparr>sr_detectionTimer := Some (setInterval (intervalSeconds * 1000))\<rparr>))"

definition observabilityModuleDestroy :: "'c server \<Rightarrow> 'c server" where
  "observabilityModuleDestroy s =
     (case sr_healthSampleTimer s of None \<Rightarrow> s | Some _ \<Rightarrow> s\<lparr>sr_healthSampleTimer := None\<rparr>)"

definition incidentsModuleDestroy :: "'c server \<Rightarrow> 'c server" where
  "incidentsModuleDestroy s =
     (case sr_detectionTimer s of None \<Rightarrow> s | Some _ \<Rightarrow> s\<lparr>sr_detectionTimer := None\<rparr>)"

text \<open>
  The origin function of the cross-origin middleware, which runs before the routes: its error ends
  the request. A request without the header passes. The headers of the answer are not modelled.
\<close>

definition corsOrigin :: "string list \<Rightarrow> string option \<Rightarrow> exn + unit" where
  "corsOrigin allowedOrigins origin =
     (case origin of
        None \<Rightarrow> Inr ()
      | Some v \<Rightarrow> (if v = [] \<or> v \<in> set allowedOrigins then Inr () else Inl (JsError ''Origin is not allowed'')))"

definition acceptRequest :: "'c services \<Rightarrow> http_request \<Rightarrow> api_request \<Rightarrow> ('c world, api_answer) io" where
  "acceptRequest sv rq c =
     thenM (liftM (corsOrigin (ac_allowedOrigins (settings (sv_auth sv))) (rq_origin rq))) (serveRequest sv rq c)"

text \<open>
  What happens to the process: its hooks, the ticks of the timers that run, requests, and the job
  that cleans up the sessions, which is a process of its own on the same database.
\<close>

datatype server_event =
    ObservabilityInit
  | IncidentsInit
  | ObservabilityDestroy
  | IncidentsDestroy
  | HealthSampleTick
  | DetectionTick
  | RequestServed http_request api_request
  | SessionCleanup

fun serverEvent :: "'c services \<Rightarrow> server_event \<Rightarrow> 'c server \<Rightarrow> 'c server" where
  "serverEvent sv ObservabilityInit s = observabilityModuleInit sv s"
| "serverEvent sv IncidentsInit s = incidentsModuleInit sv s"
| "serverEvent sv ObservabilityDestroy s = observabilityModuleDestroy s"
| "serverEvent sv IncidentsDestroy s = incidentsModuleDestroy s"
| "serverEvent sv HealthSampleTick s =
     (if sr_healthSampleTimer s = None then s else startHealthSampleCollection sv s)"
| "serverEvent sv DetectionTick s =
     (if sr_detectionTimer s = None then s else startIncidentDetection sv s)"
| "serverEvent sv (RequestServed rq c) s = s\<lparr>sr_world := snd (acceptRequest sv rq c (sr_world s))\<rparr>"
| "serverEvent sv SessionCleanup s = s\<lparr>sr_world := snd (cleanupJob (sr_world s))\<rparr>"

text \<open>
  The states the process reaches. Between its steps the cluster may change and time passes, which
  the tables do not show.
\<close>

inductive serverRun :: "'c services \<Rightarrow> 'c server \<Rightarrow> 'c server \<Rightarrow> bool" for sv where
  server_starts: "serverRun sv s s"
| server_acts: "serverRun sv s t \<Longrightarrow> serverRun sv s (serverEvent sv ev t)"
| outside_changes: "serverRun sv s t \<Longrightarrow> sameTables (sr_world t) w \<Longrightarrow> serverRun sv s (t\<lparr>sr_world := w\<rparr>)"

section \<open>Invariants of the process\<close>

lemma keepsRules_deleteSamples [keeps_intros]: "keeps keepsRules (deleteSamples p)"
proof (rule keepsI)
  fix w :: "'c world"
  define clear :: "incident \<Rightarrow> incident" where "clear = (\<lambda>i. case i_latestHealthSampleId i of
      None \<Rightarrow> i
    | Some k \<Rightarrow> (if list_ex (\<lambda>h. h_id h = k) (filter (\<lambda>h. visible sampleTable w h \<and> p h) (samples w))
        then i\<lparr>i_latestHealthSampleId := None\<rparr> else i))"
  have "incidents (snd (deleteSamples p w)) = map clear (incidents w)"
    by (simp add: deleteSamples_def deleteMany_def table_rows table_setters Let_def clear_def)
  moreover have "hasRule (clear i) = hasRule i" "ruleOf (clear i) = ruleOf i" for i
    by (simp_all add: clear_def hasRule_def ruleOf_def split: option.split)
  ultimately show "keepsRules w (snd (deleteSamples p w))"
    by (simp add: keepsRules_def oneOpenPerRule_def filter_map o_def)
qed

lemma rules_collectAll: "keeps keepsRules (collectAllHealthSamples api cfg)"
proof -
  have flag: "keeps keepsRules (modifyM (\<lambda>w. w\<lparr>collecting := b\<rparr>))" for b
    by (simp add: keeps_def keepsRules_same)
  have sample: "keeps keepsRules (collectDeploymentHealthSample api i)" "keeps keepsRules (minutesAgo m)" for i m
    unfolding collectDeploymentHealthSample_def findDeploymentForHealthSample_def minutesAgo_def Let_def
    by (intro keeps_intros rules_sameTables [OF sameTables_readKubernetesState])+
  show ?thesis
    unfolding collectAllHealthSamples_def collectWorkspace_def deleteExpiredHealthSamples_def
    by (intro keeps_intros flag sample)
qed

text \<open>A relation on the database that every program of the process keeps.\<close>

lemma serverRun_keeps:
  assumes "serverRun sv s t" and "preorder_rel R" "\<And>w w'. sameTables w w' \<Longrightarrow> R w w'"
    and "keeps R (collectAllHealthSamples (sv_kubernetes sv) (sv_config sv))"
    and "keeps R (detectIncidents (sv_fetch sv) (sv_signer sv) (sv_config sv))"
    and "\<And>rq c. keeps R (serveRequest sv rq c)" "keeps R cleanupJob"
  shows "R (sr_world s) (sr_world t)"
proof -
  have refl: "R w w" and trans: "R w v \<Longrightarrow> R v u \<Longrightarrow> R w u" for w v u
    using assms(2) by (auto simp: preorder_rel_def reflp_def transp_def)
  have "keeps R (catchM (collectAllHealthSamples (sv_kubernetes sv) (sv_config sv)) (\<lambda>_. returnM ()))"
    "keeps R (catchM (detectIncidents (sv_fetch sv) (sv_signer sv) (sv_config sv)) (\<lambda>_. returnM ()))"
    by (intro keeps_intros assms)+
  moreover have "keeps R (acceptRequest sv rq c)" for rq c
    unfolding acceptRequest_def by (intro keeps_intros assms)
  ultimately have programs: "R w (snd (catchM (collectAllHealthSamples (sv_kubernetes sv) (sv_config sv)) (\<lambda>_. returnM ()) w))"
    "R w (snd (catchM (detectIncidents (sv_fetch sv) (sv_signer sv) (sv_config sv)) (\<lambda>_. returnM ()) w))"
    "R w (snd (acceptRequest sv rq c w))" "R w (snd (cleanupJob w))" for w rq c
    using assms(7) by (auto intro: keepsD)
  have "R (sr_world u) (sr_world (serverEvent sv ev u))" for ev u
    by (cases ev) (auto simp: observabilityModuleInit_def incidentsModuleInit_def observabilityModuleDestroy_def
        incidentsModuleDestroy_def startHealthSampleCollection_def startIncidentDetection_def Let_def refl
        intro: programs split: option.split)
  with assms(1) show ?thesis
    by (induction rule: serverRun.induct) (auto intro: refl trans assms(3))
qed

section \<open>Properties\<close>


text \<open>
  C24. In every state the process reaches a deployment has at most one open incident for each
  detection rule: a problem that persists updates its incident, and a new one is opened only after
  the last was resolved, whatever else the process does in between.
\<close>

theorem server_one_open_incident:
  assumes "serverRun sv s t" and "oneOpenPerRule (sr_world s)"
  shows "oneOpenPerRule (sr_world t)"
proof -
  have "keepsRules (sr_world s) (sr_world t)"
    by (rule serverRun_keeps [OF assms(1) preorder_keepsRules])
      (intro sameTables_rules rules_collectAll keepsRules_detect rules_serveRequest rules_sessions; assumption?)+
  with assms(2) show ?thesis by (simp add: keepsRules_def)
qed

text \<open>
  A timer runs only when its task is enabled and its interval positive. Its period is then the
  interval, but one millisecond for an interval of 2147484 seconds (about 25 days) or more.
\<close>

theorem timers_follow_configuration:
  assumes "serverRun sv s t" and "sr_healthSampleTimer s = None" "sr_detectionTimer s = None"
  shows "sr_healthSampleTimer t = None
      \<or> isEnabled (sv_config sv) \<and> 0 < getHealthSampleIntervalSeconds (sv_config sv)
        \<and> sr_healthSampleTimer t = Some (if getHealthSampleIntervalSeconds (sv_config sv) \<le> 2147483
            then getHealthSampleIntervalSeconds (sv_config sv) * 1000 else 1)"
    and "sr_detectionTimer t = None
      \<or> isDetectionEnabled (sv_config sv) \<and> 0 < getDetectionIntervalSeconds (sv_config sv)
        \<and> sr_detectionTimer t = Some (if getDetectionIntervalSeconds (sv_config sv) \<le> 2147483
            then getDetectionIntervalSeconds (sv_config sv) * 1000 else 1)"
proof -
  have period: "setInterval (n * 1000) = (if n \<le> 2147483 then n * 1000 else 1)" if "0 < n" for n
    using that by (auto simp: setInterval_def)
  have health: "sr_healthSampleTimer (serverEvent sv ev u) \<in> {None, sr_healthSampleTimer u}
      \<or> isEnabled (sv_config sv) \<and> 0 < getHealthSampleIntervalSeconds (sv_config sv)
        \<and> sr_healthSampleTimer (serverEvent sv ev u) = Some (setInterval (getHealthSampleIntervalSeconds (sv_config sv) * 1000))"
    and detection: "sr_detectionTimer (serverEvent sv ev u) \<in> {None, sr_detectionTimer u}
      \<or> isDetectionEnabled (sv_config sv) \<and> 0 < getDetectionIntervalSeconds (sv_config sv)
        \<and> sr_detectionTimer (serverEvent sv ev u) = Some (setInterval (getDetectionIntervalSeconds (sv_config sv) * 1000))"
    for ev u
    by (cases ev; simp add: observabilityModuleInit_def incidentsModuleInit_def observabilityModuleDestroy_def
        incidentsModuleDestroy_def startHealthSampleCollection_def startIncidentDetection_def Let_def split: option.split)+
  show "sr_healthSampleTimer t = None
      \<or> isEnabled (sv_config sv) \<and> 0 < getHealthSampleIntervalSeconds (sv_config sv)
        \<and> sr_healthSampleTimer t = Some (if getHealthSampleIntervalSeconds (sv_config sv) \<le> 2147483
            then getHealthSampleIntervalSeconds (sv_config sv) * 1000 else 1)"
    using assms
  proof (induction rule: serverRun.induct)
    case (server_acts s u ev)
    with health [of ev u] period show ?case by auto
  qed simp_all
  show "sr_detectionTimer t = None
      \<or> isDetectionEnabled (sv_config sv) \<and> 0 < getDetectionIntervalSeconds (sv_config sv)
        \<and> sr_detectionTimer t = Some (if getDetectionIntervalSeconds (sv_config sv) \<le> 2147483
            then getDetectionIntervalSeconds (sv_config sv) * 1000 else 1)"
    using assms
  proof (induction rule: serverRun.induct)
    case (server_acts s u ev)
    with detection [of ev u] period show ?case by auto
  qed simp_all
qed

text \<open>
  A request with a method that is not safe, for a route that is not public, changes data only when
  its origin is one of the origins of the interface. The origin of the callback address, which the
  CSRF guard accepts besides, never gets that far, as the middleware before it refuses the request.
\<close>

theorem changes_need_allowed_origin:
  assumes "acceptRequest sv rq c w = (res, w')" "routeOf c = Some rt" "\<not> rt_public rt"
    "rq_method rq \<notin> set SAFE_METHODS"
  shows "sameData w w' \<or> (\<exists>origin \<in> set (ac_allowedOrigins (settings (sv_auth sv))). rq_origin rq = Some origin)"
proof (cases "corsOrigin (ac_allowedOrigins (settings (sv_auth sv))) (rq_origin rq)")
  case (Inl e)
  with assms(1) show ?thesis
    using preorder_sameData by (auto simp: acceptRequest_def thenM_run preorder_rel_def reflp_def)
next
  case (Inr u)
  with assms(1,2) have "serve (crypto (sv_auth sv)) (settings (sv_auth sv)) rt rq (handle sv c) w = (res, w')"
    by (simp add: acceptRequest_def thenM_run serveRequest_def)
  from serve_outcome [OF assms(3) this] show ?thesis
  proof (elim disjE exE conjE)
    fix s
    assume "admitted (crypto (sv_auth sv)) (settings (sv_auth sv)) rt rq s w"
    with assms(4) obtain origin allowed where origin: "rq_origin rq = Some origin"
      and allowed: "csrfOrigins (settings (sv_auth sv)) = Inr allowed" "origin \<in> set allowed"
      by (auto simp: admitted_def)
    from allowed have "origin \<in> set (ac_allowedOrigins (settings (sv_auth sv))) \<or> origin \<noteq> []"
      by (auto simp: csrfOrigins_def urlOrigin_def split: if_splits sum.splits)
    with Inr origin show ?thesis by (auto simp: corsOrigin_def split: if_splits)
  qed blast
qed

lemma callback_origin_refused:
  "csrfOrigins defaultAuthConfig = Inr [''http://localhost:3000'']
   \<and> corsOrigin (ac_allowedOrigins defaultAuthConfig) (Some ''http://localhost:3000'')
      = Inl (JsError ''Origin is not allowed'')"
  by code_simp

section \<open>Witnesses\<close>

text \<open>An incident with a sample that is old enough to be deleted.\<close>

definition serverWorld :: "unit world" where
  "serverWorld = (emptyWorld ())\<lparr>
     workspaces := [\<lparr> ws_id = ''w1'', ws_organizationId = ''o1'', ws_displayName = ''Org'',
                      ws_status = WorkspaceActive, ws_namespace = ''rca-w-1'' \<rparr>],
     apps := [otherApp\<lparr>a_id := ''a1'', a_workspaceId := ''w1''\<rparr>], deployments := [sampleDeployment],
     samples := [failingSample\<lparr>h_collectedAt := -5000000\<rparr>],
     incidents := [sampleIncident\<lparr>i_latestHealthSampleId := Some ''h1''\<rparr>], runs := [sampleRun] \<rparr>"

definition startedServer :: "unit server" where
  "startedServer = \<lparr> sr_world = serverWorld, sr_healthSampleTimer = None, sr_detectionTimer = None \<rparr>"

definition busyServer :: "unit server" where
  "busyServer =
     fold (serverEvent sampleServices)
       [ObservabilityInit, IncidentsInit, RequestServed (sampleHttp ''GET'' (Some ''token'')) (AppsCall AppsFindAll),
        HealthSampleTick, DetectionTick, SessionCleanup] startedServer"

lemma busyServer_run: "serverRun sampleServices startedServer busyServer"
  unfolding busyServer_def fold_simps by (intro server_acts server_starts)


theorem server_one_open_incident_witness:
  "oneOpenPerRule (sr_world startedServer) \<and> oneOpenPerRule (sr_world busyServer)"
proof -
  have start: "oneOpenPerRule (sr_world startedServer)"
    by (simp add: startedServer_def serverWorld_def oneOpenPerRule_def hasRule_def sampleIncident_def)
  with server_one_open_incident [OF busyServer_run] show ?thesis by blast
qed

theorem timers_follow_configuration_witness:
  "sr_healthSampleTimer startedServer = None \<and> sr_detectionTimer startedServer = None
   \<and> sr_healthSampleTimer busyServer = Some 60000 \<and> sr_detectionTimer busyServer = Some 60000"
proof -
  have start: "sr_healthSampleTimer startedServer = None" "sr_detectionTimer startedServer = None"
    by (simp_all add: startedServer_def)
  have settings: "getHealthSampleIntervalSeconds (sv_config sampleServices) = 60"
    "getDetectionIntervalSeconds (sv_config sampleServices) = 60" "isEnabled (sv_config sampleServices)"
    "isDetectionEnabled (sv_config sampleServices)"
    by (simp_all add: sampleServices_def defaultConfig_def kubernetesConfig_def registryConfig_def
        observabilityConfig_def rcaConfig_def isEnabled_def isDetectionEnabled_def
        getHealthSampleIntervalSeconds_def getDetectionIntervalSeconds_def)
  have "sr_healthSampleTimer busyServer \<noteq> None" "sr_detectionTimer busyServer \<noteq> None"
    by (simp_all add: busyServer_def settings observabilityModuleInit_def incidentsModuleInit_def
        startHealthSampleCollection_def startIncidentDetection_def Let_def)
  with timers_follow_configuration [OF busyServer_run start] start show ?thesis by (simp add: settings)
qed

end
