(* ===== verification/Spec2Isabelle.thy ===== *)
theory Spec2Isabelle
  imports Lifecycle Replicas Confidential Server
begin

text \<open>
  The deployment manager service of the repository (src/deployment-manager-service/src) and the
  console in the browser that calls it (src/frontend/src), modelled from their TypeScript sources.
  The service builds container images from git repositories, deploys them to Kubernetes, watches
  their health, opens incidents and starts root cause analyses, for many workspaces that must not
  see each other.

  How the parts interact. A request passes the guards and interceptors of auth/ (Guards), which
  authenticate its session (Sessions over Crypto), check its permissions and set the tenant
  context; the handler of its route calls a service. A service reads and writes the database through
  prisma.service.ts, which confines every query to the workspace of the tenant context (Tenancy,
  Isolation), and calls the Kubernetes API (Kubernetes) or other services over HTTP (Http). Two
  timers run without a request: the health collection tick (Observability) and the incident
  detection tick (Incidents). The console keeps the CSRF token the service answers with, checks
  the answers against schemas, and sends what its forms accept, which the service validates again.

  Theories, and the code they model:

  \<^item> Prelude: the input/output monad of the model, a state transformer with JavaScript exceptions as
    values (\<open>'s \<Rightarrow> (exn + 'a) \<times> 's\<close>), with \<open>await\<close> as \<open>bindM\<close>, \<open>try\<close> as \<open>catchM\<close>,
    \<open>Promise.all\<close> as \<open>allM\<close> and \<open>for\<close> as \<open>forM\<close>; the relational invariant \<open>keeps\<close> and totality \<open>total\<close>
    with a rule for each combinator, collected in \<open>keeps_intros\<close> and \<open>total_intros\<close>.
  \<^item> JsLib, Json, Url: what the code uses of the JavaScript library, on strings of the Latin-1
    characters: \<open>trim\<close>, \<open>slice\<close>, \<open>split\<close>, \<open>toLowerCase\<close>, the regular expressions it replaces by,
    JSON values, and the URL parser and serializer.
  \<^item> Naming: kubernetes.service.ts (names and labels), deployments/deployment-routing.ts,
    builds.service.ts \<open>toImageRepository\<close>.
  \<^item> Manifests: kubernetes/builders/*.ts.
  \<^item> DataModel, Tenancy, Isolation: database/prisma/schema.prisma, database/prisma.service.ts and
    database/tenant-context.service.ts. The state of the world is one record: the tables, the tenant
    context, the clock, the random source and the cluster. A table is a lens on the world; the locale
    of tables is interpreted for every model of the schema.
  \<^item> Config: config/*.config.ts.
  \<^item> Kubernetes: the operations of kubernetes/kubernetes.service.ts over a Kubernetes API, which is a
    parameter. Cluster states the laws such an API documents as a locale, gives the abstract store
    it refines, and interprets the locale on a concrete store.
  \<^item> Apps, Builds, Deployments, Observability, Incidents, Rca: the services of the same names, every
    operation with its guards and error paths. Lifecycle and Replicas hold the properties of the
    deployments service.
  \<^item> Crypto, Sessions: auth/crypto.service.ts, auth/auth.config.ts, auth/session.service.ts,
    auth/session-cleanup.ts.
  \<^item> Identity, AuthFlow: auth/oidc.service.ts, auth/workspace.service.ts, auth/auth.service.ts and the
    handlers of auth/auth.controller.ts.
  \<^item> Evidence: evidence/evidence.service.ts and the helpers of its controller.
  \<^item> Redaction, Telemetry: telemetry/clients/*.ts, telemetry/telemetry.service.ts, the handlers of its
    controller and the limits of its query DTOs. Redaction holds the two regular expressions of the log
    client as matchers and the proof that replacing their matches leaves none behind.
  \<^item> Guards: the routes of the controllers, the guards and interceptors of auth/, in the order
    auth/auth.module.ts registers them.
  \<^item> Api: the controllers, one datatype of requests for each, and a request served from end to end:
    its route, the pipeline and its handler.
  \<^item> Requests: the DTO classes of the bodies, as functions from JSON to the records of the services.
  \<^item> Client: lib/api.ts, lib/types.ts and config.ts of the frontend: the schemas, the function
    \<open>request\<close> and the calls of the API; the relation \<open>reaches\<close> says which request of the service a
    call becomes. Forms: lib/forms.ts and lib/format.ts. Console: the pages, the shell and the routes
    of the frontend, each page as the calls it makes to be shown and the list of what it shows.
  \<^item> Progress: what becomes of a build over a history of requests.
  \<^item> Wire: the answers of the server as the JSON that is sent, and the schemas of the client.
  \<^item> Confidential: what a request of one workspace may learn of the others. The contract of a table
    is extended by locales (\<open>secret_table\<close>, \<open>shared_table\<close>) that are interpreted on every table.
  \<^item> Integrity: the unique indexes and foreign keys of the schema as an invariant of the database, which
    every operation keeps (\<open>sound\<close>); again locales over tables (\<open>integral_table\<close>, \<open>leaf_table\<close>).
  \<^item> Server: the process, that is the hooks that start and stop the two timers
    (observability.service.ts, incidents.service.ts), their ticks, the origin check of main.ts before
    every request, and the clean-up job, as the steps of one system (\<open>serverRun\<close>).

  What the lemmas show. Naming and Manifests: names are valid and distinct, selectors select the
  right pods, network policies isolate tenants. Cluster: deploying converges to the objects asked
  for, deleting removes all of them, whatever was there before. Lifecycle and Replicas: stop and start
  are inverse, failures leave a record that says so, replica counts stay consistent in every history.
  Sessions: a token authenticates exactly its own unexpired session. Guards: no handler runs without
  the guards, every change is audited. Incidents: a detection tick never fails and never
  opens an incident twice. Identity and AuthFlow: a login opens exactly one session, for the identity the provider
  confirmed; failures store nothing. Evidence and Telemetry: what is shown of a deployment survives
  failing sources, keeps to its window and limits, and carries no secret. Isolation: every operation
  leaves the rows of the other workspaces alone (\<open>keeps tenantFrame\<close>), proved operation by
  operation, and Api composes this into the isolation of every request. Confidential proves the other
  direction, that no answer depends on the rows of other workspaces but for their identifiers
  (\<open>secure\<close>), operation by operation in the same way. Client, Forms and Console:
  calls, routes, forms and DTOs fit together, answers have the types the client checks (Wire), the CSRF
  handshake works, pages only read, buttons and permissions agree but for the exceptions named. Progress: a build whose status is asked for is
  recorded in the end, and the console never asks. Integrity and Server: in every state the process
  reaches the database is well-formed and a rule has at most one open incident per deployment.

  Bounds and fuel. No definition uses fuel: every loop of the code is bounded by a list it
  traverses. Integers are unbounded: the code's numbers are replica counts, ports and instants in
  milliseconds, far below the 2^53 where JavaScript numbers lose precision.

  Parameters. The Kubernetes API, \<open>fetch\<close>, SHA-256, AES-GCM, base64, the JWT signer, the libraries
  openid-client, jose and zod, the URL checks, and the parsers \<open>Date.parse\<close> and \<open>Number\<close> of texts are arguments of the definitions that use them. Random bytes and the clock are functions in the world,
  read at increasing positions. \<open>Promise.all\<close> runs its operations one after the other.

  Not modelled: log lines; NestJS modules and dependency injection; connection handling and the
  headers of cross-origin answers; two ticks or requests that overlap in time, which are steps one
  after the other here; the class-validator decorators are modelled by their documentation; numeric
  environment variables; the markup, styles, charts and query cache of the frontend, whose views are
  lists of what they show; the agent and MCP services, which are Python and Go; charts and
  migrations, except for the row level security of the tables.
\<close>

end
